(* ===== verification/Prelude.thy ===== *)
theory Prelude
  imports Complex_Main "HOL-Library.Word" "HOL-Library.Char_ord" "HOL-Library.List_Lexorder"
begin

text \<open>
  Shared vocabulary of the development: Go slices, 64-bit signed integers, the collections of
  facts, and the generic lemmas the component theories rely on. The operations on strings
  are in theory \<open>Go_Strings\<close>.

  Go values are read as follows.
  \<^item> A Go \<open>string\<close> is a sequence of bytes, hence a HOL \<open>string\<close> (a list of 8-bit characters).
  \<^item> A slice \<open>[]T\<close> distinguishes nil from empty (\<open>reflect.DeepEqual\<close> does too), so it is
    an \<open>'a list option\<close>; \<open>elems\<close> reads its elements.
  \<^item> A \<open>map[string]T\<close> is an association list with strictly ascending keys, \<open>None\<close> for the
    nil map; on such lists HOL equality is equality of maps.
  \<^item> \<open>int\<close> and \<open>int64\<close> are HOL integers; \<open>wrap64\<close> is written out at the additions
    that can overflow.
\<close>

section \<open>Fact collections\<close>

named_theorems status_facts \<open>run status constants are pairwise different\<close>
named_theorems go_defs \<open>definitions of the small Go helpers, unfolded together\<close>

section \<open>Slices\<close>

type_synonym 'a slice = "'a list option"

definition elems :: "'a slice \<Rightarrow> 'a list" where
  "elems s = (case s of None \<Rightarrow> [] | Some xs \<Rightarrow> xs)"

text \<open>\<open>append(s, xs...)\<close>: appending nothing to a nil slice leaves it nil.\<close>

definition slice_append :: "'a slice \<Rightarrow> 'a list \<Rightarrow> 'a slice" where
  "slice_append s xs = (if xs = [] then s else Some (elems s @ xs))"

text \<open>\<open>s[:n]\<close> for \<open>n\<close> within the length: a nil slice stays nil.\<close>

definition slice_take :: "nat \<Rightarrow> 'a slice \<Rightarrow> 'a slice" where
  "slice_take n s = map_option (take n) s"

lemma elems_simps [simp]: "elems None = []" "elems (Some xs) = xs"
  by (simp_all add: elems_def)

lemma elems_slice_append [simp]: "elems (slice_append s xs) = elems s @ xs"
  by (simp add: slice_append_def)

lemma slice_append_Cons [simp]: "slice_append s (x # xs) = Some (elems s @ x # xs)"
  by (simp add: slice_append_def)

lemma elems_slice_take [simp]: "elems (slice_take n s) = take n (elems s)"
  by (cases s) (simp_all add: slice_take_def)

lemma slice_take_Some [simp]: "slice_take n (Some xs) = Some (take n xs)"
  by (simp add: slice_take_def)

lemma slice_take_None [simp]: "slice_take n None = None"
  by (simp add: slice_take_def)

lemma slice_eq_Some_elems: "s \<noteq> None \<Longrightarrow> s = Some (elems s)"
  by auto

lemma slice_append_append:
  "slice_append (slice_append s xs) ys = slice_append s (xs @ ys)"
  by (cases xs; cases ys) (simp_all add: slice_append_def)

text \<open>What appending can make of a slice.\<close>

definition grown :: "'a slice \<Rightarrow> 'a slice \<Rightarrow> bool" where
  "grown a b \<longleftrightarrow> (\<exists>ys. b = slice_append a ys)"

lemma grown_refl [simp, intro]: "grown a a"
  unfolding grown_def by (metis slice_append_def)

lemma grown_trans [trans]: "grown a b \<Longrightarrow> grown b c \<Longrightarrow> grown a c"
  by (auto simp: grown_def slice_append_append)

lemma grown_snoc [simp, intro]: "grown a (Some (elems a @ [y]))"
  unfolding grown_def by (intro exI [of _ "[y]"]) simp

lemma grown_elems: "grown a b \<Longrightarrow> \<exists>ys. elems b = elems a @ ys"
  by (auto simp: grown_def)

lemma grown_Some: "grown (Some xs) b \<longleftrightarrow> (\<exists>ys. b = Some (xs @ ys))"
  by (auto simp: grown_def slice_append_def)

section \<open>64-bit signed integers\<close>

definition in_int64 :: "int \<Rightarrow> bool" where
  "in_int64 x \<longleftrightarrow> - (2 ^ 63) \<le> x \<and> x < 2 ^ 63"

definition wrap64 :: "int \<Rightarrow> int" where
  "wrap64 x = (x + 2 ^ 63) mod 2 ^ 64 - 2 ^ 63"

lemma wrap64_id: "in_int64 x \<Longrightarrow> wrap64 x = x"
  by (simp add: in_int64_def wrap64_def)

lemma wrap64_range: "in_int64 (wrap64 x)"
proof -
  have "0 \<le> (x + 2 ^ 63) mod 2 ^ 64" and "(x + 2 ^ 63) mod 2 ^ 64 < (2 ^ 64 :: int)"
    by simp_all
  then show ?thesis by (simp add: in_int64_def wrap64_def)
qed

lemma wrap64_sint: "wrap64 x = sint (word_of_int x :: 64 word)"
  by (simp add: sint_uint wrap64_def signed_take_bit_eq_take_bit_shift take_bit_eq_mod
      uint_word_of_int mod_add_left_eq)

lemma wrap64_succ: "0 \<le> x \<Longrightarrow> x < 2 ^ 63 - 1 \<Longrightarrow> wrap64 (x + 1) = x + 1"
  by (rule wrap64_id) (simp add: in_int64_def)

text \<open>Even when it wraps around, the successor is a different number.\<close>

lemma wrap64_succ_neq: "in_int64 x \<Longrightarrow> wrap64 (x + 1) \<noteq> x"
proof (cases "x = 2 ^ 63 - 1")
  case True
  then show ?thesis by (simp add: wrap64_def)
next
  case False
  assume "in_int64 x"
  with False have "in_int64 (x + 1)" by (simp add: in_int64_def)
  then show ?thesis by (simp add: wrap64_id)
qed

end
