(* ===== verification/Go_Strings.thy ===== *)
theory Go_Strings
  imports Prelude
begin

text \<open>
  The string functions of Go's standard library that the repository calls, on byte strings:
  \<open>TrimSpace\<close>, \<open>HasPrefix\<close>, \<open>Contains\<close>, \<open>Fields\<close>, \<open>Replace\<close> and \<open>ToLower\<close> of
  package \<open>strings\<close>, the decimal rendering of \<open>%d\<close> and \<open>strconv.ParseInt\<close>, UTF-8 and the
  quoting of \<open>%q\<close> (\<open>strconv.Quote\<close>). Unicode white space is given by its UTF-8 byte
  sequences; the Unicode tables beyond ASCII (printable runes, lower case) are parameters of
  the functions that consult them.
\<close>

section \<open>White space\<close>

definition bytes :: "nat list \<Rightarrow> string" where
  "bytes ns = map char_of ns"

text \<open>The UTF-8 encodings of the runes for which \<open>unicode.IsSpace\<close> holds.\<close>

definition space_seqs :: "string list" where
  "space_seqs =
     map (\<lambda>b. bytes [b]) [9, 10, 11, 12, 13, 32] @
     map bytes [[0xC2, 0x85], [0xC2, 0xA0], [0xE1, 0x9A, 0x80]] @
     map (\<lambda>b. bytes [0xE2, 0x80, b])
       [0x80, 0x81, 0x82, 0x83, 0x84, 0x85, 0x86, 0x87, 0x88, 0x89, 0x8A, 0xA8, 0xA9, 0xAF] @
     map bytes [[0xE2, 0x81, 0x9F], [0xE3, 0x80, 0x80]]"

definition HasPrefix :: "string \<Rightarrow> string \<Rightarrow> bool" where
  "HasPrefix s p \<longleftrightarrow> take (length p) s = p"

primrec strip_prefix :: "string list \<Rightarrow> string \<Rightarrow> string option" where
  "strip_prefix [] s = None"
| "strip_prefix (p # ps) s =
     (if HasPrefix s p then Some (drop (length p) s) else strip_prefix ps s)"

text \<open>Removes matching prefixes as long as there is one (and it is not empty).\<close>

function strip_all :: "string list \<Rightarrow> string \<Rightarrow> string" where
  "strip_all ps s =
     (case strip_prefix ps s of
        None \<Rightarrow> s
      | Some t \<Rightarrow> if length t < length s then strip_all ps t else s)"
  by pat_completeness auto
termination
  by (relation "measure (\<lambda>(ps, s). length s)") auto

declare strip_all.simps [simp del]

definition TrimLeftSpace :: "string \<Rightarrow> string" where
  "TrimLeftSpace s = strip_all space_seqs s"

definition TrimRightSpace :: "string \<Rightarrow> string" where
  "TrimRightSpace s = rev (strip_all (map rev space_seqs) (rev s))"

definition TrimSpace :: "string \<Rightarrow> string" where
  "TrimSpace s = TrimRightSpace (TrimLeftSpace s)"

lemma HasPrefix_append: "HasPrefix s p \<Longrightarrow> HasPrefix (s @ t) p"
  by (metis HasPrefix_def append_take_drop_id append.assoc append_eq_conv_conj)

lemma HasPrefix_Nil [simp]: "HasPrefix [] p \<longleftrightarrow> p = []"
  by (auto simp: HasPrefix_def)

lemma strip_prefix_None_iff:
  "strip_prefix ps s = None \<longleftrightarrow> (\<forall>p \<in> set ps. \<not> HasPrefix s p)"
  by (induction ps) auto

lemma strip_prefix_Some:
  "strip_prefix ps s = Some t \<Longrightarrow> \<exists>p \<in> set ps. s = p @ t"
  by (induction ps) (auto simp: HasPrefix_def split: if_splits, metis append_take_drop_id)

text \<open>For non-empty patterns the loop stops only when no pattern matches any more.\<close>

lemma strip_all_stops:
  "[] \<notin> set ps \<Longrightarrow> strip_prefix ps (strip_all ps s) = None"
proof (induction ps s rule: strip_all.induct)
  case (1 ps s)
  show ?case
  proof (cases "strip_prefix ps s")
    case None
    then show ?thesis by (subst strip_all.simps) simp
  next
    case (Some t)
    then obtain p where "p \<in> set ps" "s = p @ t"
      by (blast dest: strip_prefix_Some)
    with "1.prems" have "length t < length s"
      by (cases p) auto
    with Some "1.IH" [OF Some this "1.prems"] show ?thesis
      by (subst strip_all.simps) simp
  qed
qed

lemma strip_all_id: "strip_prefix ps s = None \<Longrightarrow> strip_all ps s = s"
  by (subst strip_all.simps) simp

lemma strip_all_suffix: "\<exists>p. s = p @ strip_all ps s"
proof (induction ps s rule: strip_all.induct)
  case (1 ps s)
  show ?case
  proof (cases "strip_prefix ps s")
    case None
    then show ?thesis by (simp add: strip_all_id)
  next
    case (Some t)
    then obtain q where s: "s = q @ t"
      by (blast dest: strip_prefix_Some)
    show ?thesis
    proof (cases "length t < length s")
      case True
      from "1.IH" [OF Some True] obtain p where "t = p @ strip_all ps t" by blast
      then have "s = (q @ p) @ strip_all ps t" using s by simp
      moreover from Some True have "strip_all ps s = strip_all ps t"
        by (subst strip_all.simps) simp
      ultimately show ?thesis by metis
    next
      case False
      with Some have "strip_all ps s = s" by (subst strip_all.simps) simp
      then show ?thesis by simp
    qed
  qed
qed

lemma space_seqs_nonempty: "[] \<notin> set space_seqs" "[] \<notin> set (map rev space_seqs)"
  by (simp_all add: space_seqs_def bytes_def)

lemma TrimRightSpace_prefix: "\<exists>q. s = TrimRightSpace s @ q"
proof -
  obtain p where "rev s = p @ strip_all (map rev space_seqs) (rev s)"
    using strip_all_suffix by blast
  then have "rev (rev s) = rev (strip_all (map rev space_seqs) (rev s)) @ rev p"
    by (metis rev_append)
  then show ?thesis unfolding TrimRightSpace_def by auto
qed

lemma TrimSpace_no_left: "strip_prefix space_seqs (TrimSpace s) = None"
proof -
  obtain q where q: "TrimLeftSpace s = TrimSpace s @ q"
    using TrimRightSpace_prefix unfolding TrimSpace_def by blast
  have "strip_prefix space_seqs (TrimLeftSpace s) = None"
    unfolding TrimLeftSpace_def by (rule strip_all_stops [OF space_seqs_nonempty(1)])
  then show ?thesis
    unfolding strip_prefix_None_iff q by (blast dest: HasPrefix_append)
qed

lemma TrimSpace_no_right: "strip_prefix (map rev space_seqs) (rev (TrimSpace s)) = None"
  unfolding TrimSpace_def TrimRightSpace_def rev_rev_ident
  by (rule strip_all_stops [OF space_seqs_nonempty(2)])

lemma TrimSpace_idem [simp]: "TrimSpace (TrimSpace s) = TrimSpace s"
proof -
  have "TrimLeftSpace (TrimSpace s) = TrimSpace s"
    unfolding TrimLeftSpace_def by (rule strip_all_id [OF TrimSpace_no_left])
  moreover have "TrimRightSpace (TrimSpace s) = TrimSpace s"
    unfolding TrimRightSpace_def by (simp only: strip_all_id [OF TrimSpace_no_right] rev_rev_ident)
  ultimately show ?thesis by (simp add: TrimSpace_def [of "TrimSpace s"])
qed

lemma TrimSpace_Nil [simp]: "TrimSpace [] = []"
  by (metis Nil_is_append_conv TrimLeftSpace_def TrimRightSpace_prefix TrimSpace_def strip_all_suffix)

text \<open>A string that starts and ends with a graphic ASCII character is not trimmed.\<close>

definition graphic :: "char \<Rightarrow> bool" where
  "graphic c \<longleftrightarrow> 33 \<le> (of_char c :: nat) \<and> (of_char c :: nat) \<le> 126"

lemma space_seqs_not_graphic:
  "\<forall>p \<in> set space_seqs. p \<noteq> [] \<and> \<not> graphic (hd p) \<and> \<not> graphic (last p)"
  by (simp add: space_seqs_def bytes_def graphic_def)

lemma TrimSpace_graphic:
  assumes "s \<noteq> []" and "graphic (hd s)" and "graphic (last s)"
  shows "TrimSpace s = s"
proof -
  have heads: "hd p = hd t" if "HasPrefix t p" "p \<noteq> []" for p t
    using that by (cases p; cases t) (auto simp: HasPrefix_def)
  have "\<not> HasPrefix s p" if "p \<in> set space_seqs" for p
    using heads [of s p] assms(2) space_seqs_not_graphic that by metis
  moreover have "\<not> HasPrefix (rev s) (rev p)" if "p \<in> set space_seqs" for p
    using heads [of "rev s" "rev p"] assms(3) space_seqs_not_graphic that
    by (metis hd_rev rev_is_Nil_conv)
  ultimately have "strip_prefix space_seqs s = None" "strip_prefix (map rev space_seqs) (rev s) = None"
    unfolding strip_prefix_None_iff by auto
  then have "TrimLeftSpace s = s" "TrimRightSpace s = s"
    by (simp_all add: TrimLeftSpace_def TrimRightSpace_def strip_all_id)
  then show ?thesis by (simp add: TrimSpace_def)
qed

section \<open>Searching\<close>

primrec Contains :: "string \<Rightarrow> string \<Rightarrow> bool" where
  "Contains [] p \<longleftrightarrow> p = []"
| "Contains (c # s) p \<longleftrightarrow> HasPrefix (c # s) p \<or> Contains s p"

lemma Contains_iff: "Contains s p \<longleftrightarrow> (\<exists>a b. s = a @ p @ b)"
proof (induction s)
  case (Cons c s)
  have "HasPrefix (c # s) p \<longleftrightarrow> (\<exists>b. c # s = p @ b)"
    by (metis HasPrefix_def append_eq_conv_conj append_take_drop_id)
  with Cons show ?case by (auto simp: Cons_eq_append_conv)
qed auto

text \<open>\<open>strings.Replace(s, old, new, 1)\<close>\<close>

fun replace_first :: "string \<Rightarrow> string \<Rightarrow> string \<Rightarrow> string" where
  "replace_first [] old new = (if old = [] then new else [])"
| "replace_first (c # s) old new =
     (if HasPrefix (c # s) old then new @ drop (length old) (c # s) else c # replace_first s old new)"

lemma HasPrefix_iff: "HasPrefix s p \<longleftrightarrow> (\<exists>t. s = p @ t)"
  by (metis HasPrefix_def append_eq_conv_conj append_take_drop_id)

lemma replace_first_found:
  "Contains s old \<Longrightarrow> \<exists>a b. s = a @ old @ b \<and> replace_first s old new = a @ new @ b"
proof (induction s)
  case (Cons c s)
  show ?case
  proof (cases "HasPrefix (c # s) old")
    case True
    then obtain t where t: "c # s = old @ t" by (auto simp: HasPrefix_iff)
    then have "drop (length old) (c # s) = t" by simp
    with True have "replace_first (c # s) old new = new @ t" by simp
    with t show ?thesis by (metis append_Nil)
  next
    case False
    with Cons obtain a b where "s = a @ old @ b" "replace_first s old new = a @ new @ b" by auto
    with False have "c # s = (c # a) @ old @ b" "replace_first (c # s) old new = (c # a) @ new @ b"
      by simp_all
    then show ?thesis by blast
  qed
qed simp

text \<open>\<open>strings.Fields\<close>; \<open>cur\<close> is the field read so far.\<close>

lemma strip_space_shorter: "strip_prefix space_seqs s = Some t \<Longrightarrow> length t < length s"
  by (drule strip_prefix_Some) (use space_seqs_nonempty(1) in force)

function split_fields :: "string \<Rightarrow> string \<Rightarrow> string list" where
  "split_fields cur [] = (if cur = [] then [] else [cur])"
| "split_fields cur (c # s) =
     (case strip_prefix space_seqs (c # s) of
        Some t \<Rightarrow> (if cur = [] then [] else [cur]) @ split_fields [] t
      | None \<Rightarrow> split_fields (cur @ [c]) s)"
  by pat_completeness auto
termination
  by (relation "measure (\<lambda>(cur, s). length s)") (auto dest: strip_space_shorter)

definition Fields :: "string \<Rightarrow> string list" where
  "Fields s = split_fields [] s"

section \<open>Decimal and hexadecimal digits\<close>

definition digit_char :: "nat \<Rightarrow> char" where
  "digit_char d = char_of (48 + d)"

fun nat_text :: "nat \<Rightarrow> string" where
  "nat_text n = (if n < 10 then [digit_char n] else nat_text (n div 10) @ [digit_char (n mod 10)])"

declare nat_text.simps [simp del]

definition int_text :: "int \<Rightarrow> string" where
  "int_text i = (if i < 0 then ''-'' @ nat_text (nat (- i)) else nat_text (nat i))"

definition is_digit :: "char \<Rightarrow> bool" where
  "is_digit c \<longleftrightarrow> 48 \<le> (of_char c :: nat) \<and> (of_char c :: nat) \<le> 57"

definition digits_value :: "string \<Rightarrow> nat" where
  "digits_value s = foldl (\<lambda>v c. v * 10 + (of_char c - 48)) 0 s"

text \<open>\<open>strconv.ParseInt(s, 10, 64)\<close>, \<open>None\<close> for an error.\<close>

definition ParseInt64 :: "string \<Rightarrow> int option" where
  "ParseInt64 s =
     (let neg = HasPrefix s ''-'';
          ds = (if neg \<or> HasPrefix s ''+'' then tl s else s);
          v = (if neg then - int (digits_value ds) else int (digits_value ds))
      in if ds = [] \<or> \<not> list_all is_digit ds \<or> \<not> in_int64 v then None else Some v)"

lemma digits_value_snoc: "digits_value (s @ [c]) = digits_value s * 10 + (of_char c - 48)"
  by (simp add: digits_value_def)

lemma digit_char: "d < 10 \<Longrightarrow> of_char (digit_char d) = (48 + d :: nat) \<and> is_digit (digit_char d)"
  by (simp add: digit_char_def is_digit_def)

lemma nat_text_digits:
  "nat_text n \<noteq> [] \<and> list_all is_digit (nat_text n) \<and> digits_value (nat_text n) = n"
proof (induction n rule: nat_text.induct)
  case (1 n)
  show ?case
  proof (cases "n < 10")
    case True
    with digit_char [OF True] show ?thesis
      by (subst nat_text.simps) (simp add: nat_text.simps [of n] digits_value_def)
  next
    case False
    have "n mod 10 < 10" by simp
    with False 1 digit_char [OF this] show ?thesis
      by (simp add: nat_text.simps [of n] digits_value_snoc)
  qed
qed

text \<open>Parsing inverts rendering on the 64-bit integers.\<close>

lemma digit_not_sign: "is_digit c \<Longrightarrow> c \<noteq> CHR ''-'' \<and> c \<noteq> CHR ''+''"
  by (auto simp: is_digit_def)

lemma ParseInt64_int_text: "in_int64 i \<Longrightarrow> ParseInt64 (int_text i) = Some i"
proof (cases "i < 0")
  case True
  assume "in_int64 i"
  with True nat_text_digits [of "nat (- i)"] show ?thesis
    by (simp add: ParseInt64_def int_text_def HasPrefix_def Let_def)
next
  case False
  assume i: "in_int64 i"
  obtain c s where cs: "nat_text (nat i) = c # s"
    using nat_text_digits [of "nat i"] by (cases "nat_text (nat i)") auto
  with nat_text_digits [of "nat i"] have "is_digit c" by simp
  from digit_not_sign [OF this] False i nat_text_digits [of "nat i"] show ?thesis
    by (simp add: ParseInt64_def int_text_def HasPrefix_def Let_def cs)
qed

definition hex_char :: "nat \<Rightarrow> char" where
  "hex_char d = (if d < 10 then char_of (48 + d) else char_of (87 + d))"

text \<open>The \<open>k\<close> lower-case hexadecimal digits of \<open>n\<close>, most significant first.\<close>

primrec hex_text :: "nat \<Rightarrow> nat \<Rightarrow> string" where
  "hex_text 0 n = []"
| "hex_text (Suc k) n = hex_text k (n div 16) @ [hex_char (n mod 16)]"

section \<open>UTF-8 decoding and quoting\<close>

definition is_cont :: "nat \<Rightarrow> bool" where
  "is_cont b \<longleftrightarrow> 0x80 \<le> b \<and> b \<le> 0xBF"

definition rune_error :: "nat \<times> nat" where
  "rune_error = (0xFFFD, 1)"

text \<open>
  \<open>utf8.DecodeRuneInString\<close> on the bytes of a non-empty string: the rune and its width;
  an invalid encoding is \<open>RuneError\<close> with width 1. Overlong forms, surrogates and values
  above 10FFFF are excluded by the bounds on the second byte.
\<close>

definition decode2 :: "nat \<Rightarrow> nat list \<Rightarrow> nat \<times> nat" where
  "decode2 b0 bs =
     (case bs of
        b1 # _ \<Rightarrow> if is_cont b1 then ((b0 - 0xC0) * 64 + (b1 - 0x80), 2) else rune_error
      | [] \<Rightarrow> rune_error)"

definition decode3 :: "nat \<Rightarrow> nat list \<Rightarrow> nat \<times> nat" where
  "decode3 b0 bs =
     (case bs of
        b1 # b2 # _ \<Rightarrow>
          if (if b0 = 0xE0 then 0xA0 else 0x80) \<le> b1 \<and> b1 \<le> (if b0 = 0xED then 0x9F else 0xBF)
             \<and> is_cont b2
          then ((b0 - 0xE0) * 4096 + (b1 - 0x80) * 64 + (b2 - 0x80), 3) else rune_error
      | _ \<Rightarrow> rune_error)"

definition decode4 :: "nat \<Rightarrow> nat list \<Rightarrow> nat \<times> nat" where
  "decode4 b0 bs =
     (case bs of
        b1 # b2 # b3 # _ \<Rightarrow>
          if (if b0 = 0xF0 then 0x90 else 0x80) \<le> b1 \<and> b1 \<le> (if b0 = 0xF4 then 0x8F else 0xBF)
             \<and> is_cont b2 \<and> is_cont b3
          then ((b0 - 0xF0) * 262144 + (b1 - 0x80) * 4096 + (b2 - 0x80) * 64 + (b3 - 0x80), 4)
          else rune_error
      | _ \<Rightarrow> rune_error)"

definition decode_rune :: "nat \<Rightarrow> nat list \<Rightarrow> nat \<times> nat" where
  "decode_rune b0 bs =
     (if b0 < 0x80 then (b0, 1)
      else if 0xC2 \<le> b0 \<and> b0 \<le> 0xDF then decode2 b0 bs
      else if 0xE0 \<le> b0 \<and> b0 \<le> 0xEF then decode3 b0 bs
      else if 0xF0 \<le> b0 \<and> b0 \<le> 0xF4 then decode4 b0 bs
      else rune_error)"

definition escape_rune :: "(nat \<Rightarrow> bool) \<Rightarrow> nat \<Rightarrow> string \<Rightarrow> string" where
  "escape_rune is_print r enc =
     (if r = 34 \<or> r = 92 then [char_of (92 :: nat), char_of r]
      else if (if r < 0x80 then 32 \<le> r \<and> r \<le> 126 else is_print r) then enc
      else if r = 7 then bytes [92, 97]
      else if r = 8 then bytes [92, 98]
      else if r = 12 then bytes [92, 102]
      else if r = 10 then bytes [92, 110]
      else if r = 13 then bytes [92, 114]
      else if r = 9 then bytes [92, 116]
      else if r = 11 then bytes [92, 118]
      else if r < 32 \<or> r = 127 then bytes [92, 120] @ hex_text 2 r
      else if r < 0x10000 then bytes [92, 117] @ hex_text 4 r
      else bytes [92, 85] @ hex_text 8 r)"

function quote_body :: "(nat \<Rightarrow> bool) \<Rightarrow> string \<Rightarrow> string" where
  "quote_body is_print [] = []"
| "quote_body is_print (c # cs) =
     (let b = of_char c; (r, w) = decode_rune b (map of_char (take 3 cs)) in
      (if w = 1 \<and> r = 0xFFFD then bytes [92, 120] @ hex_text 2 b
       else escape_rune is_print r (take w (c # cs))) @ quote_body is_print (drop (w - 1) cs))"
  by pat_completeness auto
termination
  by (relation "measure (\<lambda>(p, s). length s)") auto

definition Quote :: "(nat \<Rightarrow> bool) \<Rightarrow> string \<Rightarrow> string" where
  "Quote is_print s = bytes [34] @ quote_body is_print s @ bytes [34]"

section \<open>Lower case\<close>

text \<open>\<open>utf8.AppendRune\<close>: surrogates and values above 10FFFF become \<open>RuneError\<close>.\<close>

definition encode_rune :: "nat \<Rightarrow> string" where
  "encode_rune r0 =
     (let r = (if r0 > 0x10FFFF \<or> (0xD800 \<le> r0 \<and> r0 \<le> 0xDFFF) then 0xFFFD else r0) in
      if r < 0x80 then bytes [r]
      else if r < 0x800 then bytes [0xC0 + r div 64, 0x80 + r mod 64]
      else if r < 0x10000 then bytes [0xE0 + r div 4096, 0x80 + r div 64 mod 64, 0x80 + r mod 64]
      else bytes [0xF0 + r div 262144, 0x80 + r div 4096 mod 64, 0x80 + r div 64 mod 64,
             0x80 + r mod 64])"

text \<open>\<open>strings.Map\<close>: every rune is decoded, mapped and encoded.\<close>

function map_runes :: "(nat \<Rightarrow> nat) \<Rightarrow> string \<Rightarrow> string" where
  "map_runes f [] = []"
| "map_runes f (c # cs) =
     (let (r, w) = decode_rune (of_char c) (map of_char (take 3 cs))
      in encode_rune (f r) @ map_runes f (drop (w - 1) cs))"
  by pat_completeness auto
termination
  by (relation "measure (\<lambda>(f, s). length s)") auto

definition ascii_lower :: "nat \<Rightarrow> nat" where
  "ascii_lower b = (if 65 \<le> b \<and> b \<le> 90 then b + 32 else b)"

definition is_ascii :: "string \<Rightarrow> bool" where
  "is_ascii s \<longleftrightarrow> list_all (\<lambda>c. (of_char c :: nat) < 0x80) s"

text \<open>\<open>strings.ToLower\<close>; \<open>lower\<close> is \<open>unicode.ToLower\<close> beyond ASCII.\<close>

definition ToLower :: "(nat \<Rightarrow> nat) \<Rightarrow> string \<Rightarrow> string" where
  "ToLower lower s =
     (if is_ascii s then map (\<lambda>c. char_of (ascii_lower (of_char c))) s
      else map_runes (\<lambda>r. if r < 0x80 then ascii_lower r else lower r) s)"

end
