(* ===== verification/Agent_Types.thy ===== *)
theory Agent_Types
  imports Go_Strings
begin

text \<open>
  The data of package \<open>agent\<close>: run status, requirement, resolution, transcript message,
  tool definition, call and result, run state, event, engine input and commands
  (\<open>run.go\<close>, \<open>message.go\<close>, \<open>tool.go\<close>, \<open>event.go\<close>, \<open>engine.go\<close>, \<open>command.go\<close>), with the
  deep-copy functions. The enumerations of the source are open string types, and stay
  strings here: a value outside the declared constants is representable, as in Go.
\<close>

section \<open>Dynamic values\<close>

datatype int_kind = KInt | KInt8 | KInt16 | KInt32 | KInt64
  | KUint | KUint8 | KUint16 | KUint32 | KUint64

datatype float_kind = KFloat32 | KFloat64

text \<open>Kinds of the remaining dynamic types, as \<open>reflect.Kind\<close> tells them apart.\<close>

datatype other_kind = OtherMap | OtherSlice | OtherArray | OtherValue

text \<open>
  A value of type \<open>any\<close>, by dynamic type. \<open>AnyMap\<close> is \<open>map[string]any\<close>, \<open>AnySlice\<close> is
  \<open>[]any\<close>, \<open>AnyStrings\<close> is \<open>[]string\<close>; every other type is \<open>AnyOther\<close> with its kind.
  Floats are the finite ones.
\<close>

datatype any = AnyNil
  | AnyString string
  | AnyBool bool
  | AnyInt int_kind int
  | AnyFloat float_kind rat
  | AnyMap "(string \<times> any) list option"
  | AnySlice "any list option"
  | AnyStrings "string list option"
  | AnyOther other_kind string

type_synonym gomap = "(string \<times> any) list option"

section \<open>Runs\<close>

type_synonym RunID = string
type_synonym RunStatus = string
type_synonym RequirementKind = string
type_synonym RequirementOrigin = string
type_synonym ResolutionOutcome = string
type_synonym Role = string
type_synonym EventType = string
type_synonym CommandKind = string
type_synonym ToolFailureReason = string

definition RunStatusPending :: RunStatus where "RunStatusPending = ''pending''"
definition RunStatusRunning :: RunStatus where "RunStatusRunning = ''running''"
definition RunStatusSuspended :: RunStatus where "RunStatusSuspended = ''suspended''"
definition RunStatusCancelled :: RunStatus where "RunStatusCancelled = ''cancelled''"
definition RunStatusCompleted :: RunStatus where "RunStatusCompleted = ''completed''"
definition RunStatusFailed :: RunStatus where "RunStatusFailed = ''failed''"
definition RunStatusMaxStepsExceeded :: RunStatus where
  "RunStatusMaxStepsExceeded = ''max_steps_exceeded''"

lemmas status_defs = RunStatusPending_def RunStatusRunning_def RunStatusSuspended_def
  RunStatusCancelled_def RunStatusCompleted_def RunStatusFailed_def RunStatusMaxStepsExceeded_def

lemma status_distinct [simp, status_facts]:
  "distinct [[], RunStatusPending, RunStatusRunning, RunStatusSuspended, RunStatusCancelled,
     RunStatusCompleted, RunStatusFailed, RunStatusMaxStepsExceeded]"
  by (simp add: status_defs)

lemma status_neqs [simp]:
  "RunStatusPending \<noteq> []" "RunStatusRunning \<noteq> []" "RunStatusSuspended \<noteq> []"
  "RunStatusCancelled \<noteq> []" "RunStatusCompleted \<noteq> []" "RunStatusFailed \<noteq> []"
  "RunStatusMaxStepsExceeded \<noteq> []"
  "RunStatusPending \<noteq> RunStatusRunning" "RunStatusRunning \<noteq> RunStatusPending"
  "RunStatusPending \<noteq> RunStatusSuspended" "RunStatusSuspended \<noteq> RunStatusPending"
  "RunStatusPending \<noteq> RunStatusCancelled" "RunStatusCancelled \<noteq> RunStatusPending"
  "RunStatusPending \<noteq> RunStatusCompleted" "RunStatusCompleted \<noteq> RunStatusPending"
  "RunStatusPending \<noteq> RunStatusFailed" "RunStatusFailed \<noteq> RunStatusPending"
  "RunStatusPending \<noteq> RunStatusMaxStepsExceeded" "RunStatusMaxStepsExceeded \<noteq> RunStatusPending"
  "RunStatusRunning \<noteq> RunStatusSuspended" "RunStatusSuspended \<noteq> RunStatusRunning"
  "RunStatusRunning \<noteq> RunStatusCancelled" "RunStatusCancelled \<noteq> RunStatusRunning"
  "RunStatusRunning \<noteq> RunStatusCompleted" "RunStatusCompleted \<noteq> RunStatusRunning"
  "RunStatusRunning \<noteq> RunStatusFailed" "RunStatusFailed \<noteq> RunStatusRunning"
  "RunStatusRunning \<noteq> RunStatusMaxStepsExceeded" "RunStatusMaxStepsExceeded \<noteq> RunStatusRunning"
  "RunStatusSuspended \<noteq> RunStatusCancelled" "RunStatusCancelled \<noteq> RunStatusSuspended"
  "RunStatusSuspended \<noteq> RunStatusCompleted" "RunStatusCompleted \<noteq> RunStatusSuspended"
  "RunStatusSuspended \<noteq> RunStatusFailed" "RunStatusFailed \<noteq> RunStatusSuspended"
  "RunStatusSuspended \<noteq> RunStatusMaxStepsExceeded"
  "RunStatusMaxStepsExceeded \<noteq> RunStatusSuspended"
  "RunStatusCancelled \<noteq> RunStatusCompleted" "RunStatusCompleted \<noteq> RunStatusCancelled"
  "RunStatusCancelled \<noteq> RunStatusFailed" "RunStatusFailed \<noteq> RunStatusCancelled"
  "RunStatusCancelled \<noteq> RunStatusMaxStepsExceeded"
  "RunStatusMaxStepsExceeded \<noteq> RunStatusCancelled"
  "RunStatusCompleted \<noteq> RunStatusFailed" "RunStatusFailed \<noteq> RunStatusCompleted"
  "RunStatusCompleted \<noteq> RunStatusMaxStepsExceeded"
  "RunStatusMaxStepsExceeded \<noteq> RunStatusCompleted"
  "RunStatusFailed \<noteq> RunStatusMaxStepsExceeded" "RunStatusMaxStepsExceeded \<noteq> RunStatusFailed"
  by (simp_all add: status_defs)

definition RequirementKindApproval :: RequirementKind where
  "RequirementKindApproval = ''approval''"
definition RequirementKindUserInput :: RequirementKind where
  "RequirementKindUserInput = ''user_input''"
definition RequirementKindExternalExecution :: RequirementKind where
  "RequirementKindExternalExecution = ''external_execution''"

definition RequirementOriginModel :: RequirementOrigin where
  "RequirementOriginModel = ''model''"
definition RequirementOriginTool :: RequirementOrigin where
  "RequirementOriginTool = ''tool''"

definition ResolutionOutcomeApproved :: ResolutionOutcome where
  "ResolutionOutcomeApproved = ''approved''"
definition ResolutionOutcomeRejected :: ResolutionOutcome where
  "ResolutionOutcomeRejected = ''rejected''"
definition ResolutionOutcomeProvided :: ResolutionOutcome where
  "ResolutionOutcomeProvided = ''provided''"
definition ResolutionOutcomeCompleted :: ResolutionOutcome where
  "ResolutionOutcomeCompleted = ''completed''"

lemmas requirement_defs = RequirementKindApproval_def RequirementKindUserInput_def
  RequirementKindExternalExecution_def RequirementOriginModel_def RequirementOriginTool_def
  ResolutionOutcomeApproved_def ResolutionOutcomeRejected_def ResolutionOutcomeProvided_def
  ResolutionOutcomeCompleted_def

lemma origin_neqs [simp]:
  "RequirementOriginModel \<noteq> RequirementOriginTool" "RequirementOriginTool \<noteq> RequirementOriginModel"
  by (simp_all add: requirement_defs)

lemma requirement_kind_neqs [simp]:
  "RequirementKindApproval \<noteq> RequirementKindUserInput"
  "RequirementKindUserInput \<noteq> RequirementKindApproval"
  "RequirementKindApproval \<noteq> RequirementKindExternalExecution"
  "RequirementKindExternalExecution \<noteq> RequirementKindApproval"
  "RequirementKindUserInput \<noteq> RequirementKindExternalExecution"
  "RequirementKindExternalExecution \<noteq> RequirementKindUserInput"
  by (simp_all add: requirement_defs)

record PendingRequirement =
  pr_ID :: string
  pr_Kind :: RequirementKind
  pr_Origin :: RequirementOrigin
  pr_ToolCallID :: string
  pr_Fingerprint :: string
  pr_Prompt :: string

record Resolution =
  rs_RequirementID :: string
  rs_Kind :: RequirementKind
  rs_Outcome :: ResolutionOutcome
  rs_Value :: string

section \<open>Tools and messages\<close>

text \<open>
  The slice of tool definitions is only ranged over, so it is a plain list; the slices that
  reach \<open>reflect.DeepEqual\<close> (messages, tool calls) and the maps keep their nil value.
\<close>

record ToolDefinition =
  td_Name :: string
  td_Description :: string
  td_InputSchema :: gomap

record ToolCall =
  tc_ID :: string
  tc_Name :: string
  tc_Arguments :: gomap

record ToolResult =
  tr_CallID :: string
  tr_Name :: string
  tr_Content :: string
  tr_IsError :: bool
  tr_FailureReason :: ToolFailureReason

definition ToolFailureReasonUnknownTool :: ToolFailureReason where
  "ToolFailureReasonUnknownTool = ''unknown_tool''"
definition ToolFailureReasonInvalidArguments :: ToolFailureReason where
  "ToolFailureReasonInvalidArguments = ''invalid_arguments''"
definition ToolFailureReasonExecutorError :: ToolFailureReason where
  "ToolFailureReasonExecutorError = ''executor_error''"
definition ToolFailureReasonSuspended :: ToolFailureReason where
  "ToolFailureReasonSuspended = ''suspended''"

definition RoleSystem :: Role where "RoleSystem = ''system''"
definition RoleUser :: Role where "RoleUser = ''user''"
definition RoleAssistant :: Role where "RoleAssistant = ''assistant''"
definition RoleTool :: Role where "RoleTool = ''tool''"

lemmas role_defs = RoleSystem_def RoleUser_def RoleAssistant_def RoleTool_def

lemma role_neqs [simp]:
  "RoleAssistant \<noteq> RoleTool" "RoleTool \<noteq> RoleAssistant" "RoleUser \<noteq> RoleTool"
  "RoleTool \<noteq> RoleUser" "RoleUser \<noteq> RoleAssistant" "RoleAssistant \<noteq> RoleUser"
  "RoleSystem \<noteq> RoleTool" "RoleSystem \<noteq> RoleAssistant" "RoleAssistant \<noteq> []"
  "RoleTool \<noteq> RoleSystem" "RoleAssistant \<noteq> RoleSystem"
  by (simp_all add: role_defs)

record Message =
  m_Role :: Role
  m_Content :: string
  m_Name :: string
  m_ToolCallID :: string
  m_ToolCalls :: "ToolCall slice"
  m_Requirement :: "PendingRequirement option"

definition zeroMessage :: Message where
  "zeroMessage = \<lparr>m_Role = [], m_Content = [], m_Name = [], m_ToolCallID = [],
     m_ToolCalls = None, m_Requirement = None\<rparr>"

definition zeroToolCall :: ToolCall where
  "zeroToolCall = \<lparr>tc_ID = [], tc_Name = [], tc_Arguments = None\<rparr>"

definition zeroToolResult :: ToolResult where
  "zeroToolResult = \<lparr>tr_CallID = [], tr_Name = [], tr_Content = [], tr_IsError = False,
     tr_FailureReason = []\<rparr>"

definition ToolResultMessage :: "ToolResult \<Rightarrow> Message" where
  "ToolResultMessage r = zeroMessage\<lparr>m_Role := RoleTool, m_Name := tr_Name r,
     m_ToolCallID := tr_CallID r, m_Content := tr_Content r\<rparr>"

section \<open>Run state, events, engine input\<close>

record RunInput =
  ri_RunID :: RunID
  ri_SystemPrompt :: string
  ri_UserPrompt :: string
  ri_MaxSteps :: int
  ri_Tools :: "ToolDefinition list"

record RunState =
  st_ID :: RunID
  st_Version :: int
  st_Step :: int
  st_Status :: RunStatus
  st_PendingRequirement :: "PendingRequirement option"
  st_Output :: string
  st_Error :: string
  st_Messages :: "Message slice"

definition zeroRunState :: RunState where
  "zeroRunState = \<lparr>st_ID = [], st_Version = 0, st_Step = 0, st_Status = [],
     st_PendingRequirement = None, st_Output = [], st_Error = [], st_Messages = None\<rparr>"

record RunResult =
  rr_State :: RunState

definition zeroRunResult :: RunResult where
  "zeroRunResult = \<lparr>rr_State = zeroRunState\<rparr>"

record Event =
  ev_RunID :: RunID
  ev_Step :: int
  ev_Type :: EventType
  ev_CommandKind :: CommandKind
  ev_Message :: "Message option"
  ev_ToolResult :: "ToolResult option"
  ev_Description :: string

definition zeroEvent :: Event where
  "zeroEvent = \<lparr>ev_RunID = [], ev_Step = 0, ev_Type = [], ev_CommandKind = [],
     ev_Message = None, ev_ToolResult = None, ev_Description = []\<rparr>"

record EngineInput =
  ei_MaxSteps :: int
  ei_Tools :: "ToolDefinition list"
  ei_Resolution :: "Resolution option"
  ei_ResolvedRequirement :: "PendingRequirement option"

section \<open>Commands\<close>

definition CommandKindStart :: CommandKind where "CommandKindStart = ''start''"
definition CommandKindContinue :: CommandKind where "CommandKindContinue = ''continue''"
definition CommandKindCancel :: CommandKind where "CommandKindCancel = ''cancel''"
definition CommandKindSteer :: CommandKind where "CommandKindSteer = ''steer''"
definition CommandKindFollowUp :: CommandKind where "CommandKindFollowUp = ''follow_up''"

lemmas command_kind_defs = CommandKindStart_def CommandKindContinue_def CommandKindCancel_def
  CommandKindSteer_def CommandKindFollowUp_def

lemma command_kinds_nonempty [simp]:
  "CommandKindStart \<noteq> []" "CommandKindContinue \<noteq> []" "CommandKindCancel \<noteq> []"
  "CommandKindSteer \<noteq> []" "CommandKindFollowUp \<noteq> []"
  by (simp_all add: command_kind_defs)

record StartCommand =
  sc_Input :: RunInput

record ContinueCommand =
  cc_RunID :: RunID
  cc_CommandID :: string
  cc_MaxSteps :: int
  cc_Tools :: "ToolDefinition list"
  cc_Resolution :: "Resolution option"

record CancelCommand =
  xc_RunID :: RunID

record SteerCommand =
  stc_RunID :: RunID
  stc_Instruction :: string

record FollowUpCommand =
  fc_RunID :: RunID
  fc_UserPrompt :: string
  fc_MaxSteps :: int
  fc_Tools :: "ToolDefinition list"

text \<open>
  A value of the \<open>Command\<close> interface: nil, a pointer (nil or not, with the kind its method
  reports and its type's name), one of the five command structs, or a value of a foreign type.
\<close>

datatype Command =
    CmdNil
  | CmdNilPointer
  | CmdPointer CommandKind string
  | CmdStart StartCommand
  | CmdContinue ContinueCommand
  | CmdCancel CancelCommand
  | CmdSteer SteerCommand
  | CmdFollowUp FollowUpCommand
  | CmdOther CommandKind string

section \<open>Deep copies\<close>

text \<open>
  A copied pointer target is equal to the original, so on values the clones only differ
  from their argument where a nil slice or map becomes an empty one.
\<close>

primrec cloneJSONLikeValue :: "any \<Rightarrow> any" where
  "cloneJSONLikeValue AnyNil = AnyNil"
| "cloneJSONLikeValue (AnyString s) = AnyString s"
| "cloneJSONLikeValue (AnyBool b) = AnyBool b"
| "cloneJSONLikeValue (AnyInt k i) = AnyInt k i"
| "cloneJSONLikeValue (AnyFloat k q) = AnyFloat k q"
| "cloneJSONLikeValue (AnyMap m) =
     AnyMap (Some (elems (map_option (map (map_prod id cloneJSONLikeValue)) m)))"
| "cloneJSONLikeValue (AnySlice vs) =
     AnySlice (Some (elems (map_option (map cloneJSONLikeValue) vs)))"
| "cloneJSONLikeValue (AnyStrings ss) = AnyStrings ss"
| "cloneJSONLikeValue (AnyOther k t) = AnyOther k t"

definition cloneMap :: "gomap \<Rightarrow> gomap" where
  "cloneMap m = map_option (map (map_prod id cloneJSONLikeValue)) m"

definition CloneToolCall :: "ToolCall \<Rightarrow> ToolCall" where
  "CloneToolCall tc = tc\<lparr>tc_Arguments := cloneMap (tc_Arguments tc)\<rparr>"

definition CloneToolDefinition :: "ToolDefinition \<Rightarrow> ToolDefinition" where
  "CloneToolDefinition d = d\<lparr>td_InputSchema := cloneMap (td_InputSchema d)\<rparr>"

definition CloneToolDefinitions :: "ToolDefinition list \<Rightarrow> ToolDefinition list" where
  "CloneToolDefinitions ds = map CloneToolDefinition ds"

definition CloneMessage :: "Message \<Rightarrow> Message" where
  "CloneMessage m =
     (if elems (m_ToolCalls m) \<noteq> []
      then m\<lparr>m_ToolCalls := Some (map CloneToolCall (elems (m_ToolCalls m)))\<rparr>
      else m)"

definition CloneMessages :: "Message slice \<Rightarrow> Message slice" where
  "CloneMessages ms = Some (map CloneMessage (elems ms))"

definition CloneRunState :: "RunState \<Rightarrow> RunState" where
  "CloneRunState st = st\<lparr>st_Messages := CloneMessages (st_Messages st)\<rparr>"

definition cloneRunResult :: "RunResult \<Rightarrow> RunResult" where
  "cloneRunResult r = \<lparr>rr_State = CloneRunState (rr_State r)\<rparr>"

lemma cloneJSONLikeValue_idem [simp]:
  "cloneJSONLikeValue (cloneJSONLikeValue v) = cloneJSONLikeValue v"
proof (induction v)
  case (AnyMap m)
  then show ?case by (cases m) (fastforce simp: elems_def)+
next
  case (AnySlice vs)
  then show ?case by (cases vs) (auto simp: elems_def)
qed simp_all

lemma cloneMap_idem [simp]: "cloneMap (cloneMap m) = cloneMap m"
  by (cases m) (simp_all add: cloneMap_def prod.map_comp comp_def id_def)

lemma CloneToolCall_idem [simp]: "CloneToolCall (CloneToolCall tc) = CloneToolCall tc"
  by (simp add: CloneToolCall_def)

lemma CloneToolCall_fields [simp]:
  "tc_ID (CloneToolCall tc) = tc_ID tc" "tc_Name (CloneToolCall tc) = tc_Name tc"
  by (simp_all add: CloneToolCall_def)

lemma CloneMessage_fields [simp]:
  "m_Role (CloneMessage m) = m_Role m" "m_Content (CloneMessage m) = m_Content m"
  "m_Name (CloneMessage m) = m_Name m" "m_ToolCallID (CloneMessage m) = m_ToolCallID m"
  "m_Requirement (CloneMessage m) = m_Requirement m"
  "elems (m_ToolCalls (CloneMessage m)) = map CloneToolCall (elems (m_ToolCalls m))"
  by (simp_all add: CloneMessage_def)

lemma CloneMessage_idem [simp]: "CloneMessage (CloneMessage m) = CloneMessage m"
  by (simp add: CloneMessage_def comp_def)

lemma CloneMessages_idem [simp]: "CloneMessages (CloneMessages ms) = CloneMessages ms"
  by (simp add: CloneMessages_def comp_def)

lemma CloneRunState_fields [simp]:
  "st_ID (CloneRunState st) = st_ID st" "st_Version (CloneRunState st) = st_Version st"
  "st_Step (CloneRunState st) = st_Step st" "st_Status (CloneRunState st) = st_Status st"
  "st_PendingRequirement (CloneRunState st) = st_PendingRequirement st"
  "st_Output (CloneRunState st) = st_Output st" "st_Error (CloneRunState st) = st_Error st"
  "st_Messages (CloneRunState st) = CloneMessages (st_Messages st)"
  by (simp_all add: CloneRunState_def)

lemma CloneRunState_idem [simp]: "CloneRunState (CloneRunState st) = CloneRunState st"
  by (simp add: CloneRunState_def)

lemma CloneRunState_Version [simp]:
  "CloneRunState (st\<lparr>st_Version := v\<rparr>) = (CloneRunState st)\<lparr>st_Version := v\<rparr>"
  by (simp add: CloneRunState_def)

end
