(* ===== verification/Go_Errors.thy ===== *)
theory Go_Errors
  imports Agent_Types
begin

text \<open>
  Go error values: the sentinels of the repository's packages, \<open>fmt.Errorf\<close> with \<open>%w\<close>,
  \<open>errors.Join\<close>, \<open>*SuspendRequestError\<close> and errors of foreign types, with \<open>errors.Is\<close>,
  \<open>errors.As\<close> (for \<open>*SuspendRequestError\<close>) and \<open>Error()\<close>. The type \<open>error\<close> is
  \<open>gerr option\<close>: \<open>None\<close> is the nil error.
\<close>

section \<open>Error values\<close>

datatype sentinel =
    ErrMaxStepsExceeded | ErrRunNotFound | ErrRunVersionConflict | ErrInvalidRunStateTransition
  | ErrRunStateInvalid | ErrRunNotContinuable | ErrRunNotCancellable | ErrResolutionRequired
  | ErrResolutionInvalid | ErrResolutionUnexpected | ErrCommandNil | ErrContextNil
  | ErrCommandInvalid | ErrCommandConflict | ErrCommandUnsupported | ErrInvalidRunID
  | ErrEventPublish | ErrEventInvalid | ErrEngineOutputContractViolation
  | ErrToolDefinitionsInvalid | ErrMissingIDGenerator | ErrMissingRunStore | ErrMissingEngine
  | ErrMissingModel | ErrMissingToolExecutor | ErrToolCallInvalid
  | ErrToolUnregistered | ErrNilHandler | ErrToolNameEmpty
  | ErrCursorInvalid | ErrCursorExpired
  | ErrRequestTooLarge | ErrRequestTimedOut | ErrCommandBudgetExceeded | ErrUnauthorized
  | ErrInvalidRequest
  | ErrPathRequired | ErrPathOutsideWorkspace | ErrArgumentInvalid | ErrBashCommandEmpty
  | ErrBashCommandDenied | ErrBashReplayMismatch | ErrBashExecutionTimedOut
  | ErrReadResponse | ErrEncodeRequest | ErrDecodeResponse | ErrAuthTokenMissing | ErrRunIDRequired
  | ErrQuit
  | IoEOF | ScannerTooLong | HttpServerClosed
  | ContextCanceled | ContextDeadlineExceeded

primrec sentinel_text :: "sentinel \<Rightarrow> string" where
  "sentinel_text ErrMaxStepsExceeded = ''run exceeded max steps''"
| "sentinel_text ErrRunNotFound = ''run not found''"
| "sentinel_text ErrRunVersionConflict = ''run version conflict''"
| "sentinel_text ErrInvalidRunStateTransition = ''invalid run state transition''"
| "sentinel_text ErrRunStateInvalid = ''run state is invalid''"
| "sentinel_text ErrRunNotContinuable = ''run is not continuable''"
| "sentinel_text ErrRunNotCancellable = ''run is not cancellable''"
| "sentinel_text ErrResolutionRequired = ''resolution is required''"
| "sentinel_text ErrResolutionInvalid = ''resolution is invalid''"
| "sentinel_text ErrResolutionUnexpected = ''resolution is unexpected''"
| "sentinel_text ErrCommandNil = ''command is nil''"
| "sentinel_text ErrContextNil = ''context is nil''"
| "sentinel_text ErrCommandInvalid = ''command is invalid''"
| "sentinel_text ErrCommandConflict = ''command conflict''"
| "sentinel_text ErrCommandUnsupported = ''command is unsupported''"
| "sentinel_text ErrInvalidRunID = ''invalid run id''"
| "sentinel_text ErrEventPublish = ''event publish failed''"
| "sentinel_text ErrEventInvalid = ''event is invalid''"
| "sentinel_text ErrEngineOutputContractViolation = ''engine output contract violation''"
| "sentinel_text ErrToolDefinitionsInvalid = ''tool definitions are invalid''"
| "sentinel_text ErrMissingIDGenerator = ''missing id generator''"
| "sentinel_text ErrMissingRunStore = ''missing run store''"
| "sentinel_text ErrMissingEngine = ''missing engine''"
| "sentinel_text ErrMissingModel = ''missing model''"
| "sentinel_text ErrMissingToolExecutor = ''missing tool executor''"
| "sentinel_text ErrToolCallInvalid = ''tool call is invalid''"
| "sentinel_text ErrToolUnregistered = ''tool is not registered''"
| "sentinel_text ErrNilHandler = ''tool handler is nil''"
| "sentinel_text ErrToolNameEmpty = ''tool name is empty''"
| "sentinel_text ErrCursorInvalid = ''stream cursor is invalid''"
| "sentinel_text ErrCursorExpired = ''stream cursor expired''"
| "sentinel_text ErrRequestTooLarge = ''policy request body too large''"
| "sentinel_text ErrRequestTimedOut = ''policy request timeout exceeded''"
| "sentinel_text ErrCommandBudgetExceeded = ''policy command budget exceeded''"
| "sentinel_text ErrUnauthorized = ''policy authentication failed''"
| "sentinel_text ErrInvalidRequest = ''invalid request''"
| "sentinel_text ErrPathRequired = ''tool path is required''"
| "sentinel_text ErrPathOutsideWorkspace = ''tool path escapes workspace root''"
| "sentinel_text ErrArgumentInvalid = ''tool arguments are invalid''"
| "sentinel_text ErrBashCommandEmpty = ''bash command is empty''"
| "sentinel_text ErrBashCommandDenied = ''bash command violates policy''"
| "sentinel_text ErrBashReplayMismatch = ''bash replay override mismatch''"
| "sentinel_text ErrBashExecutionTimedOut = ''bash command timed out''"
| "sentinel_text ErrReadResponse = ''read response''"
| "sentinel_text ErrEncodeRequest = ''encode request''"
| "sentinel_text ErrDecodeResponse = ''decode response''"
| "sentinel_text ErrAuthTokenMissing = ''auth token is required for mutating routes''"
| "sentinel_text ErrRunIDRequired = ''run id is required''"
| "sentinel_text ErrQuit = ''quit chat''"
| "sentinel_text IoEOF = ''EOF''"
| "sentinel_text ScannerTooLong = ''bufio.Scanner: token too long''"
| "sentinel_text HttpServerClosed = ''http: Server closed''"
| "sentinel_text ContextCanceled = ''context canceled''"
| "sentinel_text ContextDeadlineExceeded = ''context deadline exceeded''"

text \<open>
  \<open>Errorf\<close> keeps the pieces of a formatted message: literal text (also the rendering of
  \<open>%s\<close>), a string under \<open>%q\<close>, an integer under \<open>%d\<close>, an error under \<open>%w\<close> (which
  \<open>errors.Is\<close> looks into) or under \<open>%v\<close> (which it does not). \<open>SuspendNil\<close> is the typed nil
  pointer, \<open>External\<close> an error of a type outside the repository with its text and what it
  unwraps to.
\<close>

datatype gerr =
    Sentinel sentinel
  | Errorf "frag list"
  | Joined "gerr list"
  | SuspendNil
  | Suspend "PendingRequirement option" "gerr option"
  | External string "gerr list"
and frag =
    Lit string
  | Quo string
  | Num int
  | Wrap gerr
  | Val gerr

abbreviation wraps :: "sentinel \<Rightarrow> frag" where
  "wraps s \<equiv> Wrap (Sentinel s)"

section \<open>errors.Is\<close>

primrec errors_Is :: "gerr \<Rightarrow> sentinel \<Rightarrow> bool"
  and frag_Is :: "frag \<Rightarrow> sentinel \<Rightarrow> bool" where
  "errors_Is (Sentinel s) = (\<lambda>t. s = t)"
| "errors_Is (Errorf fs) = (\<lambda>t. list_ex (\<lambda>P. P t) (map frag_Is fs))"
| "errors_Is (Joined es) = (\<lambda>t. list_ex (\<lambda>P. P t) (map errors_Is es))"
| "errors_Is SuspendNil = (\<lambda>t. False)"
| "errors_Is (Suspend r e) =
     (\<lambda>t. case map_option errors_Is e of None \<Rightarrow> False | Some P \<Rightarrow> P t)"
| "errors_Is (External s es) = (\<lambda>t. list_ex (\<lambda>P. P t) (map errors_Is es))"
| "frag_Is (Lit s) = (\<lambda>t. False)"
| "frag_Is (Quo s) = (\<lambda>t. False)"
| "frag_Is (Num i) = (\<lambda>t. False)"
| "frag_Is (Wrap e) = errors_Is e"
| "frag_Is (Val e) = (\<lambda>t. False)"

definition is_err :: "gerr option \<Rightarrow> sentinel \<Rightarrow> bool" where
  "is_err e t = (case e of None \<Rightarrow> False | Some x \<Rightarrow> errors_Is x t)"

lemma is_err_simps [simp]: "\<not> is_err None t" "is_err (Some e) t = errors_Is e t"
  by (simp_all add: is_err_def)

lemma list_ex_map_app [simp]: "list_ex (\<lambda>P. P t) (map f xs) \<longleftrightarrow> (\<exists>x \<in> set xs. f x t)"
  by (simp add: list_ex_iff)

section \<open>errors.As for *SuspendRequestError\<close>

text \<open>
  The first \<open>*SuspendRequestError\<close> of the tree in pre-order: \<open>None\<close> when there is none,
  \<open>Some None\<close> for the typed nil pointer, \<open>Some (Some r)\<close> for one whose \<open>Requirement\<close> is \<open>r\<close>.
\<close>

primrec first_some :: "'a option list \<Rightarrow> 'a option" where
  "first_some [] = None"
| "first_some (x # xs) = (case x of None \<Rightarrow> first_some xs | Some y \<Rightarrow> Some y)"

type_synonym suspend_ref = "PendingRequirement option option"

primrec errors_As_suspend :: "gerr \<Rightarrow> suspend_ref option"
  and frag_As_suspend :: "frag \<Rightarrow> suspend_ref option" where
  "errors_As_suspend (Sentinel s) = None"
| "errors_As_suspend (Errorf fs) = first_some (map frag_As_suspend fs)"
| "errors_As_suspend (Joined es) = first_some (map errors_As_suspend es)"
| "errors_As_suspend SuspendNil = Some None"
| "errors_As_suspend (Suspend r e) = Some (Some r)"
| "errors_As_suspend (External s es) = first_some (map errors_As_suspend es)"
| "frag_As_suspend (Lit s) = None"
| "frag_As_suspend (Quo s) = None"
| "frag_As_suspend (Num i) = None"
| "frag_As_suspend (Wrap e) = errors_As_suspend e"
| "frag_As_suspend (Val e) = None"

section \<open>errors.Join\<close>

definition errors_Join :: "gerr option list \<Rightarrow> gerr option" where
  "errors_Join es = (let ne = map the (filter (\<lambda>e. e \<noteq> None) es)
     in if ne = [] then None else Some (Joined ne))"

lemma errors_Join_None_iff [simp]: "errors_Join es = None \<longleftrightarrow> (\<forall>e \<in> set es. e = None)"
  by (auto simp: errors_Join_def Let_def filter_empty_conv)

lemma is_err_Join [simp]: "is_err (errors_Join es) t \<longleftrightarrow> (\<exists>e \<in> set es. is_err e t)"
  by (force simp: errors_Join_def Let_def is_err_def filter_empty_conv split: option.splits)

lemma errors_Join_Nones [simp]: "errors_Join [None, None] = None" "errors_Join [None] = None"
  by simp_all

lemma errors_Join_is_Some [simp]:
  "(\<exists>y. errors_Join es = Some y) \<longleftrightarrow> (\<exists>e \<in> set es. e \<noteq> None)"
  using errors_Join_None_iff [of es] by (cases "errors_Join es") auto

section \<open>Error()\<close>

primrec join_lines :: "string list \<Rightarrow> string" where
  "join_lines [] = []"
| "join_lines (s # ss) = (if ss = [] then s else s @ bytes [10] @ join_lines ss)"

primrec error_text :: "(nat \<Rightarrow> bool) \<Rightarrow> gerr \<Rightarrow> string"
  and frag_text :: "(nat \<Rightarrow> bool) \<Rightarrow> frag \<Rightarrow> string" where
  "error_text up (Sentinel s) = sentinel_text s"
| "error_text up (Errorf fs) = concat (map (frag_text up) fs)"
| "error_text up (Joined es) = join_lines (map (error_text up) es)"
| "error_text up SuspendNil = ''suspend request''"
| "error_text up (Suspend r e) =
     (let message = (case r of
          None \<Rightarrow> ''suspend request''
        | Some q \<Rightarrow> ''suspend request: requirement id='' @ Quote up (pr_ID q) @
            '' kind='' @ pr_Kind q @ '' origin='' @ pr_Origin q)
      in case map_option (error_text up) e of
           None \<Rightarrow> message
         | Some t \<Rightarrow> message @ '': '' @ t)"
| "error_text up (External s es) = s"
| "frag_text up (Lit s) = s"
| "frag_text up (Quo s) = Quote up s"
| "frag_text up (Num i) = int_text i"
| "frag_text up (Wrap e) = error_text up e"
| "frag_text up (Val e) = error_text up e"

text \<open>\<open>Unwrap\<close> of a \<open>*SuspendRequestError\<close>.\<close>

definition suspend_Unwrap :: "gerr \<Rightarrow> gerr option" where
  "suspend_Unwrap e = (case e of Suspend r x \<Rightarrow> x | _ \<Rightarrow> None)"

end
