(* ===== verification/Lifecycle.thy ===== *)
theory Lifecycle
  imports Go_Errors
begin

text \<open>
  \<open>agent/lifecycle.go\<close> and \<open>agent/run_validation.go\<close>: the run status graph, the suspension
  invariant, the contracts of requirements and resolutions, and the structural validation
  of a run state.
\<close>

section \<open>Known values\<close>

definition isTerminalRunStatus :: "RunStatus \<Rightarrow> bool" where
  "isTerminalRunStatus s \<longleftrightarrow>
     s = RunStatusCompleted \<or> s = RunStatusFailed \<or> s = RunStatusCancelled"

definition isKnownRunStatus :: "RunStatus \<Rightarrow> bool" where
  "isKnownRunStatus s \<longleftrightarrow>
     s = RunStatusPending \<or> s = RunStatusRunning \<or> s = RunStatusSuspended \<or>
     s = RunStatusCancelled \<or> s = RunStatusCompleted \<or> s = RunStatusFailed \<or>
     s = RunStatusMaxStepsExceeded"

definition isKnownRequirementKind :: "RequirementKind \<Rightarrow> bool" where
  "isKnownRequirementKind k \<longleftrightarrow>
     k = RequirementKindApproval \<or> k = RequirementKindUserInput \<or>
     k = RequirementKindExternalExecution"

definition isKnownRequirementOrigin :: "RequirementOrigin \<Rightarrow> bool" where
  "isKnownRequirementOrigin k \<longleftrightarrow> k = RequirementOriginModel \<or> k = RequirementOriginTool"

definition isKnownResolutionOutcome :: "ResolutionOutcome \<Rightarrow> bool" where
  "isKnownResolutionOutcome k \<longleftrightarrow>
     k = ResolutionOutcomeApproved \<or> k = ResolutionOutcomeRejected \<or>
     k = ResolutionOutcomeProvided \<or> k = ResolutionOutcomeCompleted"

section \<open>Requirements and suspension\<close>

definition validatePendingRequirementContract :: "PendingRequirement option \<Rightarrow> gerr option" where
  "validatePendingRequirementContract requirement =
     (case requirement of
        None \<Rightarrow> Some (Errorf [wraps ErrRunStateInvalid, Lit '': field=pending_requirement reason=nil''])
      | Some r \<Rightarrow>
          if pr_ID r = [] then
            Some (Errorf [wraps ErrRunStateInvalid,
              Lit '': field=pending_requirement.id reason=empty''])
          else if \<not> isKnownRequirementKind (pr_Kind r) then
            Some (Errorf [wraps ErrRunStateInvalid,
              Lit '': field=pending_requirement.kind reason=unknown value='', Quo (pr_Kind r)])
          else if \<not> isKnownRequirementOrigin (pr_Origin r) then
            Some (Errorf [wraps ErrRunStateInvalid,
              Lit '': field=pending_requirement.origin reason=unknown value='', Quo (pr_Origin r)])
          else if pr_Origin r = RequirementOriginTool \<and> pr_ToolCallID r = [] then
            Some (Errorf [wraps ErrRunStateInvalid,
              Lit '': field=pending_requirement.tool_call_id reason=empty_for_origin origin='',
              Lit (pr_Origin r)])
          else if pr_Origin r = RequirementOriginTool \<and> pr_Fingerprint r = [] then
            Some (Errorf [wraps ErrRunStateInvalid,
              Lit '': field=pending_requirement.fingerprint reason=empty_for_origin origin='',
              Lit (pr_Origin r)])
          else None)"

definition validateSuspensionInvariant :: "RunState \<Rightarrow> gerr option" where
  "validateSuspensionInvariant state =
     (if st_Status state = RunStatusSuspended
      then validatePendingRequirementContract (st_PendingRequirement state)
      else if st_PendingRequirement state \<noteq> None
      then Some (Errorf [wraps ErrRunStateInvalid,
             Lit '': field=pending_requirement reason=forbidden_for_status status='',
             Lit (st_Status state)])
      else None)"

section \<open>Resolutions\<close>

definition invalid_for_kind :: "Resolution \<Rightarrow> gerr" where
  "invalid_for_kind r = Errorf [wraps ErrResolutionInvalid,
     Lit '': field=resolution.outcome reason=invalid_for_kind kind='', Lit (rs_Kind r),
     Lit '' outcome='', Lit (rs_Outcome r)]"

definition validateResolutionContract :: "Resolution option \<Rightarrow> gerr option" where
  "validateResolutionContract resolution =
     (case resolution of
        None \<Rightarrow> Some (Errorf [wraps ErrResolutionInvalid, Lit '': field=resolution reason=nil''])
      | Some r \<Rightarrow>
          if rs_RequirementID r = [] then
            Some (Errorf [wraps ErrResolutionInvalid,
              Lit '': field=resolution.requirement_id reason=empty''])
          else if \<not> isKnownRequirementKind (rs_Kind r) then
            Some (Errorf [wraps ErrResolutionInvalid,
              Lit '': field=resolution.kind reason=unknown value='', Quo (rs_Kind r)])
          else if \<not> isKnownResolutionOutcome (rs_Outcome r) then
            Some (Errorf [wraps ErrResolutionInvalid,
              Lit '': field=resolution.outcome reason=unknown value='', Quo (rs_Outcome r)])
          else if rs_Kind r = RequirementKindApproval then
            (if rs_Outcome r \<noteq> ResolutionOutcomeApproved \<and> rs_Outcome r \<noteq> ResolutionOutcomeRejected
             then Some (invalid_for_kind r) else None)
          else if rs_Kind r = RequirementKindUserInput then
            (if rs_Outcome r \<noteq> ResolutionOutcomeProvided
             then Some (invalid_for_kind r) else None)
          else if rs_Kind r = RequirementKindExternalExecution then
            (if rs_Outcome r \<noteq> ResolutionOutcomeCompleted
             then Some (invalid_for_kind r) else None)
          else None)"

definition validateResolutionForRequirement ::
  "Resolution option \<Rightarrow> PendingRequirement option \<Rightarrow> gerr option" where
  "validateResolutionForRequirement resolution requirement =
     (case validateResolutionContract resolution of
        Some e \<Rightarrow> Some e
      | None \<Rightarrow>
     (case (resolution, requirement) of
        (Some r, Some q) \<Rightarrow>
          (case validatePendingRequirementContract (Some q) of
             Some e \<Rightarrow> Some e
           | None \<Rightarrow>
               if rs_RequirementID r \<noteq> pr_ID q then
                 Some (Errorf [wraps ErrResolutionInvalid,
                   Lit '': field=resolution.requirement_id reason=mismatch got='',
                   Quo (rs_RequirementID r), Lit '' want='', Quo (pr_ID q)])
               else if rs_Kind r \<noteq> pr_Kind q then
                 Some (Errorf [wraps ErrResolutionInvalid,
                   Lit '': field=resolution.kind reason=mismatch got='',
                   Quo (rs_Kind r), Lit '' want='', Quo (pr_Kind q)])
               else None)
      | _ \<Rightarrow> Some (Errorf [wraps ErrResolutionInvalid,
               Lit '': field=pending_requirement reason=nil''])))"

section \<open>Status transitions\<close>

definition allowedRunStatusTransitions :: "(RunStatus \<times> RunStatus list) list" where
  "allowedRunStatusTransitions =
     [([], [RunStatusPending]),
      (RunStatusPending, [RunStatusRunning, RunStatusCancelled]),
      (RunStatusRunning, [RunStatusSuspended, RunStatusCancelled, RunStatusCompleted,
         RunStatusFailed, RunStatusMaxStepsExceeded]),
      (RunStatusSuspended, [RunStatusRunning, RunStatusCancelled]),
      (RunStatusMaxStepsExceeded, [RunStatusRunning, RunStatusCancelled]),
      (RunStatusCompleted, []),
      (RunStatusFailed, []),
      (RunStatusCancelled, [])]"

definition validateRunStatusTransition :: "RunStatus \<Rightarrow> RunStatus \<Rightarrow> gerr option" where
  "validateRunStatusTransition from to =
     (if from = to then None
      else case map_of allowedRunStatusTransitions from of
        None \<Rightarrow> Some (Errorf [wraps ErrInvalidRunStateTransition,
                  Lit '': unknown source status '', Quo from])
      | Some allowed \<Rightarrow>
          if to \<notin> set allowed
          then Some (Errorf [wraps ErrInvalidRunStateTransition, Lit '': '', Lit from,
                 Lit '' -> '', Lit to])
          else None)"

text \<open>The pointer argument is passed and returned: the error and the state afterwards.\<close>

definition TransitionRunStatus :: "RunState \<Rightarrow> RunStatus \<Rightarrow> gerr option \<times> RunState" where
  "TransitionRunStatus state to =
     (let from = st_Status state in
      case validateRunStatusTransition (st_Status state) to of
        Some e \<Rightarrow> (Some e, state)
      | None \<Rightarrow>
          let state' = state\<lparr>st_Status := to\<rparr> in
          (case validateSuspensionInvariant state' of
             Some e \<Rightarrow> (Some e, state'\<lparr>st_Status := from\<rparr>)
           | None \<Rightarrow> (None, state')))"

section \<open>Run state validation\<close>

definition ValidateRunState :: "RunState \<Rightarrow> gerr option" where
  "ValidateRunState state =
     (if st_ID state = [] then
        errors_Join [Some (Sentinel ErrRunStateInvalid),
          Some (Errorf [wraps ErrInvalidRunID, Lit '': field=id reason=empty''])]
      else if st_Step state < 0 then
        Some (Errorf [wraps ErrRunStateInvalid, Lit '': field=step reason=negative value='',
          Num (st_Step state), Lit '' run_id='', Quo (st_ID state)])
      else if st_Version state < 0 then
        Some (Errorf [wraps ErrRunStateInvalid, Lit '': field=version reason=negative value='',
          Num (st_Version state), Lit '' run_id='', Quo (st_ID state)])
      else if \<not> isKnownRunStatus (st_Status state) then
        Some (Errorf [wraps ErrRunStateInvalid, Lit '': field=status reason=unknown value='',
          Quo (st_Status state), Lit '' run_id='', Quo (st_ID state)])
      else validateSuspensionInvariant state)"

section \<open>What the validations accept\<close>

definition requirement_ok :: "PendingRequirement \<Rightarrow> bool" where
  "requirement_ok r \<longleftrightarrow>
     pr_ID r \<noteq> [] \<and> isKnownRequirementKind (pr_Kind r) \<and> isKnownRequirementOrigin (pr_Origin r) \<and>
     (pr_Origin r = RequirementOriginTool \<longrightarrow> pr_ToolCallID r \<noteq> [] \<and> pr_Fingerprint r \<noteq> [])"

definition suspension_ok :: "RunState \<Rightarrow> bool" where
  "suspension_ok st \<longleftrightarrow>
     (if st_Status st = RunStatusSuspended
      then (case st_PendingRequirement st of None \<Rightarrow> False | Some r \<Rightarrow> requirement_ok r)
      else st_PendingRequirement st = None)"

definition run_state_ok :: "RunState \<Rightarrow> bool" where
  "run_state_ok st \<longleftrightarrow>
     st_ID st \<noteq> [] \<and> 0 \<le> st_Step st \<and> 0 \<le> st_Version st \<and> isKnownRunStatus (st_Status st) \<and>
     suspension_ok st"

text \<open>The outcomes that resolve a requirement of each kind.\<close>

definition outcomes_for :: "RequirementKind \<Rightarrow> ResolutionOutcome list" where
  "outcomes_for k =
     (if k = RequirementKindApproval then [ResolutionOutcomeApproved, ResolutionOutcomeRejected]
      else if k = RequirementKindUserInput then [ResolutionOutcomeProvided]
      else if k = RequirementKindExternalExecution then [ResolutionOutcomeCompleted]
      else [])"

lemma validatePendingRequirementContract_Some [simp]:
  "validatePendingRequirementContract (Some r) = None \<longleftrightarrow> requirement_ok r"
  by (auto simp: validatePendingRequirementContract_def requirement_ok_def)

lemma validatePendingRequirementContract_None [simp]:
  "validatePendingRequirementContract None \<noteq> None"
  by (simp add: validatePendingRequirementContract_def)

lemma validatePendingRequirementContract_err:
  "validatePendingRequirementContract r = Some e \<Longrightarrow> errors_Is e ErrRunStateInvalid"
  by (auto simp: validatePendingRequirementContract_def split: option.splits if_splits)

lemma validateSuspensionInvariant_iff [simp]:
  "validateSuspensionInvariant st = None \<longleftrightarrow> suspension_ok st"
  by (cases "st_PendingRequirement st")
    (auto simp: validateSuspensionInvariant_def suspension_ok_def)

lemma validateSuspensionInvariant_Some:
  "validateSuspensionInvariant st = Some e \<Longrightarrow> \<not> suspension_ok st"
  by (metis option.distinct(1) validateSuspensionInvariant_iff)

lemma validateSuspensionInvariant_err:
  "validateSuspensionInvariant st = Some e \<Longrightarrow> errors_Is e ErrRunStateInvalid"
  by (auto simp: validateSuspensionInvariant_def split: if_splits
      dest: validatePendingRequirementContract_err)

lemma ValidateRunState_None_iff [simp]: "ValidateRunState st = None \<longleftrightarrow> run_state_ok st"
  by (auto simp: ValidateRunState_def run_state_ok_def)

lemma known_kinds [simp]:
  "isKnownRequirementKind RequirementKindApproval" "isKnownRequirementKind RequirementKindUserInput"
  "isKnownRequirementKind RequirementKindExternalExecution"
  "isKnownRequirementOrigin RequirementOriginModel" "isKnownRequirementOrigin RequirementOriginTool"
  by (simp_all add: isKnownRequirementKind_def isKnownRequirementOrigin_def)

lemma known_outcomes [simp]:
  "isKnownResolutionOutcome ResolutionOutcomeApproved"
  "isKnownResolutionOutcome ResolutionOutcomeRejected"
  "isKnownResolutionOutcome ResolutionOutcomeProvided"
  "isKnownResolutionOutcome ResolutionOutcomeCompleted"
  by (simp_all add: isKnownResolutionOutcome_def)

lemma outcomes_for_kinds [simp]:
  "outcomes_for RequirementKindApproval = [ResolutionOutcomeApproved, ResolutionOutcomeRejected]"
  "outcomes_for RequirementKindUserInput = [ResolutionOutcomeProvided]"
  "outcomes_for RequirementKindExternalExecution = [ResolutionOutcomeCompleted]"
  by (simp_all add: outcomes_for_def)

lemma outcomes_for_known:
  "x \<in> set (outcomes_for k) \<Longrightarrow> isKnownRequirementKind k \<and> isKnownResolutionOutcome x"
  by (auto simp: outcomes_for_def isKnownRequirementKind_def isKnownResolutionOutcome_def
      split: if_splits)

lemma validateResolutionContract_iff:
  "validateResolutionContract (Some r) = None \<longleftrightarrow>
     rs_RequirementID r \<noteq> [] \<and> rs_Outcome r \<in> set (outcomes_for (rs_Kind r))"
proof (cases "isKnownRequirementKind (rs_Kind r)")
  case True
  then show ?thesis
    unfolding isKnownRequirementKind_def
    by (elim disjE) (auto simp: validateResolutionContract_def)
next
  case False
  then show ?thesis
    by (auto simp: validateResolutionContract_def dest: outcomes_for_known)
qed

lemma validateResolutionForRequirement_None_iff:
  "validateResolutionForRequirement (Some r) (Some q) = None \<longleftrightarrow>
     requirement_ok q \<and> rs_RequirementID r = pr_ID q \<and> rs_Kind r = pr_Kind q \<and>
     rs_Outcome r \<in> set (outcomes_for (pr_Kind q))"
proof -
  let ?contract = "validateResolutionContract (Some r)"
    and ?requirement = "validatePendingRequirementContract (Some q)"
  have "validateResolutionForRequirement (Some r) (Some q) = None \<longleftrightarrow>
      ?contract = None \<and> ?requirement = None \<and> rs_RequirementID r = pr_ID q \<and>
      rs_Kind r = pr_Kind q"
    by (cases ?contract; cases ?requirement)
      (simp_all add: validateResolutionForRequirement_def
        del: validatePendingRequirementContract_Some)
  then show ?thesis
    by (auto simp: validateResolutionContract_iff requirement_ok_def)
qed

lemma suspension_ok_Version [simp]: "suspension_ok (st\<lparr>st_Version := v\<rparr>) = suspension_ok st"
  by (simp add: suspension_ok_def)

lemma suspension_ok_Clone [simp]: "suspension_ok (CloneRunState st) = suspension_ok st"
  by (simp add: suspension_ok_def)

lemma run_state_ok_Clone [simp]: "run_state_ok (CloneRunState st) = run_state_ok st"
  by (simp add: run_state_ok_def)

lemma suspension_ok_cong:
  "st_Status a = st_Status b \<Longrightarrow> st_PendingRequirement a = st_PendingRequirement b \<Longrightarrow>
   suspension_ok a = suspension_ok b"
  by (simp add: suspension_ok_def)

section \<open>Transitions as a relation\<close>

lemma terminal_simps [simp]:
  "isTerminalRunStatus RunStatusCompleted" "isTerminalRunStatus RunStatusFailed"
  "isTerminalRunStatus RunStatusCancelled" "\<not> isTerminalRunStatus RunStatusRunning"
  "\<not> isTerminalRunStatus RunStatusPending" "\<not> isTerminalRunStatus RunStatusSuspended"
  "\<not> isTerminalRunStatus RunStatusMaxStepsExceeded"
  by (simp_all add: isTerminalRunStatus_def)

lemma known_simps [simp]:
  "isKnownRunStatus RunStatusCompleted" "isKnownRunStatus RunStatusFailed"
  "isKnownRunStatus RunStatusCancelled" "isKnownRunStatus RunStatusRunning"
  "isKnownRunStatus RunStatusPending" "isKnownRunStatus RunStatusSuspended"
  "isKnownRunStatus RunStatusMaxStepsExceeded" "\<not> isKnownRunStatus []"
  by (auto simp: isKnownRunStatus_def status_neqs [symmetric])

lemma terminal_known: "isTerminalRunStatus s \<Longrightarrow> isKnownRunStatus s"
  by (auto simp: isTerminalRunStatus_def)

text \<open>One edge of the status graph, as a relation.\<close>

inductive status_step :: "RunStatus \<Rightarrow> RunStatus \<Rightarrow> bool" where
  create: "status_step [] RunStatusPending"
| start: "status_step RunStatusPending RunStatusRunning"
| cancel_pending: "status_step RunStatusPending RunStatusCancelled"
| suspend: "status_step RunStatusRunning RunStatusSuspended"
| cancel_running: "status_step RunStatusRunning RunStatusCancelled"
| complete: "status_step RunStatusRunning RunStatusCompleted"
| fail: "status_step RunStatusRunning RunStatusFailed"
| exhaust: "status_step RunStatusRunning RunStatusMaxStepsExceeded"
| resume: "status_step RunStatusSuspended RunStatusRunning"
| cancel_suspended: "status_step RunStatusSuspended RunStatusCancelled"
| retry: "status_step RunStatusMaxStepsExceeded RunStatusRunning"
| cancel_exhausted: "status_step RunStatusMaxStepsExceeded RunStatusCancelled"

inductive_cases status_step_from_terminalE:
  "status_step RunStatusCompleted t" "status_step RunStatusFailed t"
  "status_step RunStatusCancelled t"

lemma status_step_known: "status_step s t \<Longrightarrow> isKnownRunStatus t"
  by (induction rule: status_step.induct) simp_all

lemma terminal_empty [simp]: "\<not> isTerminalRunStatus []"
  by (simp add: isTerminalRunStatus_def status_neqs [symmetric])

lemma status_step_not_terminal: "status_step s t \<Longrightarrow> \<not> isTerminalRunStatus s"
  by (induction rule: status_step.induct) simp_all

lemma status_step_neq: "status_step s t \<Longrightarrow> s \<noteq> t"
  by (induction rule: status_step.induct) (simp_all add: status_neqs [symmetric])

lemma allowed_lookup:
  "map_of allowedRunStatusTransitions s = Some ts \<Longrightarrow> t \<in> set ts \<Longrightarrow> status_step s t"
  by (auto simp: allowedRunStatusTransitions_def intro: status_step.intros split: if_splits)

lemma allowed_complete:
  "status_step s t \<Longrightarrow> \<exists>ts. map_of allowedRunStatusTransitions s = Some ts \<and> t \<in> set ts"
  by (induction rule: status_step.induct) (simp_all add: allowedRunStatusTransitions_def)

lemma validateRunStatusTransition_iff:
  "validateRunStatusTransition s t = None \<longleftrightarrow> s = t \<or> status_step s t"
proof (cases "s = t")
  case False
  have "status_step s t \<longleftrightarrow> (\<exists>ts. map_of allowedRunStatusTransitions s = Some ts \<and> t \<in> set ts)"
    by (blast intro: allowed_lookup dest: allowed_complete)
  with False show ?thesis
    by (cases "map_of allowedRunStatusTransitions s")
      (simp_all add: validateRunStatusTransition_def)
qed (simp add: validateRunStatusTransition_def)

lemma validateRunStatusTransition_err:
  "validateRunStatusTransition s t = Some e \<Longrightarrow> errors_Is e ErrInvalidRunStateTransition"
  by (auto simp: validateRunStatusTransition_def split: if_splits option.splits)

section \<open>TransitionRunStatus\<close>

text \<open>A refused transition restores the state, an accepted one only writes the status.\<close>

lemma TransitionRunStatus_state:
  "snd (TransitionRunStatus st to) =
     (if fst (TransitionRunStatus st to) = None then st\<lparr>st_Status := to\<rparr> else st)"
  by (auto simp: TransitionRunStatus_def Let_def split: option.splits)

lemma TransitionRunStatus_ok_iff:
  "fst (TransitionRunStatus st to) = None \<longleftrightarrow>
     (st_Status st = to \<or> status_step (st_Status st) to) \<and> suspension_ok (st\<lparr>st_Status := to\<rparr>)"
  using validateRunStatusTransition_iff [of "st_Status st" to]
  by (auto simp: TransitionRunStatus_def Let_def split: option.splits
      dest: validateSuspensionInvariant_Some)

lemma TransitionRunStatus_eq_None:
  "TransitionRunStatus st to = (None, st') \<longleftrightarrow>
     (st_Status st = to \<or> status_step (st_Status st) to) \<and>
     suspension_ok (st\<lparr>st_Status := to\<rparr>) \<and> st' = st\<lparr>st_Status := to\<rparr>"
  using TransitionRunStatus_ok_iff [of st to] TransitionRunStatus_state [of st to]
  by (cases "TransitionRunStatus st to") auto

lemma TransitionRunStatus_eq_Some:
  "TransitionRunStatus st to = (Some e, st') \<Longrightarrow> st' = st"
  using TransitionRunStatus_state [of st to] by simp

text \<open>Leaving running, with or without a requirement to record.\<close>

lemma Transition_from_running:
  "st_Status st = RunStatusRunning \<Longrightarrow> st_PendingRequirement st = None \<Longrightarrow>
   t \<in> {RunStatusRunning, RunStatusCancelled, RunStatusCompleted, RunStatusFailed,
     RunStatusMaxStepsExceeded} \<Longrightarrow>
   TransitionRunStatus st t = (None, st\<lparr>st_Status := t\<rparr>)"
  unfolding TransitionRunStatus_eq_None
  by (auto simp: suspension_ok_def intro: status_step.intros)

lemma Transition_suspend:
  "st_Status st = RunStatusRunning \<Longrightarrow> st_PendingRequirement st = Some r \<Longrightarrow> requirement_ok r \<Longrightarrow>
   TransitionRunStatus st RunStatusSuspended = (None, st\<lparr>st_Status := RunStatusSuspended\<rparr>)"
  unfolding TransitionRunStatus_eq_None
  by (auto simp: suspension_ok_def intro: status_step.intros)

text \<open>A run of requested transitions, refused ones having no effect.\<close>

primrec transitions :: "RunState \<Rightarrow> RunStatus list \<Rightarrow> RunState" where
  "transitions st [] = st"
| "transitions st (t # ts) = transitions (snd (TransitionRunStatus st t)) ts"

lemma TransitionRunStatus_terminal:
  "isTerminalRunStatus (st_Status st) \<Longrightarrow>
   st_Status (snd (TransitionRunStatus st to)) = st_Status st"
  by (auto simp: TransitionRunStatus_state TransitionRunStatus_ok_iff
      dest: status_step_not_terminal)

lemma TransitionRunStatus_suspension_ok:
  "suspension_ok st \<Longrightarrow> suspension_ok (snd (TransitionRunStatus st to))"
  by (simp add: TransitionRunStatus_state TransitionRunStatus_ok_iff)

lemma TransitionRunStatus_known:
  "st_Status st = [] \<or> isKnownRunStatus (st_Status st) \<Longrightarrow>
   st_Status (snd (TransitionRunStatus st to)) = [] \<or>
   isKnownRunStatus (st_Status (snd (TransitionRunStatus st to)))"
  by (auto simp: TransitionRunStatus_state TransitionRunStatus_ok_iff dest: status_step_known)

lemma TransitionRunStatus_frame:
  "snd (TransitionRunStatus st to) = st\<lparr>st_Status := st_Status (snd (TransitionRunStatus st to))\<rparr>"
  by (simp add: TransitionRunStatus_state)

section \<open>Properties\<close>

text \<open>
  a run state passes the structural validation exactly when its ID is not empty, its
  step and version are not negative, its status is a declared one, and it carries a
  well-formed pending requirement exactly when it is suspended.
\<close>

theorem ValidateRunState_correct: "ValidateRunState st = None \<longleftrightarrow> run_state_ok st"
  by (rule ValidateRunState_None_iff)

text \<open>
  every rejection of the structural validation is recognisable: \<open>errors.Is\<close> finds
  \<open>ErrRunStateInvalid\<close> in it, and \<open>ErrInvalidRunID\<close> as well when the ID is empty.
\<close>

theorem ValidateRunState_errors:
  "ValidateRunState st = Some e \<Longrightarrow>
   errors_Is e ErrRunStateInvalid \<and> (st_ID st = [] \<longrightarrow> errors_Is e ErrInvalidRunID)"
  by (auto simp: ValidateRunState_def errors_Join_def Let_def split: if_splits
      dest: validateSuspensionInvariant_err)

theorem ValidateRunState_errors_witness:
  "\<exists>e. ValidateRunState zeroRunState = Some e \<and> errors_Is e ErrInvalidRunID"
proof -
  obtain e where e: "ValidateRunState zeroRunState = Some e"
    by (simp add: ValidateRunState_def zeroRunState_def errors_Join_def)
  from ValidateRunState_errors [OF e] e show ?thesis by (simp add: zeroRunState_def)
qed

text \<open>
  a resolution is accepted for a requirement exactly when the requirement is well
  formed, both name the same requirement ID and kind, and the outcome is one of those its
  kind allows (approved or rejected for an approval, provided for user input, completed
  for external execution).
\<close>

theorem validateResolutionForRequirement_correct:
  "validateResolutionForRequirement (Some r) (Some q) = None \<longleftrightarrow>
     requirement_ok q \<and> rs_RequirementID r = pr_ID q \<and> rs_Kind r = pr_Kind q \<and>
     rs_Outcome r \<in> set (outcomes_for (pr_Kind q))"
  by (rule validateResolutionForRequirement_None_iff)

text \<open>
  once a run is completed, failed or cancelled, no sequence of requested transitions
  changes its status; and whatever is requested, a state that agrees with its status about
  its pending requirement keeps agreeing, and no field but the status is ever written.
\<close>

theorem transitions_safe:
  "(isTerminalRunStatus (st_Status st) \<longrightarrow> st_Status (transitions st ts) = st_Status st) \<and>
   (suspension_ok st \<longrightarrow> suspension_ok (transitions st ts)) \<and>
   transitions st ts = st\<lparr>st_Status := st_Status (transitions st ts)\<rparr>"
proof (induction ts arbitrary: st)
  case Nil
  then show ?case by simp
next
  case (Cons t ts)
  have "transitions st (t # ts) =
      (snd (TransitionRunStatus st t))\<lparr>st_Status := st_Status (transitions st (t # ts))\<rparr>"
    using Cons.IH [of "snd (TransitionRunStatus st t)"] by simp
  then have "transitions st (t # ts) = st\<lparr>st_Status := st_Status (transitions st (t # ts))\<rparr>"
    by (subst (asm) TransitionRunStatus_frame) simp
  then show ?case
    using Cons.IH [of "snd (TransitionRunStatus st t)"]
    by (simp add: TransitionRunStatus_terminal TransitionRunStatus_suspension_ok)
qed


theorem transitions_safe_witness:
  "st_Status (transitions (zeroRunState\<lparr>st_Status := RunStatusFailed\<rparr>)
     [RunStatusRunning, RunStatusCompleted]) = RunStatusFailed"
  using transitions_safe [of "zeroRunState\<lparr>st_Status := RunStatusFailed\<rparr>"
      "[RunStatusRunning, RunStatusCompleted]"] by simp

end
