(* ===== verification/Go_Context.thy ===== *)
theory Go_Context
  imports Go_Errors
begin

text \<open>
  \<open>context.Context\<close> as the repository uses it: nil or not, the value stored by
  \<open>agent/approved_tool_call_replay_context.go\<close>, and \<open>Err()\<close>.

  Cancellation happens outside the code, so reading \<open>ctx.Err()\<close> is a step of the world:
  \<open>poll :: 'w \<Rightarrow> gerr option \<times> 'w\<close> answers with the error of the caller's context at that
  moment. A context made by \<open>context.WithoutCancel\<close> or \<open>context.Background\<close> is detached:
  its \<open>Err()\<close> is nil.
\<close>

section \<open>Contexts and the replay override they carry\<close>

record ApprovedToolCallReplayOverride =
  ov_ToolCallID :: string
  ov_Fingerprint :: string

definition zeroOverride :: ApprovedToolCallReplayOverride where
  "zeroOverride = \<lparr>ov_ToolCallID = [], ov_Fingerprint = []\<rparr>"

record overrideContextValue =
  cv_override :: ApprovedToolCallReplayOverride
  cv_present :: bool

record go_ctx =
  ctx_detached :: bool
  ctx_value :: "overrideContextValue option"

type_synonym ctx = "go_ctx option"

definition ctx_Background :: go_ctx where
  "ctx_Background = \<lparr>ctx_detached = True, ctx_value = None\<rparr>"

definition ctx_WithoutCancel :: "go_ctx \<Rightarrow> go_ctx" where
  "ctx_WithoutCancel c = c\<lparr>ctx_detached := True\<rparr>"

definition ctx_orBackground :: "ctx \<Rightarrow> go_ctx" where
  "ctx_orBackground c = (case c of None \<Rightarrow> ctx_Background | Some x \<Rightarrow> x)"

definition WithApprovedToolCallReplayOverride ::
  "ctx \<Rightarrow> ApprovedToolCallReplayOverride \<Rightarrow> ctx" where
  "WithApprovedToolCallReplayOverride c payload =
     Some ((ctx_orBackground c)\<lparr>ctx_value := Some \<lparr>cv_override = payload, cv_present = True\<rparr>\<rparr>)"

definition WithoutApprovedToolCallReplayOverride :: "ctx \<Rightarrow> ctx" where
  "WithoutApprovedToolCallReplayOverride c =
     Some ((ctx_orBackground c)\<lparr>ctx_value := Some \<lparr>cv_override = zeroOverride, cv_present = False\<rparr>\<rparr>)"

text \<open>The override, or \<open>None\<close> where the Go function answers \<open>false\<close>.\<close>

definition ApprovedToolCallReplayOverrideFromContext ::
  "ctx \<Rightarrow> ApprovedToolCallReplayOverride option" where
  "ApprovedToolCallReplayOverrideFromContext c =
     (case c of
        None \<Rightarrow> None
      | Some x \<Rightarrow>
          (case ctx_value x of
             None \<Rightarrow> None
           | Some payload \<Rightarrow> if \<not> cv_present payload then None else Some (cv_override payload)))"

lemma override_With [simp]:
  "ApprovedToolCallReplayOverrideFromContext (WithApprovedToolCallReplayOverride c p) = Some p"
  by (simp add: ApprovedToolCallReplayOverrideFromContext_def WithApprovedToolCallReplayOverride_def)

lemma override_Without [simp]:
  "ApprovedToolCallReplayOverrideFromContext (WithoutApprovedToolCallReplayOverride c) = None"
  by (simp add: ApprovedToolCallReplayOverrideFromContext_def
      WithoutApprovedToolCallReplayOverride_def)

lemma override_WithoutCancel [simp]:
  "ApprovedToolCallReplayOverrideFromContext (Some (ctx_WithoutCancel c)) =
   ApprovedToolCallReplayOverrideFromContext (Some c)"
  by (simp add: ApprovedToolCallReplayOverrideFromContext_def ctx_WithoutCancel_def)

lemma Without_not_None [simp]: "WithoutApprovedToolCallReplayOverride c \<noteq> None"
  by (simp add: WithoutApprovedToolCallReplayOverride_def)

section \<open>Reading Err()\<close>

type_synonym 'w poll = "'w \<Rightarrow> gerr option \<times> 'w"

definition ctx_Err :: "'w poll \<Rightarrow> go_ctx \<Rightarrow> 'w \<Rightarrow> gerr option \<times> 'w" where
  "ctx_Err poll c w = (if ctx_detached c then (None, w) else poll w)"

text \<open>
  What a component sees of its context when it tests it once on entry: \<open>None\<close> for a nil
  context, \<open>Some e\<close> for one whose \<open>Err()\<close> is \<open>e\<close>.
\<close>

type_synonym seen_ctx = "gerr option option"

definition see_ctx :: "'w poll \<Rightarrow> ctx \<Rightarrow> 'w \<Rightarrow> seen_ctx \<times> 'w" where
  "see_ctx poll c w =
     (case c of
        None \<Rightarrow> (None, w)
      | Some x \<Rightarrow> let (e, w') = ctx_Err poll x w in (Some e, w'))"

text \<open>The guard all context-taking operations share: nil first, then \<open>Err()\<close>.\<close>

definition ctx_guard :: "seen_ctx \<Rightarrow> gerr option" where
  "ctx_guard s = (case s of None \<Rightarrow> Some (Sentinel ErrContextNil) | Some e \<Rightarrow> e)"

lemma ctx_guard_simps [simp]:
  "ctx_guard None = Some (Sentinel ErrContextNil)" "ctx_guard (Some e) = e"
  by (simp_all add: ctx_guard_def)

end
