(* ===== verification/Engine_Contract.thy ===== *)
theory Engine_Contract
  imports Lifecycle Go_Context
begin

text \<open>
  What the runner demands of an engine (\<open>agent/engine.go\<close> and the output checks of
  \<open>agent/runner.go\<close>): the run keeps its ID, its step does not go back, its transcript is
  only extended, and a suspension is justified by the messages the engine added.
  \<open>reflect.DeepEqual\<close> on message slices is HOL equality, which keeps its distinction
  between a nil and an empty slice.
\<close>

section \<open>Checks on the engine's output\<close>

definition hasMatchingAssistantRequirement :: "Message list \<Rightarrow> PendingRequirement \<Rightarrow> bool" where
  "hasMatchingAssistantRequirement messages requirement =
     list_ex (\<lambda>message. m_Role message = RoleAssistant \<and>
       (case m_Requirement message of
          None \<Rightarrow> False
        | Some current \<Rightarrow>
            pr_ID current = pr_ID requirement \<and> pr_Kind current = pr_Kind requirement \<and>
            pr_Origin current = pr_Origin requirement))
       (rev messages)"

definition hasToolObservationForCallID :: "Message list \<Rightarrow> string \<Rightarrow> bool" where
  "hasToolObservationForCallID messages toolCallID =
     (if toolCallID = [] then False
      else list_ex (\<lambda>m. m_Role m = RoleTool \<and> m_ToolCallID m = toolCallID) messages)"

definition hasAssistantToolCallForCallID :: "Message list \<Rightarrow> string \<Rightarrow> bool" where
  "hasAssistantToolCallForCallID messages toolCallID =
     (if toolCallID = [] then False
      else list_ex (\<lambda>m. m_Role m = RoleAssistant \<and>
             list_ex (\<lambda>tc. tc_ID tc = toolCallID) (elems (m_ToolCalls m))) messages)"

definition provenance_err :: "string \<Rightarrow> frag list \<Rightarrow> RunState \<Rightarrow> PendingRequirement \<Rightarrow> gerr option" where
  "provenance_err reason detail next q =
     Some (Errorf ([wraps ErrEngineOutputContractViolation,
       Lit ('': invariant=suspension_origin_provenance reason='' @ reason @ '' origin=''),
       Lit (pr_Origin q)] @ detail @ [Lit '' run_id='', Quo (st_ID next)]))"

definition validateSuspendedRequirementProvenance :: "RunState \<Rightarrow> RunState \<Rightarrow> gerr option" where
  "validateSuspendedRequirementProvenance prev next =
     (if st_Status next \<noteq> RunStatusSuspended then None
      else case st_PendingRequirement next of
        None \<Rightarrow> None
      | Some q \<Rightarrow>
          let additions = drop (length (elems (st_Messages prev))) (elems (st_Messages next)) in
          if additions = [] then provenance_err ''no_message_evidence'' [] next q
          else if pr_Origin q = RequirementOriginModel then
            (if \<not> hasMatchingAssistantRequirement additions q
             then provenance_err ''missing_assistant_requirement''
               [Lit '' requirement_id='', Quo (pr_ID q)] next q
             else None)
          else if pr_Origin q = RequirementOriginTool then
            (if \<not> hasToolObservationForCallID additions (pr_ToolCallID q)
             then provenance_err ''missing_linked_tool_observation''
               [Lit '' requirement_id='', Quo (pr_ID q), Lit '' tool_call_id='',
                Quo (pr_ToolCallID q)] next q
             else if \<not> hasAssistantToolCallForCallID (elems (st_Messages next)) (pr_ToolCallID q)
             then provenance_err ''missing_assistant_tool_call''
               [Lit '' requirement_id='', Quo (pr_ID q), Lit '' tool_call_id='',
                Quo (pr_ToolCallID q)] next q
             else None)
          else Some (Errorf [wraps ErrEngineOutputContractViolation,
            Lit '': invariant=suspension_origin_provenance reason=unknown_origin origin='',
            Quo (pr_Origin q), Lit '' run_id='', Quo (st_ID next)]))"

definition validateEngineOutput :: "RunState \<Rightarrow> RunState \<Rightarrow> gerr option" where
  "validateEngineOutput prev next =
     (let n = length (elems (st_Messages prev)) in
      if st_ID next \<noteq> st_ID prev then
        Some (Errorf [wraps ErrEngineOutputContractViolation, Lit '': invariant=run_id input='',
          Quo (st_ID prev), Lit '' output='', Quo (st_ID next)])
      else if st_Step next < st_Step prev then
        Some (Errorf [wraps ErrEngineOutputContractViolation, Lit '': invariant=step input='',
          Num (st_Step prev), Lit '' output='', Num (st_Step next), Lit '' run_id='',
          Quo (st_ID prev)])
      else if length (elems (st_Messages next)) < n then
        Some (Errorf [wraps ErrEngineOutputContractViolation,
          Lit '': invariant=messages_length input='', Num (int n), Lit '' output='',
          Num (int (length (elems (st_Messages next)))), Lit '' run_id='', Quo (st_ID prev)])
      else if slice_take n (st_Messages next) \<noteq> st_Messages prev then
        Some (Errorf [wraps ErrEngineOutputContractViolation,
          Lit '': invariant=messages_prefix run_id='', Quo (st_ID prev)])
      else validateSuspendedRequirementProvenance prev next)"

section \<open>The contract, stated directly\<close>

text \<open>A requirement is evidenced by the messages added to the transcript.\<close>

definition evidenced :: "Message list \<Rightarrow> Message list \<Rightarrow> PendingRequirement \<Rightarrow> bool" where
  "evidenced additions transcript q \<longleftrightarrow>
     (pr_Origin q = RequirementOriginModel \<and>
       (\<exists>m \<in> set additions. m_Role m = RoleAssistant \<and>
          (case m_Requirement m of None \<Rightarrow> False | Some r \<Rightarrow>
             pr_ID r = pr_ID q \<and> pr_Kind r = pr_Kind q \<and> pr_Origin r = pr_Origin q))) \<or>
     (pr_Origin q = RequirementOriginTool \<and> pr_ToolCallID q \<noteq> [] \<and>
       (\<exists>m \<in> set additions. m_Role m = RoleTool \<and> m_ToolCallID m = pr_ToolCallID q) \<and>
       (\<exists>m \<in> set transcript. m_Role m = RoleAssistant \<and>
          (\<exists>tc \<in> set (elems (m_ToolCalls m)). tc_ID tc = pr_ToolCallID q)))"

text \<open>
  The transcript \<open>next\<close> extends \<open>prev\<close>; for a nil \<open>prev\<close> the check accepts only a nil
  \<open>next\<close>.
\<close>

definition transcript_extends :: "Message slice \<Rightarrow> Message slice \<Rightarrow> bool" where
  "transcript_extends prev next \<longleftrightarrow>
     (case prev of
        None \<Rightarrow> next = None
      | Some xs \<Rightarrow> (\<exists>ys. next = Some (xs @ ys)))"

definition engine_output_ok :: "RunState \<Rightarrow> RunState \<Rightarrow> bool" where
  "engine_output_ok prev next \<longleftrightarrow>
     st_ID next = st_ID prev \<and> st_Step prev \<le> st_Step next \<and>
     transcript_extends (st_Messages prev) (st_Messages next) \<and>
     (st_Status next = RunStatusSuspended \<longrightarrow>
       (case st_PendingRequirement next of
          None \<Rightarrow> True
        | Some q \<Rightarrow> evidenced (drop (length (elems (st_Messages prev))) (elems (st_Messages next)))
            (elems (st_Messages next)) q))"

lemma hasMatching_iff:
  "hasMatchingAssistantRequirement ms q \<longleftrightarrow>
     (\<exists>m \<in> set ms. m_Role m = RoleAssistant \<and>
        (case m_Requirement m of None \<Rightarrow> False | Some r \<Rightarrow>
           pr_ID r = pr_ID q \<and> pr_Kind r = pr_Kind q \<and> pr_Origin r = pr_Origin q))"
  by (simp add: hasMatchingAssistantRequirement_def list_ex_iff)

lemma hasToolObservation_iff:
  "hasToolObservationForCallID ms i \<longleftrightarrow>
     i \<noteq> [] \<and> (\<exists>m \<in> set ms. m_Role m = RoleTool \<and> m_ToolCallID m = i)"
  by (simp add: hasToolObservationForCallID_def list_ex_iff)

lemma hasAssistantToolCall_iff:
  "hasAssistantToolCallForCallID ms i \<longleftrightarrow>
     i \<noteq> [] \<and> (\<exists>m \<in> set ms. m_Role m = RoleAssistant \<and>
       (\<exists>tc \<in> set (elems (m_ToolCalls m)). tc_ID tc = i))"
  by (simp add: hasAssistantToolCallForCallID_def list_ex_iff)

lemma provenance_err_None [simp]: "provenance_err r d next q \<noteq> None"
  by (simp add: provenance_err_def)

lemma provenance_iff:
  "validateSuspendedRequirementProvenance prev next = None \<longleftrightarrow>
     (st_Status next = RunStatusSuspended \<longrightarrow>
       (case st_PendingRequirement next of
          None \<Rightarrow> True
        | Some q \<Rightarrow> evidenced (drop (length (elems (st_Messages prev))) (elems (st_Messages next)))
            (elems (st_Messages next)) q))"
  by (cases "drop (length (elems (st_Messages prev))) (elems (st_Messages next)) = []")
    (auto simp: validateSuspendedRequirementProvenance_def Let_def evidenced_def hasMatching_iff
      hasToolObservation_iff hasAssistantToolCall_iff provenance_err_def
      split: option.splits if_splits)

lemma slice_take_eq_iff:
  "length (elems prev) \<le> length (elems next) \<and> slice_take (length (elems prev)) next = prev \<longleftrightarrow>
   transcript_extends prev next"
proof (cases prev)
  case None
  then show ?thesis by (cases "next") (simp_all add: transcript_extends_def)
next
  case (Some xs)
  have "length xs \<le> length zs \<and> take (length xs) zs = xs \<longleftrightarrow> (\<exists>ys. zs = xs @ ys)" for zs
    by (metis append_eq_conv_conj length_append linorder_not_less not_add_less1)
  with Some show ?thesis
    by (cases "next") (simp_all add: transcript_extends_def)
qed

lemma transcript_extends_Some [simp]:
  "transcript_extends (Some xs) ms \<longleftrightarrow> (\<exists>ys. ms = Some (xs @ ys))"
  by (simp add: transcript_extends_def)

lemma validateEngineOutput_None_iff [simp]:
  "validateEngineOutput prev next = None \<longleftrightarrow> engine_output_ok prev next"
  unfolding engine_output_ok_def slice_take_eq_iff [symmetric] provenance_iff [symmetric]
  by (auto simp: validateEngineOutput_def Let_def)

lemma validateEngineOutput_err:
  "validateEngineOutput prev next = Some e \<Longrightarrow> errors_Is e ErrEngineOutputContractViolation"
  by (auto simp: validateEngineOutput_def validateSuspendedRequirementProvenance_def Let_def
      provenance_err_def split: if_splits option.splits)

section \<open>Properties\<close>

text \<open>
  C36: the runner accepts an engine's output exactly when four conditions hold. The run ID is
  kept. The step does not decrease. A transcript that is not nil is the old one with messages
  appended, possibly none, while a nil transcript is still nil, so that nothing can be
  appended to it. And when the output is suspended with a requirement, the requirement is
  evidenced: for one of the model's, an appended assistant message carries the ID, kind and
  origin of the requirement; for one of a tool's, which names a tool call, an appended tool
  message observes this call and an assistant message of the transcript made it. Every
  rejection is recognisable as \<open>ErrEngineOutputContractViolation\<close>.
\<close>

theorem validateEngineOutput_correct:
  "case validateEngineOutput prev next of
     None \<Rightarrow> engine_output_ok prev next
   | Some e \<Rightarrow> \<not> engine_output_ok prev next \<and> errors_Is e ErrEngineOutputContractViolation"
proof (cases "validateEngineOutput prev next")
  case None
  then have "engine_output_ok prev next" by simp
  then show ?thesis unfolding None by simp
next
  case (Some e)
  then have "\<not> engine_output_ok prev next"
    using validateEngineOutput_None_iff [of prev "next"] by simp
  with Some show ?thesis by (simp add: validateEngineOutput_err)
qed

text \<open>
  a run whose transcript is a nil slice can never be extended: whatever the engine
  appends to it, the output is rejected, because \<open>reflect.DeepEqual\<close> does not identify the
  empty prefix of a non-nil slice with the nil slice. A run started without prompts is in
  this state.
\<close>

theorem nil_transcript_rejected:
  "st_Messages prev = None \<Longrightarrow> elems (st_Messages next) \<noteq> [] \<Longrightarrow>
   is_err (validateEngineOutput prev next) ErrEngineOutputContractViolation"
proof -
  assume "st_Messages prev = None" "elems (st_Messages next) \<noteq> []"
  then have "\<not> engine_output_ok prev next"
    by (auto simp: engine_output_ok_def transcript_extends_def)
  then obtain e where "validateEngineOutput prev next = Some e"
    by (cases "validateEngineOutput prev next") auto
  then show ?thesis by (simp add: validateEngineOutput_err)
qed


theorem nil_transcript_rejected_witness:
  "is_err (validateEngineOutput zeroRunState (zeroRunState\<lparr>st_Messages := Some [zeroMessage]\<rparr>))
     ErrEngineOutputContractViolation"
  by (rule nil_transcript_rejected) (simp_all add: zeroRunState_def)

end
