(* ===== verification/Events.thy ===== *)
theory Events
  imports Go_Context
begin

text \<open>
  \<open>agent/event.go\<close> and \<open>agent/event_validation.go\<close>: the event types, the payload rules
  checked before every publication, and \<open>publishEvent\<close> (the same function in
  \<open>agent/runner.go\<close> and \<open>agentreact/react_loop.go\<close>).
\<close>

section \<open>Event types\<close>

definition EventTypeCommandApplied :: EventType where
  "EventTypeCommandApplied = ''command_applied''"
definition EventTypeRunStarted :: EventType where "EventTypeRunStarted = ''run_started''"
definition EventTypeAssistantMessage :: EventType where
  "EventTypeAssistantMessage = ''assistant_message''"
definition EventTypeToolResult :: EventType where "EventTypeToolResult = ''tool_result''"
definition EventTypeRunCompleted :: EventType where "EventTypeRunCompleted = ''run_completed''"
definition EventTypeRunFailed :: EventType where "EventTypeRunFailed = ''run_failed''"
definition EventTypeRunSuspended :: EventType where "EventTypeRunSuspended = ''run_suspended''"
definition EventTypeRunCancelled :: EventType where "EventTypeRunCancelled = ''run_cancelled''"
definition EventTypeRunCheckpoint :: EventType where "EventTypeRunCheckpoint = ''run_checkpoint''"

lemmas event_type_defs = EventTypeCommandApplied_def EventTypeRunStarted_def
  EventTypeAssistantMessage_def EventTypeToolResult_def EventTypeRunCompleted_def
  EventTypeRunFailed_def EventTypeRunSuspended_def EventTypeRunCancelled_def
  EventTypeRunCheckpoint_def

text \<open>The types of the events that carry nothing but a description.\<close>

definition lifecycleEventTypes :: "EventType list" where
  "lifecycleEventTypes = [EventTypeRunStarted, EventTypeRunCompleted, EventTypeRunFailed,
     EventTypeRunSuspended, EventTypeRunCancelled, EventTypeRunCheckpoint]"

definition isKnownEventType :: "EventType \<Rightarrow> bool" where
  "isKnownEventType t \<longleftrightarrow>
     t \<in> set [EventTypeCommandApplied, EventTypeRunStarted, EventTypeAssistantMessage,
       EventTypeToolResult, EventTypeRunCompleted, EventTypeRunFailed, EventTypeRunSuspended,
       EventTypeRunCancelled, EventTypeRunCheckpoint]"

lemma event_types_distinct [simp]:
  "EventTypeCommandApplied \<noteq> EventTypeAssistantMessage"
  "EventTypeAssistantMessage \<noteq> EventTypeCommandApplied"
  "EventTypeCommandApplied \<noteq> EventTypeToolResult" "EventTypeToolResult \<noteq> EventTypeCommandApplied"
  "EventTypeAssistantMessage \<noteq> EventTypeToolResult"
  "EventTypeToolResult \<noteq> EventTypeAssistantMessage"
  "EventTypeCommandApplied \<notin> set lifecycleEventTypes"
  "EventTypeAssistantMessage \<notin> set lifecycleEventTypes"
  "EventTypeToolResult \<notin> set lifecycleEventTypes"
  by (simp_all add: lifecycleEventTypes_def event_type_defs)

lemma lifecycle_types [simp]:
  "EventTypeRunStarted \<in> set lifecycleEventTypes" "EventTypeRunCompleted \<in> set lifecycleEventTypes"
  "EventTypeRunFailed \<in> set lifecycleEventTypes" "EventTypeRunSuspended \<in> set lifecycleEventTypes"
  "EventTypeRunCancelled \<in> set lifecycleEventTypes"
  "EventTypeRunCheckpoint \<in> set lifecycleEventTypes"
  by (simp_all add: lifecycleEventTypes_def)

lemma isKnownEventType_iff:
  "isKnownEventType t \<longleftrightarrow>
     t = EventTypeCommandApplied \<or> t = EventTypeAssistantMessage \<or> t = EventTypeToolResult \<or>
     t \<in> set lifecycleEventTypes"
  by (auto simp: isKnownEventType_def lifecycleEventTypes_def)

lemma event_type_nonempty [simp]: "\<not> isKnownEventType []"
  by (simp add: isKnownEventType_def event_type_defs)

text \<open>\<open>agent.Event{RunID: ..., Step: ..., Type: ..., Description: ...}\<close>\<close>

definition run_event :: "RunID \<Rightarrow> int \<Rightarrow> EventType \<Rightarrow> string \<Rightarrow> Event" where
  "run_event runID step type description =
     zeroEvent\<lparr>ev_RunID := runID, ev_Step := step, ev_Type := type, ev_Description := description\<rparr>"

section \<open>ValidateEvent\<close>

text \<open>
  The checks of a case run in order and the first failing one is the result:
  \<open>first_some\<close> over the list of the checks.
\<close>

definition event_err :: "string \<Rightarrow> frag list \<Rightarrow> Event \<Rightarrow> gerr" where
  "event_err reason value e =
     Errorf (wraps ErrEventInvalid # Lit ('': field='' @ reason) # value @
       [Lit '' type='', Lit (ev_Type e), Lit '' run_id='', Quo (ev_RunID e),
        Lit '' step='', Num (ev_Step e)])"

definition check :: "bool \<Rightarrow> gerr \<Rightarrow> gerr option" where
  "check bad err = (if bad then Some err else None)"

definition commandKind_forbidden :: "Event \<Rightarrow> gerr option" where
  "commandKind_forbidden e = check (ev_CommandKind e \<noteq> [])
     (event_err ''command_kind reason=forbidden value='' [Quo (ev_CommandKind e)] e)"

definition message_forbidden :: "Event \<Rightarrow> gerr option" where
  "message_forbidden e = check (ev_Message e \<noteq> None) (event_err ''message reason=forbidden'' [] e)"

definition toolResult_forbidden :: "Event \<Rightarrow> gerr option" where
  "toolResult_forbidden e =
     check (ev_ToolResult e \<noteq> None) (event_err ''tool_result reason=forbidden'' [] e)"

definition toolResult_required :: "Event \<Rightarrow> gerr option" where
  "toolResult_required e =
     (case ev_ToolResult e of
        None \<Rightarrow> Some (event_err ''tool_result reason=nil'' [] e)
      | Some r \<Rightarrow> first_some
          [check (tr_CallID r = []) (event_err ''tool_result.call_id reason=empty'' [] e),
           check (tr_Name r = []) (event_err ''tool_result.name reason=empty'' [] e)])"

definition ValidateEvent :: "Event \<Rightarrow> gerr option" where
  "ValidateEvent e =
     (if ev_Type e = [] then
        Some (Errorf [wraps ErrEventInvalid, Lit '': field=type reason=empty''])
      else if ev_RunID e = [] then
        Some (Errorf [wraps ErrEventInvalid, Lit '': field=run_id reason=empty type='',
          Lit (ev_Type e)])
      else if ev_Step e < 0 then
        Some (Errorf [wraps ErrEventInvalid, Lit '': field=step reason=negative value='',
          Num (ev_Step e), Lit '' type='', Lit (ev_Type e), Lit '' run_id='', Quo (ev_RunID e)])
      else if \<not> isKnownEventType (ev_Type e) then
        Some (Errorf [wraps ErrEventInvalid, Lit '': field=type reason=unknown value='',
          Quo (ev_Type e), Lit '' run_id='', Quo (ev_RunID e), Lit '' step='', Num (ev_Step e)])
      else if ev_Type e = EventTypeCommandApplied then first_some
        [check (ev_CommandKind e = []) (event_err ''command_kind reason=empty'' [] e),
         message_forbidden e, toolResult_forbidden e]
      else if ev_Type e = EventTypeAssistantMessage then first_some
        [check (ev_Message e = None) (event_err ''message reason=nil'' [] e),
         commandKind_forbidden e, toolResult_forbidden e]
      else if ev_Type e = EventTypeToolResult then first_some
        [commandKind_forbidden e, message_forbidden e, toolResult_required e]
      else if ev_Type e \<in> set lifecycleEventTypes then first_some
        [commandKind_forbidden e, message_forbidden e, toolResult_forbidden e]
      else None)"

section \<open>What ValidateEvent accepts\<close>

definition payload_ok :: "Event \<Rightarrow> bool" where
  "payload_ok e \<longleftrightarrow>
     (if ev_Type e = EventTypeCommandApplied
      then ev_CommandKind e \<noteq> [] \<and> ev_Message e = None \<and> ev_ToolResult e = None
      else if ev_Type e = EventTypeAssistantMessage
      then ev_CommandKind e = [] \<and> ev_Message e \<noteq> None \<and> ev_ToolResult e = None
      else if ev_Type e = EventTypeToolResult
      then ev_CommandKind e = [] \<and> ev_Message e = None \<and>
        (case ev_ToolResult e of None \<Rightarrow> False | Some r \<Rightarrow> tr_CallID r \<noteq> [] \<and> tr_Name r \<noteq> [])
      else ev_Type e \<in> set lifecycleEventTypes \<and>
        ev_CommandKind e = [] \<and> ev_Message e = None \<and> ev_ToolResult e = None)"

definition event_ok :: "Event \<Rightarrow> bool" where
  "event_ok e \<longleftrightarrow> ev_RunID e \<noteq> [] \<and> 0 \<le> ev_Step e \<and> payload_ok e"

lemma first_some_None_iff [simp]: "first_some xs = None \<longleftrightarrow> (\<forall>x \<in> set xs. x = None)"
  by (induction xs) (auto split: option.splits)

lemma pred_option_first_some:
  "list_all (pred_option P) xs \<Longrightarrow> pred_option P (first_some xs)"
  by (induction xs) (auto split: option.splits)

declare first_some.simps(2) [simp del]

lemma check_None [simp]: "check b e = None \<longleftrightarrow> \<not> b"
  by (simp add: check_def)

lemma check_Some [simp]: "check b e = Some x \<longleftrightarrow> b \<and> x = e"
  by (auto simp: check_def)

lemma field_checks_None [simp]:
  "commandKind_forbidden e = None \<longleftrightarrow> ev_CommandKind e = []"
  "message_forbidden e = None \<longleftrightarrow> ev_Message e = None"
  "toolResult_forbidden e = None \<longleftrightarrow> ev_ToolResult e = None"
  "toolResult_required e = None \<longleftrightarrow>
     (case ev_ToolResult e of None \<Rightarrow> False | Some r \<Rightarrow> tr_CallID r \<noteq> [] \<and> tr_Name r \<noteq> [])"
  by (auto simp: commandKind_forbidden_def message_forbidden_def toolResult_forbidden_def
      toolResult_required_def split: option.splits)

abbreviation invalid_event :: "gerr option \<Rightarrow> bool" where
  "invalid_event r \<equiv> pred_option (\<lambda>x. errors_Is x ErrEventInvalid) r"

lemma invalid_event_checks [simp]:
  "invalid_event (check b (event_err f v e))"
  "invalid_event (commandKind_forbidden e)" "invalid_event (message_forbidden e)"
  "invalid_event (toolResult_forbidden e)" "invalid_event (toolResult_required e)"
  by (auto simp: commandKind_forbidden_def message_forbidden_def toolResult_forbidden_def
      toolResult_required_def check_def event_err_def split: option.splits
      intro!: pred_option_first_some)

lemma payload_known: "payload_ok e \<Longrightarrow> isKnownEventType (ev_Type e)"
  by (auto simp: payload_ok_def isKnownEventType_iff split: if_splits)

lemma ValidateEvent_None_iff [simp]: "ValidateEvent e = None \<longleftrightarrow> event_ok e"
proof (cases "isKnownEventType (ev_Type e)")
  case False
  then show ?thesis
    by (auto simp: ValidateEvent_def event_ok_def dest: payload_known)
next
  case True
  then have "ev_Type e \<noteq> []" by auto
  with True show ?thesis
    by (auto simp: ValidateEvent_def event_ok_def payload_ok_def isKnownEventType_iff)
qed

lemma event_ok_run_event [simp]:
  "event_ok (run_event i n t d) \<longleftrightarrow> i \<noteq> [] \<and> 0 \<le> n \<and> t \<in> set lifecycleEventTypes"
  by (auto simp: event_ok_def payload_ok_def run_event_def zeroEvent_def)

lemma ValidateEvent_invalid: "invalid_event (ValidateEvent e)"
  by (auto simp: ValidateEvent_def intro!: pred_option_first_some)

lemma ValidateEvent_Some: "ValidateEvent e = Some x \<Longrightarrow> errors_Is x ErrEventInvalid"
  using ValidateEvent_invalid [of e] by simp

section \<open>publishEvent\<close>

type_synonym 'w publish = "ctx \<Rightarrow> Event \<Rightarrow> 'w \<Rightarrow> gerr option \<times> 'w"

definition publish_failed :: "Event \<Rightarrow> gerr \<Rightarrow> gerr option" where
  "publish_failed e err =
     errors_Join [Some (Sentinel ErrEventPublish),
       Some (Errorf [Lit ''type='', Lit (ev_Type e), Lit '' run_id='', Lit (ev_RunID e),
         Lit '' step='', Num (ev_Step e), Lit '': '', Wrap err])]"

definition publishEvent :: "'w publish \<Rightarrow> ctx \<Rightarrow> Event \<Rightarrow> 'w \<Rightarrow> gerr option \<times> 'w" where
  "publishEvent publish c e w =
     (case ValidateEvent e of
        Some err \<Rightarrow> (Some err, w)
      | None \<Rightarrow>
          (case publish c e w of
             (Some err, w') \<Rightarrow> (publish_failed e err, w')
           | (None, w') \<Rightarrow> (None, w')))"

lemma publish_failed_Is [simp]:
  "is_err (publish_failed e err) t \<longleftrightarrow> t = ErrEventPublish \<or> errors_Is err t"
  by (auto simp: publish_failed_def)

lemma publish_failed_not_None [simp]:
  "publish_failed e err \<noteq> None" "\<exists>y. publish_failed e err = Some y"
  by (simp_all add: publish_failed_def errors_Join_def)

text \<open>An invalid event never reaches the sink; a valid one reaches it once.\<close>

lemma publishEvent_invalid: "\<not> event_ok e \<Longrightarrow> snd (publishEvent publish c e w) = w"
  by (cases "ValidateEvent e") (auto simp: publishEvent_def)

lemma publishEvent_valid:
  "event_ok e \<Longrightarrow> publishEvent publish c e w =
     (let (r, w') = publish c e w
      in (case r of None \<Rightarrow> None | Some err \<Rightarrow> publish_failed e err, w'))"
  by (auto simp: publishEvent_def ValidateEvent_None_iff [THEN iffD2]
      split: prod.splits option.splits)

section \<open>Properties\<close>

text \<open>
  an event passes validation exactly when its run ID is not empty, its step is not
  negative, its type is a declared one and its payload is the one its type prescribes:
  a command kind for command_applied, a message for assistant_message, a tool result with
  call ID and name for tool_result, and none of the three for the lifecycle types.
\<close>

theorem ValidateEvent_correct: "ValidateEvent e = None \<longleftrightarrow> event_ok e"
  by (rule ValidateEvent_None_iff)

text \<open>
  publishing an event either reports \<open>ErrEventInvalid\<close> without touching the sink (the
  event breaks the payload rules), or hands exactly this event to the sink and reports the
  sink's failure, if any, wrapped so that both \<open>ErrEventPublish\<close> and the cause are found.
\<close>

theorem publishEvent_correct:
  "publishEvent publish c e w = (r, w') \<Longrightarrow>
   (if event_ok e
    then w' = snd (publish c e w) \<and>
      (\<forall>t. is_err r t \<longleftrightarrow> fst (publish c e w) \<noteq> None \<and>
         (t = ErrEventPublish \<or> is_err (fst (publish c e w)) t)) \<and>
      (r = None \<longleftrightarrow> fst (publish c e w) = None)
    else w' = w \<and> is_err r ErrEventInvalid)"
proof -
  assume p: "publishEvent publish c e w = (r, w')"
  show ?thesis
  proof (cases "event_ok e")
    case True
    with p show ?thesis
      by (cases "publish c e w") (auto simp: publishEvent_valid split: option.splits)
  next
    case False
    then obtain x where x: "ValidateEvent e = Some x"
      by (cases "ValidateEvent e") auto
    then have "errors_Is x ErrEventInvalid" by (rule ValidateEvent_Some)
    moreover from p x have "r = Some x" "w' = w" by (auto simp: publishEvent_def)
    ultimately show ?thesis by (simp add: False)
  qed
qed


theorem publishEvent_correct_witness:
  "is_err (fst (publishEvent (\<lambda>c e w. (Some (Sentinel ContextCanceled), w + 1)) (Some ctx_Background)
     (run_event ''r'' 0 EventTypeRunStarted []) (0 :: nat))) ErrEventPublish"
proof -
  let ?p = "\<lambda>c e w. (Some (Sentinel ContextCanceled), w + 1) :: gerr option \<times> nat"
  obtain r w' where p: "publishEvent ?p (Some ctx_Background)
      (run_event ''r'' 0 EventTypeRunStarted []) 0 = (r, w')" by fastforce
  from publishEvent_correct [OF p] p show ?thesis by simp
qed

end
