(* ===== verification/Run_Store.thy ===== *)
theory Run_Store
  imports Lifecycle Go_Context
begin

text \<open>
  The run store: the contract of \<open>agent.RunStore\<close> (\<open>agent/interfaces.go\<close>) as a locale, and
  the in-memory implementation \<open>runstore/inmem/store.go\<close> as its interpretation. A save is
  accepted only from the version the store holds, so the accepted saves of a run form one
  chain of versions.
\<close>

section \<open>The in-memory store\<close>

type_synonym store = "RunID \<Rightarrow> RunState option"

definition store_New :: store where
  "store_New = Map.empty"

definition store_Save :: "seen_ctx \<Rightarrow> RunState \<Rightarrow> store \<Rightarrow> gerr option \<times> store" where
  "store_Save c state s =
     (case ctx_guard c of
        Some e \<Rightarrow> (Some e, s)
      | None \<Rightarrow>
     (case ValidateRunState state of
        Some e \<Rightarrow> (Some e, s)
      | None \<Rightarrow>
     (case s (st_ID state) of
        None \<Rightarrow>
          if st_Version state \<noteq> 0 then
            (Some (Errorf [wraps ErrRunVersionConflict, Lit '': run '', Quo (st_ID state),
               Lit '' expected version 0 on create, got '', Num (st_Version state)]), s)
          else (None, s(st_ID state \<mapsto> (CloneRunState state)\<lparr>st_Version := 1\<rparr>))
      | Some current \<Rightarrow>
          if st_Version state \<noteq> st_Version current then
            (Some (Errorf [wraps ErrRunVersionConflict, Lit '': run '', Quo (st_ID state),
               Lit '' expected version '', Num (st_Version current), Lit '', got '',
               Num (st_Version state)]), s)
          else (None, s(st_ID state \<mapsto>
            (CloneRunState state)\<lparr>st_Version := wrap64 (st_Version current + 1)\<rparr>)))))"

definition store_Load :: "seen_ctx \<Rightarrow> RunID \<Rightarrow> store \<Rightarrow> gerr + RunState" where
  "store_Load c runID s =
     (case ctx_guard c of
        Some e \<Rightarrow> Inl e
      | None \<Rightarrow>
          if runID = [] then Inl (Errorf [wraps ErrInvalidRunID, Lit '': load with empty id''])
          else (case s runID of
                  None \<Rightarrow> Inl (Sentinel ErrRunNotFound)
                | Some state \<Rightarrow> Inr (CloneRunState state)))"

section \<open>The contract of a run store\<close>

text \<open>The version a save has to carry: 0 to create a run, the stored one to replace it.\<close>

definition expected_version :: "RunState option \<Rightarrow> int" where
  "expected_version r = (case r of None \<Rightarrow> 0 | Some st \<Rightarrow> st_Version st)"

definition saved_state :: "RunState \<Rightarrow> RunState" where
  "saved_state st = (CloneRunState st)\<lparr>st_Version := wrap64 (st_Version st + 1)\<rparr>"

lemma saved_state_fields [simp]:
  "st_ID (saved_state st) = st_ID st" "st_Step (saved_state st) = st_Step st"
  "st_Status (saved_state st) = st_Status st"
  "st_PendingRequirement (saved_state st) = st_PendingRequirement st"
  "st_Version (saved_state st) = wrap64 (st_Version st + 1)"
  "st_Messages (saved_state st) = CloneMessages (st_Messages st)"
  "st_Output (saved_state st) = st_Output st" "st_Error (saved_state st) = st_Error st"
  by (simp_all add: saved_state_def)

lemma expected_version_simps [simp]:
  "expected_version None = 0" "expected_version (Some st) = st_Version st"
  by (simp_all add: expected_version_def)

text \<open>
  A store with contents \<open>view\<close>: a refused save changes nothing, an accepted one was valid
  and carried the expected version and stores the copy with the next version, a load
  answers with a copy of what is stored.
\<close>

locale run_store =
  fixes save :: "seen_ctx \<Rightarrow> RunState \<Rightarrow> 's \<Rightarrow> gerr option \<times> 's"
    and load :: "seen_ctx \<Rightarrow> RunID \<Rightarrow> 's \<Rightarrow> gerr + RunState"
    and view :: "'s \<Rightarrow> RunID \<Rightarrow> RunState option"
  assumes save_refused: "save c st s = (Some e, s') \<Longrightarrow> s' = s"
    and save_accepted: "save c st s = (None, s') \<Longrightarrow>
      run_state_ok st \<and> st_Version st = expected_version (view s (st_ID st)) \<and>
      view s' = (view s)(st_ID st \<mapsto> saved_state st)"
    and load_found: "load c i s = Inr st \<Longrightarrow> \<exists>st0. view s i = Some st0 \<and> st = CloneRunState st0"

text \<open>A store without failures of its own: what is well formed and current is accepted.\<close>

locale reliable_run_store = run_store +
  assumes save_accepts: "ctx_guard c = None \<Longrightarrow> run_state_ok st \<Longrightarrow>
      st_Version st = expected_version (view s (st_ID st)) \<Longrightarrow> fst (save c st s) = None"
    and save_conflict: "ctx_guard c = None \<Longrightarrow> run_state_ok st \<Longrightarrow>
      st_Version st \<noteq> expected_version (view s (st_ID st)) \<Longrightarrow>
      is_err (fst (save c st s)) ErrRunVersionConflict"
    and load_stored: "ctx_guard c = None \<Longrightarrow> i \<noteq> [] \<Longrightarrow> view s i = Some st \<Longrightarrow>
      load c i s = Inr (CloneRunState st)"
    and load_missing: "ctx_guard c = None \<Longrightarrow> i \<noteq> [] \<Longrightarrow> view s i = None \<Longrightarrow>
      load c i s = Inl (Sentinel ErrRunNotFound)"

text \<open>Saves tried one after the other; the log holds run ID and version of the accepted ones.\<close>

primrec save_all ::
  "(seen_ctx \<Rightarrow> RunState \<Rightarrow> 's \<Rightarrow> gerr option \<times> 's) \<Rightarrow> (seen_ctx \<times> RunState) list \<Rightarrow> 's \<Rightarrow>
     (RunID \<times> int) list \<times> 's" where
  "save_all save [] s = ([], s)"
| "save_all save (op # ops) s =
     (case save (fst op) (snd op) s of
        (Some e, s') \<Rightarrow> save_all save ops s'
      | (None, s') \<Rightarrow>
          let (acc, s'') = save_all save ops s'
          in ((st_ID (snd op), st_Version (snd op)) # acc, s''))"

definition versions_of :: "RunID \<Rightarrow> (RunID \<times> int) list \<Rightarrow> int list" where
  "versions_of i acc = map snd (filter (\<lambda>p. fst p = i) acc)"

lemma versions_of_simps [simp]:
  "versions_of i [] = []"
  "versions_of i ((j, v) # acc) = (if j = i then v # versions_of i acc else versions_of i acc)"
  by (simp_all add: versions_of_def)

context run_store begin

lemma save_other: "save c st s = (r, s') \<Longrightarrow> i \<noteq> st_ID st \<Longrightarrow> view s' i = view s i"
  by (cases r) (auto dest: save_refused save_accepted)

lemma stored_chain:
  assumes "0 \<le> expected_version (view s i)"
    and "expected_version (view s i) + int (length ops) < 2 ^ 63"
    and "save_all save ops s = (acc, s')"
  shows "(\<exists>n \<le> length ops.
      versions_of i acc = map (\<lambda>k. expected_version (view s i) + int k) [0..<n] \<and>
      expected_version (view s' i) = expected_version (view s i) + int n)"
  using assms
proof (induction ops arbitrary: s acc)
  case Nil
  then show ?case by simp
next
  case (Cons op ops)
  obtain r s1 where s1: "save (fst op) (snd op) s = (r, s1)" by fastforce
  let ?st = "snd op"
  show ?case
  proof (cases r)
    case (Some e)
    with s1 have "s1 = s" by (auto dest: save_refused)
    moreover from Cons.prems s1 Some have "save_all save ops s1 = (acc, s')" by simp
    ultimately obtain n where "n \<le> length ops"
      "versions_of i acc = map (\<lambda>k. expected_version (view s i) + int k) [0..<n]"
      "expected_version (view s' i) = expected_version (view s i) + int n"
      using Cons.IH [of s acc] Cons.prems by auto
    then show ?thesis by (intro exI [of _ n]) simp
  next
    case None
    with s1 have ok: "st_Version ?st = expected_version (view s (st_ID ?st))"
      "view s1 = (view s)(st_ID ?st \<mapsto> saved_state ?st)"
      by (auto dest: save_accepted)
    from Cons.prems s1 None obtain acc1 where
      acc1: "save_all save ops s1 = (acc1, s')" "acc = (st_ID ?st, st_Version ?st) # acc1"
      by (auto split: prod.splits)
    show ?thesis
    proof (cases "st_ID ?st = i")
      case False
      then have "view s1 i = view s i" using ok by simp
      with Cons.IH [of s1 acc1] Cons.prems acc1 obtain n where "n \<le> length ops"
        "versions_of i acc1 = map (\<lambda>k. expected_version (view s i) + int k) [0..<n]"
        "expected_version (view s' i) = expected_version (view s i) + int n"
        by auto
      with False acc1 show ?thesis by (intro exI [of _ n]) simp
    next
      case True
      let ?v = "expected_version (view s i)"
      from True ok Cons.prems have v1: "expected_version (view s1 i) = ?v + 1"
        by (simp add: wrap64_succ)
      with Cons.IH [of s1 acc1] Cons.prems acc1 obtain n where n: "n \<le> length ops"
        "versions_of i acc1 = map (\<lambda>k. ?v + 1 + int k) [0..<n]"
        "expected_version (view s' i) = ?v + 1 + int n"
        by auto
      have "?v # map (\<lambda>k. ?v + 1 + int k) [0..<n] = map (\<lambda>k. ?v + int k) [0..<Suc n]"
        by (simp add: map_upt_Suc add.assoc del: upt_Suc)
      with n True acc1 ok show ?thesis by (intro exI [of _ "Suc n"]) simp
    qed
  qed
qed

end

context reliable_run_store begin

lemma load_after_save:
  assumes "save c st s = (None, s')" and "ctx_guard c' = None"
  shows "load c' (st_ID st) s' = Inr (saved_state st)"
proof -
  from save_accepted [OF assms(1)] have "run_state_ok st"
    and "view s' (st_ID st) = Some (saved_state st)" by auto
  moreover from this(1) have "st_ID st \<noteq> []" by (simp add: run_state_ok_def)
  moreover have "CloneRunState (saved_state st) = saved_state st"
    by (simp add: saved_state_def)
  ultimately show ?thesis using load_stored [OF assms(2)] by metis
qed

text \<open>A writer that comes second with the version both had read is turned away.\<close>

lemma stale_save:
  assumes "save c st s = (None, s')" and "ctx_guard c' = None"
    and "st_ID st' = st_ID st" and "st_Version st' = st_Version st"
    and "run_state_ok st'" and "in_int64 (st_Version st)"
  shows "is_err (fst (save c' st' s')) ErrRunVersionConflict \<and> snd (save c' st' s') = s'"
proof -
  from save_accepted [OF assms(1)] have "view s' (st_ID st') = Some (saved_state st)"
    by (simp add: assms(3))
  then have "st_Version st' \<noteq> expected_version (view s' (st_ID st'))"
    using assms(4) wrap64_succ_neq [OF assms(6)] by simp
  with assms(2,5) have c: "is_err (fst (save c' st' s')) ErrRunVersionConflict"
    by (rule save_conflict)
  then show ?thesis
    by (cases "save c' st' s'"; cases "fst (save c' st' s')") (auto dest: save_refused)
qed

end

section \<open>The in-memory store keeps the contract\<close>

lemma store_Save_ok_iff:
  "fst (store_Save c st s) = None \<longleftrightarrow>
     ctx_guard c = None \<and> run_state_ok st \<and> st_Version st = expected_version (s (st_ID st))"
  unfolding ValidateRunState_None_iff [symmetric]
  by (auto simp: store_Save_def expected_version_def simp del: ValidateRunState_None_iff
      split: option.splits)

lemma store_Save_state:
  "snd (store_Save c st s) =
     (if fst (store_Save c st s) = None then s(st_ID st \<mapsto> saved_state st) else s)"
  by (auto simp: store_Save_def saved_state_def wrap64_def split: option.splits)

lemma store_Save_eq_None:
  "store_Save c st s = (None, s') \<longleftrightarrow>
     ctx_guard c = None \<and> run_state_ok st \<and> st_Version st = expected_version (s (st_ID st)) \<and>
     s' = s(st_ID st \<mapsto> saved_state st)"
  using store_Save_ok_iff [of c st s] store_Save_state [of c st s]
  by (cases "store_Save c st s") auto

lemma store_Save_conflict:
  "ctx_guard c = None \<Longrightarrow> run_state_ok st \<Longrightarrow> st_Version st \<noteq> expected_version (s (st_ID st)) \<Longrightarrow>
   is_err (fst (store_Save c st s)) ErrRunVersionConflict"
  unfolding ValidateRunState_None_iff [symmetric]
  by (auto simp: store_Save_def expected_version_def simp del: ValidateRunState_None_iff
      split: option.splits)

interpretation mstore: reliable_run_store store_Save store_Load "\<lambda>s. s"
proof (unfold_locales, goal_cases)
  case (1 c st s e s')
  then show ?case using store_Save_state [of c st s] by simp
next
  case (2 c st s s')
  then show ?case by (simp add: store_Save_eq_None)
next
  case (3 c i s st)
  then show ?case by (auto simp: store_Load_def split: option.splits if_splits)
next
  case (4 c st s)
  then show ?case by (simp add: store_Save_ok_iff)
next
  case (5 c st s)
  then show ?case by (rule store_Save_conflict)
qed (simp_all add: store_Load_def)

section \<open>Well-formed stores\<close>

definition store_wf :: "store \<Rightarrow> bool" where
  "store_wf s \<longleftrightarrow> (\<forall>i st. s i = Some st \<longrightarrow>
     run_state_ok st \<and> st_ID st = i \<and> 1 \<le> st_Version st \<and> st_Messages st \<noteq> None)"

lemma store_wf_New: "store_wf store_New"
  by (simp add: store_wf_def store_New_def)

lemma saved_state_ok:
  "run_state_ok st \<Longrightarrow> st_Version st < 2 ^ 63 - 1 \<Longrightarrow>
   run_state_ok (saved_state st) \<and> 1 \<le> st_Version (saved_state st)"
  by (auto simp: run_state_ok_def suspension_ok_def wrap64_succ)

lemma store_wf_Save:
  "store_wf s \<Longrightarrow> st_Version st < 2 ^ 63 - 1 \<Longrightarrow> store_wf (snd (store_Save c st s))"
  using saved_state_ok [of st] store_Save_ok_iff [of c st s]
  by (auto simp: store_Save_state store_wf_def CloneMessages_def)

section \<open>Properties\<close>

text \<open>
  C33: a save to the in-memory store succeeds exactly when the context is live, the state is
  valid and carries version 0 for a new run or the stored version for an existing one; then
  the store holds a copy with the next version under the run's ID, and in every other case
  the store is unchanged.
\<close>

theorem store_Save_correct:
  "(fst (store_Save c st s) = None \<longleftrightarrow>
      ctx_guard c = None \<and> run_state_ok st \<and> st_Version st = expected_version (s (st_ID st))) \<and>
   snd (store_Save c st s) =
     (if fst (store_Save c st s) = None then s(st_ID st \<mapsto> saved_state st) else s)"
  using store_Save_ok_iff store_Save_state by blast

text \<open>A new run, and what a store holds once it is saved.\<close>

definition new_run :: RunState where
  "new_run = zeroRunState\<lparr>st_ID := ''r1'', st_Status := RunStatusPending\<rparr>"

lemma new_run_saved:
  "store_Save (Some None) new_run store_New = (None, store_New(''r1'' \<mapsto> saved_state new_run))"
  by (simp add: store_Save_eq_None new_run_def zeroRunState_def run_state_ok_def suspension_ok_def
      store_New_def)

text \<open>
  what was saved is what is loaded: after an accepted save, a load of the run answers
  the saved state with its version advanced by one (messages deep-copied).
\<close>

theorem store_load_after_save:
  "store_Save c st s = (None, s') \<Longrightarrow> ctx_guard c' = None \<Longrightarrow>
   store_Load c' (st_ID st) s' = Inr (saved_state st)"
  by (rule mstore.load_after_save)

theorem store_load_after_save_witness:
  "store_Load (Some None) (st_ID new_run) (store_New(''r1'' \<mapsto> saved_state new_run)) =
     Inr (saved_state new_run)"
  by (rule store_load_after_save [OF new_run_saved]) simp

text \<open>
  there is no lost update. Whatever saves are tried in whatever order (fewer than the
  versions 64 bits can count), the accepted saves of a run carried the versions
  0, 1, 2, ... in this order: each was based on the state the previous one had stored.
\<close>

theorem store_versions_chain:
  assumes "save_all store_Save ops store_New = (acc, s')" and "int (length ops) < 2 ^ 63"
  shows "\<exists>n. versions_of i acc = map int [0..<n] \<and> expected_version (s' i) = int n"
  using mstore.stored_chain [of store_New i ops acc s'] assms
  by (auto simp: store_New_def)

theorem store_versions_chain_witness:
  "\<exists>n. versions_of ''r1'' [(''r1'', 0)] = map int [0..<n] \<and>
     expected_version ((store_New(''r1'' \<mapsto> saved_state new_run)) ''r1'') = int n"
proof -
  have "save_all store_Save [(Some None, new_run), (Some None, new_run)] store_New =
      ([(''r1'', 0)], store_New(''r1'' \<mapsto> saved_state new_run))"
  proof -
    have "store_Save (Some None) new_run (store_New(''r1'' \<mapsto> saved_state new_run)) \<noteq> (None, s)" for s
      by (simp add: store_Save_eq_None new_run_def zeroRunState_def wrap64_def)
    then obtain e s where r: "store_Save (Some None) new_run
        (store_New(''r1'' \<mapsto> saved_state new_run)) = (Some e, s)"
      by (metis not_Some_eq surj_pair)
    with mstore.save_refused [OF r] new_run_saved show ?thesis
      by (simp add: new_run_def zeroRunState_def)
  qed
  from store_versions_chain [OF this, of "''r1''"] show ?thesis by simp
qed

text \<open>
  of two writers that read the same version of a run, the second to save gets
  \<open>ErrRunVersionConflict\<close> and the store keeps what the first one wrote.
\<close>

theorem store_stale_save:
  "store_Save c st s = (None, s') \<Longrightarrow> ctx_guard c' = None \<Longrightarrow> st_ID st' = st_ID st \<Longrightarrow>
   st_Version st' = st_Version st \<Longrightarrow> run_state_ok st' \<Longrightarrow> in_int64 (st_Version st) \<Longrightarrow>
   is_err (fst (store_Save c' st' s')) ErrRunVersionConflict \<and> snd (store_Save c' st' s') = s'"
  by (rule mstore.stale_save)

theorem store_stale_save_witness:
  "is_err (fst (store_Save (Some None) (new_run\<lparr>st_Output := ''late''\<rparr>)
     (store_New(''r1'' \<mapsto> saved_state new_run)))) ErrRunVersionConflict"
  by (rule store_stale_save [OF new_run_saved, THEN conjunct1])
    (simp_all add: new_run_def zeroRunState_def run_state_ok_def suspension_ok_def in_int64_def)

end
