(* ===== verification/Runner.thy ===== *)
theory Runner
  imports Engine_Contract Events Run_Store
begin

text \<open>
  \<open>agent/runner.go\<close>: the runner's command handlers. The services a runner is wired with
  (\<open>Dependencies\<close>) are functions on a world \<open>'w\<close>, as every call may change it; the handlers
  thread the world through the calls in the order of the source. The per-run mutex of
  \<open>Dispatch\<close> is the subject of theory \<open>Command_Locks\<close>: here a handler is one uninterrupted
  sequence of calls.
\<close>

section \<open>Dependencies\<close>

type_synonym 'w engine =
  "ctx \<Rightarrow> RunState \<Rightarrow> EngineInput \<Rightarrow> 'w \<Rightarrow> (RunState \<times> gerr option) \<times> 'w"

record 'w deps =
  dp_NewRunID :: "ctx \<Rightarrow> 'w \<Rightarrow> (gerr + RunID) \<times> 'w"
  dp_Save :: "ctx \<Rightarrow> RunState \<Rightarrow> 'w \<Rightarrow> gerr option \<times> 'w"
  dp_Load :: "ctx \<Rightarrow> RunID \<Rightarrow> 'w \<Rightarrow> (gerr + RunState) \<times> 'w"
  dp_Execute :: "'w engine"
  dp_Publish :: "'w publish"
  dp_poll :: "'w poll"
  dp_is_print :: "nat \<Rightarrow> bool"

text \<open>\<open>NewRunner\<close> as a check of its dependencies (present or not) in the source's order.\<close>

definition NewRunner_check :: "bool \<Rightarrow> bool \<Rightarrow> bool \<Rightarrow> gerr option" where
  "NewRunner_check idGenerator runStore engine =
     (if \<not> idGenerator then Some (Errorf [Lit ''new runner: '', wraps ErrMissingIDGenerator])
      else if \<not> runStore then Some (Errorf [Lit ''new runner: '', wraps ErrMissingRunStore])
      else if \<not> engine then Some (Errorf [Lit ''new runner: '', wraps ErrMissingEngine])
      else None)"

definition noop_Publish :: "'w publish" where
  "noop_Publish c e w = (None, w)"

text \<open>A nil event sink is replaced by the one that does nothing.\<close>

definition runner_sink :: "'w publish option \<Rightarrow> 'w publish" where
  "runner_sink s = (case s of None \<Rightarrow> noop_Publish | Some p \<Rightarrow> p)"

section \<open>Idempotency of continue commands\<close>

record commandIdempotencyKey =
  ik_runID :: RunID
  ik_commandKind :: CommandKind
  ik_commandID :: string

type_synonym outcomes = "commandIdempotencyKey \<Rightarrow> (RunResult \<times> gerr option) option"

definition outcomes_load :: "outcomes \<Rightarrow> commandIdempotencyKey \<Rightarrow> (RunResult \<times> gerr option) option" where
  "outcomes_load oc key = map_option (\<lambda>(result, err). (cloneRunResult result, err)) (oc key)"

definition outcomes_store ::
  "outcomes \<Rightarrow> commandIdempotencyKey \<Rightarrow> RunResult \<Rightarrow> gerr option \<Rightarrow> outcomes" where
  "outcomes_store oc key result err = oc(key \<mapsto> (cloneRunResult result, err))"

definition continueIdempotencyKey :: "RunID \<Rightarrow> string \<Rightarrow> commandIdempotencyKey option" where
  "continueIdempotencyKey runID commandID =
     (if runID = [] then None
      else let normalizedCommandID = TrimSpace commandID in
        if normalizedCommandID = [] then None
        else Some \<lparr>ik_runID = runID, ik_commandKind = CommandKindContinue,
               ik_commandID = normalizedCommandID\<rparr>)"

section \<open>Checks and helpers of the handlers\<close>

primrec validateToolDefinitions_from ::
  "CommandKind \<Rightarrow> nat \<Rightarrow> string set \<Rightarrow> ToolDefinition list \<Rightarrow> gerr option" where
  "validateToolDefinitions_from command i seen [] = None"
| "validateToolDefinitions_from command i seen (d # ds) =
     (if td_Name d = [] then
        Some (Errorf [wraps ErrToolDefinitionsInvalid, Lit '': command='', Lit command,
          Lit '' index='', Num (int i), Lit '' reason=empty_name''])
      else if td_Name d \<in> seen then
        Some (Errorf [wraps ErrToolDefinitionsInvalid, Lit '': command='', Lit command,
          Lit '' index='', Num (int i), Lit '' name='', Quo (td_Name d),
          Lit '' reason=duplicate_name''])
      else validateToolDefinitions_from command (Suc i) (insert (td_Name d) seen) ds)"

definition validateToolDefinitions :: "CommandKind \<Rightarrow> ToolDefinition list \<Rightarrow> gerr option" where
  "validateToolDefinitions command tools = validateToolDefinitions_from command 0 {} tools"

definition normalizeCommandSaveError :: "CommandKind \<Rightarrow> gerr \<Rightarrow> gerr option" where
  "normalizeCommandSaveError command err =
     (if \<not> errors_Is err ErrRunVersionConflict then Some err
      else errors_Join [Some (Sentinel ErrCommandConflict),
        Some (Errorf [Lit ''command='', Lit command, Lit '': '', Wrap err])])"

definition sideEffectContext :: "'w poll \<Rightarrow> ctx \<Rightarrow> 'w \<Rightarrow> ctx \<times> 'w" where
  "sideEffectContext poll c w =
     (case c of
        None \<Rightarrow> (Some ctx_Background, w)
      | Some x \<Rightarrow>
          let (e, w') = ctx_Err poll x w
          in (Some (if e \<noteq> None then ctx_WithoutCancel x else x), w'))"

definition validateContinueResolution :: "RunState \<Rightarrow> ContinueCommand \<Rightarrow> gerr option" where
  "validateContinueResolution state command =
     (if st_Status state \<noteq> RunStatusSuspended then
        (if cc_Resolution command \<noteq> None then
           Some (Errorf [wraps ErrResolutionUnexpected, Lit '': command='', Lit CommandKindContinue,
             Lit '' status='', Lit (st_Status state), Lit '' run_id='', Quo (st_ID state)])
         else None)
      else if cc_Resolution command = None then
        Some (Errorf [wraps ErrResolutionRequired, Lit '': command='', Lit CommandKindContinue,
          Lit '' status='', Lit (st_Status state), Lit '' run_id='', Quo (st_ID state)])
      else validateResolutionForRequirement (cc_Resolution command) (st_PendingRequirement state))"

definition approvedToolCallReplayOverrideForContinue ::
  "Resolution option \<Rightarrow> PendingRequirement option \<Rightarrow> ApprovedToolCallReplayOverride option" where
  "approvedToolCallReplayOverrideForContinue resolution requirement =
     (case (resolution, requirement) of
        (Some r, Some q) \<Rightarrow>
          if rs_Outcome r \<noteq> ResolutionOutcomeApproved then None
          else if pr_Origin q \<noteq> RequirementOriginTool then None
          else Some \<lparr>ov_ToolCallID = pr_ToolCallID q, ov_Fingerprint = pr_Fingerprint q\<rparr>
      | _ \<Rightarrow> None)"

definition cancellationEventDescription :: "(nat \<Rightarrow> bool) \<Rightarrow> gerr option \<Rightarrow> string" where
  "cancellationEventDescription up runErr =
     (case runErr of None \<Rightarrow> ''run cancelled'' | Some e \<Rightarrow> error_text up e)"

definition suspensionEventDescription :: "(nat \<Rightarrow> bool) \<Rightarrow> RunState \<Rightarrow> string" where
  "suspensionEventDescription up state =
     (case st_PendingRequirement state of
        None \<Rightarrow> ''run suspended''
      | Some q \<Rightarrow> ''run suspended awaiting requirement origin='' @ pr_Origin q @
          '' kind='' @ pr_Kind q @ '' id='' @ Quote up (pr_ID q))"

definition userMessage :: "string \<Rightarrow> Message" where
  "userMessage content = zeroMessage\<lparr>m_Role := RoleUser, m_Content := content\<rparr>"

definition systemMessage :: "string \<Rightarrow> Message" where
  "systemMessage content = zeroMessage\<lparr>m_Role := RoleSystem, m_Content := content\<rparr>"

definition add_message :: "Message \<Rightarrow> RunState \<Rightarrow> RunState" where
  "add_message m st = st\<lparr>st_Messages := slice_append (st_Messages st) [m]\<rparr>"

text \<open>\<open>state.Version++\<close>\<close>

definition bump_version :: "RunState \<Rightarrow> RunState" where
  "bump_version st = st\<lparr>st_Version := wrap64 (st_Version st + 1)\<rparr>"

text \<open>
  \<open>eventErr = errors.Join(eventErr, publishEvent(sideEffectCtx(), r.events, ev))\<close>, on the
  pair of the accumulated error and the world.
\<close>

definition emit :: "'w deps \<Rightarrow> ctx \<Rightarrow> Event \<Rightarrow> gerr option \<times> 'w \<Rightarrow> gerr option \<times> 'w" where
  "emit D c ev s =
     (let (eventErr, w) = s;
          (sc, w1) = sideEffectContext (dp_poll D) c w;
          (r, w2) = publishEvent (dp_Publish D) sc ev w1
      in (errors_Join [eventErr, r], w2))"

definition save_state :: "'w deps \<Rightarrow> ctx \<Rightarrow> RunState \<Rightarrow> 'w \<Rightarrow> gerr option \<times> 'w" where
  "save_state D c st w =
     (let (sc, w1) = sideEffectContext (dp_poll D) c w in dp_Save D sc st w1)"

definition load_state :: "'w deps \<Rightarrow> ctx \<Rightarrow> RunID \<Rightarrow> 'w \<Rightarrow> (gerr + RunState) \<times> 'w" where
  "load_state D c runID w =
     (let (sc, w1) = sideEffectContext (dp_poll D) c w in dp_Load D sc runID w1)"

definition command_event :: "RunID \<Rightarrow> int \<Rightarrow> CommandKind \<Rightarrow> string \<Rightarrow> Event" where
  "command_event runID step kind description =
     zeroEvent\<lparr>ev_RunID := runID, ev_Step := step, ev_Type := EventTypeCommandApplied,
       ev_CommandKind := kind, ev_Description := description\<rparr>"

type_synonym 'w outcome = "(RunResult \<times> gerr option) \<times> 'w"

section \<open>The tail shared by start, continue and follow-up\<close>

text \<open>
  What the three engine-driven handlers do with the engine's answer, in this order: check
  the contract, save, publish the cancellation or suspension, bump the version, publish the
  checkpoint and the applied command. \<open>Inl\<close> is an early return with the zero result.
\<close>

definition conclude ::
  "'w deps \<Rightarrow> ctx \<Rightarrow> CommandKind \<Rightarrow> string \<Rightarrow> string \<Rightarrow> RunID \<Rightarrow> RunState \<Rightarrow>
     RunState \<times> gerr option \<Rightarrow> gerr option \<times> 'w \<Rightarrow>
     (gerr option + RunState \<times> gerr option) \<times> 'w" where
  "conclude D c kind checkpoint applied runID state out ev =
     (let (finalState, runErr) = out; (eventErr, w) = ev in
      case validateEngineOutput state finalState of
        Some contractErr \<Rightarrow> (Inl (errors_Join [Some contractErr, eventErr]), w)
      | None \<Rightarrow>
     (case save_state D c finalState w of
        (Some saveErr, w1) \<Rightarrow>
          (Inl (errors_Join [runErr, normalizeCommandSaveError kind saveErr, eventErr]), w1)
      | (None, w1) \<Rightarrow>
          let s1 = (if st_Status finalState = RunStatusCancelled
                then emit D c (run_event runID (st_Step finalState) EventTypeRunCancelled
                       (cancellationEventDescription (dp_is_print D) runErr)) (eventErr, w1)
                else (eventErr, w1));
              s2 = (if st_Status finalState = RunStatusSuspended
                then emit D c (run_event runID (st_Step finalState) EventTypeRunSuspended
                       (suspensionEventDescription (dp_is_print D) finalState)) s1
                else s1);
              finalState' = bump_version finalState;
              s3 = emit D c (run_event runID (st_Step finalState') EventTypeRunCheckpoint
                     checkpoint) s2;
              (eventErr4, w4) = emit D c (command_event runID (st_Step finalState') kind applied) s3
          in (Inr (finalState', errors_Join [runErr, eventErr4]), w4)))"

definition conclude_outcome :: "(gerr option + RunState \<times> gerr option) \<times> 'w \<Rightarrow> 'w outcome" where
  "conclude_outcome r =
     (case r of
        (Inl e, w) \<Rightarrow> ((zeroRunResult, e), w)
      | (Inr (st, e), w) \<Rightarrow> ((\<lparr>rr_State = st\<rparr>, e), w))"

section \<open>Start\<close>

definition start_run_id :: "'w deps \<Rightarrow> ctx \<Rightarrow> RunInput \<Rightarrow> 'w \<Rightarrow> (gerr + RunID) \<times> 'w" where
  "start_run_id D c input w =
     (if ri_RunID input \<noteq> [] then (Inr (ri_RunID input), w)
      else case dp_NewRunID D c w of
        (Inl e, w1) \<Rightarrow> (Inl e, w1)
      | (Inr generated, w1) \<Rightarrow>
          if generated = []
          then (Inl (Errorf [wraps ErrInvalidRunID, Lit '': command='', Lit CommandKindStart]), w1)
          else (Inr generated, w1))"

definition prompt_messages :: "RunInput \<Rightarrow> RunState \<Rightarrow> RunState" where
  "prompt_messages input state =
     (let s1 = (if ri_SystemPrompt input \<noteq> []
                then add_message (systemMessage (ri_SystemPrompt input)) state else state)
      in if ri_UserPrompt input \<noteq> []
         then add_message (userMessage (ri_UserPrompt input)) s1 else s1)"

definition dispatchStart :: "'w deps \<Rightarrow> ctx \<Rightarrow> StartCommand \<Rightarrow> 'w \<Rightarrow> 'w outcome" where
  "dispatchStart D c cmd w =
     (let input = sc_Input cmd in
      case validateToolDefinitions CommandKindStart (ri_Tools input) of
        Some e \<Rightarrow> ((zeroRunResult, Some e), w)
      | None \<Rightarrow>
     (case start_run_id D c input w of
        (Inl e, w1) \<Rightarrow> ((zeroRunResult, Some e), w1)
      | (Inr runID, w1) \<Rightarrow>
     (case TransitionRunStatus (zeroRunState\<lparr>st_ID := runID\<rparr>) RunStatusPending of
        (Some e, _) \<Rightarrow> ((zeroRunResult, Some e), w1)
      | (None, state0) \<Rightarrow>
          let state = prompt_messages input state0 in
     (case save_state D c state w1 of
        (Some e, w2) \<Rightarrow> ((zeroRunResult, normalizeCommandSaveError CommandKindStart e), w2)
      | (None, w2) \<Rightarrow>
          let state1 = bump_version state;
              (eventErr, w3) = emit D c (run_event runID 0 EventTypeRunStarted
                ''run persisted and ready for execution'') (None, w2);
              (out, w4) = dp_Execute D c state1
                \<lparr>ei_MaxSteps = ri_MaxSteps input, ei_Tools = CloneToolDefinitions (ri_Tools input),
                 ei_Resolution = None, ei_ResolvedRequirement = None\<rparr> w3
          in conclude_outcome (conclude D c CommandKindStart ''final state persisted''
               ''start command applied'' runID state1 out (eventErr, w4))))))"

section \<open>Continue\<close>

text \<open>
  The suspended run is resumed: its requirement is taken out and the status set to running.
  The result is the error, the state and the requirement that was resolved.
\<close>

definition resume_state :: "RunState \<Rightarrow> gerr option \<times> RunState \<times> PendingRequirement option" where
  "resume_state state =
     (if st_Status state = RunStatusSuspended then
        let resolvedRequirement = st_PendingRequirement state;
            (e, state') = TransitionRunStatus (state\<lparr>st_PendingRequirement := None\<rparr>) RunStatusRunning
        in (e, state', resolvedRequirement)
      else (None, state, None))"

definition continue_context :: "ctx \<Rightarrow> Resolution option \<Rightarrow> PendingRequirement option \<Rightarrow> ctx" where
  "continue_context c resolution resolvedRequirement =
     (case approvedToolCallReplayOverrideForContinue resolution resolvedRequirement of
        None \<Rightarrow> c
      | Some override \<Rightarrow> WithApprovedToolCallReplayOverride c override)"

text \<open>
  The part of the handler after the look-up of a cached outcome; \<open>Inl\<close> is a return that is
  not cached.
\<close>

definition continue_run ::
  "'w deps \<Rightarrow> ctx \<Rightarrow> ContinueCommand \<Rightarrow> 'w \<Rightarrow>
     ((RunResult \<times> gerr option) + (RunResult \<times> gerr option)) \<times> 'w" where
  "continue_run D c cmd w =
     (let runID = cc_RunID cmd in
      case validateToolDefinitions CommandKindContinue (cc_Tools cmd) of
        Some e \<Rightarrow> (Inl (zeroRunResult, Some e), w)
      | None \<Rightarrow>
     (case load_state D c runID w of
        (Inl e, w1) \<Rightarrow> (Inl (zeroRunResult, Some e), w1)
      | (Inr state, w1) \<Rightarrow>
          if isTerminalRunStatus (st_Status state) then
            (Inl (\<lparr>rr_State = state\<rparr>,
               Some (Errorf [wraps ErrRunNotContinuable, Lit '': '', Lit (st_Status state)])), w1)
          else
     (case validateContinueResolution state cmd of
        Some e \<Rightarrow> (Inl (\<lparr>rr_State = state\<rparr>, Some e), w1)
      | None \<Rightarrow>
     (case resume_state state of
        (Some e, state1, _) \<Rightarrow> (Inl (\<lparr>rr_State = state1\<rparr>, Some e), w1)
      | (None, state1, resolvedRequirement) \<Rightarrow>
          let (out, w2) = dp_Execute D
                (continue_context c (cc_Resolution cmd) resolvedRequirement) state1
                \<lparr>ei_MaxSteps = cc_MaxSteps cmd, ei_Tools = CloneToolDefinitions (cc_Tools cmd),
                 ei_Resolution = cc_Resolution cmd,
                 ei_ResolvedRequirement = resolvedRequirement\<rparr> w1
          in (case conclude D c CommandKindContinue ''continued run state persisted''
                ''continue command applied'' runID state1 out (None, w2) of
                (Inl e, w3) \<Rightarrow> (Inl (zeroRunResult, e), w3)
              | (Inr (finalState, e), w3) \<Rightarrow> (Inr (\<lparr>rr_State = finalState\<rparr>, e), w3))))))"

definition dispatchContinue ::
  "'w deps \<Rightarrow> ctx \<Rightarrow> ContinueCommand \<Rightarrow> outcomes \<times> 'w \<Rightarrow> (outcomes \<times> 'w) outcome" where
  "dispatchContinue D c cmd s =
     (let (oc, w) = s; runID = cc_RunID cmd in
      if runID = [] then
        ((zeroRunResult, Some (Errorf [wraps ErrInvalidRunID, Lit '': command='',
           Lit CommandKindContinue])), (oc, w))
      else
      let key = continueIdempotencyKey runID (cc_CommandID cmd) in
      case Option.bind key (outcomes_load oc) of
        Some cached \<Rightarrow> (cached, (oc, w))
      | None \<Rightarrow>
     (case continue_run D c cmd w of
        (Inl r, w1) \<Rightarrow> (r, (oc, w1))
      | (Inr (result, resultErr), w1) \<Rightarrow>
          ((result, resultErr),
           ((case key of None \<Rightarrow> oc | Some k \<Rightarrow> outcomes_store oc k result resultErr), w1))))"

section \<open>Cancel, steer, follow-up\<close>

definition dispatchCancel :: "'w deps \<Rightarrow> ctx \<Rightarrow> CancelCommand \<Rightarrow> 'w \<Rightarrow> 'w outcome" where
  "dispatchCancel D c cmd w =
     (let runID = xc_RunID cmd in
      if runID = [] then
        ((zeroRunResult, Some (Errorf [wraps ErrInvalidRunID, Lit '': command='',
           Lit CommandKindCancel])), w)
      else
     (case load_state D c runID w of
        (Inl e, w1) \<Rightarrow> ((zeroRunResult, Some e), w1)
      | (Inr state, w1) \<Rightarrow>
          if isTerminalRunStatus (st_Status state) then
            ((\<lparr>rr_State = state\<rparr>,
               Some (Errorf [wraps ErrRunNotCancellable, Lit '': '', Lit (st_Status state)])), w1)
          else
          let state1 = (if st_Status state = RunStatusSuspended
                then state\<lparr>st_PendingRequirement := None\<rparr> else state) in
     (case TransitionRunStatus state1 RunStatusCancelled of
        (Some e, state2) \<Rightarrow> ((\<lparr>rr_State = state2\<rparr>, Some e), w1)
      | (None, state2) \<Rightarrow>
     (case save_state D c state2 w1 of
        (Some e, w2) \<Rightarrow> ((zeroRunResult, normalizeCommandSaveError CommandKindCancel e), w2)
      | (None, w2) \<Rightarrow>
          let state3 = bump_version state2;
              s1 = emit D c (run_event runID (st_Step state3) EventTypeRunCancelled
                     ''run cancelled'') (None, w2);
              (eventErr, w4) = emit D c (command_event runID (st_Step state3) CommandKindCancel
                     ''cancel command applied'') s1
          in ((\<lparr>rr_State = state3\<rparr>, eventErr), w4)))))"

definition resolution_required :: "CommandKind \<Rightarrow> RunState \<Rightarrow> gerr" where
  "resolution_required kind state =
     Errorf [wraps ErrResolutionRequired, Lit '': command='', Lit kind, Lit '' status='',
       Lit (st_Status state), Lit '' run_id='', Quo (st_ID state)]"

text \<open>The save error of a steer command is returned as it is.\<close>

definition dispatchSteer :: "'w deps \<Rightarrow> ctx \<Rightarrow> SteerCommand \<Rightarrow> 'w \<Rightarrow> 'w outcome" where
  "dispatchSteer D c cmd w =
     (let runID = stc_RunID cmd in
      if runID = [] then
        ((zeroRunResult, Some (Errorf [wraps ErrInvalidRunID, Lit '': command='',
           Lit CommandKindSteer])), w)
      else
     (case load_state D c runID w of
        (Inl e, w1) \<Rightarrow> ((zeroRunResult, Some e), w1)
      | (Inr state, w1) \<Rightarrow>
          if st_Status state = RunStatusSuspended then
            ((\<lparr>rr_State = state\<rparr>, Some (resolution_required CommandKindSteer state)), w1)
          else if isTerminalRunStatus (st_Status state) then
            ((\<lparr>rr_State = state\<rparr>,
               Some (Errorf [wraps ErrRunNotContinuable, Lit '': '', Lit (st_Status state)])), w1)
          else
          let state1 = add_message (userMessage (stc_Instruction cmd)) state in
     (case save_state D c state1 w1 of
        (Some e, w2) \<Rightarrow> ((zeroRunResult, Some e), w2)
      | (None, w2) \<Rightarrow>
          let state2 = bump_version state1;
              s1 = emit D c (run_event runID (st_Step state2) EventTypeRunCheckpoint
                     ''steered run state persisted'') (None, w2);
              (eventErr, w4) = emit D c (command_event runID (st_Step state2) CommandKindSteer
                     ''steer command applied'') s1
          in ((\<lparr>rr_State = state2\<rparr>, eventErr), w4))))"

definition dispatchFollowUp :: "'w deps \<Rightarrow> ctx \<Rightarrow> FollowUpCommand \<Rightarrow> 'w \<Rightarrow> 'w outcome" where
  "dispatchFollowUp D c cmd w =
     (let runID = fc_RunID cmd in
      if runID = [] then
        ((zeroRunResult, Some (Errorf [wraps ErrInvalidRunID, Lit '': command='',
           Lit CommandKindFollowUp])), w)
      else
      case validateToolDefinitions CommandKindFollowUp (fc_Tools cmd) of
        Some e \<Rightarrow> ((zeroRunResult, Some e), w)
      | None \<Rightarrow>
     (case load_state D c runID w of
        (Inl e, w1) \<Rightarrow> ((zeroRunResult, Some e), w1)
      | (Inr state, w1) \<Rightarrow>
          if st_Status state = RunStatusSuspended then
            ((\<lparr>rr_State = state\<rparr>, Some (resolution_required CommandKindFollowUp state)), w1)
          else if isTerminalRunStatus (st_Status state) then
            ((\<lparr>rr_State = state\<rparr>,
               Some (Errorf [wraps ErrRunNotContinuable, Lit '': '', Lit (st_Status state)])), w1)
          else
          let state1 = add_message (userMessage (fc_UserPrompt cmd)) state;
              (out, w2) = dp_Execute D c state1
                \<lparr>ei_MaxSteps = fc_MaxSteps cmd, ei_Tools = CloneToolDefinitions (fc_Tools cmd),
                 ei_Resolution = None, ei_ResolvedRequirement = None\<rparr> w1
          in conclude_outcome (conclude D c CommandKindFollowUp ''follow-up run state persisted''
               ''follow-up command applied'' runID state1 out (None, w2))))"

section \<open>Dispatch\<close>

definition knownCommandKinds :: "CommandKind list" where
  "knownCommandKinds = [CommandKindStart, CommandKindContinue, CommandKindCancel,
     CommandKindSteer, CommandKindFollowUp]"

definition on_world :: "outcomes \<Rightarrow> 'w outcome \<Rightarrow> (outcomes \<times> 'w) outcome" where
  "on_world oc r = (fst r, (oc, snd r))"

definition Dispatch ::
  "'w deps \<Rightarrow> ctx \<Rightarrow> Command \<Rightarrow> outcomes \<times> 'w \<Rightarrow> (outcomes \<times> 'w) outcome" where
  "Dispatch D c cmd s =
     (if c = None then ((zeroRunResult, Some (Sentinel ErrContextNil)), s)
      else case cmd of
        CmdNil \<Rightarrow> ((zeroRunResult, Some (Sentinel ErrCommandNil)), s)
      | CmdNilPointer \<Rightarrow> ((zeroRunResult, Some (Sentinel ErrCommandNil)), s)
      | CmdPointer kind type \<Rightarrow>
          ((zeroRunResult, Some (Errorf [wraps ErrCommandInvalid, Lit '': kind='', Lit kind,
             Lit '' payload='', Lit type])), s)
      | CmdStart command \<Rightarrow> on_world (fst s) (dispatchStart D c command (snd s))
      | CmdContinue command \<Rightarrow> dispatchContinue D c command s
      | CmdCancel command \<Rightarrow> on_world (fst s) (dispatchCancel D c command (snd s))
      | CmdSteer command \<Rightarrow> on_world (fst s) (dispatchSteer D c command (snd s))
      | CmdFollowUp command \<Rightarrow> on_world (fst s) (dispatchFollowUp D c command (snd s))
      | CmdOther kind type \<Rightarrow>
          if kind \<in> set knownCommandKinds then
            ((zeroRunResult, Some (Errorf [wraps ErrCommandInvalid, Lit '': kind='', Lit kind,
               Lit '' payload='', Lit type])), s)
          else ((zeroRunResult, Some (Errorf [wraps ErrCommandUnsupported, Lit '': '', Lit kind])), s))"

section \<open>The runner's methods\<close>

definition runner_Run :: "'w deps \<Rightarrow> ctx \<Rightarrow> RunInput \<Rightarrow> outcomes \<times> 'w \<Rightarrow> (outcomes \<times> 'w) outcome" where
  "runner_Run D c input = Dispatch D c (CmdStart \<lparr>sc_Input = input\<rparr>)"

definition runner_Continue ::
  "'w deps \<Rightarrow> ctx \<Rightarrow> RunID \<Rightarrow> int \<Rightarrow> ToolDefinition list \<Rightarrow> Resolution option \<Rightarrow>
     outcomes \<times> 'w \<Rightarrow> (outcomes \<times> 'w) outcome" where
  "runner_Continue D c runID maxSteps tools resolution =
     Dispatch D c (CmdContinue \<lparr>cc_RunID = runID, cc_CommandID = [], cc_MaxSteps = maxSteps,
       cc_Tools = tools, cc_Resolution = resolution\<rparr>)"

definition runner_Cancel :: "'w deps \<Rightarrow> ctx \<Rightarrow> RunID \<Rightarrow> outcomes \<times> 'w \<Rightarrow> (outcomes \<times> 'w) outcome" where
  "runner_Cancel D c runID = Dispatch D c (CmdCancel \<lparr>xc_RunID = runID\<rparr>)"

definition runner_Steer ::
  "'w deps \<Rightarrow> ctx \<Rightarrow> RunID \<Rightarrow> string \<Rightarrow> outcomes \<times> 'w \<Rightarrow> (outcomes \<times> 'w) outcome" where
  "runner_Steer D c runID instruction =
     Dispatch D c (CmdSteer \<lparr>stc_RunID = runID, stc_Instruction = instruction\<rparr>)"

definition runner_FollowUp ::
  "'w deps \<Rightarrow> ctx \<Rightarrow> RunID \<Rightarrow> string \<Rightarrow> int \<Rightarrow> ToolDefinition list \<Rightarrow>
     outcomes \<times> 'w \<Rightarrow> (outcomes \<times> 'w) outcome" where
  "runner_FollowUp D c runID prompt maxSteps tools =
     Dispatch D c (CmdFollowUp \<lparr>fc_RunID = runID, fc_UserPrompt = prompt, fc_MaxSteps = maxSteps,
       fc_Tools = tools\<rparr>)"

end
