(* ===== verification/Runner_Safety.thy ===== *)
theory Runner_Safety
  imports Runner
begin

text \<open>
  What the runner guarantees about the runs in its store, whatever the engine, the sink and
  the context do: the contract of its services as a locale, the steps a stored run can take,
  and the proof that every command takes the store through such steps only.
\<close>

section \<open>Steps of the stored runs\<close>

type_synonym contents = "RunID \<Rightarrow> RunState option"

text \<open>The transcript \<open>b\<close> extends \<open>a\<close>, up to the copying the store does.\<close>

definition extends_transcript :: "RunState \<Rightarrow> RunState \<Rightarrow> bool" where
  "extends_transcript a b \<longleftrightarrow>
     (\<exists>ys. map CloneMessage (elems (st_Messages b)) =
       map CloneMessage (elems (st_Messages a)) @ ys)"

text \<open>\<open>st\<close> is what the runner works on, starting from the stored run \<open>st0\<close>.\<close>

definition advances :: "RunState \<Rightarrow> RunState \<Rightarrow> bool" where
  "advances st0 st \<longleftrightarrow>
     st_ID st = st_ID st0 \<and> st_Step st0 \<le> st_Step st \<and> extends_transcript st0 st"

text \<open>
  A run is created pending at step 0; a stored run that is not in a terminal status is
  replaced by one that advances it, with the next version. Nothing else happens.
\<close>

inductive stored_step :: "contents \<Rightarrow> contents \<Rightarrow> bool" where
  create: "m (st_ID st) = None \<Longrightarrow> run_state_ok st \<Longrightarrow> st_Version st = 0 \<Longrightarrow>
    st_Status st = RunStatusPending \<Longrightarrow> st_Step st = 0 \<Longrightarrow>
    stored_step m (m(st_ID st \<mapsto> saved_state st))"
| update: "m (st_ID st) = Some st0 \<Longrightarrow> run_state_ok st \<Longrightarrow> st_Version st = st_Version st0 \<Longrightarrow>
    \<not> isTerminalRunStatus (st_Status st0) \<Longrightarrow> advances st0 st \<Longrightarrow>
    stored_step m (m(st_ID st \<mapsto> saved_state st))"

inductive_cases stored_stepE: "stored_step m m'"

text \<open>
  What holds of every stored run. (The version of a run is not zero, even if the 64-bit
  counter should overflow.)
\<close>

definition stored_ok :: "RunID \<Rightarrow> RunState \<Rightarrow> bool" where
  "stored_ok i st \<longleftrightarrow>
     st_ID st = i \<and> i \<noteq> [] \<and> 0 \<le> st_Step st \<and> isKnownRunStatus (st_Status st) \<and>
     suspension_ok st \<and> st_Version st \<noteq> 0 \<and> in_int64 (st_Version st) \<and>
     CloneRunState st = st"

definition stored_wf :: "contents \<Rightarrow> bool" where
  "stored_wf m \<longleftrightarrow> (\<forall>i st. m i = Some st \<longrightarrow> stored_ok i st)"

lemma stored_wfD: "stored_wf m \<Longrightarrow> m i = Some st \<Longrightarrow> stored_ok i st"
  by (simp add: stored_wf_def)

lemma wrap64_nonzero: "0 \<le> v \<Longrightarrow> in_int64 v \<Longrightarrow> wrap64 (v + 1) \<noteq> 0"
proof -
  assume "0 \<le> v" "in_int64 v"
  then have "(v + 1 + 2 ^ 63) mod 2 ^ 64 = (if v = 2 ^ 63 - 1 then 0 else v + 1 + 2 ^ 63)"
    by (auto simp: in_int64_def)
  then show ?thesis using \<open>0 \<le> v\<close> unfolding wrap64_def by auto
qed

lemma saved_state_clone [simp]: "CloneRunState (saved_state st) = saved_state st"
  by (simp add: saved_state_def)

lemma stored_ok_saved:
  assumes "run_state_ok st" and "in_int64 (st_Version st)"
  shows "stored_ok (st_ID st) (saved_state st)"
proof -
  have "wrap64 (st_Version st + 1) \<noteq> 0"
    using assms by (intro wrap64_nonzero) (auto simp: run_state_ok_def)
  with assms show ?thesis
    using wrap64_range by (auto simp: stored_ok_def run_state_ok_def suspension_ok_def)
qed

lemma stored_step_wf: "stored_step m m' \<Longrightarrow> stored_wf m \<Longrightarrow> stored_wf m'"
proof (induction rule: stored_step.induct)
  case (create m st)
  then have "stored_ok (st_ID st) (saved_state st)"
    by (intro stored_ok_saved) (simp_all add: in_int64_def)
  with create show ?case by (auto simp: stored_wf_def)
next
  case (update m st st0)
  then have "in_int64 (st_Version st)" by (auto simp: stored_wf_def stored_ok_def)
  with update have "stored_ok (st_ID st) (saved_state st)" by (intro stored_ok_saved)
  with update show ?case by (auto simp: stored_wf_def)
qed

lemma stored_steps_wf: "stored_step\<^sup>*\<^sup>* m m' \<Longrightarrow> stored_wf m \<Longrightarrow> stored_wf m'"
  by (induction rule: rtranclp_induct) (auto dest: stored_step_wf)

lemma stored_step_terminal:
  "stored_step m m' \<Longrightarrow> m i = Some st \<Longrightarrow> isTerminalRunStatus (st_Status st) \<Longrightarrow> m' i = Some st"
  by (auto elim!: stored_stepE)

lemma stored_steps_terminal:
  "stored_step\<^sup>*\<^sup>* m m' \<Longrightarrow> m i = Some st \<Longrightarrow> isTerminalRunStatus (st_Status st) \<Longrightarrow> m' i = Some st"
  by (induction rule: rtranclp_induct) (auto dest: stored_step_terminal)

lemma extends_transcript_refl [simp]: "extends_transcript a a"
  by (simp add: extends_transcript_def)

lemma extends_transcript_trans:
  "extends_transcript a b \<Longrightarrow> extends_transcript b c \<Longrightarrow> extends_transcript a c"
  unfolding extends_transcript_def by (metis append.assoc)

lemma advances_refl [simp]: "advances st st"
  by (simp add: advances_def)

lemma advances_trans: "advances a b \<Longrightarrow> advances b c \<Longrightarrow> advances a c"
  by (auto simp: advances_def intro: extends_transcript_trans)

lemma advances_saved: "advances st (saved_state st)"
  by (simp add: advances_def extends_transcript_def CloneMessages_def comp_def)

text \<open>No run is ever lost, and a stored run only advances.\<close>

lemma stored_step_advances:
  "stored_step m m' \<Longrightarrow> m i = Some st \<Longrightarrow> \<exists>st'. m' i = Some st' \<and> advances st st'"
proof (induction rule: stored_step.induct)
  case (create m s)
  then have "i \<noteq> st_ID s" by auto
  with create show ?case by auto
next
  case (update m s st0)
  show ?case
  proof (cases "i = st_ID s")
    case True
    with update have "advances st (saved_state s)" by (auto intro: advances_trans advances_saved)
    with True show ?thesis by simp
  next
    case False
    with update show ?thesis by auto
  qed
qed

lemma stored_steps_advance:
  "stored_step\<^sup>*\<^sup>* m m' \<Longrightarrow> m i = Some st \<Longrightarrow> \<exists>st'. m' i = Some st' \<and> advances st st'"
proof (induction rule: rtranclp_induct)
  case (step y z)
  then obtain s1 where "y i = Some s1" "advances st s1" by auto
  with stored_step_advances [OF step.hyps(2)] show ?case by (metis advances_trans)
qed auto

section \<open>The services of a runner\<close>

text \<open>
  \<open>stored w\<close> are the contents of the run store in the world \<open>w\<close>. The store keeps its
  contract; no other service writes to it.
\<close>

locale runner_env =
  fixes D :: "'w deps" and stored :: "'w \<Rightarrow> contents"
  assumes poll_stored: "stored (snd (dp_poll D w)) = stored w"
    and newid_stored: "stored (snd (dp_NewRunID D c w)) = stored w"
    and publish_stored: "stored (snd (dp_Publish D c ev w)) = stored w"
    and execute_stored: "stored (snd (dp_Execute D c st inp w)) = stored w"
    and load_stored: "stored (snd (dp_Load D c i w)) = stored w"
    and load_found: "fst (dp_Load D c i w) = Inr st \<Longrightarrow>
      \<exists>st0. stored w i = Some st0 \<and> st = CloneRunState st0"
    and save_refused: "fst (dp_Save D c st w) = Some e \<Longrightarrow>
      stored (snd (dp_Save D c st w)) = stored w"
    and save_accepted: "fst (dp_Save D c st w) = None \<Longrightarrow>
      run_state_ok st \<and> st_Version st = expected_version (stored w (st_ID st)) \<and>
      stored (snd (dp_Save D c st w)) = (stored w)(st_ID st \<mapsto> saved_state st)"

lemma sideEffectContext_world:
  "snd (sideEffectContext poll c w) = w \<or> snd (sideEffectContext poll c w) = snd (poll w)"
  by (auto simp: sideEffectContext_def ctx_Err_def Let_def split: option.splits prod.splits)

context runner_env begin

lemma context_stored: "sideEffectContext (dp_poll D) c w = (sc, w') \<Longrightarrow> stored w' = stored w"
  using sideEffectContext_world [of "dp_poll D" c w] poll_stored by auto

lemma emit_stored [simp]: "stored (snd (emit D c ev s)) = stored (snd s)"
proof -
  have "stored (snd (publishEvent (dp_Publish D) sc ev w)) = stored w" for sc w
    using publish_stored [of sc ev w] by (auto simp: publishEvent_def split: option.splits prod.splits)
  then show ?thesis
    by (auto simp: emit_def Let_def dest!: context_stored split: prod.splits) (metis snd_conv)
qed

lemma emit_stored_eq: "emit D c ev s = (e, w') \<Longrightarrow> stored w' = stored (snd s)"
  by (metis emit_stored snd_conv)

lemma load_state_stored: "load_state D c i w = (r, w') \<Longrightarrow> stored w' = stored w"
  unfolding load_state_def using load_stored
  by (auto dest!: context_stored split: prod.splits) (metis snd_conv)

lemma load_state_found:
  "load_state D c i w = (Inr st, w') \<Longrightarrow> \<exists>st0. stored w i = Some st0 \<and> st = CloneRunState st0"
  unfolding load_state_def using load_found
  by (auto dest!: context_stored split: prod.splits) (metis fst_conv)

lemma save_state_refused: "save_state D c st w = (Some e, w') \<Longrightarrow> stored w' = stored w"
  unfolding save_state_def using save_refused
  by (auto dest!: context_stored split: prod.splits) (metis fst_conv snd_conv)

lemma save_state_accepted:
  "save_state D c st w = (None, w') \<Longrightarrow>
   run_state_ok st \<and> st_Version st = expected_version (stored w (st_ID st)) \<and>
   stored w' = (stored w)(st_ID st \<mapsto> saved_state st)"
  unfolding save_state_def using save_accepted
  by (auto dest!: context_stored split: prod.splits) (metis fst_conv snd_conv)+

lemma execute_stored_eq: "dp_Execute D c st inp w = (r, w') \<Longrightarrow> stored w' = stored w"
  by (metis execute_stored snd_conv)

lemma start_run_id_stored: "start_run_id D c inp w = (r, w') \<Longrightarrow> stored w' = stored w"
  using newid_stored [of c w] by (auto simp: start_run_id_def split: if_splits prod.splits sum.splits)

text \<open>The tail shared by the engine-driven commands: nothing is stored, or the run takes one step.\<close>

lemma conclude_stored:
  assumes "conclude D c kind cp ap i state out (ev, w) = (res, w')"
    and "stored w i = Some st0" and "\<not> isTerminalRunStatus (st_Status st0)"
    and "advances st0 state" and "st_ID st0 = i"
  shows "case res of
      Inl e \<Rightarrow> stored w' = stored w \<and> e \<noteq> None
    | Inr (final, e) \<Rightarrow> stored_step (stored w) (stored w') \<and> st_ID final = i \<and>
        stored w' i = Some (CloneRunState final)"
proof -
  obtain final runErr where out: "out = (final, runErr)" by fastforce
  show ?thesis
  proof (cases "validateEngineOutput state final")
    case (Some e)
    with assms(1) out show ?thesis by (auto simp: conclude_def)
  next
    case None
    then have ok: "st_ID final = st_ID state" "st_Step state \<le> st_Step final"
      "extends_transcript state final"
      by (auto simp: engine_output_ok_def transcript_extends_def extends_transcript_def
          split: option.splits)
    with assms(4,5) have final: "st_ID final = i" "advances st0 final"
      by (auto simp: advances_def intro: extends_transcript_trans)
    show ?thesis
    proof (cases "save_state D c final w")
      case (Pair r w1)
      show ?thesis
      proof (cases r)
        case (Some e)
        have "errors_Join [runErr, normalizeCommandSaveError kind e, ev] \<noteq> None"
          by (simp add: normalizeCommandSaveError_def)
        with Some Pair assms(1) out None save_state_refused [of c final w e w1] show ?thesis
          by (auto simp: conclude_def simp del: validateEngineOutput_None_iff)
      next
        case saved: None
        with Pair have acc: "run_state_ok final" "st_Version final = expected_version (stored w i)"
          "stored w1 = (stored w)(i \<mapsto> saved_state final)"
          using save_state_accepted [of c final w w1] final by auto
        with final assms(2,3) have "stored_step (stored w) (stored w1)"
          using stored_step.update [of "stored w" final st0] by simp
        moreover have "CloneRunState (bump_version final) = saved_state final"
          by (simp add: bump_version_def saved_state_def)
        moreover have "\<exists>e. res = Inr (bump_version final, e) \<and> stored w' = stored w1"
          using assms(1) out None saved Pair
          by (auto simp: conclude_def Let_def simp del: validateEngineOutput_None_iff
              split: prod.splits if_splits dest!: emit_stored_eq)
        ultimately show ?thesis using acc final by (auto simp: bump_version_def)
      qed
    qed
  qed
qed

end

text \<open>
  What a command does to the contents of the store: it takes a run through steps, and the run
  it returns, with or without an error, is the one that is stored; only an error can come with
  the zero run instead.
\<close>

definition effect :: "contents \<Rightarrow> contents \<Rightarrow> RunResult \<times> gerr option \<Rightarrow> bool" where
  "effect m m' r \<longleftrightarrow>
     stored_step\<^sup>*\<^sup>* m m' \<and>
     (fst r = zeroRunResult \<and> snd r \<noteq> None \<or>
      m' (st_ID (rr_State (fst r))) = Some (CloneRunState (rr_State (fst r))))"

lemma effect_zero: "snd r \<noteq> None \<Longrightarrow> fst r = zeroRunResult \<Longrightarrow> effect m m r"
  by (auto simp: effect_def)

lemma effect_zero_Some [simp]: "effect m m (zeroRunResult, Some e)"
  by (simp add: effect_def)

lemma effect_found: "m (st_ID st) = Some st \<Longrightarrow> CloneRunState st = st \<Longrightarrow> effect m m (\<lparr>rr_State = st\<rparr>, e)"
  by (simp add: effect_def)

lemma effect_step:
  "stored_step m m' \<Longrightarrow> m' (st_ID st) = Some (CloneRunState st) \<Longrightarrow>
   effect m m' (\<lparr>rr_State = st\<rparr>, e)"
  by (auto simp: effect_def)

text \<open>The transitions a live stored run is asked for never fail.\<close>

lemma live_cancel_transition:
  assumes "isKnownRunStatus (st_Status st)" and "\<not> isTerminalRunStatus (st_Status st)"
    and "suspension_ok st"
    and "TransitionRunStatus (if st_Status st = RunStatusSuspended
        then st\<lparr>st_PendingRequirement := None\<rparr> else st) RunStatusCancelled = (e, st')"
  shows "e = None"
proof -
  let ?st = "if st_Status st = RunStatusSuspended then st\<lparr>st_PendingRequirement := None\<rparr> else st"
  have "status_step (st_Status st) RunStatusCancelled"
    using assms(1,2) by (auto simp: isKnownRunStatus_def isTerminalRunStatus_def intro: status_step.intros)
  moreover have "suspension_ok (?st\<lparr>st_Status := RunStatusCancelled\<rparr>)"
    using assms(3) by (auto simp: suspension_ok_def split: option.splits)
  ultimately have "TransitionRunStatus ?st RunStatusCancelled = (None, ?st\<lparr>st_Status := RunStatusCancelled\<rparr>)"
    unfolding TransitionRunStatus_eq_None by (auto split: if_splits)
  with assms(4) show ?thesis by simp
qed

lemma resume_transition: "resume_state st = (e, st', q) \<Longrightarrow> e = None"
  using TransitionRunStatus_eq_None [of "st\<lparr>st_PendingRequirement := None\<rparr>" RunStatusRunning
      "st\<lparr>st_PendingRequirement := None, st_Status := RunStatusRunning\<rparr>"]
  by (auto simp: resume_state_def suspension_ok_def intro: status_step.resume
      split: if_splits prod.splits)

context runner_env begin

lemma conclude_effect:
  assumes "conclude_outcome (conclude D c kind cp ap i state out s) = (r, w')"
    and "stored (snd s) i = Some st0" and "\<not> isTerminalRunStatus (st_Status st0)"
    and "advances st0 state" and "st_ID st0 = i"
  shows "effect (stored (snd s)) (stored w') r"
proof -
  obtain res w1 where c: "conclude D c kind cp ap i state out s = (res, w1)" by fastforce
  from conclude_stored [of c kind cp ap i state out "fst s" "snd s" res w1 st0] c assms
  show ?thesis
    by (auto simp: conclude_outcome_def effect_zero effect_step split: sum.splits)
qed

lemma loaded_run:
  assumes "load_state D c i w = (Inr state, w1)" and "stored_wf (stored w)"
  shows "stored w i = Some state" "st_ID state = i" "stored w1 = stored w"
    "CloneRunState state = state" "stored_ok i state"
proof -
  from load_state_found [OF assms(1)] obtain st0 where
    "stored w i = Some st0" "state = CloneRunState st0" by blast
  with stored_wfD [OF assms(2)] show "stored w i = Some state" "st_ID state = i"
    "CloneRunState state = state" "stored_ok i state"
    by (auto simp: stored_ok_def)
  show "stored w1 = stored w" by (rule load_state_stored [OF assms(1)])
qed

text \<open>A loaded run that is saved with only its status, requirement or transcript changed.\<close>

lemma save_effect:
  assumes "stored w i = Some st0" and "\<not> isTerminalRunStatus (st_Status st0)"
    and "st_ID st0 = i" and "advances st0 st" and "save_state D c st w = (None, w')"
  shows "stored_step (stored w) (stored w')"
    and "stored w' i = Some (CloneRunState (bump_version st))"
proof -
  from save_state_accepted [OF assms(5)] assms(1,3,4) have
    acc: "run_state_ok st" "st_ID st = i" "st_Version st = st_Version st0"
      "stored w' = (stored w)(i \<mapsto> saved_state st)"
    by (auto simp: advances_def)
  with assms stored_step.update [of "stored w" st st0]
  show "stored_step (stored w) (stored w')" by simp
  from acc show "stored w' i = Some (CloneRunState (bump_version st))"
    by (simp add: bump_version_def saved_state_def)
qed

end

lemma advances_add_message [simp]: "advances st (add_message m st)"
  by (simp add: advances_def add_message_def extends_transcript_def)

lemma advances_upd [simp]:
  "advances a (st\<lparr>st_Status := s\<rparr>) = advances a st"
  "advances a (st\<lparr>st_PendingRequirement := q\<rparr>) = advances a st"
  "advances a (bump_version st) = advances a st"
  by (simp_all add: advances_def extends_transcript_def bump_version_def)

lemma Transition_advances:
  "TransitionRunStatus st t = (e, st') \<Longrightarrow> advances a st' = advances a st \<and> st_ID st' = st_ID st"
  by (cases e) (auto simp: TransitionRunStatus_eq_None dest: TransitionRunStatus_eq_Some)

lemma resume_advances: "advances st (fst (snd (resume_state st)))"
proof -
  obtain e st' where t:
    "TransitionRunStatus (st\<lparr>st_PendingRequirement := None\<rparr>) RunStatusRunning = (e, st')"
    by fastforce
  from Transition_advances [OF t, of st] have "advances st st'" by simp
  with t show ?thesis by (simp add: resume_state_def)
qed

lemma bump_version_ID [simp]: "st_ID (bump_version st) = st_ID st"
  by (simp add: bump_version_def)

lemma add_message_fields [simp]:
  "st_ID (add_message m st) = st_ID st" "st_Status (add_message m st) = st_Status st"
  "st_Version (add_message m st) = st_Version st" "st_Step (add_message m st) = st_Step st"
  "st_PendingRequirement (add_message m st) = st_PendingRequirement st"
  "st_Messages (add_message m st) = Some (elems (st_Messages st) @ [m])"
  by (simp_all add: add_message_def)


section \<open>The commands\<close>

context runner_env begin

lemma cancel_effect:
  assumes "dispatchCancel D c cmd w = (r, w')" and "stored_wf (stored w)"
  shows "effect (stored w) (stored w') r"
proof (cases "xc_RunID cmd = []")
  case True
  with assms(1) show ?thesis by (auto simp: dispatchCancel_def Let_def split: if_splits)
next
  case ne: False
  obtain ld w1 where ld: "load_state D c (xc_RunID cmd) w = (ld, w1)" by fastforce
  show ?thesis
  proof (cases ld)
    case (Inl e)
    with assms(1) ld ne load_state_stored [OF ld] show ?thesis
      by (auto simp: dispatchCancel_def Let_def split: if_splits)
  next
    case (Inr state)
    note loaded = loaded_run [OF ld [unfolded Inr] assms(2)]
    let ?st1 = "if st_Status state = RunStatusSuspended then state\<lparr>st_PendingRequirement := None\<rparr>
      else state"
    show ?thesis
    proof (cases "isTerminalRunStatus (st_Status state)")
      case True
      with assms(1) ld ne Inr loaded show ?thesis
        by (auto simp: dispatchCancel_def Let_def effect_found split: if_splits)
    next
      case live: False
      obtain te st2 where tr: "TransitionRunStatus ?st1 RunStatusCancelled = (te, st2)" by fastforce
      obtain se w2 where sv: "save_state D c st2 w1 = (se, w2)" by fastforce
      have adv: "advances state st2" using Transition_advances [OF tr] by simp
      have te: "te = None"
        using loaded(5) live live_cancel_transition [OF _ live _ tr] by (simp add: stored_ok_def)
      show ?thesis
      proof (cases "se = None")
        case True
        with te assms(1) ld ne Inr live tr sv obtain e where
          r: "r = (\<lparr>rr_State = bump_version st2\<rparr>, e)" "stored w' = stored w2"
          by (auto simp: dispatchCancel_def Let_def split: prod.splits dest!: emit_stored_eq)
        have "stored_step (stored w) (stored w2)" "stored w2 (st_ID st2) = Some (CloneRunState (bump_version st2))"
          using save_effect [OF _ live _ adv sv [unfolded True]] loaded adv
          by (simp_all add: advances_def)
        with r show ?thesis by (simp add: effect_step)
      next
        case False
        with te assms(1) ld ne Inr live tr sv loaded show ?thesis
          by (auto simp: dispatchCancel_def Let_def normalizeCommandSaveError_def
              intro!: effect_zero dest!: save_state_refused)
      qed
    qed
  qed
qed

lemma steer_effect:
  assumes "dispatchSteer D c cmd w = (r, w')" and "stored_wf (stored w)"
  shows "effect (stored w) (stored w') r"
proof (cases "stc_RunID cmd = []")
  case True
  with assms(1) show ?thesis by (auto simp: dispatchSteer_def Let_def split: if_splits)
next
  case ne: False
  obtain ld w1 where ld: "load_state D c (stc_RunID cmd) w = (ld, w1)" by fastforce
  show ?thesis
  proof (cases ld)
    case (Inl e)
    with assms(1) ld ne load_state_stored [OF ld] show ?thesis
      by (auto simp: dispatchSteer_def Let_def split: if_splits)
  next
    case (Inr state)
    note loaded = loaded_run [OF ld [unfolded Inr] assms(2)]
    let ?st1 = "add_message (userMessage (stc_Instruction cmd)) state"
    show ?thesis
    proof (cases "isTerminalRunStatus (st_Status state) \<or> st_Status state = RunStatusSuspended")
      case True
      with assms(1) ld ne Inr loaded show ?thesis
        by (auto simp: dispatchSteer_def Let_def effect_found split: if_splits)
    next
      case live: False
      obtain se w2 where sv: "save_state D c ?st1 w1 = (se, w2)" by fastforce
      show ?thesis
      proof (cases se)
        case None
        with assms(1) ld ne Inr live sv obtain e where
          r: "r = (\<lparr>rr_State = bump_version ?st1\<rparr>, e)" "stored w' = stored w2"
          by (auto simp: dispatchSteer_def Let_def split: prod.splits dest!: emit_stored_eq)
        have "stored_step (stored w) (stored w2)"
          "stored w2 (st_ID ?st1) = Some (CloneRunState (bump_version ?st1))"
          using save_effect [OF _ _ _ _ sv [unfolded None], of "st_ID ?st1" state] live loaded
          by simp_all
        with r show ?thesis by (simp add: effect_step)
      next
        case (Some e)
        with assms(1) ld ne Inr live sv loaded show ?thesis
          by (auto simp: dispatchSteer_def Let_def intro!: effect_zero dest!: save_state_refused)
      qed
    qed
  qed
qed

lemma follow_up_effect:
  assumes "dispatchFollowUp D c cmd w = (r, w')" and "stored_wf (stored w)"
  shows "effect (stored w) (stored w') r"
proof (cases "fc_RunID cmd = [] \<or> validateToolDefinitions CommandKindFollowUp (fc_Tools cmd) \<noteq> None")
  case True
  with assms(1) show ?thesis by (auto simp: dispatchFollowUp_def Let_def split: if_splits)
next
  case ne: False
  obtain ld w1 where ld: "load_state D c (fc_RunID cmd) w = (ld, w1)" by fastforce
  show ?thesis
  proof (cases ld)
    case (Inl e)
    with assms(1) ld ne load_state_stored [OF ld] show ?thesis
      by (auto simp: dispatchFollowUp_def Let_def split: if_splits)
  next
    case (Inr state)
    note loaded = loaded_run [OF ld [unfolded Inr] assms(2)]
    show ?thesis
    proof (cases "isTerminalRunStatus (st_Status state) \<or> st_Status state = RunStatusSuspended")
      case True
      with assms(1) ld ne Inr loaded show ?thesis
        by (auto simp: dispatchFollowUp_def Let_def effect_found split: if_splits)
    next
      case live: False
      let ?st1 = "add_message (userMessage (fc_UserPrompt cmd)) state"
      obtain out w2 where ex: "dp_Execute D c ?st1
          \<lparr>ei_MaxSteps = fc_MaxSteps cmd, ei_Tools = CloneToolDefinitions (fc_Tools cmd),
           ei_Resolution = None, ei_ResolvedRequirement = None\<rparr> w1 = (out, w2)"
        by fastforce
      have "conclude_outcome (conclude D c CommandKindFollowUp ''follow-up run state persisted''
          ''follow-up command applied'' (fc_RunID cmd) ?st1 out (None, w2)) = (r, w')"
        using assms(1) ld ne Inr live ex by (auto simp: dispatchFollowUp_def Let_def split: if_splits)
      from conclude_effect [OF this, of state] show ?thesis
        using live loaded execute_stored_eq [OF ex] by simp
    qed
  qed
qed

lemma start_effect:
  assumes "dispatchStart D c cmd w = (r, w')" and "stored_wf (stored w)"
  shows "effect (stored w) (stored w') r"
proof (cases "validateToolDefinitions CommandKindStart (ri_Tools (sc_Input cmd))")
  case (Some e)
  with assms(1) show ?thesis by (auto simp: dispatchStart_def)
next
  case tools: None
  let ?inp = "sc_Input cmd"
  obtain ids w1 where ids: "start_run_id D c ?inp w = (ids, w1)" by fastforce
  note w1 = start_run_id_stored [OF ids]
  show ?thesis
  proof (cases ids)
    case (Inl e)
    with assms(1) tools ids w1 show ?thesis by (auto simp: dispatchStart_def)
  next
    case (Inr i)
    let ?st0 = "zeroRunState\<lparr>st_ID := i\<rparr>"
    have tr: "TransitionRunStatus ?st0 RunStatusPending =
        (None, ?st0\<lparr>st_Status := RunStatusPending\<rparr>)"
      unfolding TransitionRunStatus_eq_None
      by (auto simp: zeroRunState_def suspension_ok_def intro: status_step.create)
    define st where "st = prompt_messages ?inp (?st0\<lparr>st_Status := RunStatusPending\<rparr>)"
    have st: "st_ID st = i" "st_Version st = 0" "st_Step st = 0" "st_Status st = RunStatusPending"
      by (simp_all add: st_def prompt_messages_def zeroRunState_def Let_def)
    obtain se w2 where sv: "save_state D c st w1 = (se, w2)" by fastforce
    show ?thesis
    proof (cases se)
      case (Some e)
      with assms(1) tools ids w1 Inr tr sv save_state_refused [of c st w1 e w2] show ?thesis
        by (auto simp: dispatchStart_def Let_def st_def normalizeCommandSaveError_def
            intro!: effect_zero)
    next
      case None
      from save_state_accepted [OF sv [unfolded None]] w1 st have
        acc: "run_state_ok st" "expected_version (stored w i) = 0"
          "stored w2 = (stored w)(i \<mapsto> saved_state st)"
        by auto
      from acc(2) assms(2) have "stored w i = None"
        by (auto simp: stored_wf_def stored_ok_def expected_version_def split: option.splits)
      with acc st have created: "stored_step (stored w) (stored w2)"
        using stored_step.create [of "stored w" st] by simp
      obtain ev w3 where em: "emit D c (run_event i 0 EventTypeRunStarted
          ''run persisted and ready for execution'') (None, w2) = (ev, w3)" by fastforce
      obtain out w4 where ex: "dp_Execute D c (bump_version st)
          \<lparr>ei_MaxSteps = ri_MaxSteps ?inp, ei_Tools = CloneToolDefinitions (ri_Tools ?inp),
           ei_Resolution = None, ei_ResolvedRequirement = None\<rparr> w3 = (out, w4)"
        by fastforce
      have w4: "stored w4 = stored w2"
        using emit_stored_eq [OF em] execute_stored_eq [OF ex] by simp
      have "conclude_outcome (conclude D c CommandKindStart ''final state persisted''
          ''start command applied'' i (bump_version st) out (ev, w4)) = (r, w')"
        using assms(1) tools ids Inr tr sv None em ex
        by (auto simp: dispatchStart_def Let_def st_def)
      moreover have "stored w4 i = Some (saved_state st)" using w4 acc by simp
      moreover have "advances (saved_state st) (bump_version st)"
        by (simp add: advances_def extends_transcript_def CloneMessages_def comp_def
            bump_version_def)
      ultimately have "effect (stored w2) (stored w') r"
        using conclude_effect [of c CommandKindStart _ _ i "bump_version st" out "(ev, w4)" r w'
            "saved_state st"] w4 st
        by simp
      with created show ?thesis
        by (auto simp: effect_def intro: converse_rtranclp_into_rtranclp)
    qed
  qed
qed

lemma continue_run_effect:
  assumes "continue_run D c cmd w = (res, w')" and "stored_wf (stored w)"
  shows "case res of Inl r \<Rightarrow> stored w' = stored w \<and> snd r \<noteq> None \<and> effect (stored w) (stored w) r
    | Inr r \<Rightarrow> stored_step (stored w) (stored w') \<and> effect (stored w) (stored w') r"
proof (cases "validateToolDefinitions CommandKindContinue (cc_Tools cmd)")
  case (Some e)
  with assms(1) show ?thesis by (auto simp: continue_run_def)
next
  case tools: None
  obtain ld w1 where ld: "load_state D c (cc_RunID cmd) w = (ld, w1)" by fastforce
  show ?thesis
  proof (cases ld)
    case (Inl e)
    with assms(1) ld tools load_state_stored [OF ld] show ?thesis
      by (auto simp: continue_run_def effect_zero)
  next
    case (Inr state)
    note loaded = loaded_run [OF ld [unfolded Inr] assms(2)]
    obtain re st1 q where rs: "resume_state state = (re, st1, q)" by (metis prod_cases3)
    have adv: "advances state st1"
      using resume_advances [of state] rs by simp
    note re = resume_transition [OF rs]
    show ?thesis
    proof (cases "isTerminalRunStatus (st_Status state) \<or> validateContinueResolution state cmd \<noteq> None")
      case True
      with assms(1) ld tools Inr rs loaded show ?thesis
        by (auto simp: continue_run_def Let_def effect_found split: if_splits option.splits)
    next
      case live: False
      obtain out w2 where ex: "dp_Execute D (continue_context c (cc_Resolution cmd) q) st1
          \<lparr>ei_MaxSteps = cc_MaxSteps cmd, ei_Tools = CloneToolDefinitions (cc_Tools cmd),
           ei_Resolution = cc_Resolution cmd, ei_ResolvedRequirement = q\<rparr> w1 = (out, w2)"
        by fastforce
      obtain cr w3 where cr: "conclude D c CommandKindContinue ''continued run state persisted''
          ''continue command applied'' (cc_RunID cmd) st1 out (None, w2) = (cr, w3)" by fastforce
      have "case cr of Inl e \<Rightarrow> stored w3 = stored w2 \<and> e \<noteq> None
        | Inr (final, e) \<Rightarrow> stored_step (stored w2) (stored w3) \<and> st_ID final = cc_RunID cmd \<and>
            stored w3 (cc_RunID cmd) = Some (CloneRunState final)"
        using live loaded adv execute_stored_eq [OF ex]
        by (intro conclude_stored [OF cr, of state]) auto
      moreover have "res = (case cr of Inl e \<Rightarrow> Inl (zeroRunResult, e)
          | Inr (final, e) \<Rightarrow> Inr (\<lparr>rr_State = final\<rparr>, e)) \<and> w' = w3"
        using assms(1) ld tools Inr rs re live ex cr
        by (auto simp: continue_run_def Let_def split: sum.splits)
      ultimately show ?thesis
        using execute_stored_eq [OF ex] loaded(3)
        by (auto simp: effect_step effect_zero split: sum.splits prod.splits)
    qed
  qed
qed

end

text \<open>The outcome a continue command finds in the cache, if any.\<close>

definition cached_outcome :: "outcomes \<Rightarrow> Command \<Rightarrow> (RunResult \<times> gerr option) option" where
  "cached_outcome oc cmd =
     (case cmd of
        CmdContinue command \<Rightarrow>
          (if cc_RunID command = [] then None
           else Option.bind (continueIdempotencyKey (cc_RunID command) (cc_CommandID command))
                  (outcomes_load oc))
      | _ \<Rightarrow> None)"

text \<open>Commands dispatched one after the other.\<close>

primrec dispatch_all ::
  "'w deps \<Rightarrow> (ctx \<times> Command) list \<Rightarrow> outcomes \<times> 'w \<Rightarrow> outcomes \<times> 'w" where
  "dispatch_all D [] s = s"
| "dispatch_all D (cmd # cmds) s = dispatch_all D cmds (snd (Dispatch D (fst cmd) (snd cmd) s))"

context runner_env begin

lemma continue_effect:
  assumes "dispatchContinue D c cmd (oc, w) = (r, (oc', w'))" and "stored_wf (stored w)"
  shows "(if cached_outcome oc (CmdContinue cmd) = None then effect (stored w) (stored w') r
      else stored w' = stored w)"
proof (cases "cc_RunID cmd = []")
  case True
  with assms(1) show ?thesis
    by (auto simp: dispatchContinue_def cached_outcome_def)
next
  case ne: False
  let ?key = "continueIdempotencyKey (cc_RunID cmd) (cc_CommandID cmd)"
  show ?thesis
  proof (cases "Option.bind ?key (outcomes_load oc)")
    case (Some cached)
    with assms(1) ne show ?thesis
      by (auto simp: dispatchContinue_def Let_def cached_outcome_def)
  next
    case None
    obtain res w1 where cr: "continue_run D c cmd w = (res, w1)" by fastforce
    from continue_run_effect [OF cr assms(2)] None ne cr assms(1) show ?thesis
      by (auto simp: dispatchContinue_def Let_def cached_outcome_def
          split: sum.splits)
  qed
qed

lemma Dispatch_effect:
  assumes "Dispatch D c cmd (oc, w) = (r, (oc', w'))" and "stored_wf (stored w)"
  shows "(if cached_outcome oc cmd = None then effect (stored w) (stored w') r
      else stored w' = stored w)"
proof (cases c)
  case None
  with assms(1) show ?thesis by (auto simp: Dispatch_def)
next
  case (Some x)
  have handler: "effect (stored w) (stored w') r"
    if "on_world oc h = (r, (oc', w'))" "\<And>r w'. h = (r, w') \<Longrightarrow> effect (stored w) (stored w') r" for h
    using that by (cases h) (simp add: on_world_def)
  show ?thesis
  proof (cases cmd)
    case (CmdStart command)
    with assms Some handler start_effect show ?thesis
      by (simp add: Dispatch_def cached_outcome_def)
  next
    case (CmdContinue command)
    with assms Some continue_effect [of c command oc w r oc' w'] show ?thesis
      by (simp add: Dispatch_def)
  next
    case (CmdCancel command)
    with assms Some handler cancel_effect show ?thesis
      by (simp add: Dispatch_def cached_outcome_def)
  next
    case (CmdSteer command)
    with assms Some handler steer_effect show ?thesis
      by (simp add: Dispatch_def cached_outcome_def)
  next
    case (CmdFollowUp command)
    with assms Some handler follow_up_effect show ?thesis
      by (simp add: Dispatch_def cached_outcome_def)
  qed (use assms(1) Some in \<open>auto simp: Dispatch_def split: if_splits\<close>)
qed

lemma Dispatch_steps:
  assumes "stored_wf (stored w)"
  shows "stored_step\<^sup>*\<^sup>* (stored w) (stored (snd (snd (Dispatch D c cmd (oc, w)))))"
proof -
  obtain r oc' w' where d: "Dispatch D c cmd (oc, w) = (r, (oc', w'))" by (metis surj_pair)
  from Dispatch_effect [OF d assms] d show ?thesis
    by (auto simp: effect_def split: if_splits)
qed

lemma dispatch_all_steps:
  "stored_wf (stored w) \<Longrightarrow>
   stored_step\<^sup>*\<^sup>* (stored w) (stored (snd (dispatch_all D cmds (oc, w))))"
proof (induction cmds arbitrary: oc w)
  case (Cons cmd cmds)
  obtain r oc1 w1 where d: "Dispatch D (fst cmd) (snd cmd) (oc, w) = (r, (oc1, w1))"
    by (metis surj_pair)
  from Dispatch_steps [OF Cons.prems, of "fst cmd" "snd cmd" oc] d
  have s1: "stored_step\<^sup>*\<^sup>* (stored w) (stored w1)" by simp
  from Cons.IH [OF stored_steps_wf [OF s1 Cons.prems], of oc1] s1 d
  show ?case by (simp add: rtranclp_trans)
qed simp

text \<open>The run a command returns is the one in the store.\<close>

lemma Dispatch_result_stored:
  assumes "Dispatch D c cmd (oc, w) = ((r, e), (oc', w'))" and "stored_wf (stored w)"
    and "cached_outcome oc cmd = None"
  shows "r = zeroRunResult \<and> e \<noteq> None \<or>
    stored w' (st_ID (rr_State r)) = Some (CloneRunState (rr_State r))"
  using Dispatch_effect [OF assms(1,2)] assms(3) by (simp add: effect_def)

end

end
