(* ===== verification/Runner_Calls.thy ===== *)
theory Runner_Calls
  imports Runner_Safety
begin

text \<open>
  What the runner's commands do to the world: the engine calls a command can make, the
  commands that are refused, and the cache of continue commands.
\<close>

section \<open>The engine calls of a command\<close>

text \<open>
  A fact about the world kept by the services, and by the engine for the calls \<open>allowed\<close>, is
  kept by a handler that makes no other calls.
\<close>

definition deps_keep ::
  "'w deps \<Rightarrow> (ctx \<Rightarrow> RunState \<Rightarrow> EngineInput \<Rightarrow> bool) \<Rightarrow> ('w \<Rightarrow> bool) \<Rightarrow> bool" where
  "deps_keep D allowed Q \<longleftrightarrow>
     (\<forall>w. Q w \<longrightarrow> Q (snd (dp_poll D w))) \<and>
     (\<forall>c w. Q w \<longrightarrow> Q (snd (dp_NewRunID D c w))) \<and>
     (\<forall>c st w. Q w \<longrightarrow> Q (snd (dp_Save D c st w))) \<and>
     (\<forall>c i w. Q w \<longrightarrow> Q (snd (dp_Load D c i w))) \<and>
     (\<forall>c ev w. Q w \<longrightarrow> Q (snd (dp_Publish D c ev w))) \<and>
     (\<forall>c st inp w. Q w \<longrightarrow> allowed c st inp \<longrightarrow> Q (snd (dp_Execute D c st inp w)))"

lemma keep_context:
  "deps_keep D A Q \<Longrightarrow> Q w \<Longrightarrow> sideEffectContext (dp_poll D) c w = (sc, w') \<Longrightarrow> Q w'"
  using sideEffectContext_world [of "dp_poll D" c w] unfolding deps_keep_def by (metis snd_conv)

lemma keep_emit:
  assumes "deps_keep D A Q" and "Q (snd s)"
  shows "Q (snd (emit D c ev s))"
proof -
  obtain sc w1 where c: "sideEffectContext (dp_poll D) c (snd s) = (sc, w1)" by fastforce
  have w1: "Q w1" by (rule keep_context [OF assms c])
  then have "Q (snd (publishEvent (dp_Publish D) sc ev w1))"
    using assms(1) unfolding deps_keep_def publishEvent_def
    by (auto split: option.splits prod.splits) (metis snd_conv)+
  with c show ?thesis by (cases s) (simp add: emit_def case_prod_beta)
qed

lemma keep_save:
  assumes "deps_keep D A Q" and "Q w"
  shows "Q (snd (save_state D c st w))"
proof -
  obtain sc w1 where c: "sideEffectContext (dp_poll D) c w = (sc, w1)" by fastforce
  have "Q w1" by (rule keep_context [OF assms c])
  with assms(1) c show ?thesis by (simp add: save_state_def deps_keep_def)
qed

lemma keep_load:
  assumes "deps_keep D A Q" and "Q w"
  shows "Q (snd (load_state D c i w))"
proof -
  obtain sc w1 where c: "sideEffectContext (dp_poll D) c w = (sc, w1)" by fastforce
  have "Q w1" by (rule keep_context [OF assms c])
  with assms(1) c show ?thesis by (simp add: load_state_def deps_keep_def)
qed

lemma keep_Execute:
  "deps_keep D A Q \<Longrightarrow> A c st inp \<Longrightarrow> Q w \<Longrightarrow> Q (snd (dp_Execute D c st inp w))"
  by (simp add: deps_keep_def)

lemma keep_start_run_id: "deps_keep D A Q \<Longrightarrow> Q w \<Longrightarrow> Q (snd (start_run_id D c inp w))"
  unfolding deps_keep_def
  by (auto simp: start_run_id_def split: prod.splits sum.splits) (metis snd_conv)+

lemma keep_conclude:
  assumes "deps_keep D A Q" and "Q (snd s)"
  shows "Q (snd (conclude D c kind cp ap i st out s))"
proof -
  obtain final runErr where out: "out = (final, runErr)" by fastforce
  obtain se w1 where sv: "save_state D c final (snd s) = (se, w1)" by fastforce
  have w1: "Q w1" using keep_save [OF assms, of c final] sv by simp
  show ?thesis
    using assms(2) out sv w1
    by (cases s)
      (auto simp: conclude_def Let_def case_prod_beta split: option.split
        intro!: keep_emit [OF assms(1)])
qed

lemma keep_conclude_outcome: "snd (conclude_outcome r) = snd r"
  by (auto simp: conclude_outcome_def split: prod.splits sum.splits)


text \<open>
  Start and follow-up call the engine in the caller's context, without a resolution.
  Continue calls it on the run it has loaded and resumed, with the resolution it has
  validated, and in the context that carries the override for it.
\<close>

definition plain_call :: "ctx \<Rightarrow> ctx \<Rightarrow> RunState \<Rightarrow> EngineInput \<Rightarrow> bool" where
  "plain_call c c' st inp \<longleftrightarrow>
     c' = c \<and> ei_Resolution inp = None \<and> ei_ResolvedRequirement inp = None"

definition continue_call ::
  "'w deps \<Rightarrow> ctx \<Rightarrow> ContinueCommand \<Rightarrow> 'w \<Rightarrow> ctx \<Rightarrow> RunState \<Rightarrow> EngineInput \<Rightarrow> bool" where
  "continue_call D c cmd w c' st inp \<longleftrightarrow>
     (\<exists>state w1. load_state D c (cc_RunID cmd) w = (Inr state, w1) \<and>
        validateContinueResolution state cmd = None \<and>
        resume_state state = (None, st, ei_ResolvedRequirement inp) \<and>
        c' = continue_context c (cc_Resolution cmd) (ei_ResolvedRequirement inp) \<and>
        ei_Resolution inp = cc_Resolution cmd)"

definition engine_call ::
  "'w deps \<Rightarrow> ctx \<Rightarrow> Command \<Rightarrow> 'w \<Rightarrow> ctx \<Rightarrow> RunState \<Rightarrow> EngineInput \<Rightarrow> bool" where
  "engine_call D c cmd w c' st inp \<longleftrightarrow>
     (case cmd of
        CmdStart command \<Rightarrow> plain_call c c' st inp
      | CmdFollowUp command \<Rightarrow> plain_call c c' st inp
      | CmdContinue command \<Rightarrow> continue_call D c command w c' st inp
      | _ \<Rightarrow> False)"

lemma keep_start:
  assumes "deps_keep D (plain_call c) Q" and "Q w"
  shows "Q (snd (dispatchStart D c cmd w))"
proof -
  obtain ids w1 where ids: "start_run_id D c (sc_Input cmd) w = (ids, w1)" by fastforce
  have w1: "Q w1" using keep_start_run_id [OF assms, of c "sc_Input cmd"] ids by simp
  have run: "Q (snd (conclude D c k cp ap i st1 out (e3, w4)))"
    if "save_state D c st w1 = (se, w2)" "emit D c ev (None, w2) = (e3, w3)"
      "dp_Execute D c st1 \<lparr>ei_MaxSteps = n, ei_Tools = ts, ei_Resolution = None,
         ei_ResolvedRequirement = None\<rparr> w3 = (out, w4)"
    for st st1 se w2 ev e3 w3 out w4 k cp ap i n ts
  proof -
    have "Q w2" using keep_save [OF assms(1) w1, of c st] that(1) by simp
    then have w3: "Q w3" using keep_emit [OF assms(1), of "(None, w2)" c ev] that(2) by simp
    have "Q w4" using keep_Execute [OF assms(1) _ w3, of c st1] that(3)
      by (metis EngineInput.select_convs(3,4) plain_call_def snd_conv)
    then show ?thesis by (intro keep_conclude [OF assms(1)]) simp
  qed
  have saved: "Q w2" if "save_state D c st w1 = (se, w2)" for st se w2
    using keep_save [OF assms(1) w1, of c st] that by simp
  show ?thesis
    using assms(2) ids w1 run saved
    by (auto simp: dispatchStart_def Let_def keep_conclude_outcome
        split: option.split sum.split prod.split)
qed

lemma keep_follow_up:
  assumes "deps_keep D (plain_call c) Q" and "Q w"
  shows "Q (snd (dispatchFollowUp D c cmd w))"
proof -
  obtain ld w1 where ld: "load_state D c (fc_RunID cmd) w = (ld, w1)" by fastforce
  have w1: "Q w1" using keep_load [OF assms, of c "fc_RunID cmd"] ld by simp
  have run: "Q (snd (conclude D c k cp ap i st1 out (None, w2)))"
    if "dp_Execute D c st1 \<lparr>ei_MaxSteps = n, ei_Tools = ts, ei_Resolution = None,
         ei_ResolvedRequirement = None\<rparr> w1 = (out, w2)"
    for st1 out w2 k cp ap i n ts
  proof -
    have "Q w2" using keep_Execute [OF assms(1) _ w1, of c st1] that
      by (metis EngineInput.select_convs(3,4) plain_call_def snd_conv)
    then show ?thesis by (intro keep_conclude [OF assms(1)]) simp
  qed
  show ?thesis
    using assms(2) ld w1 run
    by (auto simp: dispatchFollowUp_def Let_def keep_conclude_outcome
        split: option.split sum.split prod.split)
qed

lemma keep_continue_run:
  assumes "deps_keep D (continue_call D c cmd w) Q" and "Q w"
  shows "Q (snd (continue_run D c cmd w))"
proof -
  obtain ld w1 where ld: "load_state D c (cc_RunID cmd) w = (ld, w1)" by fastforce
  have w1: "Q w1" using keep_load [OF assms, of c "cc_RunID cmd"] ld by simp
  have run: "Q w3"
    if "ld = Inr state" "validateContinueResolution state cmd = None"
      "resume_state state = (None, st1, q)"
      "dp_Execute D (continue_context c (cc_Resolution cmd) q) st1
         \<lparr>ei_MaxSteps = n, ei_Tools = ts, ei_Resolution = cc_Resolution cmd,
          ei_ResolvedRequirement = q\<rparr> w1 = (out, w2)"
      "conclude D c k cp ap i st2 out (None, w2) = (res, w3)"
    for state st1 st2 q out w2 w3 k cp ap i n ts res
  proof -
    let ?inp = "\<lparr>ei_MaxSteps = n, ei_Tools = ts, ei_Resolution = cc_Resolution cmd,
      ei_ResolvedRequirement = q\<rparr>"
    have "continue_call D c cmd w (continue_context c (cc_Resolution cmd) q) st1 ?inp"
      using that ld by (simp add: continue_call_def)
    from keep_Execute [OF assms(1) this w1] that(4) have "Q w2" by simp
    then show ?thesis using keep_conclude [OF assms(1), of "(None, w2)"] that(5)
      by (metis snd_conv)
  qed
  show ?thesis
    using assms(2) ld w1
    by (auto simp: continue_run_def Let_def split: option.split sum.split prod.split)
      (metis run)+
qed

lemma keep_cancel:
  assumes "deps_keep D A Q" and "Q w"
  shows "Q (snd (dispatchCancel D c cmd w))"
proof -
  obtain ld w1 where ld: "load_state D c (xc_RunID cmd) w = (ld, w1)" by fastforce
  have w1: "Q w1" using keep_load [OF assms, of c "xc_RunID cmd"] ld by simp
  have saved: "Q w2" if "save_state D c st w1 = (se, w2)" for st se w2
    using keep_save [OF assms(1) w1, of c st] that by simp
  show ?thesis
    using assms(2) ld w1
    by (auto simp: dispatchCancel_def Let_def case_prod_beta split: option.split sum.split
        intro!: keep_emit [OF assms(1)] keep_save [OF assms(1)])
qed

lemma keep_steer:
  assumes "deps_keep D A Q" and "Q w"
  shows "Q (snd (dispatchSteer D c cmd w))"
proof -
  obtain ld w1 where ld: "load_state D c (stc_RunID cmd) w = (ld, w1)" by fastforce
  have w1: "Q w1" using keep_load [OF assms, of c "stc_RunID cmd"] ld by simp
  show ?thesis
    using assms(2) ld w1
    by (auto simp: dispatchSteer_def Let_def case_prod_beta split: option.split sum.split
        intro!: keep_emit [OF assms(1)] keep_save [OF assms(1)])
qed

lemma keep_continue:
  assumes "deps_keep D (continue_call D c cmd w) Q" and "Q w"
  shows "Q (snd (snd (dispatchContinue D c cmd (oc, w))))"
proof -
  obtain res w1 where r: "continue_run D c cmd w = (res, w1)" by fastforce
  have "Q w1" using keep_continue_run [OF assms] r by simp
  with assms(2) r show ?thesis
    by (auto simp: dispatchContinue_def Let_def split: option.split sum.split)
qed

lemma keep_mono:
  "deps_keep D A Q \<Longrightarrow> (\<And>c st inp. B c st inp \<Longrightarrow> A c st inp) \<Longrightarrow> deps_keep D B Q"
  unfolding deps_keep_def by (elim conjE) (intro conjI; (assumption | metis))

lemma keep_Dispatch:
  assumes "deps_keep D (engine_call D c cmd w) Q" and "Q w"
  shows "Q (snd (snd (Dispatch D c cmd (oc, w))))"
proof (cases "c = None")
  case True
  with assms(2) show ?thesis by (simp add: Dispatch_def)
next
  case False
  then obtain x where x: "c = Some x" by auto
  show ?thesis
  proof (cases cmd)
    case (CmdStart command)
    have "deps_keep D (plain_call c) Q"
      using assms(1) by (rule keep_mono) (simp add: engine_call_def CmdStart)
    from keep_start [OF this assms(2)] x CmdStart show ?thesis
      by (simp add: Dispatch_def on_world_def)
  next
    case (CmdContinue command)
    have "deps_keep D (continue_call D c command w) Q"
      using assms(1) by (rule keep_mono) (simp add: engine_call_def CmdContinue)
    from keep_continue [OF this assms(2)] x CmdContinue show ?thesis
      by (simp add: Dispatch_def)
  next
    case (CmdCancel command)
    with x keep_cancel [OF assms] show ?thesis by (simp add: Dispatch_def on_world_def)
  next
    case (CmdSteer command)
    with x keep_steer [OF assms] show ?thesis by (simp add: Dispatch_def on_world_def)
  next
    case (CmdFollowUp command)
    have "deps_keep D (plain_call c) Q"
      using assms(1) by (rule keep_mono) (simp add: engine_call_def CmdFollowUp)
    from keep_follow_up [OF this assms(2)] x CmdFollowUp show ?thesis
      by (simp add: Dispatch_def on_world_def)
  qed (use assms(2) x in \<open>auto simp: Dispatch_def\<close>)
qed


section \<open>Tool definitions\<close>

definition tools_ok :: "ToolDefinition list \<Rightarrow> bool" where
  "tools_ok ds \<longleftrightarrow> (\<forall>d \<in> set ds. td_Name d \<noteq> []) \<and> distinct (map td_Name ds)"

lemma validateToolDefinitions_from_iff:
  "validateToolDefinitions_from k i seen ds = None \<longleftrightarrow>
     tools_ok ds \<and> seen \<inter> td_Name ` set ds = {}"
proof (induction ds arbitrary: i seen)
  case (Cons d ds)
  show ?case
  proof (cases "td_Name d = [] \<or> td_Name d \<in> seen")
    case False
    then have "validateToolDefinitions_from k i seen (d # ds) =
        validateToolDefinitions_from k (Suc i) (insert (td_Name d) seen) ds"
      by simp
    with False show ?thesis by (auto simp: Cons.IH tools_ok_def)
  qed (auto simp: tools_ok_def)
qed (simp add: tools_ok_def)

lemma validateToolDefinitions_iff: "validateToolDefinitions k ds = None \<longleftrightarrow> tools_ok ds"
  by (simp add: validateToolDefinitions_def validateToolDefinitions_from_iff)

lemma validateToolDefinitions_from_err:
  "validateToolDefinitions_from k i seen ds = Some e \<Longrightarrow> errors_Is e ErrToolDefinitionsInvalid"
  by (induction ds arbitrary: i seen) (auto split: if_splits)

lemma validateToolDefinitions_err:
  "validateToolDefinitions k ds = Some e \<Longrightarrow> errors_Is e ErrToolDefinitionsInvalid"
  unfolding validateToolDefinitions_def by (rule validateToolDefinitions_from_err)

section \<open>Refusals\<close>

text \<open>
  Commands refused before anything is read: the sentinel of the refusal. (The tools of a
  continue command are checked after the look-up of a cached outcome.)
\<close>

definition malformed :: "ctx \<Rightarrow> Command \<Rightarrow> sentinel option" where
  "malformed c cmd =
     (if c = None then Some ErrContextNil
      else case cmd of
        CmdNil \<Rightarrow> Some ErrCommandNil
      | CmdNilPointer \<Rightarrow> Some ErrCommandNil
      | CmdPointer kind type \<Rightarrow> Some ErrCommandInvalid
      | CmdOther kind type \<Rightarrow>
          Some (if kind \<in> set knownCommandKinds then ErrCommandInvalid else ErrCommandUnsupported)
      | CmdStart command \<Rightarrow>
          if tools_ok (ri_Tools (sc_Input command)) then None else Some ErrToolDefinitionsInvalid
      | CmdContinue command \<Rightarrow> if cc_RunID command = [] then Some ErrInvalidRunID else None
      | CmdCancel command \<Rightarrow> if xc_RunID command = [] then Some ErrInvalidRunID else None
      | CmdSteer command \<Rightarrow> if stc_RunID command = [] then Some ErrInvalidRunID else None
      | CmdFollowUp command \<Rightarrow>
          if fc_RunID command = [] then Some ErrInvalidRunID
          else if tools_ok (fc_Tools command) then None else Some ErrToolDefinitionsInvalid)"

lemma tools_refused:
  "\<not> tools_ok ds \<Longrightarrow> \<exists>e. validateToolDefinitions k ds = Some e \<and> errors_Is e ErrToolDefinitionsInvalid"
  using validateToolDefinitions_iff validateToolDefinitions_err
  by (cases "validateToolDefinitions k ds") auto

lemma Dispatch_malformed:
  assumes "malformed c cmd = Some t"
  shows "snd (Dispatch D c cmd s) = s \<and> is_err (snd (fst (Dispatch D c cmd s))) t"
proof (cases c)
  case None
  with assms show ?thesis by (simp add: malformed_def Dispatch_def)
next
  case (Some x)
  show ?thesis
  proof (cases cmd)
    case (CmdStart command)
    with assms Some tools_refused [of "ri_Tools (sc_Input command)" CommandKindStart] show ?thesis
      by (auto simp: malformed_def Dispatch_def on_world_def dispatchStart_def split: if_splits)
  next
    case (CmdFollowUp command)
    with assms Some tools_refused [of "fc_Tools command" CommandKindFollowUp] show ?thesis
      by (auto simp: malformed_def Dispatch_def on_world_def dispatchFollowUp_def split: if_splits)
  qed (use assms Some in \<open>auto simp: malformed_def Dispatch_def on_world_def dispatchContinue_def
      dispatchCancel_def dispatchSteer_def Let_def split: if_splits prod.split\<close>)
qed

text \<open>
  A resolution that resolves a requirement; and the refusal of a command because of the
  state its run is in.
\<close>

definition resolves :: "Resolution \<Rightarrow> PendingRequirement \<Rightarrow> bool" where
  "resolves r q \<longleftrightarrow> rs_RequirementID r = pr_ID q \<and> rs_Kind r = pr_Kind q \<and>
     rs_Outcome r \<in> set (outcomes_for (pr_Kind q))"

definition command_run :: "Command \<Rightarrow> RunID" where
  "command_run cmd =
     (case cmd of CmdContinue command \<Rightarrow> cc_RunID command | CmdCancel command \<Rightarrow> xc_RunID command
      | CmdSteer command \<Rightarrow> stc_RunID command | CmdFollowUp command \<Rightarrow> fc_RunID command | _ \<Rightarrow> [])"

definition gate :: "RunState \<Rightarrow> Command \<Rightarrow> sentinel option" where
  "gate st cmd =
     (case cmd of
        CmdContinue command \<Rightarrow>
          if isTerminalRunStatus (st_Status st) then Some ErrRunNotContinuable
          else (case (st_PendingRequirement st, cc_Resolution command) of
                  (None, None) \<Rightarrow> None
                | (None, Some r) \<Rightarrow> Some ErrResolutionUnexpected
                | (Some q, None) \<Rightarrow> Some ErrResolutionRequired
                | (Some q, Some r) \<Rightarrow> if resolves r q then None else Some ErrResolutionInvalid)
      | CmdCancel command \<Rightarrow>
          if isTerminalRunStatus (st_Status st) then Some ErrRunNotCancellable else None
      | CmdSteer command \<Rightarrow>
          if st_PendingRequirement st \<noteq> None then Some ErrResolutionRequired
          else if isTerminalRunStatus (st_Status st) then Some ErrRunNotContinuable else None
      | CmdFollowUp command \<Rightarrow>
          if st_PendingRequirement st \<noteq> None then Some ErrResolutionRequired
          else if isTerminalRunStatus (st_Status st) then Some ErrRunNotContinuable else None
      | _ \<Rightarrow> None)"

lemma suspended_iff: "suspension_ok st \<Longrightarrow> st_Status st = RunStatusSuspended \<longleftrightarrow> st_PendingRequirement st \<noteq> None"
  by (auto simp: suspension_ok_def split: if_splits option.splits)

lemma validateResolutionForRequirement_iff:
  "requirement_ok q \<Longrightarrow>
   validateResolutionForRequirement (Some r) (Some q) = None \<longleftrightarrow> resolves r q"
  by (simp add: validateResolutionForRequirement_None_iff resolves_def)

lemma validateResolutionContract_err:
  "validateResolutionContract r = Some e \<Longrightarrow> errors_Is e ErrResolutionInvalid"
  by (auto simp: validateResolutionContract_def invalid_for_kind_def split: option.splits if_splits)

lemma validateResolutionForRequirement_err:
  "requirement_ok q \<Longrightarrow> validateResolutionForRequirement (Some r) (Some q) = Some e \<Longrightarrow>
   errors_Is e ErrResolutionInvalid"
  by (auto simp: validateResolutionForRequirement_def
      validatePendingRequirementContract_Some [THEN iffD2] validateResolutionContract_err
      simp del: validatePendingRequirementContract_Some split: option.splits if_splits)

lemma validateContinueResolution_gate:
  assumes "suspension_ok st" and "\<not> isTerminalRunStatus (st_Status st)"
  shows "case gate st (CmdContinue cmd) of
      None \<Rightarrow> validateContinueResolution st cmd = None
    | Some t \<Rightarrow> is_err (validateContinueResolution st cmd) t"
proof (cases "st_PendingRequirement st")
  case None
  with assms suspended_iff [OF assms(1)] show ?thesis
    by (auto simp: gate_def validateContinueResolution_def split: option.split)
next
  case (Some q)
  then have q: "requirement_ok q" "st_Status st = RunStatusSuspended"
    using assms(1) suspended_iff [OF assms(1)] by (auto simp: suspension_ok_def)
  show ?thesis
  proof (cases "cc_Resolution cmd")
    case None
    with q Some show ?thesis by (simp add: gate_def validateContinueResolution_def)
  next
    case res: (Some r)
    then have v: "validateContinueResolution st cmd = validateResolutionForRequirement (Some r) (Some q)"
      using q Some by (simp add: validateContinueResolution_def)
    show ?thesis
    proof (cases "validateResolutionForRequirement (Some r) (Some q)")
      case None
      with v q Some res show ?thesis
        using validateResolutionForRequirement_iff [OF q(1), of r] by (simp add: gate_def)
    next
      case err: (Some e)
      then have "\<not> resolves r q" using validateResolutionForRequirement_iff [OF q(1), of r] by auto
      with v q Some res err validateResolutionForRequirement_err [OF q(1) err] show ?thesis
        by (simp add: gate_def)
    qed
  qed
qed

text \<open>A command refused by the state of its run reads the run and touches nothing.\<close>

lemma Dispatch_gated:
  assumes "gate st cmd = Some t" and "suspension_ok st"
    and "load_state D (Some x) (command_run cmd) w = (Inr st, w1)" and "command_run cmd \<noteq> []"
    and "malformed (Some x) cmd = None" and "cached_outcome oc cmd = None"
    and "case cmd of CmdContinue command \<Rightarrow> tools_ok (cc_Tools command) | _ \<Rightarrow> True"
  shows "\<exists>e. Dispatch D (Some x) cmd (oc, w) = ((\<lparr>rr_State = st\<rparr>, Some e), (oc, w1)) \<and> errors_Is e t"
proof (cases cmd)
  case (CmdContinue command)
  have tools: "validateToolDefinitions CommandKindContinue (cc_Tools command) = None"
    using assms(7) CmdContinue by (simp add: validateToolDefinitions_iff)
  have ld: "load_state D (Some x) (cc_RunID command) w = (Inr st, w1)" "cc_RunID command \<noteq> []"
    using assms(3,4) CmdContinue by (simp_all add: command_run_def)
  have nc: "Option.bind (continueIdempotencyKey (cc_RunID command) (cc_CommandID command))
      (outcomes_load oc) = None"
    using assms(6) ld(2) CmdContinue by (simp add: cached_outcome_def)
  show ?thesis
  proof (cases "isTerminalRunStatus (st_Status st)")
    case True
    with assms(1) CmdContinue tools ld nc show ?thesis
      by (auto simp: gate_def Dispatch_def dispatchContinue_def continue_run_def Let_def)
  next
    case False
    with validateContinueResolution_gate [OF assms(2), of command] assms(1) CmdContinue
    obtain e where "validateContinueResolution st command = Some e" "errors_Is e t"
      by (cases "validateContinueResolution st command") auto
    with False CmdContinue tools ld nc show ?thesis
      by (simp add: Dispatch_def dispatchContinue_def continue_run_def Let_def)
  qed
next
  case (CmdCancel command)
  with assms show ?thesis
    by (auto simp: gate_def command_run_def Dispatch_def on_world_def dispatchCancel_def Let_def
        split: if_splits)
next
  case (CmdSteer command)
  with assms show ?thesis
    by (auto simp: gate_def command_run_def Dispatch_def on_world_def dispatchSteer_def Let_def
        resolution_required_def suspended_iff split: if_splits)
next
  case (CmdFollowUp command)
  with assms show ?thesis
    by (auto simp: gate_def command_run_def Dispatch_def on_world_def dispatchFollowUp_def Let_def
        resolution_required_def suspended_iff malformed_def validateToolDefinitions_iff [THEN iffD2]
        split: if_splits)
qed (use assms(1) in \<open>simp_all add: gate_def\<close>)


section \<open>The cache of continue commands\<close>

lemma cloneRunResult_idem [simp]: "cloneRunResult (cloneRunResult r) = cloneRunResult r"
  by (simp add: cloneRunResult_def)

lemma continueIdempotencyKey_Some:
  "continueIdempotencyKey i cid = Some k \<Longrightarrow> i \<noteq> []"
  by (auto simp: continueIdempotencyKey_def split: if_splits)

text \<open>An entry of the cache is never dropped or replaced.\<close>

lemma continue_outcomes:
  "oc k = Some v \<Longrightarrow> fst (snd (dispatchContinue D c cmd (oc, w))) k = Some v"
  by (auto simp: dispatchContinue_def Let_def outcomes_store_def outcomes_load_def
      split: option.split sum.split prod.split)

lemma Dispatch_outcomes:
  "oc k = Some v \<Longrightarrow> fst (snd (Dispatch D c cmd (oc, w))) k = Some v"
  by (auto simp: Dispatch_def on_world_def continue_outcomes split: option.split Command.split)

lemma dispatch_all_outcomes:
  "fst s k = Some v \<Longrightarrow> fst (dispatch_all D cmds s) k = Some v"
proof (induction cmds arbitrary: s)
  case (Cons cmd cmds)
  then show ?case using Dispatch_outcomes [of "fst s" k v D "fst cmd" "snd cmd" "snd s"] by simp
qed simp

text \<open>A cached outcome is answered without touching the world.\<close>

lemma Dispatch_replayed:
  assumes "fst s k = Some (r, e)"
    and "continueIdempotencyKey (cc_RunID cmd) (cc_CommandID cmd) = Some k"
  shows "Dispatch D (Some x) (CmdContinue cmd) s = ((cloneRunResult r, e), s)"
  using assms continueIdempotencyKey_Some [OF assms(2)]
  by (cases s) (simp add: Dispatch_def dispatchContinue_def Let_def outcomes_load_def)

context runner_env begin

text \<open>A continue command that has changed the store is in the cache.\<close>

lemma continue_recorded:
  assumes "Dispatch D (Some x) (CmdContinue cmd) (oc, w) = (r, (oc', w'))"
    and "stored_wf (stored w)" and "stored w' \<noteq> stored w"
    and "continueIdempotencyKey (cc_RunID cmd) (cc_CommandID cmd) = Some k"
  shows "oc' k = Some (cloneRunResult (fst r), snd r)"
proof (cases "outcomes_load oc k")
  case (Some cached)
  with assms(1,3,4) continueIdempotencyKey_Some [OF assms(4)] show ?thesis
    by (auto simp: Dispatch_def dispatchContinue_def Let_def)
next
  case None
  obtain res w1 where cr: "continue_run D (Some x) cmd w = (res, w1)" by fastforce
  from continue_run_effect [OF cr assms(2)] None cr assms(1,3,4)
    continueIdempotencyKey_Some [OF assms(4)]
  show ?thesis
    by (auto simp: Dispatch_def dispatchContinue_def Let_def outcomes_store_def
        split: sum.splits prod.splits)
qed

lemma continue_cached:
  assumes "Dispatch D (Some x) (CmdContinue cmd) (oc, w) = (r, (oc', w'))"
    and "stored_wf (stored w)" and "stored w' \<noteq> stored w"
    and "continueIdempotencyKey (cc_RunID cmd) (cc_CommandID cmd) = Some k"
    and "continueIdempotencyKey (cc_RunID cmd') (cc_CommandID cmd') = Some k"
    and "dispatch_all D cmds (oc', w') = s"
  shows "Dispatch D (Some y) (CmdContinue cmd') s = ((cloneRunResult (fst r), snd r), s)"
proof -
  from continue_recorded [OF assms(1-4)] have "fst (oc', w') k = Some (cloneRunResult (fst r), snd r)"
    by simp
  from dispatch_all_outcomes [OF this, of D cmds] assms(6)
  have "fst s k = Some (cloneRunResult (fst r), snd r)" by simp
  from Dispatch_replayed [OF this assms(5)] show ?thesis by simp
qed

end


section \<open>Conflicting saves\<close>

lemma cancel_transition:
  assumes "run_state_ok st" and "\<not> isTerminalRunStatus (st_Status st)"
    and "st_Status st \<noteq> RunStatusSuspended"
  shows "TransitionRunStatus st RunStatusCancelled = (None, st\<lparr>st_Status := RunStatusCancelled\<rparr>)"
  unfolding TransitionRunStatus_eq_None
  using assms
  by (auto simp: run_state_ok_def isKnownRunStatus_def isTerminalRunStatus_def suspension_ok_def
      intro: status_step.intros)

section \<open>Properties\<close>

text \<open>
  the tool definitions of a command are accepted exactly when every name is non-empty and
  no name occurs twice; every rejection is recognisable as \<open>ErrToolDefinitionsInvalid\<close>.
\<close>

theorem validateToolDefinitions_correct:
  "case validateToolDefinitions k ds of
     None \<Rightarrow> tools_ok ds
   | Some e \<Rightarrow> \<not> tools_ok ds \<and> errors_Is e ErrToolDefinitionsInvalid"
  using validateToolDefinitions_iff [of k ds] validateToolDefinitions_err
  by (cases "validateToolDefinitions k ds") auto

text \<open>
  a command that is malformed (nil context, nil command or pointer, a pointer or a foreign
  type, no run ID, bad tool definitions) is refused with the sentinel of its defect before
  anything is read or written.
\<close>

theorem malformed_commands_refused:
  "case malformed c cmd of
     None \<Rightarrow> True
   | Some t \<Rightarrow> snd (Dispatch D c cmd s) = s \<and> is_err (snd (fst (Dispatch D c cmd s))) t"
  using Dispatch_malformed [of c cmd _ D s] by (simp split: option.split)

text \<open>
  when a save meets a concurrent writer, a cancel command reports \<open>ErrCommandConflict\<close>,
  but a steer command on the very same run does not: it hands out the store's error as it is.
\<close>

theorem steer_conflict_not_normalized:
  assumes "load_state D c i w = (Inr st, w1)" and "i \<noteq> []" and "run_state_ok st"
    and "\<not> isTerminalRunStatus (st_Status st)" and "st_Status st \<noteq> RunStatusSuspended"
    and "\<And>st'. fst (save_state D c st' w1) = Some (Sentinel ErrRunVersionConflict)"
  shows "is_err (snd (fst (dispatchCancel D c \<lparr>xc_RunID = i\<rparr> w))) ErrCommandConflict \<and>
    \<not> is_err (snd (fst (dispatchSteer D c \<lparr>stc_RunID = i, stc_Instruction = txt\<rparr> w))) ErrCommandConflict"
proof -
  have sv: "\<exists>w2. save_state D c st' w1 = (Some (Sentinel ErrRunVersionConflict), w2)" for st'
    using assms(6) [of st'] by (metis prod.collapse)
  obtain w2 where w2: "save_state D c (st\<lparr>st_Status := RunStatusCancelled\<rparr>) w1 =
      (Some (Sentinel ErrRunVersionConflict), w2)"
    using sv by blast
  obtain w3 where w3: "save_state D c (add_message (userMessage txt) st) w1 =
      (Some (Sentinel ErrRunVersionConflict), w3)"
    using sv by blast
  show ?thesis
    using assms(1,2,4,5) w2 w3 cancel_transition [OF assms(3-5)]
    by (simp add: dispatchCancel_def dispatchSteer_def Let_def normalizeCommandSaveError_def)
qed

text \<open>Services around one running run whose every save meets a conflict.\<close>

definition contended_deps :: "unit deps" where
  "contended_deps =
     \<lparr>dp_NewRunID = (\<lambda>c w. (Inr ''r'', w)),
      dp_Save = (\<lambda>c st w. (Some (Sentinel ErrRunVersionConflict), w)),
      dp_Load = (\<lambda>c i w. (Inr (zeroRunState\<lparr>st_ID := ''r'', st_Status := RunStatusRunning\<rparr>), w)),
      dp_Execute = (\<lambda>c st inp w. ((st, None), w)), dp_Publish = (\<lambda>c e w. (None, w)),
      dp_poll = (\<lambda>w. (None, w)), dp_is_print = (\<lambda>r. False)\<rparr>"

theorem steer_conflict_not_normalized_witness:
  "is_err (snd (fst (dispatchCancel contended_deps (Some ctx_Background) \<lparr>xc_RunID = ''r''\<rparr> ())))
     ErrCommandConflict \<and>
   \<not> is_err (snd (fst (dispatchSteer contended_deps (Some ctx_Background)
     \<lparr>stc_RunID = ''r'', stc_Instruction = ''go on''\<rparr> ()))) ErrCommandConflict"
  by (rule steer_conflict_not_normalized
      [where st = "zeroRunState\<lparr>st_ID := ''r'', st_Status := RunStatusRunning\<rparr>" and ?w1.0 = "()"])
    (simp_all add: contended_deps_def load_state_def save_state_def sideEffectContext_def ctx_Err_def
      run_state_ok_def zeroRunState_def suspension_ok_def)

end
