(* ===== verification/Tool_Validation.thy ===== *)
theory Tool_Validation
  imports Go_Errors
begin

text \<open>
  \<open>agentreact/tool_validation.go\<close> and the call checks of \<open>agentreact/react_loop.go\<close>: the
  index of tool definitions, the check of a call's arguments against the tool's input
  schema, the shape of the calls of one assistant message and the identity of a result.
\<close>

section \<open>Maps with string keys\<close>

definition gomap_lookup :: "gomap \<Rightarrow> string \<Rightarrow> any option" where
  "gomap_lookup m k = map_of (elems m) k"

text \<open>\<open>m[k]\<close> with the zero value, nil, for a missing key.\<close>

definition gomap_get :: "gomap \<Rightarrow> string \<Rightarrow> any" where
  "gomap_get m k = (case gomap_lookup m k of None \<Rightarrow> AnyNil | Some v \<Rightarrow> v)"

section \<open>Schemas\<close>

definition indexToolDefinitions :: "ToolDefinition list \<Rightarrow> string \<Rightarrow> ToolDefinition option" where
  "indexToolDefinitions definitions = fold (\<lambda>d out. out(td_Name d \<mapsto> d)) definitions Map.empty"

primrec required_items :: "any list \<Rightarrow> gerr + string list" where
  "required_items [] = Inr []"
| "required_items (item # items) =
     (case item of
        AnyString field \<Rightarrow>
          (case required_items items of Inl e \<Rightarrow> Inl e | Inr out \<Rightarrow> Inr (field # out))
      | _ \<Rightarrow> Inl (Errorf [Lit ''input schema \"required\" entries must be strings'']))"

definition parseRequiredFields :: "any \<Rightarrow> gerr + string list" where
  "parseRequiredFields raw =
     (case raw of
        AnyNil \<Rightarrow> Inr []
      | AnyStrings value \<Rightarrow> Inr (elems value)
      | AnySlice value \<Rightarrow> required_items (elems value)
      | _ \<Rightarrow> Inl (Errorf [Lit ''input schema \"required\" must be an array'']))"

definition parseAdditionalProperties :: "any \<Rightarrow> gerr + bool" where
  "parseAdditionalProperties raw =
     (case raw of
        AnyNil \<Rightarrow> Inr True
      | AnyBool value \<Rightarrow> Inr value
      | _ \<Rightarrow> Inl (Errorf [Lit ''input schema \"additionalProperties\" must be a bool'']))"

text \<open>The map, or \<open>None\<close> where the Go function answers \<open>false\<close> (and a nil map).\<close>

definition asStringAnyMap :: "any \<Rightarrow> gomap option" where
  "asStringAnyMap raw = (case raw of AnyMap value \<Rightarrow> Some value | _ \<Rightarrow> None)"

definition parsePropertyType :: "any \<Rightarrow> gerr + string option" where
  "parsePropertyType propertySchema =
     (case asStringAnyMap propertySchema of
        None \<Rightarrow> Inl (Errorf [Lit ''input schema \"properties\" entries must be objects''])
      | Some propertyMap \<Rightarrow>
          (case gomap_lookup propertyMap ''type'' of
             None \<Rightarrow> Inr None
           | Some (AnyString typeName) \<Rightarrow> Inr (Some typeName)
           | Some _ \<Rightarrow> Inl (Errorf [Lit ''input schema property \"type\" must be a string''])))"

definition sortedArgumentKeys :: "gomap \<Rightarrow> string list" where
  "sortedArgumentKeys arguments = sort (map fst (elems arguments))"

definition isInteger :: "any \<Rightarrow> bool" where
  "isInteger value = (case value of AnyInt k i \<Rightarrow> True | _ \<Rightarrow> False)"

definition isNumber :: "any \<Rightarrow> bool" where
  "isNumber value = (case value of AnyInt k i \<Rightarrow> True | AnyFloat k q \<Rightarrow> True | _ \<Rightarrow> False)"

definition isObject :: "any \<Rightarrow> bool" where
  "isObject value =
     (case value of AnyMap m \<Rightarrow> True | AnyOther k t \<Rightarrow> k = OtherMap | _ \<Rightarrow> False)"

definition isArray :: "any \<Rightarrow> bool" where
  "isArray value =
     (case value of AnySlice vs \<Rightarrow> True | AnyStrings ss \<Rightarrow> True
      | AnyOther k t \<Rightarrow> k = OtherSlice \<or> k = OtherArray | _ \<Rightarrow> False)"

definition matchesToolArgumentType :: "string \<Rightarrow> any \<Rightarrow> bool" where
  "matchesToolArgumentType expected value =
     (if expected = ''string'' then (case value of AnyString s \<Rightarrow> True | _ \<Rightarrow> False)
      else if expected = ''boolean'' then (case value of AnyBool b \<Rightarrow> True | _ \<Rightarrow> False)
      else if expected = ''number'' then isNumber value
      else if expected = ''integer'' then isInteger value
      else if expected = ''object'' then isObject value
      else if expected = ''array'' then isArray value
      else True)"

primrec first_missing :: "gomap \<Rightarrow> string list \<Rightarrow> gerr option" where
  "first_missing arguments [] = None"
| "first_missing arguments (field # fs) =
     (if gomap_lookup arguments field = None
      then Some (Errorf [Lit ''missing required argument '', Quo field])
      else first_missing arguments fs)"

definition check_argument :: "gomap option \<Rightarrow> bool \<Rightarrow> gomap \<Rightarrow> string \<Rightarrow> gerr option" where
  "check_argument properties additionalAllowed arguments key =
     (let value = gomap_get arguments key in
      case gomap_lookup (case properties of None \<Rightarrow> None | Some p \<Rightarrow> p) key of
        None \<Rightarrow>
          if properties \<noteq> None \<and> \<not> additionalAllowed
          then Some (Errorf [Lit ''unknown argument '', Quo key]) else None
      | Some propertySchema \<Rightarrow>
          (case parsePropertyType propertySchema of
             Inl e \<Rightarrow> Some e
           | Inr None \<Rightarrow> None
           | Inr (Some expectedType) \<Rightarrow>
               if \<not> matchesToolArgumentType expectedType value
               then Some (Errorf [Lit ''argument '', Quo key, Lit '' must be '', Quo expectedType])
               else None))"

primrec check_arguments :: "gomap option \<Rightarrow> bool \<Rightarrow> gomap \<Rightarrow> string list \<Rightarrow> gerr option" where
  "check_arguments properties additionalAllowed arguments [] = None"
| "check_arguments properties additionalAllowed arguments (key # keys) =
     (case check_argument properties additionalAllowed arguments key of
        Some e \<Rightarrow> Some e
      | None \<Rightarrow> check_arguments properties additionalAllowed arguments keys)"

definition validateToolArguments :: "gomap \<Rightarrow> gomap \<Rightarrow> gerr option" where
  "validateToolArguments schema arguments =
     (if elems schema = [] then None
      else case parseRequiredFields (gomap_get schema ''required'') of
        Inl e \<Rightarrow> Some e
      | Inr required \<Rightarrow>
     (case first_missing arguments required of
        Some e \<Rightarrow> Some e
      | None \<Rightarrow>
     (case parseAdditionalProperties (gomap_get schema ''additionalProperties'') of
        Inl e \<Rightarrow> Some e
      | Inr additionalAllowed \<Rightarrow>
          check_arguments (asStringAnyMap (gomap_get schema ''properties'')) additionalAllowed
            arguments (sortedArgumentKeys arguments))))"

definition validateToolCallArguments :: "ToolCall \<Rightarrow> ToolDefinition \<Rightarrow> gerr option" where
  "validateToolCallArguments call toolDefinition =
     validateToolArguments (td_InputSchema toolDefinition) (tc_Arguments call)"

section \<open>Results and calls\<close>

definition normalizedToolErrorResult ::
  "(nat \<Rightarrow> bool) \<Rightarrow> ToolCall \<Rightarrow> ToolFailureReason \<Rightarrow> gerr option \<Rightarrow> ToolResult" where
  "normalizedToolErrorResult up call reason err =
     \<lparr>tr_CallID = tc_ID call, tr_Name = tc_Name call,
      tr_Content = (case err of None \<Rightarrow> reason | Some e \<Rightarrow> reason @ '': '' @ error_text up e),
      tr_IsError = True, tr_FailureReason = reason\<rparr>"

definition validateToolResultIdentity :: "ToolCall \<Rightarrow> ToolResult \<Rightarrow> gerr option" where
  "validateToolResultIdentity call result =
     (if tr_CallID result \<noteq> [] \<and> tr_CallID result \<noteq> tc_ID call then
        Some (Errorf [Lit ''tool result call id mismatch: got='', Quo (tr_CallID result),
          Lit '' want='', Quo (tc_ID call)])
      else if tr_Name result \<noteq> [] \<and> tr_Name result \<noteq> tc_Name call then
        Some (Errorf [Lit ''tool result name mismatch: got='', Quo (tr_Name result),
          Lit '' want='', Quo (tc_Name call)])
      else None)"

primrec validateToolCallShape_from ::
  "nat \<Rightarrow> (string \<Rightarrow> nat option) \<Rightarrow> ToolCall list \<Rightarrow> gerr option" where
  "validateToolCallShape_from i seen [] = None"
| "validateToolCallShape_from i seen (call # calls) =
     (if tc_ID call = [] then
        Some (Errorf [wraps ErrToolCallInvalid, Lit '': index='', Num (int i),
          Lit '' reason=empty_id''])
      else if tc_Name call = [] then
        Some (Errorf [wraps ErrToolCallInvalid, Lit '': index='', Num (int i), Lit '' id='',
          Quo (tc_ID call), Lit '' reason=empty_name''])
      else case seen (tc_ID call) of
        Some firstIndex \<Rightarrow>
          Some (Errorf [wraps ErrToolCallInvalid, Lit '': index='', Num (int i), Lit '' id='',
            Quo (tc_ID call), Lit '' reason=duplicate_id first_index='', Num (int firstIndex)])
      | None \<Rightarrow> validateToolCallShape_from (Suc i) (seen(tc_ID call \<mapsto> i)) calls)"

definition validateToolCallShape :: "ToolCall list \<Rightarrow> gerr option" where
  "validateToolCallShape calls = validateToolCallShape_from 0 Map.empty calls"

section \<open>What the checks accept\<close>

lemma required_items_iff:
  "required_items vs = Inr fs \<longleftrightarrow> vs = map AnyString fs"
proof (induction vs arbitrary: fs)
  case (Cons v vs)
  have "required_items (v # vs) = Inr fs \<longleftrightarrow>
      (\<exists>f gs. v = AnyString f \<and> required_items vs = Inr gs \<and> fs = f # gs)"
    by (cases v; cases "required_items vs") auto
  with Cons.IH show ?case by (auto simp: Cons_eq_map_conv)
qed auto

lemma first_missing_None_iff:
  "first_missing arguments fs = None \<longleftrightarrow> (\<forall>f \<in> set fs. gomap_lookup arguments f \<noteq> None)"
  by (induction fs) auto

lemma check_arguments_None_iff:
  "check_arguments p a arguments ks = None \<longleftrightarrow> (\<forall>k \<in> set ks. check_argument p a arguments k = None)"
  by (induction ks) (auto split: option.splits)

lemma set_sortedArgumentKeys: "set (sortedArgumentKeys m) = fst ` set (elems m)"
  by (simp add: sortedArgumentKeys_def)

lemma gomap_lookup_keys: "k \<in> fst ` set (elems m) \<longleftrightarrow> gomap_lookup m k \<noteq> None"
  unfolding gomap_lookup_def by (metis image_set map_of_eq_None_iff)

text \<open>
  The JSON types of the values of Go: what each type name means, and any other name that it asks
  for nothing.
\<close>

inductive of_type :: "string \<Rightarrow> any \<Rightarrow> bool" where
  "of_type ''string'' (AnyString s)"
| "of_type ''boolean'' (AnyBool b)"
| "of_type ''integer'' (AnyInt k i)"
| "of_type ''number'' (AnyInt k i)"
| "of_type ''number'' (AnyFloat l q)"
| "of_type ''object'' (AnyMap m)"
| "of_type ''object'' (AnyOther OtherMap t)"
| "of_type ''array'' (AnySlice vs)"
| "of_type ''array'' (AnyStrings ss)"
| "of_type ''array'' (AnyOther OtherSlice t)"
| "of_type ''array'' (AnyOther OtherArray t)"
| "n \<notin> {''string'', ''boolean'', ''integer'', ''number'', ''object'', ''array''} \<Longrightarrow> of_type n v"

text \<open>
  A property's schema is an object; it may name a type, as a string, and then the value is of this
  type.
\<close>

inductive value_conforms :: "any \<Rightarrow> any \<Rightarrow> bool" where
  "gomap_lookup m ''type'' = None \<Longrightarrow> value_conforms (AnyMap m) v"
| "gomap_lookup m ''type'' = Some (AnyString n) \<Longrightarrow> of_type n v \<Longrightarrow> value_conforms (AnyMap m) v"

text \<open>The entry \<open>required\<close> of a schema is a list of strings, if it is there at all.\<close>

inductive required_list :: "gomap \<Rightarrow> string list \<Rightarrow> bool" where
  "gomap_lookup schema ''required'' \<in> {None, Some AnyNil} \<Longrightarrow> required_list schema []"
| "gomap_lookup schema ''required'' = Some (AnyStrings fs) \<Longrightarrow> required_list schema (elems fs)"
| "gomap_lookup schema ''required'' = Some (AnySlice vs) \<Longrightarrow> elems vs = map AnyString fs \<Longrightarrow>
   required_list schema fs"

text \<open>The entry \<open>additionalProperties\<close> is a truth value, true where it is missing.\<close>

inductive additional_flag :: "gomap \<Rightarrow> bool \<Rightarrow> bool" where
  "gomap_lookup schema ''additionalProperties'' \<in> {None, Some AnyNil} \<Longrightarrow> additional_flag schema True"
| "gomap_lookup schema ''additionalProperties'' = Some (AnyBool b) \<Longrightarrow> additional_flag schema b"

text \<open>
  The arguments conform to a schema: no schema at all, or well-formed \<open>required\<close> and
  \<open>additionalProperties\<close> entries, every required field present, and, where the schema has an
  object of properties, every argument either a declared property with a conforming value or an
  additional one that is allowed.
\<close>

definition arguments_conform :: "gomap \<Rightarrow> gomap \<Rightarrow> bool" where
  "arguments_conform schema arguments \<longleftrightarrow>
     elems schema = [] \<or>
     (\<exists>required additional.
        required_list schema required \<and> additional_flag schema additional \<and>
        (\<forall>f \<in> set required. gomap_lookup arguments f \<noteq> None) \<and>
        (\<forall>properties k v. gomap_lookup schema ''properties'' = Some (AnyMap properties) \<longrightarrow>
           gomap_lookup arguments k = Some v \<longrightarrow>
           (case gomap_lookup properties k of
              None \<Rightarrow> additional
            | Some propertySchema \<Rightarrow> value_conforms propertySchema v)))"

text \<open>The code's parsers and its type test against these meanings.\<close>

lemma matchesToolArgumentType_iff: "matchesToolArgumentType n v \<longleftrightarrow> of_type n v"
  by (cases v)
    (auto simp: matchesToolArgumentType_def of_type.simps isNumber_def isInteger_def isObject_def
      isArray_def)

lemma value_conforms_iff:
  "value_conforms propertySchema v \<longleftrightarrow>
     (case parsePropertyType propertySchema of
        Inl e \<Rightarrow> False
      | Inr None \<Rightarrow> True
      | Inr (Some n) \<Rightarrow> matchesToolArgumentType n v)"
  by (auto simp: value_conforms.simps parsePropertyType_def asStringAnyMap_def
      matchesToolArgumentType_iff split: any.splits option.splits)

lemma parseRequiredFields_iff:
  "parseRequiredFields (gomap_get schema ''required'') = Inr fs \<longleftrightarrow> required_list schema fs"
  by (auto simp: required_list.simps parseRequiredFields_def gomap_get_def required_items_iff
      split: option.splits any.splits)

lemma parseAdditionalProperties_iff:
  "parseAdditionalProperties (gomap_get schema ''additionalProperties'') = Inr b \<longleftrightarrow>
   additional_flag schema b"
  by (auto simp: additional_flag.simps parseAdditionalProperties_def gomap_get_def
      split: option.splits any.splits)

lemma properties_iff:
  "asStringAnyMap (gomap_get schema ''properties'') = Some p \<longleftrightarrow>
   gomap_lookup schema ''properties'' = Some (AnyMap p)"
  by (auto simp: asStringAnyMap_def gomap_get_def split: option.splits any.splits)

lemma check_argument_None_iff:
  assumes "gomap_lookup arguments k = Some v"
  shows "check_argument p a arguments k = None \<longleftrightarrow>
    (\<forall>properties. p = Some properties \<longrightarrow>
       (case gomap_lookup properties k of None \<Rightarrow> a | Some s \<Rightarrow> value_conforms s v))"
proof (cases p)
  case None
  then show ?thesis by (simp add: check_argument_def gomap_lookup_def)
next
  case (Some properties)
  with assms show ?thesis
    by (auto simp: check_argument_def gomap_get_def value_conforms_iff
        split: option.splits sum.splits)
qed

lemma check_all_arguments_iff:
  "check_arguments p a arguments (sortedArgumentKeys arguments) = None \<longleftrightarrow>
   (\<forall>properties k v. p = Some properties \<longrightarrow> gomap_lookup arguments k = Some v \<longrightarrow>
      (case gomap_lookup properties k of None \<Rightarrow> a | Some s \<Rightarrow> value_conforms s v))"
proof -
  have "check_arguments p a arguments (sortedArgumentKeys arguments) = None \<longleftrightarrow>
      (\<forall>k v. gomap_lookup arguments k = Some v \<longrightarrow> check_argument p a arguments k = None)"
    by (simp add: check_arguments_None_iff set_sortedArgumentKeys Ball_def gomap_lookup_keys)
  then show ?thesis by (auto simp: check_argument_None_iff)
qed

lemma validateToolArguments_None_iff:
  "validateToolArguments schema arguments = None \<longleftrightarrow> arguments_conform schema arguments"
proof (cases "elems schema = []")
  case True
  then show ?thesis by (simp add: validateToolArguments_def arguments_conform_def)
next
  case False
  let ?p = "asStringAnyMap (gomap_get schema ''properties'')"
  have "validateToolArguments schema arguments = None \<longleftrightarrow>
      (\<exists>required additional.
        parseRequiredFields (gomap_get schema ''required'') = Inr required \<and>
        parseAdditionalProperties (gomap_get schema ''additionalProperties'') = Inr additional \<and>
        first_missing arguments required = None \<and>
        check_arguments ?p additional arguments (sortedArgumentKeys arguments) = None)"
    using False by (auto simp: validateToolArguments_def split: sum.splits option.splits)
  with False show ?thesis
    by (simp only: arguments_conform_def parseRequiredFields_iff parseAdditionalProperties_iff
        first_missing_None_iff check_all_arguments_iff properties_iff simp_thms)
qed

lemma validateToolCallShape_from_iff:
  "validateToolCallShape_from i seen calls = None \<longleftrightarrow>
     (\<forall>c \<in> set calls. tc_ID c \<noteq> [] \<and> tc_Name c \<noteq> [] \<and> seen (tc_ID c) = None) \<and>
     distinct (map tc_ID calls)"
proof (induction calls arbitrary: i seen)
  case (Cons call calls)
  show ?case
  proof (cases "tc_ID call = [] \<or> tc_Name call = [] \<or> seen (tc_ID call) \<noteq> None")
    case False
    then have "validateToolCallShape_from i seen (call # calls) =
        validateToolCallShape_from (Suc i) (seen(tc_ID call \<mapsto> i)) calls"
      by simp
    moreover have "(tc_ID c \<noteq> tc_ID call) \<and> P \<longleftrightarrow> P \<and> tc_ID call \<noteq> tc_ID c" for c P
      by auto
    ultimately show ?thesis using False by (auto simp: Cons.IH)
  qed auto
qed simp

lemma validateToolCallShape_from_err:
  "validateToolCallShape_from i seen calls = Some e \<Longrightarrow> errors_Is e ErrToolCallInvalid"
  by (induction calls arbitrary: i seen) (auto split: option.splits if_splits)

lemma indexToolDefinitions_name:
  "indexToolDefinitions ds n = Some d \<Longrightarrow> td_Name d = n \<and> d \<in> set ds"
proof -
  have "fold (\<lambda>d out. out(td_Name d \<mapsto> d)) ds m n = Some d \<Longrightarrow>
      (td_Name d = n \<and> d \<in> set ds) \<or> m n = Some d" for m
    by (induction ds arbitrary: m) (fastforce split: if_splits)+
  from this [of Map.empty] show "indexToolDefinitions ds n = Some d \<Longrightarrow> ?thesis"
    by (simp add: indexToolDefinitions_def)
qed

lemma normalizedToolErrorResult_fields [simp]:
  "tr_CallID (normalizedToolErrorResult up call r e) = tc_ID call"
  "tr_Name (normalizedToolErrorResult up call r e) = tc_Name call"
  "tr_IsError (normalizedToolErrorResult up call r e)"
  "tr_FailureReason (normalizedToolErrorResult up call r e) = r"
  by (simp_all add: normalizedToolErrorResult_def)

section \<open>Properties\<close>

text \<open>
  C35: a tool call's arguments pass the check exactly when they conform to the tool's input
  schema, as \<open>arguments_conform\<close> says independently of the code's parsers: what \<open>required\<close>,
  \<open>additionalProperties\<close>, \<open>properties\<close> and a property's \<open>type\<close> have to be and mean. In
  particular the verdict does not depend on the order in which the arguments are visited.
\<close>

theorem validateToolArguments_correct:
  "validateToolArguments schema arguments = None \<longleftrightarrow> arguments_conform schema arguments"
  by (rule validateToolArguments_None_iff)

text \<open>
  the calls of an assistant message pass the shape check exactly when every call has an
  ID and a name and no ID occurs twice; every rejection is \<open>ErrToolCallInvalid\<close>.
\<close>

theorem validateToolCallShape_correct:
  "(validateToolCallShape calls = None \<longleftrightarrow>
     (\<forall>c \<in> set calls. tc_ID c \<noteq> [] \<and> tc_Name c \<noteq> []) \<and> distinct (map tc_ID calls)) \<and>
   (case validateToolCallShape calls of None \<Rightarrow> True | Some e \<Rightarrow> errors_Is e ErrToolCallInvalid)"
  by (auto simp: validateToolCallShape_def validateToolCallShape_from_iff
      dest: validateToolCallShape_from_err split: option.splits)


theorem validateToolCallShape_correct_witness:
  "validateToolCallShape [\<lparr>tc_ID = ''a'', tc_Name = ''read'', tc_Arguments = None\<rparr>,
     \<lparr>tc_ID = ''b'', tc_Name = ''read'', tc_Arguments = None\<rparr>] = None"
  using validateToolCallShape_correct [of "[\<lparr>tc_ID = ''a'', tc_Name = ''read'', tc_Arguments = None\<rparr>,
     \<lparr>tc_ID = ''b'', tc_Name = ''read'', tc_Arguments = None\<rparr>]"] by simp

end
