(* ===== verification/React_Loop.thy ===== *)
theory React_Loop
  imports Tool_Validation Lifecycle Events
begin

text \<open>
  \<open>agentreact/react_loop.go\<close>: the ReAct engine. The model and the tool executor are
  functions on a world \<open>'w\<close>; each returns a value or an error. A Go \<open>return\<close> inside the
  nested loops is the constructor \<open>Return\<close> of \<open>flow\<close>, falling through is \<open>Go_on\<close>.
\<close>

section \<open>Dependencies\<close>

record ModelRequest =
  mq_Messages :: "Message slice"
  mq_Tools :: "ToolDefinition list"
  mq_Resolution :: "Resolution option"

record 'w react =
  rx_Generate :: "ctx \<Rightarrow> ModelRequest \<Rightarrow> 'w \<Rightarrow> (gerr + Message) \<times> 'w"
  rx_Execute :: "ctx \<Rightarrow> ToolCall \<Rightarrow> 'w \<Rightarrow> (gerr + ToolResult) \<times> 'w"
  rx_Publish :: "'w publish"
  rx_poll :: "'w poll"
  rx_is_print :: "nat \<Rightarrow> bool"

definition DefaultMaxSteps :: int where
  "DefaultMaxSteps = 8"

text \<open>\<open>New\<close> as a check of its dependencies (present or not).\<close>

definition react_New_check :: "bool \<Rightarrow> bool \<Rightarrow> gerr option" where
  "react_New_check model tools =
     (if \<not> model then Some (Errorf [Lit ''new react loop: '', wraps ErrMissingModel])
      else if \<not> tools then Some (Errorf [Lit ''new react loop: '', wraps ErrMissingToolExecutor])
      else None)"

section \<open>Helpers\<close>

definition resolutionMessage :: "Resolution option \<Rightarrow> (nat \<Rightarrow> bool) \<Rightarrow> Message" where
  "resolutionMessage resolution up =
     (case resolution of
        None \<Rightarrow> zeroMessage
      | Some r \<Rightarrow>
          let content = ''[resolution] requirement_id='' @ Quote up (rs_RequirementID r) @
                '' kind='' @ rs_Kind r @ '' outcome='' @ rs_Outcome r;
              content' = (if rs_Value r \<noteq> [] then content @ '' value='' @ Quote up (rs_Value r)
                          else content)
          in zeroMessage\<lparr>m_Role := RoleUser, m_Content := content'\<rparr>)"

definition failureEventDescription :: "(nat \<Rightarrow> bool) \<Rightarrow> gerr option \<Rightarrow> string" where
  "failureEventDescription up runErr =
     (case runErr of None \<Rightarrow> ''run failed'' | Some e \<Rightarrow> ''run failed: '' @ error_text up e)"

definition contextCancellationError ::
  "'w poll \<Rightarrow> go_ctx \<Rightarrow> gerr \<Rightarrow> 'w \<Rightarrow> gerr option \<times> 'w" where
  "contextCancellationError poll x err w =
     (case ctx_Err poll x w of
        (Some ctxErr, w1) \<Rightarrow> (Some ctxErr, w1)
      | (None, w1) \<Rightarrow>
          (if errors_Is err ContextCanceled then Some (Sentinel ContextCanceled)
           else if errors_Is err ContextDeadlineExceeded then Some (Sentinel ContextDeadlineExceeded)
           else None, w1))"

text \<open>
  \<open>eventErr = errors.Join(eventErr, publishEvent(ctx, l.events, ev))\<close>, on the pair of the
  accumulated error and the world.
\<close>

definition publish_event :: "'w react \<Rightarrow> go_ctx \<Rightarrow> Event \<Rightarrow> gerr option \<times> 'w \<Rightarrow> gerr option \<times> 'w" where
  "publish_event L x ev s =
     (let (eventErr, w) = s;
          (r, w1) = publishEvent (rx_Publish L) (Some x) ev w
      in (errors_Join [eventErr, r], w1))"

type_synonym 'w engine_result = "(RunState \<times> gerr option) \<times> 'w"

definition failRun ::
  "'w react \<Rightarrow> go_ctx \<Rightarrow> RunState \<Rightarrow> gerr option \<Rightarrow> gerr option \<times> 'w \<Rightarrow> 'w engine_result" where
  "failRun L x state runErr0 s =
     (let runErr = (case runErr0 of None \<Rightarrow> Errorf [Lit ''run failed''] | Some e \<Rightarrow> e) in
      case TransitionRunStatus state RunStatusFailed of
        (Some transitionErr, state1) \<Rightarrow>
          ((state1, errors_Join [Some runErr, Some transitionErr, fst s]), snd s)
      | (None, state1) \<Rightarrow>
          let state2 = state1\<lparr>st_Error := error_text (rx_is_print L) runErr\<rparr>;
              (eventErr, w) = publish_event L x
                (run_event (st_ID state2) (st_Step state2) EventTypeRunFailed
                  (failureEventDescription (rx_is_print L) (Some runErr))) s
          in ((state2, errors_Join [Some runErr, eventErr]), w))"

definition cancelRun ::
  "'w react \<Rightarrow> go_ctx \<Rightarrow> RunState \<Rightarrow> gerr option \<Rightarrow> gerr option \<times> 'w \<Rightarrow> 'w engine_result" where
  "cancelRun L x state runErr0 s =
     (let runErr = (case runErr0 of None \<Rightarrow> Sentinel ContextCanceled | Some e \<Rightarrow> e) in
      case TransitionRunStatus state RunStatusCancelled of
        (Some transitionErr, state1) \<Rightarrow>
          ((state1, errors_Join [Some runErr, Some transitionErr, fst s]), snd s)
      | (None, state1) \<Rightarrow>
          let state2 = state1\<lparr>st_Error := error_text (rx_is_print L) runErr\<rparr>;
              (eventErr, w) = publish_event L x
                (run_event (st_ID state2) (st_Step state2) EventTypeRunCancelled
                  (error_text (rx_is_print L) runErr)) s
          in ((state2, errors_Join [Some runErr, eventErr]), w))"

section \<open>Requirements\<close>

definition validateRequirementContract :: "RunState \<Rightarrow> PendingRequirement \<Rightarrow> gerr option" where
  "validateRequirementContract state requirement =
     ValidateRunState (zeroRunState\<lparr>st_ID := st_ID state, st_Version := st_Version state,
       st_Step := st_Step state, st_Status := RunStatusSuspended,
       st_PendingRequirement := Some requirement\<rparr>)"

definition validateModelRequirement :: "RunState \<Rightarrow> PendingRequirement \<Rightarrow> gerr option" where
  "validateModelRequirement state requirement =
     (if pr_Origin requirement \<noteq> RequirementOriginModel then
        Some (Errorf [wraps ErrRunStateInvalid,
          Lit '': field=pending_requirement.origin reason=invalid_for_source source=model value='',
          Quo (pr_Origin requirement), Lit '' want='', Quo RequirementOriginModel])
      else validateRequirementContract state requirement)"

definition validateToolSuspendRequest ::
  "RunState \<Rightarrow> ToolCall \<Rightarrow> suspend_ref \<Rightarrow> gerr + PendingRequirement" where
  "validateToolSuspendRequest state call request =
     (case request of
        None \<Rightarrow> Inl (Errorf [wraps ErrRunStateInvalid,
          Lit '': field=pending_requirement reason=nil source=tool''])
      | Some None \<Rightarrow> Inl (Errorf [wraps ErrRunStateInvalid,
          Lit '': field=pending_requirement reason=nil source=tool''])
      | Some (Some requirement) \<Rightarrow>
          if pr_Origin requirement \<noteq> RequirementOriginTool then
            Inl (Errorf [wraps ErrRunStateInvalid,
              Lit '': field=pending_requirement.origin reason=invalid_for_source source=tool value='',
              Quo (pr_Origin requirement), Lit '' want='', Quo RequirementOriginTool])
          else if pr_ToolCallID requirement \<noteq> [] \<and> pr_ToolCallID requirement \<noteq> tc_ID call then
            Inl (Errorf [wraps ErrRunStateInvalid,
              Lit '': field=pending_requirement.tool_call_id reason=mismatch source=tool value='',
              Quo (pr_ToolCallID requirement), Lit '' want='', Quo (tc_ID call)])
          else
          let requirementCopy = requirement\<lparr>pr_ToolCallID := tc_ID call\<rparr> in
          (case validateRequirementContract state requirementCopy of
             Some e \<Rightarrow> Inl e
           | None \<Rightarrow> Inr requirementCopy))"

section \<open>Approved tool replay\<close>

definition findToolCallByID :: "Message list \<Rightarrow> string \<Rightarrow> ToolCall option" where
  "findToolCallByID messages toolCallID =
     (if toolCallID = [] then None
      else first_some (map (\<lambda>message.
             if m_Role message \<noteq> RoleAssistant then None
             else map_option CloneToolCall
                    (find (\<lambda>call. tc_ID call = toolCallID) (rev (elems (m_ToolCalls message)))))
           (rev messages)))"

text \<open>The call to replay, \<open>Inr None\<close> where there is none to replay.\<close>

definition approvedToolReplayCallFromInput ::
  "ctx \<Rightarrow> RunState \<Rightarrow> EngineInput \<Rightarrow> gerr + ToolCall option" where
  "approvedToolReplayCallFromInput c state input =
     (case (ei_ResolvedRequirement input, ei_Resolution input) of
        (Some requirement, Some resolution) \<Rightarrow>
          if pr_Origin requirement \<noteq> RequirementOriginTool then Inr None
          else if rs_Kind resolution \<noteq> RequirementKindApproval \<or>
            rs_Outcome resolution \<noteq> ResolutionOutcomeApproved then Inr None
          else if pr_Kind requirement \<noteq> RequirementKindApproval then
            Inl (Errorf [wraps ErrRunStateInvalid,
              Lit '': field=resolved_requirement.kind reason=invalid_for_approved_tool_replay got='',
              Quo (pr_Kind requirement), Lit '' want='', Quo RequirementKindApproval])
          else (case validateRequirementContract state requirement of
            Some e \<Rightarrow> Inl e
          | None \<Rightarrow>
          if rs_RequirementID resolution \<noteq> pr_ID requirement then
            Inl (Errorf [wraps ErrRunStateInvalid,
              Lit '': field=resolution.requirement_id reason=mismatch got='',
              Quo (rs_RequirementID resolution), Lit '' want='', Quo (pr_ID requirement)])
          else (case findToolCallByID (elems (st_Messages state)) (pr_ToolCallID requirement) of
            None \<Rightarrow> Inl (Errorf [wraps ErrRunStateInvalid,
              Lit '': field=resolved_requirement.tool_call_id reason=not_found value='',
              Quo (pr_ToolCallID requirement)])
          | Some call \<Rightarrow>
          (case ApprovedToolCallReplayOverrideFromContext c of
            None \<Rightarrow> Inl (Errorf [wraps ErrRunStateInvalid,
              Lit '': field=approved_tool_replay_override reason=missing''])
          | Some override \<Rightarrow>
              if ov_ToolCallID override \<noteq> pr_ToolCallID requirement then
                Inl (Errorf [wraps ErrRunStateInvalid,
                  Lit '': field=approved_tool_replay_override.tool_call_id reason=mismatch got='',
                  Quo (ov_ToolCallID override), Lit '' want='', Quo (pr_ToolCallID requirement)])
              else if ov_Fingerprint override \<noteq> pr_Fingerprint requirement then
                Inl (Errorf [wraps ErrRunStateInvalid,
                  Lit '': field=approved_tool_replay_override.fingerprint reason=mismatch got='',
                  Quo (ov_Fingerprint override), Lit '' want='', Quo (pr_Fingerprint requirement)])
              else Inr (Some call))))
      | _ \<Rightarrow> Inr None)"

definition executeApprovedToolReplay ::
  "'w react \<Rightarrow> go_ctx \<Rightarrow> ToolCall \<Rightarrow> 'w \<Rightarrow> (gerr + ToolResult) \<times> 'w" where
  "executeApprovedToolReplay L x call w =
     (case rx_Execute L (Some x) call w of
        (Inl replayErr, w1) \<Rightarrow>
          (case contextCancellationError (rx_poll L) x replayErr w1 of
             (Some cancellationErr, w2) \<Rightarrow> (Inl cancellationErr, w2)
           | (None, w2) \<Rightarrow>
               if errors_As_suspend replayErr \<noteq> None then
                 (Inl (Errorf [wraps ErrRunStateInvalid,
                   Lit '': field=replay_tool_result reason=suspend_request_forbidden call_id='',
                   Quo (tc_ID call)]), w2)
               else (Inr (normalizedToolErrorResult (rx_is_print L) call
                      ToolFailureReasonExecutorError (Some replayErr)), w2))
      | (Inr replayed, w1) \<Rightarrow>
          (case validateToolResultIdentity call replayed of
             Some identityErr \<Rightarrow>
               (Inr (normalizedToolErrorResult (rx_is_print L) call
                  ToolFailureReasonExecutorError (Some identityErr)), w1)
           | None \<Rightarrow> (Inr replayed, w1)))"

section \<open>Tool calls\<close>

text \<open>\<open>if result.CallID == "" ... if result.Name == "" ...\<close>\<close>

definition fill_identity :: "ToolCall \<Rightarrow> ToolResult \<Rightarrow> ToolResult" where
  "fill_identity call r =
     (let r1 = (if tr_CallID r = [] then r\<lparr>tr_CallID := tc_ID call\<rparr> else r)
      in if tr_Name r1 = [] then r1\<lparr>tr_Name := tc_Name call\<rparr> else r1)"

definition tool_result_event :: "RunState \<Rightarrow> ToolResult \<Rightarrow> Event" where
  "tool_result_event state r =
     zeroEvent\<lparr>ev_RunID := st_ID state, ev_Step := st_Step state, ev_Type := EventTypeToolResult,
       ev_ToolResult := Some r\<rparr>"

text \<open>\<open>state.Messages = append(state.Messages, m)\<close>\<close>

definition append_message :: "Message \<Rightarrow> RunState \<Rightarrow> RunState" where
  "append_message m state = state\<lparr>st_Messages := slice_append (st_Messages state) [m]\<rparr>"

text \<open>
  How one call ends: with a result; with a result and a requirement to suspend on; with a
  result and the error of an invalid suspend request; or in a cancellation.
\<close>

datatype call_end =
    CallResult ToolResult
  | CallSuspended ToolResult PendingRequirement
  | CallInvalidSuspend ToolResult gerr
  | CallCancelled gerr

definition run_tool_error ::
  "'w react \<Rightarrow> go_ctx \<Rightarrow> RunState \<Rightarrow> ToolCall \<Rightarrow> gerr \<Rightarrow> 'w \<Rightarrow> call_end \<times> 'w" where
  "run_tool_error L x state call toolErr w =
     (let failed = normalizedToolErrorResult (rx_is_print L) call in
      case contextCancellationError (rx_poll L) x toolErr w of
        (Some cancellationErr, w1) \<Rightarrow> (CallCancelled cancellationErr, w1)
      | (None, w1) \<Rightarrow>
          (case errors_As_suspend toolErr of
             Some request \<Rightarrow>
               (case validateToolSuspendRequest state call request of
                  Inl invalidSuspendErr \<Rightarrow>
                    (CallInvalidSuspend (failed ToolFailureReasonExecutorError
                       (Some invalidSuspendErr)) invalidSuspendErr, w1)
                | Inr suspendRequirement \<Rightarrow>
                    (CallSuspended (failed ToolFailureReasonSuspended (Some toolErr))
                       suspendRequirement, w1))
           | None \<Rightarrow> (CallResult (failed ToolFailureReasonExecutorError (Some toolErr)), w1)))"

definition run_tool ::
  "'w react \<Rightarrow> go_ctx \<Rightarrow> (string \<Rightarrow> ToolDefinition option) \<Rightarrow> RunState \<Rightarrow> ToolCall \<Rightarrow> 'w \<Rightarrow>
     call_end \<times> 'w" where
  "run_tool L x toolDefinitions state toolCall w =
     (let failed = normalizedToolErrorResult (rx_is_print L) toolCall in
      case toolDefinitions (tc_Name toolCall) of
        None \<Rightarrow> (CallResult (failed ToolFailureReasonUnknownTool
          (Some (Errorf [Lit ''tool '', Quo (tc_Name toolCall), Lit '' is not defined'']))), w)
      | Some toolDefinition \<Rightarrow>
     (case validateToolCallArguments toolCall toolDefinition of
        Some validationErr \<Rightarrow>
          (CallResult (failed ToolFailureReasonInvalidArguments (Some validationErr)), w)
      | None \<Rightarrow>
     (case rx_Execute L (WithoutApprovedToolCallReplayOverride (Some x)) toolCall w of
        (Inl toolErr, w1) \<Rightarrow> run_tool_error L x state toolCall toolErr w1
      | (Inr executed, w1) \<Rightarrow>
          (case validateToolResultIdentity toolCall executed of
             Some identityErr \<Rightarrow>
               (CallResult (failed ToolFailureReasonExecutorError (Some identityErr)), w1)
           | None \<Rightarrow> (CallResult executed, w1)))))"

datatype 'w flow =
    Go_on RunState "gerr option \<times> 'w"
  | Return "'w engine_result"

text \<open>The result of a call becomes an observation in the transcript and an event.\<close>

definition observe ::
  "'w react \<Rightarrow> go_ctx \<Rightarrow> ToolCall \<Rightarrow> ToolResult \<Rightarrow> RunState \<Rightarrow> gerr option \<times> 'w \<Rightarrow>
     RunState \<times> (gerr option \<times> 'w)" where
  "observe L x call r0 state s =
     (let r = fill_identity call r0;
          state1 = append_message (ToolResultMessage r) state
      in (state1, publish_event L x (tool_result_event state1 r) s))"

text \<open>\<open>state.PendingRequirement = ...; TransitionRunStatus(&state, Suspended)\<close>\<close>

definition suspendRun ::
  "'w react \<Rightarrow> go_ctx \<Rightarrow> RunState \<Rightarrow> PendingRequirement \<Rightarrow> gerr option \<times> 'w \<Rightarrow> 'w engine_result" where
  "suspendRun L x state requirement s =
     (case TransitionRunStatus (state\<lparr>st_PendingRequirement := Some requirement\<rparr>) RunStatusSuspended of
        (Some e, state1) \<Rightarrow> failRun L x (state1\<lparr>st_PendingRequirement := None\<rparr>) (Some e) s
      | (None, state1) \<Rightarrow> ((state1, fst s), snd s))"

primrec tool_loop ::
  "'w react \<Rightarrow> go_ctx \<Rightarrow> (string \<Rightarrow> ToolDefinition option) \<Rightarrow> ToolCall list \<Rightarrow> RunState \<Rightarrow>
     gerr option \<times> 'w \<Rightarrow> 'w flow" where
  "tool_loop L x toolDefinitions [] state s = Go_on state s"
| "tool_loop L x toolDefinitions (toolCall # toolCalls) state s =
     (case ctx_Err (rx_poll L) x (snd s) of
        (Some ctxErr, w) \<Rightarrow> Return (cancelRun L x state (Some ctxErr) (fst s, w))
      | (None, w) \<Rightarrow>
     (case run_tool L x toolDefinitions state toolCall w of
        (CallCancelled cancellationErr, w1) \<Rightarrow>
          Return (cancelRun L x state (Some cancellationErr) (fst s, w1))
      | (CallResult r, w1) \<Rightarrow>
          (case observe L x toolCall r state (fst s, w1) of
             (state1, s1) \<Rightarrow> tool_loop L x toolDefinitions toolCalls state1 s1)
      | (CallInvalidSuspend r invalidSuspendErr, w1) \<Rightarrow>
          (case observe L x toolCall r state (fst s, w1) of
             (state1, s1) \<Rightarrow> Return (failRun L x state1 (Some invalidSuspendErr) s1))
      | (CallSuspended r suspendRequirement, w1) \<Rightarrow>
          (case observe L x toolCall r state (fst s, w1) of
             (state1, s1) \<Rightarrow> Return (suspendRun L x state1 suspendRequirement s1))))"

section \<open>One step\<close>

definition model_request :: "EngineInput \<Rightarrow> RunState \<Rightarrow> ModelRequest" where
  "model_request input state =
     \<lparr>mq_Messages = CloneMessages (st_Messages state), mq_Tools = CloneToolDefinitions (ei_Tools input),
      mq_Resolution = ei_Resolution input\<rparr>"

definition assistant_event :: "RunState \<Rightarrow> Message \<Rightarrow> Event" where
  "assistant_event state m =
     zeroEvent\<lparr>ev_RunID := st_ID state, ev_Step := st_Step state,
       ev_Type := EventTypeAssistantMessage, ev_Message := Some m\<rparr>"

text \<open>\<open>if assistant.Role == "" { assistant.Role = agent.RoleAssistant }\<close>\<close>

definition default_role :: "Message \<Rightarrow> Message" where
  "default_role m = (if m_Role m = [] then m\<lparr>m_Role := RoleAssistant\<rparr> else m)"

definition completeRun ::
  "'w react \<Rightarrow> go_ctx \<Rightarrow> RunState \<Rightarrow> Message \<Rightarrow> gerr option \<times> 'w \<Rightarrow> 'w engine_result" where
  "completeRun L x state assistant s =
     (case TransitionRunStatus state RunStatusCompleted of
        (Some e, state1) \<Rightarrow> ((state1, errors_Join [Some e, fst s]), snd s)
      | (None, state1) \<Rightarrow>
          let state2 = state1\<lparr>st_Output := m_Content assistant\<rparr>;
              (eventErr, w) = publish_event L x
                (run_event (st_ID state2) (st_Step state2) EventTypeRunCompleted
                  ''assistant returned a final answer'') s
          in ((state2, eventErr), w))"

text \<open>What follows the publication of the assistant's message.\<close>

definition act_on_message ::
  "'w react \<Rightarrow> go_ctx \<Rightarrow> (string \<Rightarrow> ToolDefinition option) \<Rightarrow> Message \<Rightarrow> RunState \<Rightarrow>
     gerr option \<times> 'w \<Rightarrow> 'w flow" where
  "act_on_message L x toolDefinitions assistant state s =
     (case m_Requirement assistant of
        Some requirement \<Rightarrow>
          if elems (m_ToolCalls assistant) \<noteq> [] then
            Return (failRun L x state (Some (Errorf
              [Lit ''assistant response cannot include both requirement and tool calls''])) s)
          else (case validateModelRequirement state requirement of
            Some e \<Rightarrow> Return (failRun L x state (Some e) s)
          | None \<Rightarrow> Return (suspendRun L x state requirement s))
      | None \<Rightarrow>
          if elems (m_ToolCalls assistant) = [] then Return (completeRun L x state assistant s)
          else (case validateToolCallShape (elems (m_ToolCalls assistant)) of
            Some e \<Rightarrow> Return (failRun L x state (Some e) s)
          | None \<Rightarrow> tool_loop L x toolDefinitions (elems (m_ToolCalls assistant)) state s))"

text \<open>
  The body of the step loop. \<open>state.Step++\<close> cannot overflow: the loop's guard has just found
  the step below \<open>maxSteps\<close>.
\<close>

definition react_iteration ::
  "'w react \<Rightarrow> go_ctx \<Rightarrow> EngineInput \<Rightarrow> (string \<Rightarrow> ToolDefinition option) \<Rightarrow> RunState \<Rightarrow>
     gerr option \<times> 'w \<Rightarrow> 'w flow" where
  "react_iteration L x input toolDefinitions state0 s =
     (case ctx_Err (rx_poll L) x (snd s) of
        (Some ctxErr, w) \<Rightarrow> Return (cancelRun L x state0 (Some ctxErr) (fst s, w))
      | (None, w) \<Rightarrow>
          let state = state0\<lparr>st_Step := st_Step state0 + 1\<rparr> in
     (case rx_Generate L (Some x) (model_request input state) w of
        (Inl err, w1) \<Rightarrow>
          (case contextCancellationError (rx_poll L) x err w1 of
             (Some cancellationErr, w2) \<Rightarrow>
               Return (cancelRun L x state (Some cancellationErr) (fst s, w2))
           | (None, w2) \<Rightarrow> Return (failRun L x state (Some err) (fst s, w2)))
      | (Inr message, w1) \<Rightarrow>
          let assistant = default_role message;
              state1 = append_message (CloneMessage assistant) state
          in act_on_message L x toolDefinitions assistant state1
               (publish_event L x (assistant_event state1 assistant) (fst s, w1))))"


section \<open>The step loop\<close>

text \<open>
  Falling through an iteration changes the step by one and appends to the transcript;
  nothing else of the state is written.
\<close>

lemma observe_eq:
  "observe L x call r state s = (state1, s1) \<Longrightarrow>
   state1 = append_message (ToolResultMessage (fill_identity call r)) state"
  by (simp add: observe_def Let_def)

lemma append_message_fields [simp]:
  "st_ID (append_message m st) = st_ID st" "st_Version (append_message m st) = st_Version st"
  "st_Step (append_message m st) = st_Step st" "st_Status (append_message m st) = st_Status st"
  "st_PendingRequirement (append_message m st) = st_PendingRequirement st"
  "st_Output (append_message m st) = st_Output st" "st_Error (append_message m st) = st_Error st"
  "st_Messages (append_message m st) = Some (elems (st_Messages st) @ [m])"
  by (simp_all add: append_message_def)

lemma append_message_upd [simp]:
  "(append_message m st)\<lparr>st_Messages := ms\<rparr> = st\<lparr>st_Messages := ms\<rparr>"
  by (simp add: append_message_def)

lemma tool_loop_Go_on:
  "tool_loop L x defs calls state s = Go_on state' s' \<Longrightarrow>
   \<exists>ms. grown (st_Messages state) ms \<and> state' = state\<lparr>st_Messages := ms\<rparr>"
proof (induction calls arbitrary: state s)
  case Nil
  then show ?case by (intro exI [of _ "st_Messages state"]) simp
next
  case (Cons call calls)
  then obtain m s1 where *: "tool_loop L x defs calls (append_message m state) s1 = Go_on state' s'"
    by (auto split: prod.splits option.splits call_end.splits dest: observe_eq)
  from Cons.IH [OF *] show ?case
    by (auto intro: grown_trans)
qed

lemma act_on_message_Go_on:
  "act_on_message L x defs m state s = Go_on state' s' \<Longrightarrow>
   \<exists>ms. grown (st_Messages state) ms \<and> state' = state\<lparr>st_Messages := ms\<rparr>"
  by (auto simp: act_on_message_def split: option.splits if_splits dest: tool_loop_Go_on)

lemma react_iteration_Go_on:
  "react_iteration L x input defs state s = Go_on state' s' \<Longrightarrow>
   \<exists>ms. grown (st_Messages state) ms \<and>
     state' = state\<lparr>st_Step := st_Step state + 1, st_Messages := ms\<rparr>"
  by (fastforce simp: react_iteration_def Let_def
      split: option.splits prod.splits sum.splits dest!: act_on_message_Go_on
      intro: grown_trans [OF grown_snoc])

definition exhaustRun :: "'w react \<Rightarrow> go_ctx \<Rightarrow> RunState \<Rightarrow> gerr option \<times> 'w \<Rightarrow> 'w engine_result" where
  "exhaustRun L x state s =
     (case TransitionRunStatus state RunStatusMaxStepsExceeded of
        (Some e, state1) \<Rightarrow>
          ((state1, errors_Join [Some (Sentinel ErrMaxStepsExceeded), Some e, fst s]), snd s)
      | (None, state1) \<Rightarrow>
          let state2 = state1\<lparr>st_Error := sentinel_text ErrMaxStepsExceeded\<rparr>;
              (eventErr, w) = publish_event L x
                (run_event (st_ID state2) (st_Step state2) EventTypeRunFailed
                  (failureEventDescription (rx_is_print L) (Some (Sentinel ErrMaxStepsExceeded)))) s
          in ((state2, errors_Join [Some (Sentinel ErrMaxStepsExceeded), eventErr]), w))"

function react_loop ::
  "'w react \<Rightarrow> go_ctx \<Rightarrow> EngineInput \<Rightarrow> (string \<Rightarrow> ToolDefinition option) \<Rightarrow> int \<Rightarrow> RunState \<Rightarrow>
     gerr option \<times> 'w \<Rightarrow> 'w engine_result" where
  "react_loop L x input toolDefinitions maxSteps state s =
     (if st_Step state < maxSteps then
        (case react_iteration L x input toolDefinitions state s of
           Return r \<Rightarrow> r
         | Go_on state' s' \<Rightarrow> react_loop L x input toolDefinitions maxSteps state' s')
      else exhaustRun L x state s)"
  by pat_completeness auto

termination
  by (relation "measure (\<lambda>(L, x, input, defs, maxSteps, state, s). nat (maxSteps - st_Step state))")
    (auto dest: react_iteration_Go_on)

declare react_loop.simps [simp del]

section \<open>Execute\<close>

text \<open>The replay of the approved call; \<open>Return\<close> when it ends the run.\<close>

definition replay_phase ::
  "'w react \<Rightarrow> go_ctx \<Rightarrow> ToolCall option \<Rightarrow> RunState \<Rightarrow> 'w \<Rightarrow> 'w flow" where
  "replay_phase L x replay state w =
     (case replay of
        None \<Rightarrow> Go_on state (None, w)
      | Some replayCall \<Rightarrow>
          (case executeApprovedToolReplay L x replayCall w of
             (Inl replayErr, w1) \<Rightarrow>
               (case contextCancellationError (rx_poll L) x replayErr w1 of
                  (Some cancellationErr, w2) \<Rightarrow>
                    Return (cancelRun L x state (Some cancellationErr) (None, w2))
                | (None, w2) \<Rightarrow> Return (failRun L x state (Some replayErr) (None, w2)))
           | (Inr r, w1) \<Rightarrow>
               (case observe L x replayCall r state (None, w1) of (state1, s1) \<Rightarrow> Go_on state1 s1)))"

definition effective_max_steps :: "EngineInput \<Rightarrow> int" where
  "effective_max_steps input =
     (if ei_MaxSteps input \<le> 0 then DefaultMaxSteps else ei_MaxSteps input)"

definition with_resolution :: "(nat \<Rightarrow> bool) \<Rightarrow> EngineInput \<Rightarrow> RunState \<Rightarrow> RunState" where
  "with_resolution up input state =
     (if ei_Resolution input \<noteq> None
      then append_message (resolutionMessage (ei_Resolution input) up) state else state)"

definition react_Execute :: "'w react \<Rightarrow> ctx \<Rightarrow> RunState \<Rightarrow> EngineInput \<Rightarrow> 'w \<Rightarrow> 'w engine_result" where
  "react_Execute L c state0 input w =
     (case c of
        None \<Rightarrow> ((state0, Some (Sentinel ErrContextNil)), w)
      | Some x \<Rightarrow>
     (case ValidateRunState state0 of
        Some e \<Rightarrow> ((state0, Some e), w)
      | None \<Rightarrow>
          if st_Status state0 = RunStatusSuspended then
            ((state0, Some (Errorf [wraps ErrResolutionRequired, Lit '': run_id='',
               Quo (st_ID state0), Lit '' reason=continue_requires_resolution''])), w)
          else
     (case TransitionRunStatus state0 RunStatusRunning of
        (Some e, state1) \<Rightarrow> ((state1, errors_Join [Some e, None]), w)
      | (None, state1) \<Rightarrow>
          let state2 = with_resolution (rx_is_print L) input state1 in
     (case approvedToolReplayCallFromInput c state2 input of
        Inl replayContractErr \<Rightarrow> failRun L x state2 (Some replayContractErr) (None, w)
      | Inr replay \<Rightarrow>
     (case replay_phase L x replay state2 w of
        Return r \<Rightarrow> r
      | Go_on state3 s3 \<Rightarrow>
          react_loop L x input (indexToolDefinitions (ei_Tools input)) (effective_max_steps input)
            state3 s3)))))"

end
