(* ===== verification/React_Safety.thy ===== *)
theory React_Safety
  imports React_Loop Engine_Contract
begin

text \<open>
  What the ReAct engine guarantees whatever the model and the tools do: the shape of the
  state it returns and the contract the runner checks (\<open>engine_output_ok\<close>), the agreement
  of the returned error with the returned status, and the conditions under which it calls
  the tool executor and the model.
\<close>

section \<open>Small facts about the helpers\<close>

lemma validateRequirementContract_iff [simp]:
  "run_state_ok st \<Longrightarrow> validateRequirementContract st q = None \<longleftrightarrow> requirement_ok q"
  by (simp add: validateRequirementContract_def run_state_ok_def suspension_ok_def)

lemma validateModelRequirement_None:
  "run_state_ok st \<Longrightarrow> validateModelRequirement st q = None \<longleftrightarrow>
     pr_Origin q = RequirementOriginModel \<and> requirement_ok q"
  by (simp add: validateModelRequirement_def)

lemma validateToolSuspendRequest_Inr:
  "run_state_ok st \<Longrightarrow> validateToolSuspendRequest st call ref = Inr q \<Longrightarrow>
   pr_Origin q = RequirementOriginTool \<and> pr_ToolCallID q = tc_ID call \<and> requirement_ok q"
  by (auto simp: validateToolSuspendRequest_def Let_def split: option.splits if_splits)

lemma fill_identity_normalized [simp]:
  "tr_CallID (fill_identity call (normalizedToolErrorResult up call r e)) = tc_ID call"
  "tr_Name (fill_identity call (normalizedToolErrorResult up call r e)) = tc_Name call"
  by (auto simp: fill_identity_def Let_def)

lemma fill_identity_valid:
  "validateToolResultIdentity call r = None \<Longrightarrow>
   tr_CallID (fill_identity call r) = tc_ID call \<and> tr_Name (fill_identity call r) = tc_Name call"
  by (auto simp: validateToolResultIdentity_def fill_identity_def Let_def split: if_splits)

text \<open>Whatever way a call ends, its observation bears the ID and the name of the call.\<close>

lemma run_tool_error_suspended:
  "run_state_ok st \<Longrightarrow> run_tool_error L x st call e w = (CallSuspended r q, w') \<Longrightarrow>
   tr_CallID (fill_identity call r) = tc_ID call \<and> pr_Origin q = RequirementOriginTool \<and>
   pr_ToolCallID q = tc_ID call \<and> requirement_ok q"
  by (auto simp: run_tool_error_def Let_def split: prod.splits option.splits sum.splits
      dest: validateToolSuspendRequest_Inr)

lemma run_tool_suspended:
  "run_state_ok st \<Longrightarrow> run_tool L x defs st call w = (CallSuspended r q, w') \<Longrightarrow>
   tr_CallID (fill_identity call r) = tc_ID call \<and> pr_Origin q = RequirementOriginTool \<and>
   pr_ToolCallID q = tc_ID call \<and> requirement_ok q"
  by (auto simp: run_tool_def Let_def split: prod.splits option.splits sum.splits
      dest: run_tool_error_suspended)

section \<open>States in progress and settled states\<close>

text \<open>
  A state the engine works on, relative to the one it was given (\<open>st0\<close>) and the bound on
  the steps; and a state it may return.
\<close>

definition follows :: "RunState \<Rightarrow> int \<Rightarrow> RunState \<Rightarrow> bool" where
  "follows st0 n st \<longleftrightarrow>
     run_state_ok st \<and> st_ID st = st_ID st0 \<and> st_Version st = st_Version st0 \<and>
     st_Step st0 \<le> st_Step st \<and> st_Step st \<le> max (st_Step st0) n \<and>
     grown (st_Messages st0) (st_Messages st)"

definition in_progress :: "RunState \<Rightarrow> int \<Rightarrow> RunState \<Rightarrow> bool" where
  "in_progress st0 n st \<longleftrightarrow> follows st0 n st \<and> st_Status st = RunStatusRunning"

definition additions :: "RunState \<Rightarrow> RunState \<Rightarrow> Message list" where
  "additions st0 st = drop (length (elems (st_Messages st0))) (elems (st_Messages st))"

definition suspension_evidenced :: "RunState \<Rightarrow> RunState \<Rightarrow> bool" where
  "suspension_evidenced st0 st \<longleftrightarrow>
     (case st_PendingRequirement st of
        None \<Rightarrow> True
      | Some q \<Rightarrow> evidenced (additions st0 st) (elems (st_Messages st)) q)"

definition endStatuses :: "RunStatus list" where
  "endStatuses = [RunStatusSuspended, RunStatusCancelled, RunStatusCompleted, RunStatusFailed,
     RunStatusMaxStepsExceeded]"

definition settled :: "bool \<Rightarrow> RunState \<Rightarrow> int \<Rightarrow> RunState \<Rightarrow> bool" where
  "settled ev st0 n st \<longleftrightarrow>
     follows st0 n st \<and> st_Status st \<in> set endStatuses \<and> (ev \<longrightarrow> suspension_evidenced st0 st)"

text \<open>
  How the returned error relates to the returned state: a failure or a cancellation is
  returned as an error whose first cause is the text kept in the state, exhaustion as
  \<open>ErrMaxStepsExceeded\<close>.
\<close>

definition error_agrees :: "(nat \<Rightarrow> bool) \<Rightarrow> RunState \<Rightarrow> gerr option \<Rightarrow> bool" where
  "error_agrees up st e \<longleftrightarrow>
     (if st_Status st = RunStatusFailed \<or> st_Status st = RunStatusCancelled
      then (\<exists>cause es. e = Some (Joined (cause # es)) \<and> st_Error st = error_text up cause)
      else st_Status st = RunStatusMaxStepsExceeded \<longrightarrow>
        is_err e ErrMaxStepsExceeded \<and> st_Error st = sentinel_text ErrMaxStepsExceeded)"

definition react_post :: "'w react \<Rightarrow> bool \<Rightarrow> RunState \<Rightarrow> int \<Rightarrow> 'w engine_result \<Rightarrow> bool" where
  "react_post L ev st0 n r \<longleftrightarrow>
     settled ev st0 n (fst (fst r)) \<and> error_agrees (rx_is_print L) (fst (fst r)) (snd (fst r))"

definition flow_post ::
  "'w react \<Rightarrow> bool \<Rightarrow> RunState \<Rightarrow> int \<Rightarrow> 'w flow \<Rightarrow> bool" where
  "flow_post L ev st0 n f \<longleftrightarrow>
     (case f of Go_on st s \<Rightarrow> in_progress st0 n st | Return r \<Rightarrow> react_post L ev st0 n r)"

lemma flow_post_simps [simp]:
  "flow_post L ev st0 n (Go_on st s) = in_progress st0 n st"
  "flow_post L ev st0 n (Return r) = react_post L ev st0 n r"
  by (simp_all add: flow_post_def)

lemma in_progress_facts:
  assumes "in_progress st0 n st"
  shows "follows st0 n st" "st_Status st = RunStatusRunning" "st_PendingRequirement st = None"
    "run_state_ok st"
  using assms by (auto simp: in_progress_def follows_def run_state_ok_def suspension_ok_def)

lemma in_progress_append [simp]:
  "in_progress st0 n st \<Longrightarrow> in_progress st0 n (append_message m st)"
  by (auto simp: in_progress_def follows_def run_state_ok_def suspension_ok_def
      intro: grown_trans)

lemma additions_append:
  "grown (st_Messages st0) (st_Messages st) \<Longrightarrow>
   additions st0 (append_message m st) = additions st0 st @ [m]"
  by (auto simp: additions_def dest!: grown_elems)

lemma suspension_evidenced_None [simp]:
  "st_PendingRequirement st = None \<Longrightarrow> suspension_evidenced st0 st"
  by (simp add: suspension_evidenced_def)

text \<open>Ending a run in progress without a requirement.\<close>

lemma end_run:
  assumes "in_progress st0 n st"
    and "t \<in> {RunStatusCancelled, RunStatusCompleted, RunStatusFailed, RunStatusMaxStepsExceeded}"
  shows "TransitionRunStatus st t = (None, st\<lparr>st_Status := t\<rparr>)"
    and "settled ev st0 n (st\<lparr>st_Status := t, st_Error := e, st_Output := out\<rparr>)"
proof -
  show "TransitionRunStatus st t = (None, st\<lparr>st_Status := t\<rparr>)"
    using assms in_progress_facts [OF assms(1)] by (intro Transition_from_running) auto
  show "settled ev st0 n (st\<lparr>st_Status := t, st_Error := e, st_Output := out\<rparr>)"
    using assms in_progress_facts [OF assms(1)]
    by (auto simp: settled_def follows_def run_state_ok_def suspension_ok_def endStatuses_def)
qed

lemma settled_error:
  "in_progress st0 n st \<Longrightarrow>
   t \<in> {RunStatusCancelled, RunStatusFailed, RunStatusMaxStepsExceeded} \<Longrightarrow>
   settled ev st0 n (st\<lparr>st_Status := t, st_Error := e\<rparr>)"
  using end_run(2) [of st0 n st t ev "st_Output st" e] by auto

lemma errors_Join_cause [simp]:
  "\<exists>cause. (\<exists>es'. errors_Join (Some e # es) = Some (Joined (cause # es'))) \<and>
     error_text up e = error_text up cause"
  by (intro exI [of _ e]) (simp add: errors_Join_def)

lemma failRun_post:
  assumes "in_progress st0 n st"
  shows "react_post L ev st0 n (failRun L x st e s)"
proof -
  have "TransitionRunStatus st RunStatusFailed = (None, st\<lparr>st_Status := RunStatusFailed\<rparr>)"
    by (rule end_run [OF assms]) simp
  then show ?thesis
    using settled_error [OF assms, of RunStatusFailed]
    by (auto simp: failRun_def Let_def react_post_def error_agrees_def split: prod.split)
qed

lemma cancelRun_post:
  assumes "in_progress st0 n st"
  shows "react_post L ev st0 n (cancelRun L x st e s)"
proof -
  have "TransitionRunStatus st RunStatusCancelled = (None, st\<lparr>st_Status := RunStatusCancelled\<rparr>)"
    by (rule end_run [OF assms]) simp
  then show ?thesis
    using settled_error [OF assms, of RunStatusCancelled]
    by (auto simp: cancelRun_def Let_def react_post_def error_agrees_def split: prod.split)
qed

lemma exhaustRun_post:
  assumes "in_progress st0 n st"
  shows "react_post L ev st0 n (exhaustRun L x st s)"
proof -
  have "TransitionRunStatus st RunStatusMaxStepsExceeded =
      (None, st\<lparr>st_Status := RunStatusMaxStepsExceeded\<rparr>)"
    by (rule end_run [OF assms]) simp
  then show ?thesis
    using settled_error [OF assms, of RunStatusMaxStepsExceeded]
    by (auto simp: exhaustRun_def Let_def react_post_def error_agrees_def split: prod.split)
qed

lemma completeRun_post:
  assumes "in_progress st0 n st"
  shows "react_post L ev st0 n (completeRun L x st m s)"
proof -
  have "TransitionRunStatus st RunStatusCompleted = (None, st\<lparr>st_Status := RunStatusCompleted\<rparr>)"
    by (rule end_run [OF assms]) simp
  then show ?thesis
    using end_run(2) [OF assms, of RunStatusCompleted ev "m_Content m" "st_Error st"]
    by (auto simp: completeRun_def Let_def react_post_def error_agrees_def split: prod.split)
qed

lemma suspendRun_post:
  assumes "in_progress st0 n st" and "requirement_ok q"
    and "ev \<longrightarrow> evidenced (additions st0 st) (elems (st_Messages st)) q"
  shows "react_post L ev st0 n (suspendRun L x st q s)"
proof -
  let ?st = "st\<lparr>st_PendingRequirement := Some q\<rparr>"
  have "TransitionRunStatus ?st RunStatusSuspended = (None, ?st\<lparr>st_Status := RunStatusSuspended\<rparr>)"
    using in_progress_facts [OF assms(1)] assms(2) by (intro Transition_suspend) auto
  moreover have "settled ev st0 n (?st\<lparr>st_Status := RunStatusSuspended\<rparr>)"
    using in_progress_facts [OF assms(1)] assms(2,3)
    by (auto simp: settled_def follows_def run_state_ok_def suspension_ok_def endStatuses_def
        suspension_evidenced_def additions_def)
  ultimately show ?thesis
    by (simp add: suspendRun_def react_post_def error_agrees_def)
qed

section \<open>The loops\<close>

text \<open>The calls that are run belong to an assistant message of the transcript.\<close>

definition called_by_assistant :: "RunState \<Rightarrow> ToolCall list \<Rightarrow> bool" where
  "called_by_assistant st calls \<longleftrightarrow>
     (\<forall>c \<in> set calls. tc_ID c \<noteq> [] \<and>
        (\<exists>m \<in> set (elems (st_Messages st)). m_Role m = RoleAssistant \<and>
           (\<exists>tc \<in> set (elems (m_ToolCalls m)). tc_ID tc = tc_ID c)))"

lemma called_by_assistant_append:
  "called_by_assistant st (c # cs) \<Longrightarrow> called_by_assistant (append_message m st) cs"
  by (fastforce simp: called_by_assistant_def)

lemma tool_suspend_evidence:
  assumes "in_progress st0 n st" and "called_by_assistant st (c # cs)"
    and "tr_CallID (fill_identity c r) = tc_ID c \<and> pr_Origin q = RequirementOriginTool \<and>
      pr_ToolCallID q = tc_ID c \<and> requirement_ok q"
  shows "evidenced (additions st0 (append_message (ToolResultMessage (fill_identity c r)) st))
    (elems (st_Messages (append_message (ToolResultMessage (fill_identity c r)) st))) q"
proof -
  have "grown (st_Messages st0) (st_Messages st)"
    using assms(1) by (simp add: in_progress_def follows_def)
  with assms(2,3) show ?thesis
    by (auto simp: evidenced_def additions_append called_by_assistant_def ToolResultMessage_def
        requirement_ok_def)
qed

lemma tool_loop_post:
  "in_progress st0 n st \<Longrightarrow> (ev \<longrightarrow> called_by_assistant st calls) \<Longrightarrow>
   flow_post L ev st0 n (tool_loop L x defs calls st s)"
proof (induction calls arbitrary: st s)
  case (Cons c cs)
  note ok = Cons.prems
  have rest: "flow_post L ev st0 n (tool_loop L x defs cs (append_message m st) s1)" for m s1
    using ok by (intro Cons.IH) (auto dest: called_by_assistant_append)
  have suspend: "react_post L ev st0 n
      (suspendRun L x (append_message (ToolResultMessage (fill_identity c r)) st) q s1)"
    if "run_tool L x defs st c w = (CallSuspended r q, w1)" for r q w w1 s1
    using ok tool_suspend_evidence run_tool_suspended [OF in_progress_facts(4) [OF ok(1)] that]
    by (intro suspendRun_post) auto
  show ?case
    using ok rest suspend
    by (auto simp: cancelRun_post failRun_post
        split: prod.splits option.splits call_end.splits dest!: observe_eq)
qed simp

lemma act_on_message_post:
  assumes "in_progress st0 n st"
    and "m_Role m = RoleAssistant \<or> \<not> ev"
    and "st = append_message (CloneMessage m) st1" and "grown (st_Messages st0) (st_Messages st1)"
  shows "flow_post L ev st0 n (act_on_message L x defs m st s)"
proof -
  have adds: "additions st0 st = additions st0 st1 @ [CloneMessage m]"
    using assms(3,4) by (simp add: additions_append)
  note ok = in_progress_facts(4) [OF assms(1)]
  have model: "react_post L ev st0 n (suspendRun L x st q s)"
    if "m_Requirement m = Some q" "validateModelRequirement st q = None" for q
    using that assms(1,2) ok adds
    by (intro suspendRun_post) (auto simp: validateModelRequirement_None evidenced_def)
  have called: "ev \<longrightarrow> called_by_assistant st (elems (m_ToolCalls m))"
    if "validateToolCallShape (elems (m_ToolCalls m)) = None"
    using that assms(2,3)
    by (auto simp: called_by_assistant_def validateToolCallShape_def validateToolCallShape_from_iff)
  have tools: "flow_post L ev st0 n (tool_loop L x defs (elems (m_ToolCalls m)) st s)"
    if "validateToolCallShape (elems (m_ToolCalls m)) = None"
    by (rule tool_loop_post [OF assms(1) called [OF that]])
  show ?thesis
    using assms(1) model tools
    by (auto simp: act_on_message_def failRun_post completeRun_post split: option.splits)
qed

lemma default_role_role:
  "m_Role m = [] \<or> m_Role m = RoleAssistant \<Longrightarrow> m_Role (default_role m) = RoleAssistant"
  by (auto simp: default_role_def)

text \<open>A model that speaks as the assistant (or leaves the role to the engine).\<close>

definition assistant_reply :: "gerr + Message \<Rightarrow> bool" where
  "assistant_reply r =
     (case r of Inl e \<Rightarrow> True | Inr m \<Rightarrow> m_Role m = [] \<or> m_Role m = RoleAssistant)"

definition model_ok :: "'w react \<Rightarrow> bool" where
  "model_ok L \<longleftrightarrow> (\<forall>c q w. assistant_reply (fst (rx_Generate L c q w)))"

lemma model_ok_role:
  "model_ok L \<Longrightarrow> rx_Generate L c q w = (Inr m, w') \<Longrightarrow> m_Role (default_role m) = RoleAssistant"
proof (rule default_role_role)
  assume "model_ok L" and g: "rx_Generate L c q w = (Inr m, w')"
  then have "assistant_reply (fst (rx_Generate L c q w))" unfolding model_ok_def by blast
  with g show "m_Role m = [] \<or> m_Role m = RoleAssistant" by (simp add: assistant_reply_def)
qed

lemma react_iteration_post:
  assumes "in_progress st0 n st" and "st_Step st < n" and "ev \<longrightarrow> model_ok L"
  shows "flow_post L ev st0 n (react_iteration L x input defs st s)"
proof -
  let ?st = "st\<lparr>st_Step := st_Step st + 1\<rparr>"
  have st: "in_progress st0 n ?st"
    using assms(1,2) by (auto simp: in_progress_def follows_def run_state_ok_def suspension_ok_def)
  then have grown: "grown (st_Messages st0) (st_Messages ?st)"
    by (simp add: in_progress_def follows_def)
  have act: "flow_post L ev st0 n
      (act_on_message L x defs (default_role m) (append_message (CloneMessage (default_role m)) ?st) s1)"
    if "rx_Generate L c q w = (Inr m, w1)" for c q w m w1 s1
    using assms(3) st grown model_ok_role [OF _ that]
    by (intro act_on_message_post [where ?st1.0 = ?st]) auto
  show ?thesis
    using assms(1) st act
    by (auto simp: react_iteration_def Let_def cancelRun_post failRun_post
        split: prod.splits option.splits sum.splits)
qed

lemma react_loop_post:
  "in_progress st0 n st \<Longrightarrow> ev \<longrightarrow> model_ok L \<Longrightarrow>
   react_post L ev st0 n (react_loop L x input defs n st s)"
proof (induction L x input defs n st s rule: react_loop.induct)
  case (1 L x input defs n st s)
  show ?case
  proof (cases "st_Step st < n")
    case False
    with 1 show ?thesis by (subst react_loop.simps) (simp add: exhaustRun_post)
  next
    case True
    then have "flow_post L ev st0 n (react_iteration L x input defs st s)"
      using 1 by (intro react_iteration_post)
    with True 1 show ?thesis
      by (subst react_loop.simps) (cases "react_iteration L x input defs st s"; simp)
  qed
qed

lemma replay_phase_post:
  "in_progress st0 n st \<Longrightarrow> flow_post L ev st0 n (replay_phase L x replay st w)"
  by (auto simp: replay_phase_def cancelRun_post failRun_post
      split: prod.splits option.splits sum.splits dest!: observe_eq)

section \<open>Execute\<close>

text \<open>The states the engine accepts: valid, and in a status from which a run can go on.\<close>

definition executable :: "RunState \<Rightarrow> bool" where
  "executable st \<longleftrightarrow> run_state_ok st \<and>
     st_Status st \<in> set [RunStatusPending, RunStatusRunning, RunStatusMaxStepsExceeded]"

lemma executable_start:
  assumes "executable st"
  shows "TransitionRunStatus st RunStatusRunning = (None, st\<lparr>st_Status := RunStatusRunning\<rparr>)"
    and "in_progress st n (with_resolution up input (st\<lparr>st_Status := RunStatusRunning\<rparr>))"
proof -
  have p: "st_PendingRequirement st = None"
    using assms by (auto simp: executable_def run_state_ok_def suspension_ok_def)
  show "TransitionRunStatus st RunStatusRunning = (None, st\<lparr>st_Status := RunStatusRunning\<rparr>)"
    using assms p unfolding TransitionRunStatus_eq_None
    by (auto simp: executable_def suspension_ok_def intro: status_step.intros)
  have "in_progress st n (st\<lparr>st_Status := RunStatusRunning\<rparr>)"
    using assms p
    by (auto simp: in_progress_def follows_def executable_def run_state_ok_def suspension_ok_def)
  then show "in_progress st n (with_resolution up input (st\<lparr>st_Status := RunStatusRunning\<rparr>))"
    by (simp add: with_resolution_def)
qed

lemma react_Execute_post:
  assumes "executable st" and "ev \<longrightarrow> model_ok L"
  shows "react_post L ev st (effective_max_steps input) (react_Execute L (Some x) st input w)"
proof -
  let ?n = "effective_max_steps input"
  let ?st = "with_resolution (rx_is_print L) input (st\<lparr>st_Status := RunStatusRunning\<rparr>)"
  have st: "in_progress st ?n ?st" by (rule executable_start [OF assms(1)])
  have guards: "ValidateRunState st = None" "st_Status st \<noteq> RunStatusSuspended"
    using assms(1) by (auto simp: executable_def)
  show ?thesis
  proof (cases "approvedToolReplayCallFromInput (Some x) ?st input")
    case (Inl e)
    with st guards executable_start(1) [OF assms(1)] show ?thesis
      by (simp add: react_Execute_def Let_def failRun_post del: ValidateRunState_None_iff)
  next
    case (Inr replay)
    with st guards executable_start(1) [OF assms(1)] assms(2)
      replay_phase_post [OF st, of L ev x replay w]
    show ?thesis
      by (cases "replay_phase L x replay ?st w") (simp_all add: react_Execute_def Let_def
        react_loop_post del: ValidateRunState_None_iff)
  qed
qed

lemma settled_engine_output:
  "settled True st0 n st \<Longrightarrow> st_Messages st0 \<noteq> None \<Longrightarrow> engine_output_ok st0 st"
  by (auto simp: settled_def follows_def engine_output_ok_def grown_Some suspension_evidenced_def
      additions_def split: option.splits)


section \<open>What reaches the world\<close>

text \<open>
  A fact about the world that the context and the sink keep (\<open>react_keeps\<close>), the tool
  executor keeps for the calls \<open>allowed\<close>, and the model keeps (\<open>model_keeps\<close>), is kept by
  the engine: it makes no other calls.
\<close>

definition react_keeps :: "'w react \<Rightarrow> (ctx \<Rightarrow> ToolCall \<Rightarrow> bool) \<Rightarrow> ('w \<Rightarrow> bool) \<Rightarrow> bool" where
  "react_keeps L allowed Q \<longleftrightarrow>
     (\<forall>w. Q w \<longrightarrow> Q (snd (rx_poll L w))) \<and>
     (\<forall>c e w. Q w \<longrightarrow> Q (snd (rx_Publish L c e w))) \<and>
     (\<forall>c call w. Q w \<longrightarrow> allowed c call \<longrightarrow> Q (snd (rx_Execute L c call w)))"

definition model_keeps :: "'w react \<Rightarrow> ('w \<Rightarrow> bool) \<Rightarrow> bool" where
  "model_keeps L Q \<longleftrightarrow> (\<forall>c q w. Q w \<longrightarrow> Q (snd (rx_Generate L c q w)))"

lemma keeps_poll:
  "react_keeps L A Q \<Longrightarrow> Q w \<Longrightarrow> ctx_Err (rx_poll L) x w = (e, w') \<Longrightarrow> Q w'"
  unfolding react_keeps_def ctx_Err_def by (metis prod.inject snd_conv)

lemma keeps_Generate:
  "model_keeps L Q \<Longrightarrow> Q w \<Longrightarrow> rx_Generate L c q w = (r, w') \<Longrightarrow> Q w'"
  unfolding model_keeps_def by (metis snd_conv)

lemma keeps_Execute:
  "react_keeps L A Q \<Longrightarrow> Q w \<Longrightarrow> A c call \<Longrightarrow> rx_Execute L c call w = (r, w') \<Longrightarrow> Q w'"
  unfolding react_keeps_def by (metis snd_conv)

lemma keeps_Publish:
  "react_keeps L A Q \<Longrightarrow> Q w \<Longrightarrow> rx_Publish L c e w = (r, w') \<Longrightarrow> Q w'"
  unfolding react_keeps_def by (metis snd_conv)

lemma keeps_publishEvent:
  "react_keeps L A Q \<Longrightarrow> Q w \<Longrightarrow> publishEvent (rx_Publish L) c e w = (r, w') \<Longrightarrow> Q w'"
  by (auto simp: publishEvent_def split: prod.splits option.splits dest: keeps_Publish)

lemma keeps_publish_event:
  "react_keeps L A Q \<Longrightarrow> Q (snd s) \<Longrightarrow> Q (snd (publish_event L x e s))"
  by (auto simp: publish_event_def split: prod.splits dest: keeps_publishEvent)

lemma keeps_cancellation:
  "react_keeps L A Q \<Longrightarrow> Q w \<Longrightarrow> contextCancellationError (rx_poll L) x err w = (e, w') \<Longrightarrow> Q w'"
  by (auto simp: contextCancellationError_def split: prod.splits option.splits dest: keeps_poll)

lemma keeps_observe:
  "react_keeps L A Q \<Longrightarrow> Q (snd s) \<Longrightarrow> observe L x call r st s = (st1, s1) \<Longrightarrow> Q (snd s1)"
  by (auto simp: observe_def Let_def intro: keeps_publish_event)

lemma keeps_ends:
  assumes "react_keeps L A Q" and "Q (snd s)"
  shows "Q (snd (failRun L x st e s))" "Q (snd (cancelRun L x st e s))"
    "Q (snd (completeRun L x st m s))" "Q (snd (exhaustRun L x st s))"
  using assms keeps_publish_event [OF assms]
  by (auto simp: failRun_def cancelRun_def completeRun_def exhaustRun_def Let_def
      split: prod.splits option.splits) (metis snd_conv)+

lemma keeps_suspendRun:
  "react_keeps L A Q \<Longrightarrow> Q (snd s) \<Longrightarrow> Q (snd (suspendRun L x st q s))"
  by (auto simp: suspendRun_def split: prod.splits option.splits intro: keeps_ends)

text \<open>The calls the engine makes of its own accord: defined, with conforming arguments, and
  in a context without a replay override.\<close>

definition guarded_call :: "(string \<Rightarrow> ToolDefinition option) \<Rightarrow> ctx \<Rightarrow> ToolCall \<Rightarrow> bool" where
  "guarded_call defs c call \<longleftrightarrow>
     ApprovedToolCallReplayOverrideFromContext c = None \<and>
     (case defs (tc_Name call) of
        None \<Rightarrow> False
      | Some d \<Rightarrow> arguments_conform (td_InputSchema d) (tc_Arguments call))"

definition flow_world :: "'w flow \<Rightarrow> 'w" where
  "flow_world f = (case f of Go_on st s \<Rightarrow> snd s | Return r \<Rightarrow> snd r)"

lemma flow_world_simps [simp]:
  "flow_world (Go_on st s) = snd s" "flow_world (Return r) = snd r"
  by (simp_all add: flow_world_def)

lemma keeps_run_tool_error:
  "react_keeps L A Q \<Longrightarrow> Q w \<Longrightarrow> run_tool_error L x st call e w = (r, w') \<Longrightarrow> Q w'"
  by (auto simp: run_tool_error_def Let_def split: prod.splits option.splits sum.splits
      dest: keeps_cancellation)

lemma keeps_run_tool:
  assumes "react_keeps L A Q" and "\<And>c call. guarded_call defs c call \<Longrightarrow> A c call"
    and "Q w" and "run_tool L x defs st call w = (r, w')"
  shows "Q w'"
proof -
  have "A (WithoutApprovedToolCallReplayOverride (Some x)) call"
    if "defs (tc_Name call) = Some d" "validateToolCallArguments call d = None" for d
    using that assms(2)
    by (simp add: guarded_call_def validateToolCallArguments_def validateToolArguments_None_iff)
  with assms(1,3,4) show ?thesis
    by (auto simp: run_tool_def Let_def split: prod.splits option.splits sum.splits
        dest: keeps_Execute keeps_run_tool_error)
qed


lemma keeps_tool_loop:
  assumes "react_keeps L A Q" and "\<And>c call. guarded_call defs c call \<Longrightarrow> A c call"
  shows "Q (snd s) \<Longrightarrow> Q (flow_world (tool_loop L x defs calls st s))"
proof (induction calls arbitrary: st s)
  case (Cons call calls)
  note dests = keeps_poll [OF assms(1)] keeps_run_tool [OF assms]
  have observed: "Q w1" if "Q w" "observe L x call r st (fst s, w) = (st1, e1, w1)"
    for w r st1 e1 w1
    using keeps_observe [OF assms(1) _ that(2)] that(1) by simp
  show ?case
    using Cons.prems
    by (auto split: prod.splits option.splits call_end.splits
        intro!: Cons.IH keeps_ends [OF assms(1)] keeps_suspendRun [OF assms(1)])
      (metis dests observed)+
qed simp

lemma keeps_act_on_message:
  assumes "react_keeps L A Q" and "\<And>c call. guarded_call defs c call \<Longrightarrow> A c call"
    and "Q (snd s)"
  shows "Q (flow_world (act_on_message L x defs m st s))"
  using assms(3)
  by (auto simp: act_on_message_def split: option.splits
      intro!: keeps_tool_loop [OF assms(1,2)] keeps_ends [OF assms(1)] keeps_suspendRun [OF assms(1)])

lemma keeps_react_iteration:
  assumes "react_keeps L A Q" and "\<And>c call. guarded_call defs c call \<Longrightarrow> A c call"
    and "model_keeps L Q" and "Q (snd s)"
  shows "Q (flow_world (react_iteration L x input defs st s))"
  using assms(4)
  by (auto simp: react_iteration_def Let_def split: prod.splits option.splits sum.splits
      intro!: keeps_act_on_message [OF assms(1,2)] keeps_ends [OF assms(1)]
        keeps_publish_event [OF assms(1)])
    (metis keeps_poll [OF assms(1)] keeps_Generate [OF assms(3)] keeps_cancellation [OF assms(1)])+

lemma keeps_react_loop:
  "react_keeps L A Q \<Longrightarrow> (\<And>c call. guarded_call defs c call \<Longrightarrow> A c call) \<Longrightarrow>
   model_keeps L Q \<Longrightarrow> Q (snd s) \<Longrightarrow> Q (snd (react_loop L x input defs n st s))"
proof (induction L x input defs n st s rule: react_loop.induct)
  case (1 L x input defs n st s)
  show ?case
  proof (cases "st_Step st < n")
    case False
    with keeps_ends(4) [OF "1.prems"(1,4)] show ?thesis by (subst react_loop.simps) simp
  next
    case True
    have "Q (flow_world (react_iteration L x input defs st s))"
      by (rule keeps_react_iteration [OF "1.prems"])
    with True "1.IH" [OF True _ "1.prems"(1,2,3)] show ?thesis
      by (subst react_loop.simps) (cases "react_iteration L x input defs st s"; simp)
  qed
qed

lemma keeps_replay:
  assumes "react_keeps L A Q" and "Q w" and "\<And>call. replay = Some call \<Longrightarrow> A (Some x) call"
  shows "Q (flow_world (replay_phase L x replay st w))"
proof -
  have replayed: "Q w'" if "replay = Some call" "executeApprovedToolReplay L x call w = (r, w')"
    for call r w'
    using that(2)
    by (auto simp: executeApprovedToolReplay_def split: prod.splits option.splits sum.splits if_splits
        dest: keeps_Execute [OF assms(1,2) assms(3) [OF that(1)]] keeps_cancellation [OF assms(1)])
  have observed: "Q w1" if "Q w" "observe L x call r st (None, w) = (st1, e1, w1)"
    for w call r st1 e1 w1
    using keeps_observe [OF assms(1) _ that(2)] that(1) by simp
  show ?thesis
    using assms(2)
    by (auto simp: replay_phase_def split: prod.splits option.splits sum.splits
        intro!: keeps_ends [OF assms(1)])
      (metis replayed observed keeps_cancellation [OF assms(1)])+
qed

text \<open>
  The replay of a call is due: the run was suspended by a tool for an approval that has been
  given, the context carries the override for this very call and fingerprint, and the
  transcript has the call.
\<close>

definition replay_due :: "ctx \<Rightarrow> RunState \<Rightarrow> EngineInput \<Rightarrow> ToolCall \<Rightarrow> bool" where
  "replay_due c st input call \<longleftrightarrow>
     (case (ei_ResolvedRequirement input, ei_Resolution input) of
        (Some q, Some r) \<Rightarrow>
          requirement_ok q \<and> pr_Origin q = RequirementOriginTool \<and>
          pr_Kind q = RequirementKindApproval \<and> rs_Kind r = RequirementKindApproval \<and>
          rs_Outcome r = ResolutionOutcomeApproved \<and> rs_RequirementID r = pr_ID q \<and>
          ApprovedToolCallReplayOverrideFromContext c =
            Some \<lparr>ov_ToolCallID = pr_ToolCallID q, ov_Fingerprint = pr_Fingerprint q\<rparr> \<and>
          findToolCallByID (elems (st_Messages st)) (pr_ToolCallID q) = Some call
      | _ \<Rightarrow> False)"

lemma first_some_Cons [simp]:
  "first_some (None # xs) = first_some xs" "first_some (Some y # xs) = Some y"
  by (simp_all add: first_some.simps)

lemma findToolCallByID_append:
  "m_Role m \<noteq> RoleAssistant \<Longrightarrow> findToolCallByID (ms @ [m]) i = findToolCallByID ms i"
  by (simp add: findToolCallByID_def)

lemma resolutionMessage_role: "m_Role (resolutionMessage r up) \<noteq> RoleAssistant"
  by (simp add: resolutionMessage_def Let_def zeroMessage_def role_defs split: option.split)

lemma findToolCallByID_with_resolution:
  "findToolCallByID (elems (st_Messages (with_resolution up input st))) i =
   findToolCallByID (elems (st_Messages st)) i"
  by (simp add: with_resolution_def findToolCallByID_append resolutionMessage_role)

lemma approvedToolReplay_due:
  assumes "run_state_ok st" and "approvedToolReplayCallFromInput c st input = Inr (Some call)"
  shows "replay_due c st input call"
  using assms
  by (auto simp: approvedToolReplayCallFromInput_def replay_due_def
      split: option.splits if_splits)

lemma keeps_Execute_engine:
  assumes "react_keeps L (\<lambda>c call. guarded_call (indexToolDefinitions (ei_Tools input)) c call \<or>
      replay_due (Some x) st input call \<and> c = Some x) Q"
    and "model_keeps L Q" and "Q w"
  shows "Q (snd (react_Execute L (Some x) st input w))"
proof (cases "executable st")
  case True
  let ?st = "with_resolution (rx_is_print L) input (st\<lparr>st_Status := RunStatusRunning\<rparr>)"
  have guards: "ValidateRunState st = None" "st_Status st \<noteq> RunStatusSuspended"
    using True by (auto simp: executable_def)
  have ok: "run_state_ok ?st"
    using in_progress_facts(4) [OF executable_start(2) [OF True]] .
  show ?thesis
  proof (cases "approvedToolReplayCallFromInput (Some x) ?st input")
    case (Inl e)
    with guards executable_start(1) [OF True] keeps_ends(1) [OF assms(1)] assms(3) show ?thesis
      by (simp add: react_Execute_def Let_def del: ValidateRunState_None_iff)
  next
    case (Inr replay)
    have "replay_due (Some x) st input call" if "replay = Some call" for call
      using approvedToolReplay_due [OF ok, of "Some x" input call] Inr that
      by (simp add: replay_due_def findToolCallByID_with_resolution split: option.splits)
    then have replayed: "Q (flow_world (replay_phase L x replay ?st w))"
      by (intro keeps_replay [OF assms(1,3)]) simp
    have loop: "Q (snd (react_loop L x input (indexToolDefinitions (ei_Tools input)) n st1 s))"
      if "Q (snd s)" for n st1 s
      by (rule keeps_react_loop [OF assms(1) _ assms(2) that]) simp
    show ?thesis
      using replayed loop Inr guards executable_start(1) [OF True]
      by (cases "replay_phase L x replay ?st w")
        (simp_all add: react_Execute_def Let_def del: ValidateRunState_None_iff)
  qed
next
  case False
  have "TransitionRunStatus st RunStatusRunning \<noteq> (None, st')"
    if "run_state_ok st" "st_Status st \<noteq> RunStatusSuspended" for st'
  proof
    assume "TransitionRunStatus st RunStatusRunning = (None, st')"
    then have "status_step (st_Status st) RunStatusRunning \<or> st_Status st = RunStatusRunning"
      by (auto simp: TransitionRunStatus_eq_None)
    then have "st_Status st \<in> {RunStatusPending, RunStatusRunning, RunStatusSuspended,
        RunStatusMaxStepsExceeded}"
      by (auto elim: status_step.cases)
    with that False show False by (auto simp: executable_def)
  qed
  then show ?thesis
    using assms(3)
    by (auto simp: react_Execute_def Let_def split: option.splits prod.splits sum.splits)
qed


section \<open>Steps and calls of the model\<close>

text \<open>\<open>calls w\<close> counts the calls of the model made up to \<open>w\<close>.\<close>

definition counts_calls :: "'w react \<Rightarrow> ('w \<Rightarrow> nat) \<Rightarrow> bool" where
  "counts_calls L calls \<longleftrightarrow>
     (\<forall>k. react_keeps L (\<lambda>c call. True) (\<lambda>w. calls w = k)) \<and>
     (\<forall>c q w. calls (snd (rx_Generate L c q w)) = calls w + 1)"

lemma counts_calls_keeps: "counts_calls L calls \<Longrightarrow> react_keeps L (\<lambda>c call. True) (\<lambda>w. calls w = k)"
  by (simp add: counts_calls_def)

lemma counts_Generate:
  "counts_calls L calls \<Longrightarrow> rx_Generate L c q w = (r, w') \<Longrightarrow> calls w' = calls w + 1"
  unfolding counts_calls_def by (metis snd_conv)

definition flow_state :: "'w flow \<Rightarrow> RunState" where
  "flow_state f = (case f of Go_on st s \<Rightarrow> st | Return r \<Rightarrow> fst (fst r))"

lemma flow_state_simps [simp]:
  "flow_state (Go_on st s) = st" "flow_state (Return r) = fst (fst r)"
  by (simp_all add: flow_state_def)

lemma Transition_Step: "TransitionRunStatus st t = (e, st') \<Longrightarrow> st_Step st' = st_Step st"
  by (metis RunState.select_convs(3) RunState.surjective RunState.update_convs(4)
      TransitionRunStatus_frame snd_conv)

lemma ends_Step [simp]:
  "st_Step (fst (fst (failRun L x st e s))) = st_Step st"
  "st_Step (fst (fst (cancelRun L x st e s))) = st_Step st"
  "st_Step (fst (fst (completeRun L x st m s))) = st_Step st"
  "st_Step (fst (fst (exhaustRun L x st s))) = st_Step st"
  by (auto simp: failRun_def cancelRun_def completeRun_def exhaustRun_def Let_def
      split: prod.splits option.splits dest: Transition_Step)

lemma suspendRun_Step [simp]: "st_Step (fst (fst (suspendRun L x st q s))) = st_Step st"
  by (auto simp: suspendRun_def split: prod.splits option.splits dest: Transition_Step)

lemma tool_loop_Step: "st_Step (flow_state (tool_loop L x defs calls st s)) = st_Step st"
  by (induction calls arbitrary: st s)
    (auto split: prod.splits option.splits call_end.splits dest!: observe_eq)

lemma act_on_message_Step: "st_Step (flow_state (act_on_message L x defs m st s)) = st_Step st"
  by (auto simp: act_on_message_def tool_loop_Step split: option.splits)

lemma replay_phase_Step: "st_Step (flow_state (replay_phase L x replay st w)) = st_Step st"
  by (auto simp: replay_phase_def split: prod.splits option.splits sum.splits dest!: observe_eq)

lemma calls_poll:
  "counts_calls L calls \<Longrightarrow> ctx_Err (rx_poll L) x w = (e, w') \<Longrightarrow> calls w' = calls w"
  using keeps_poll [OF counts_calls_keeps refl] .

lemma calls_cancellation:
  "counts_calls L calls \<Longrightarrow> contextCancellationError (rx_poll L) x err w = (e, w') \<Longrightarrow>
   calls w' = calls w"
  using keeps_cancellation [OF counts_calls_keeps refl] .

lemma calls_ends [simp]:
  assumes "counts_calls L calls"
  shows "calls (snd (failRun L x st e s)) = calls (snd s)"
    "calls (snd (cancelRun L x st e s)) = calls (snd s)"
    "calls (snd (exhaustRun L x st s)) = calls (snd s)"
  using keeps_ends [OF counts_calls_keeps [OF assms] refl] by simp_all

lemma calls_act_on_message:
  "counts_calls L calls \<Longrightarrow>
   calls (flow_world (act_on_message L x defs m st (publish_event L x e s))) = calls (snd s)"
  by (rule keeps_act_on_message [OF counts_calls_keeps])
    (auto intro: keeps_publish_event [OF counts_calls_keeps])

text \<open>What has been counted: the steps made and the calls made.\<close>

definition step_balance :: "('w \<Rightarrow> nat) \<Rightarrow> RunState \<Rightarrow> 'w \<Rightarrow> int" where
  "step_balance calls st w = st_Step st - int (calls w)"

lemma react_iteration_balance:
  assumes "counts_calls L calls"
  shows "step_balance calls (flow_state (react_iteration L x input defs st s))
      (flow_world (react_iteration L x input defs st s)) = step_balance calls st (snd s)"
  using assms
  by (auto simp: react_iteration_def Let_def step_balance_def act_on_message_Step
      calls_act_on_message calls_poll calls_cancellation counts_Generate
      split: prod.splits option.splits sum.splits)

lemma react_loop_balance:
  "counts_calls L calls \<Longrightarrow>
   step_balance calls (fst (fst (react_loop L x input defs n st s)))
     (snd (react_loop L x input defs n st s)) = step_balance calls st (snd s)"
proof (induction L x input defs n st s rule: react_loop.induct)
  case (1 L x input defs n st s)
  show ?case
  proof (cases "st_Step st < n")
    case False
    with 1 show ?thesis by (subst (1 2) react_loop.simps) (simp add: step_balance_def)
  next
    case True
    with 1 react_iteration_balance [OF 1(2), of x input defs st s] show ?thesis
      by (subst (1 2) react_loop.simps) (cases "react_iteration L x input defs st s"; simp)
  qed
qed


lemma not_executable:
  assumes "\<not> executable st"
  shows "\<exists>e st'. react_Execute L (Some x) st input w = ((st', Some e), w) \<and> st' = st"
proof (cases "run_state_ok st \<and> st_Status st \<noteq> RunStatusSuspended")
  case True
  have "TransitionRunStatus st RunStatusRunning \<noteq> (None, st')" for st'
  proof
    assume "TransitionRunStatus st RunStatusRunning = (None, st')"
    then have "status_step (st_Status st) RunStatusRunning \<or> st_Status st = RunStatusRunning"
      by (auto simp: TransitionRunStatus_eq_None)
    then have "st_Status st \<in> {RunStatusPending, RunStatusRunning, RunStatusSuspended,
        RunStatusMaxStepsExceeded}"
      by (auto elim: status_step.cases)
    with True assms show False by (auto simp: executable_def)
  qed
  then obtain e where "TransitionRunStatus st RunStatusRunning = (Some e, st)"
    by (metis TransitionRunStatus_eq_Some not_None_eq surj_pair)
  moreover have "ValidateRunState st = None" using True by simp
  ultimately show ?thesis using True
    by (simp add: react_Execute_def errors_Join_def del: ValidateRunState_None_iff)
next
  case False
  then show ?thesis
    by (cases "ValidateRunState st")
      (auto simp: react_Execute_def simp del: ValidateRunState_None_iff
        simp: ValidateRunState_None_iff [symmetric])
qed

lemma react_Execute_balance:
  assumes "counts_calls L calls"
  shows "step_balance calls (fst (fst (react_Execute L (Some x) st input w)))
      (snd (react_Execute L (Some x) st input w)) = step_balance calls st w"
proof (cases "executable st")
  case False
  from not_executable [OF this, of L x input w] show ?thesis by auto
next
  case True
  let ?st = "with_resolution (rx_is_print L) input (st\<lparr>st_Status := RunStatusRunning\<rparr>)"
  have step: "st_Step ?st = st_Step st" by (simp add: with_resolution_def)
  have guards: "ValidateRunState st = None" "st_Status st \<noteq> RunStatusSuspended"
    using True by (auto simp: executable_def)
  show ?thesis
  proof (cases "approvedToolReplayCallFromInput (Some x) ?st input")
    case (Inl e)
    with guards executable_start(1) [OF True] assms step show ?thesis
      by (simp add: react_Execute_def Let_def step_balance_def del: ValidateRunState_None_iff)
  next
    case (Inr replay)
    have "calls (flow_world (replay_phase L x replay ?st w)) = calls w"
      by (rule keeps_replay [OF counts_calls_keeps [OF assms] refl]) simp
    with Inr guards executable_start(1) [OF True] step show ?thesis
      using react_loop_balance [OF assms] replay_phase_Step [of L x replay ?st w]
      by (cases "replay_phase L x replay ?st w")
        (simp_all add: react_Execute_def Let_def step_balance_def del: ValidateRunState_None_iff)
  qed
qed

section \<open>The final answer\<close>

text \<open>The engine takes a reply with neither a requirement nor tool calls as the final answer.\<close>

definition final_reply :: "Message \<Rightarrow> bool" where
  "final_reply m \<longleftrightarrow> m_Requirement m = None \<and> elems (m_ToolCalls m) = []"

text \<open>
  \<open>final w\<close> is the first final answer that the model has given up to \<open>w\<close>: only a call of the
  model changes it.
\<close>

definition records_final :: "'w react \<Rightarrow> ('w \<Rightarrow> Message option) \<Rightarrow> bool" where
  "records_final L final \<longleftrightarrow>
     (\<forall>k. react_keeps L (\<lambda>c call. True) (\<lambda>w. final w = k)) \<and>
     (\<forall>c q w. final (snd (rx_Generate L c q w)) =
        (case (final w, fst (rx_Generate L c q w)) of
           (Some m, _) \<Rightarrow> Some m
         | (None, Inr m) \<Rightarrow> if final_reply m then Some m else None
         | (None, Inl e) \<Rightarrow> None))"

text \<open>A run is completed exactly by a final answer, and then it ends with this answer.\<close>

definition answered_by :: "('w \<Rightarrow> Message option) \<Rightarrow> 'w engine_result \<Rightarrow> bool" where
  "answered_by final r \<longleftrightarrow>
     (case final (snd r) of
        None \<Rightarrow> st_Status (fst (fst r)) \<noteq> RunStatusCompleted
      | Some m \<Rightarrow> st_Status (fst (fst r)) = RunStatusCompleted \<and>
          st_Output (fst (fst r)) = m_Content m \<and>
          (\<exists>ms. st_Messages (fst (fst r)) = Some (ms @ [default_role m])))"

lemma final_keeps:
  "records_final L final \<Longrightarrow> react_keeps L (\<lambda>c call. True) (\<lambda>w. final w = k)"
  by (simp add: records_final_def)

lemma final_Generate:
  assumes "records_final L final" and "final w = None" and "rx_Generate L c q w = (r, w')"
  shows "final w' = (case r of Inl e \<Rightarrow> None | Inr m \<Rightarrow> if final_reply m then Some m else None)"
proof -
  have "final (snd (rx_Generate L c q w)) =
      (case (final w, fst (rx_Generate L c q w)) of
         (Some m, _) \<Rightarrow> Some m
       | (None, Inr m) \<Rightarrow> if final_reply m then Some m else None
       | (None, Inl e) \<Rightarrow> None)"
    using assms(1) unfolding records_final_def by blast
  with assms(2,3) show ?thesis by (simp split: sum.split)
qed

lemma Transition_Status:
  "TransitionRunStatus st t = (e, st') \<Longrightarrow> st_Status st' = t \<or> st_Status st' = st_Status st"
  by (cases e) (auto simp: TransitionRunStatus_eq_None dest: TransitionRunStatus_eq_Some)

lemma ends_not_completed:
  assumes "st_Status st = RunStatusRunning"
  shows "st_Status (fst (fst (failRun L x st e s))) \<noteq> RunStatusCompleted"
    "st_Status (fst (fst (cancelRun L x st e s))) \<noteq> RunStatusCompleted"
    "st_Status (fst (fst (exhaustRun L x st s))) \<noteq> RunStatusCompleted"
  using assms
  by (auto simp: failRun_def cancelRun_def exhaustRun_def Let_def
      split: prod.splits option.splits dest!: Transition_Status)

lemma suspendRun_not_completed:
  assumes "st_Status st = RunStatusRunning"
  shows "st_Status (fst (fst (suspendRun L x st q s))) \<noteq> RunStatusCompleted"
proof -
  let ?st = "st\<lparr>st_PendingRequirement := Some q\<rparr>"
  obtain e st' where t: "TransitionRunStatus ?st RunStatusSuspended = (e, st')" by fastforce
  show ?thesis
  proof (cases e)
    case None
    with Transition_Status [OF t] t assms show ?thesis by (auto simp: suspendRun_def)
  next
    case (Some err)
    with t TransitionRunStatus_eq_Some [of ?st RunStatusSuspended err st'] assms show ?thesis
      by (simp add: suspendRun_def ends_not_completed)
  qed
qed

lemma tool_loop_not_completed:
  "st_Status st = RunStatusRunning \<Longrightarrow> tool_loop L x defs calls st s = Return r \<Longrightarrow>
   st_Status (fst (fst r)) \<noteq> RunStatusCompleted"
proof (induction calls arbitrary: st s)
  case (Cons call calls)
  have rest: "st_Status (fst (fst r)) \<noteq> RunStatusCompleted"
    if "tool_loop L x defs calls (append_message m st) s1 = Return r" for m s1
    using Cons.IH [OF _ that] Cons.prems(1) by simp
  show ?case
    using Cons.prems rest
    by (auto simp: ends_not_completed suspendRun_not_completed
        split: prod.splits option.splits call_end.splits dest!: observe_eq)
qed simp

lemma completeRun_answered:
  assumes "in_progress st0 n st" and "records_final L final" and "final (snd s) = Some m"
    and "st_Messages st = Some (ms @ [default_role m])"
  shows "answered_by final (completeRun L x st (default_role m) s)"
proof -
  have "TransitionRunStatus st RunStatusCompleted = (None, st\<lparr>st_Status := RunStatusCompleted\<rparr>)"
    by (rule end_run [OF assms(1)]) simp
  then have "fst (fst (completeRun L x st (default_role m) s)) =
      st\<lparr>st_Status := RunStatusCompleted, st_Output := m_Content m\<rparr>"
    by (simp add: completeRun_def Let_def default_role_def split: prod.split)
  with keeps_ends(3) [OF final_keeps [OF assms(2)] assms(3), of x st "default_role m"] assms(4)
  show ?thesis by (simp add: answered_by_def)
qed

text \<open>Any other way to end leaves the record empty and the run not completed.\<close>

lemma unanswered:
  "final (snd r) = None \<Longrightarrow> st_Status (fst (fst r)) \<noteq> RunStatusCompleted \<Longrightarrow> answered_by final r"
  by (simp add: answered_by_def)

lemma act_on_message_answered:
  assumes "in_progress st0 n st" and "records_final L final" and "st = append_message (CloneMessage (default_role m)) st1"
    and "final (snd s) = (if final_reply m then Some m else None)"
    and "act_on_message L x defs (default_role m) st s = Return r"
  shows "answered_by final r"
proof (cases "final_reply m")
  case True
  then have "CloneMessage (default_role m) = default_role m"
    by (auto simp: final_reply_def default_role_def CloneMessage_def)
  with True assms show ?thesis
    using completeRun_answered [OF assms(1,2), of s m "elems (st_Messages st1)" x]
    by (auto simp: act_on_message_def final_reply_def default_role_def split: if_splits)
next
  case False
  have running: "st_Status st = RunStatusRunning" using assms(1) by (simp add: in_progress_def)
  have "final (flow_world (act_on_message L x defs (default_role m) st s)) = None"
    using assms(4) False by (intro keeps_act_on_message [OF final_keeps [OF assms(2)]]) simp_all
  moreover have "st_Status (fst (fst r)) \<noteq> RunStatusCompleted"
    using False assms(5) running
    by (auto simp: act_on_message_def final_reply_def default_role_def ends_not_completed
        suspendRun_not_completed tool_loop_not_completed split: option.splits if_splits)
  ultimately show ?thesis using assms(5) by (simp add: unanswered)
qed

lemma react_iteration_answered:
  assumes "in_progress st0 n st" and "st_Step st < n" and "records_final L final"
    and "final (snd s) = None"
  shows "case react_iteration L x input defs st s of
      Go_on st' s' \<Rightarrow> final (snd s') = None | Return r \<Rightarrow> answered_by final r"
proof -
  let ?st = "st\<lparr>st_Step := st_Step st + 1\<rparr>"
  note keeps = final_keeps [OF assms(3)]
  have running: "st_Status st = RunStatusRunning" using assms(1) by (simp add: in_progress_def)
  have st: "in_progress st0 n ?st"
    using assms(1,2) by (auto simp: in_progress_def follows_def run_state_ok_def suspension_ok_def)
  have fails: "answered_by final (failRun L x st' e s')" and cancels: "answered_by final (cancelRun L x st' e s')"
    if "final (snd s') = None" "st_Status st' = RunStatusRunning" for st' e s'
    using keeps_ends(1,2) [OF keeps that(1)] that(2)
    by (auto intro!: unanswered simp: ends_not_completed)
  have act: "case act_on_message L x defs (default_role m)
        (append_message (CloneMessage (default_role m)) ?st) s1 of
      Go_on st' s' \<Rightarrow> final (snd s') = None | Return r \<Rightarrow> answered_by final r"
    if "final (snd s1) = (if final_reply m then Some m else None)" for m s1
  proof (cases "act_on_message L x defs (default_role m)
      (append_message (CloneMessage (default_role m)) ?st) s1")
    case (Return r)
    with act_on_message_answered [OF in_progress_append [OF st] assms(3) refl that Return]
    show ?thesis by simp
  next
    case (Go_on st' s')
    then have "\<not> final_reply m"
      by (auto simp: act_on_message_def final_reply_def default_role_def split: if_splits option.splits)
    with Go_on that keeps_act_on_message [OF keeps, where s = s1 and k1 = None and defs = defs and
        x = x and m = "default_role m" and st = "append_message (CloneMessage (default_role m)) ?st"]
    show ?thesis by simp
  qed
  have published: "final (snd (publish_event L x e s1)) = final (snd s1)" for e s1
    by (rule keeps_publish_event [OF keeps refl])
  obtain e0 w where poll: "ctx_Err (rx_poll L) x (snd s) = (e0, w)" by fastforce
  with keeps_poll [OF keeps assms(4)] have w: "final w = None" by simp
  show ?thesis
  proof (cases e0)
    case (Some err)
    with poll w running cancels show ?thesis by (simp add: react_iteration_def)
  next
    case None
    obtain r w1 where g: "rx_Generate L (Some x) (model_request input ?st) w = (r, w1)" by fastforce
    show ?thesis
    proof (cases r)
      case (Inl err)
      with final_Generate [OF assms(3) w g] have w1: "final w1 = None" by simp
      obtain ce w2 where c: "contextCancellationError (rx_poll L) x err w1 = (ce, w2)" by fastforce
      with keeps_cancellation [OF keeps w1] have "final w2 = None" by simp
      with poll None g Inl c running cancels fails show ?thesis
        by (cases ce) (simp_all add: react_iteration_def Let_def)
    next
      case (Inr m)
      with final_Generate [OF assms(3) w g] have "final w1 = (if final_reply m then Some m else None)"
        by simp
      with act published poll None g Inr show ?thesis
        by (simp add: react_iteration_def Let_def)
    qed
  qed
qed

lemma react_loop_answered:
  "in_progress st0 n st \<Longrightarrow> records_final L final \<Longrightarrow> final (snd s) = None \<Longrightarrow>
   answered_by final (react_loop L x input defs n st s)"
proof (induction L x input defs n st s rule: react_loop.induct)
  case (1 L x input defs n st s)
  show ?case
  proof (cases "st_Step st < n")
    case False
    with 1 keeps_ends(4) [OF final_keeps [OF "1.prems"(2)] "1.prems"(3)] show ?thesis
      by (subst react_loop.simps) (simp add: unanswered ends_not_completed in_progress_def)
  next
    case True
    note it = react_iteration_answered [OF "1.prems"(1) True "1.prems"(2,3), of x input defs]
      react_iteration_post [OF "1.prems"(1) True, of False L x input defs s]
    from True it "1.IH" [OF True _ _ "1.prems"(2)] show ?thesis
      by (subst react_loop.simps) (cases "react_iteration L x input defs st s"; simp)
  qed
qed

lemma replay_phase_answered:
  assumes "in_progress st0 n st" and "records_final L final" and "final w = None"
  shows "case replay_phase L x replay st w of
      Go_on st' s' \<Rightarrow> final (snd s') = None | Return r \<Rightarrow> answered_by final r"
proof -
  have "final (flow_world (replay_phase L x replay st w)) = None"
    using assms(3) by (intro keeps_replay [OF final_keeps [OF assms(2)]]) simp_all
  moreover have "st_Status (fst (fst r)) \<noteq> RunStatusCompleted"
    if "replay_phase L x replay st w = Return r" for r
    using that assms(1)
    by (auto simp: replay_phase_def in_progress_def ends_not_completed
        split: prod.splits option.splits sum.splits)
  ultimately show ?thesis
    by (cases "replay_phase L x replay st w") (simp_all add: unanswered)
qed

lemma react_Execute_answered:
  assumes "executable st" and "records_final L final" and "final w = None"
  shows "answered_by final (react_Execute L (Some x) st input w)"
proof -
  let ?n = "effective_max_steps input"
  let ?st = "with_resolution (rx_is_print L) input (st\<lparr>st_Status := RunStatusRunning\<rparr>)"
  have st: "in_progress st ?n ?st" by (rule executable_start [OF assms(1)])
  have guards: "ValidateRunState st = None" "st_Status st \<noteq> RunStatusSuspended"
    using assms(1) by (auto simp: executable_def)
  show ?thesis
  proof (cases "approvedToolReplayCallFromInput (Some x) ?st input")
    case (Inl e)
    have "answered_by final (failRun L x ?st (Some e) (None, w))"
      using st keeps_ends(1) [OF final_keeps [OF assms(2)], of "(None, w)"] assms(3)
      by (simp add: unanswered ends_not_completed in_progress_def)
    with Inl guards executable_start(1) [OF assms(1)] show ?thesis
      by (simp add: react_Execute_def Let_def del: ValidateRunState_None_iff)
  next
    case (Inr replay)
    with guards executable_start(1) [OF assms(1)] replay_phase_post [OF st, of L False x replay w]
      replay_phase_answered [OF st assms(2,3), of x replay] react_loop_answered [OF _ assms(2)]
    show ?thesis
      by (cases "replay_phase L x replay ?st w")
        (simp_all add: react_Execute_def Let_def del: ValidateRunState_None_iff)
  qed
qed

section \<open>Properties\<close>

text \<open>
  A model that answers at once, a tool executor that echoes and a sink that accepts
  everything, on a world that counts the calls of the model.
\<close>

definition echo_react :: "nat react" where
  "echo_react =
     \<lparr>rx_Generate = (\<lambda>c q w. (Inr (zeroMessage\<lparr>m_Content := ''done''\<rparr>), w + 1)),
      rx_Execute = (\<lambda>c call w. (Inr (zeroToolResult\<lparr>tr_Content := tc_Name call\<rparr>), w)),
      rx_Publish = (\<lambda>c e w. (None, w)), rx_poll = (\<lambda>w. (None, w)), rx_is_print = (\<lambda>r. False)\<rparr>"

definition fresh_run :: RunState where
  "fresh_run = zeroRunState\<lparr>st_ID := ''run-000001'', st_Version := 1,
     st_Status := RunStatusPending, st_Messages := Some []\<rparr>"

definition plain_input :: EngineInput where
  "plain_input = \<lparr>ei_MaxSteps = 3, ei_Tools = [], ei_Resolution = None, ei_ResolvedRequirement = None\<rparr>"

lemma fresh_run_executable [simp]: "executable fresh_run"
  by (simp add: executable_def fresh_run_def run_state_ok_def suspension_ok_def zeroRunState_def)

lemma fresh_run_fields [simp]:
  "st_Messages fresh_run = Some []" "st_Step fresh_run = 0" "st_Version fresh_run = 1"
  "st_ID fresh_run = ''run-000001''" "st_Status fresh_run = RunStatusPending"
  "st_PendingRequirement fresh_run = None"
  by (simp_all add: fresh_run_def zeroRunState_def)

lemma echo_react_ok [simp]: "model_ok echo_react"
  by (simp add: model_ok_def echo_react_def assistant_reply_def zeroMessage_def)

text \<open>
  C6: the engine keeps its contract with the runner: from any state it accepts, with a
  transcript that is not a nil slice and a model that speaks as the assistant, the state it
  returns passes the runner's output check, whatever the model, the tools, the context and
  the sink do.
\<close>

theorem react_Execute_contract:
  assumes "executable st" and "model_ok L" and "st_Messages st \<noteq> None"
  shows "validateEngineOutput st (fst (fst (react_Execute L (Some x) st input w))) = None"
  using react_Execute_post [OF assms(1), of True L input x w] assms(2)
    settled_engine_output [OF _ assms(3)]
  by (auto simp: react_post_def)

theorem react_Execute_contract_witness:
  "validateEngineOutput fresh_run
     (fst (fst (react_Execute echo_react (Some ctx_Background) fresh_run plain_input 0))) = None"
  by (rule react_Execute_contract) simp_all

text \<open>
  C7: from any state it accepts, the engine returns a valid state of the same run and
  version in one of the statuses suspended, cancelled, completed, failed and
  max_steps_exceeded, with the old transcript as a prefix and a step that has not gone back
  nor beyond the bound; a failed or cancelled run comes with an error whose cause is the text
  kept in the state, an exhausted one with \<open>ErrMaxStepsExceeded\<close>.
\<close>

theorem react_Execute_settles:
  assumes "executable st"
  shows "let ((st', e), w') = react_Execute L (Some x) st input w
    in settled False st (effective_max_steps input) st' \<and> error_agrees (rx_is_print L) st' e"
  using react_Execute_post [OF assms, of False L input x w]
  by (simp add: react_post_def case_prod_beta)

theorem react_Execute_settles_witness:
  "let ((st', e), w') = react_Execute echo_react (Some ctx_Background) fresh_run plain_input 0
    in settled False fresh_run (effective_max_steps plain_input) st' \<and>
      error_agrees (rx_is_print echo_react) st' e"
  by (rule react_Execute_settles) simp

text \<open>
  C8: the tool executor is only ever called in one of two ways: for a call to a defined tool
  whose arguments conform to its schema, in a context that carries no replay override; or for
  the one call whose approval has just been given, in the caller's context. Any fact of the
  world that such calls preserve (and the model, the sink and the context preserve) is
  preserved by the engine.
\<close>

theorem react_tool_calls_guarded:
  assumes "react_keeps L (\<lambda>c call. guarded_call (indexToolDefinitions (ei_Tools input)) c call \<or>
      replay_due (Some x) st input call \<and> c = Some x) Q"
    and "model_keeps L Q" and "Q w"
  shows "Q (snd (react_Execute L (Some x) st input w))"
  by (rule keeps_Execute_engine [OF assms])

text \<open>
  A model that asks for the tools \<open>lookup\<close> and \<open>rm\<close>, on a world that logs the tools executed;
  only \<open>lookup\<close> is defined.
\<close>

definition logging_react :: "string list react" where
  "logging_react =
     \<lparr>rx_Generate = (\<lambda>c q w. (Inr (zeroMessage\<lparr>m_ToolCalls := Some
        [\<lparr>tc_ID = ''c1'', tc_Name = ''lookup'', tc_Arguments = None\<rparr>,
         \<lparr>tc_ID = ''c2'', tc_Name = ''rm'', tc_Arguments = None\<rparr>]\<rparr>), w)),
      rx_Execute = (\<lambda>c call w. (Inr zeroToolResult, w @ [tc_Name call])),
      rx_Publish = (\<lambda>c e w. (None, w)), rx_poll = (\<lambda>w. (None, w)), rx_is_print = (\<lambda>r. False)\<rparr>"

definition lookup_input :: EngineInput where
  "lookup_input = plain_input\<lparr>ei_Tools :=
     [\<lparr>td_Name = ''lookup'', td_Description = [], td_InputSchema = None\<rparr>]\<rparr>"

theorem react_tool_calls_guarded_witness:
  "''rm'' \<notin> set (snd (react_Execute logging_react (Some ctx_Background) fresh_run lookup_input []))"
  by (rule react_tool_calls_guarded [where Q = "\<lambda>w. ''rm'' \<notin> set w"])
    (auto simp: react_keeps_def model_keeps_def logging_react_def guarded_call_def replay_due_def
      lookup_input_def plain_input_def indexToolDefinitions_def split: if_splits)

text \<open>
  C9: a step is a call of the model: when \<open>calls\<close> counts the calls of the model in the world,
  the engine makes exactly as many calls as it advances the step of the run.
\<close>

theorem react_steps_are_model_calls:
  assumes "counts_calls L calls"
  shows "int (calls (snd (react_Execute L (Some x) st input w))) - int (calls w) =
    st_Step (fst (fst (react_Execute L (Some x) st input w))) - st_Step st"
  using react_Execute_balance [OF assms, of x st input w] by (simp add: step_balance_def)

theorem react_steps_are_model_calls_witness:
  "int (snd (react_Execute echo_react (Some ctx_Background) fresh_run plain_input 0)) - int 0 =
    st_Step (fst (fst (react_Execute echo_react (Some ctx_Background) fresh_run plain_input 0))) -
    st_Step fresh_run"
proof -
  have "counts_calls echo_react (\<lambda>w. w)"
    by (simp add: counts_calls_def react_keeps_def echo_react_def)
  from react_steps_are_model_calls [OF this] show ?thesis .
qed

text \<open>
  C11: a state that is invalid, suspended or in a terminal status is handed back as it is with
  an error, and neither the model nor the tools nor the sink is called.
\<close>

theorem react_Execute_refuses:
  "\<not> executable st \<Longrightarrow>
   fst (fst (react_Execute L (Some x) st input w)) = st \<and>
   snd (fst (react_Execute L (Some x) st input w)) \<noteq> None \<and>
   snd (react_Execute L (Some x) st input w) = w"
  by (drule not_executable [of st L x input w]) (elim exE conjE, simp)

theorem react_Execute_refuses_witness:
  "snd (fst (react_Execute echo_react (Some ctx_Background)
     (fresh_run\<lparr>st_Status := RunStatusCompleted\<rparr>) plain_input 0)) \<noteq> None"
proof -
  have "\<not> executable (fresh_run\<lparr>st_Status := RunStatusCompleted\<rparr>)"
    by (simp add: executable_def)
  then show ?thesis
    by (rule react_Execute_refuses [THEN conjunct2, THEN conjunct1])
qed

text \<open>
  C10: a run is completed by the model's final answer, and only by it. Let \<open>final w\<close> be the first
  reply with neither a requirement nor tool calls that the model has given up to \<open>w\<close>, in whatever
  round of the loop. When the engine has run from any state that it accepts, with whatever
  resolution, replay, context, tools and sink: if there was such a reply, the run is completed,
  with the content of the reply as its output and the reply, its role filled in where the model left
  it out, as the last message of its transcript; if there was none, the run is not completed. (A
  final answer ends the run, so the first is the last.)
\<close>

theorem react_final_answer:
  assumes "executable st" and "records_final L final" and "final w = None"
  shows "let ((st', e), w') = react_Execute L (Some x) st input w in
    case final w' of
      None \<Rightarrow> st_Status st' \<noteq> RunStatusCompleted
    | Some m \<Rightarrow> st_Status st' = RunStatusCompleted \<and> st_Output st' = m_Content m \<and>
        (\<exists>ms. st_Messages st' = Some (ms @ [default_role m]))"
  using react_Execute_answered [OF assms, of x input] by (simp add: answered_by_def case_prod_beta)

text \<open>
  A model that first asks for a tool and then answers; the world is the list of its replies.
\<close>

definition two_round_react :: "Message list react" where
  "two_round_react =
     (let reply = (\<lambda>w. if w = []
        then zeroMessage\<lparr>m_ToolCalls := Some [\<lparr>tc_ID = ''c1'', tc_Name = ''lookup'', tc_Arguments = None\<rparr>]\<rparr>
        else zeroMessage\<lparr>m_Content := ''done''\<rparr>)
      in \<lparr>rx_Generate = (\<lambda>c q w. (Inr (reply w), w @ [reply w])),
          rx_Execute = (\<lambda>c call w. (Inr zeroToolResult, w)),
          rx_Publish = (\<lambda>c e w. (None, w)), rx_poll = (\<lambda>w. (None, w)), rx_is_print = (\<lambda>r. False)\<rparr>)"

lemma find_snoc:
  "find P (xs @ [y]) = (case find P xs of None \<Rightarrow> if P y then Some y else None | Some z \<Rightarrow> Some z)"
  by (induction xs) auto

theorem react_final_answer_witness:
  "let ((st', e), w') = react_Execute two_round_react (Some ctx_Background) fresh_run lookup_input [] in
    case find final_reply w' of
      None \<Rightarrow> st_Status st' \<noteq> RunStatusCompleted
    | Some m \<Rightarrow> st_Status st' = RunStatusCompleted \<and> st_Output st' = m_Content m \<and>
        (\<exists>ms. st_Messages st' = Some (ms @ [default_role m]))"
proof -
  have "records_final two_round_react (find final_reply)"
    by (auto simp: records_final_def react_keeps_def two_round_react_def Let_def find_snoc
        split: option.split)
  from react_final_answer [OF fresh_run_executable this] show ?thesis by simp
qed

end
