(* ===== verification/Event_Sinks.thy ===== *)
theory Event_Sinks
  imports Events "HOL-Library.Sublist"
begin

text \<open>
  The event sinks: the contract of \<open>agent.EventSink\<close> as a locale; the in-memory sink
  (\<open>eventing/inmem/sink.go\<close>), the bounded stream broker of the server
  (\<open>runstream/broker.go\<close>) with its cursor reads, and the fan-out of
  \<open>runtimewire/runtimewire.go\<close>. A sink keeps copies of the valid events it accepts.
\<close>

section \<open>Copies\<close>

definition cloneEvent :: "Event \<Rightarrow> Event" where
  "cloneEvent e = e\<lparr>ev_Message := map_option CloneMessage (ev_Message e)\<rparr>"

lemma cloneEvent_fields [simp]:
  "ev_RunID (cloneEvent e) = ev_RunID e" "ev_Step (cloneEvent e) = ev_Step e"
  "ev_Type (cloneEvent e) = ev_Type e" "ev_CommandKind (cloneEvent e) = ev_CommandKind e"
  "ev_ToolResult (cloneEvent e) = ev_ToolResult e"
  "ev_Description (cloneEvent e) = ev_Description e"
  "ev_Message (cloneEvent e) = map_option CloneMessage (ev_Message e)"
  by (simp_all add: cloneEvent_def)

lemma cloneEvent_idem [simp]: "cloneEvent (cloneEvent e) = cloneEvent e"
  by (simp add: cloneEvent_def option.map_comp comp_def)

lemma event_ok_clone [simp]: "event_ok (cloneEvent e) = event_ok e"
  by (simp add: event_ok_def payload_ok_def)

section \<open>The contract\<close>

text \<open>
  \<open>kept s i\<close> are the events of run \<open>i\<close> a sink still holds. A refused event changes
  nothing; an accepted one is valid and its copy is appended, older events may be dropped
  from the front.
\<close>

locale event_sink =
  fixes publish :: "seen_ctx \<Rightarrow> Event \<Rightarrow> 's \<Rightarrow> gerr option \<times> 's"
    and kept :: "'s \<Rightarrow> RunID \<Rightarrow> Event list"
  assumes publish_refused: "publish c e s = (Some x, s') \<Longrightarrow> s' = s"
    and publish_iff: "fst (publish c e s) = None \<longleftrightarrow> ctx_guard c = None \<and> event_ok e"
    and publish_suffix: "publish c e s = (None, s') \<Longrightarrow>
      suffix (kept s' (ev_RunID e)) (kept s (ev_RunID e) @ [cloneEvent e])"
    and publish_other: "publish c e s = (None, s') \<Longrightarrow> i \<noteq> ev_RunID e \<Longrightarrow> kept s' i = kept s i"

text \<open>A sink that drops nothing.\<close>

locale lossless_sink = event_sink +
  assumes publish_appends: "publish c e s = (None, s') \<Longrightarrow>
      kept s' (ev_RunID e) = kept s (ev_RunID e) @ [cloneEvent e]"

primrec publish_all ::
  "(seen_ctx \<Rightarrow> Event \<Rightarrow> 's \<Rightarrow> gerr option \<times> 's) \<Rightarrow> (seen_ctx \<times> Event) list \<Rightarrow> 's \<Rightarrow> 's" where
  "publish_all publish [] s = s"
| "publish_all publish (p # ps) s = publish_all publish ps (snd (publish (fst p) (snd p) s))"

text \<open>The events of a run among those published that a sink has to accept.\<close>

definition accepted_events :: "RunID \<Rightarrow> (seen_ctx \<times> Event) list \<Rightarrow> Event list" where
  "accepted_events i ps =
     map (cloneEvent \<circ> snd)
       (filter (\<lambda>p. ctx_guard (fst p) = None \<and> event_ok (snd p) \<and> ev_RunID (snd p) = i) ps)"

lemma accepted_events_simps [simp]:
  "accepted_events i [] = []"
  "accepted_events i (p # ps) =
     (if ctx_guard (fst p) = None \<and> event_ok (snd p) \<and> ev_RunID (snd p) = i
      then cloneEvent (snd p) # accepted_events i ps else accepted_events i ps)"
  by (simp_all add: accepted_events_def)

context event_sink begin

lemma publish_step:
  "suffix (kept (snd (publish c e s)) i) (kept s i @
     (if ctx_guard c = None \<and> event_ok e \<and> ev_RunID e = i then [cloneEvent e] else []))"
proof (cases "publish c e s")
  case (Pair r s')
  show ?thesis
  proof (cases r)
    case None
    with Pair have p: "publish c e s = (None, s')" by simp
    then have ok: "ctx_guard c = None \<and> event_ok e" using publish_iff [of c e s] by simp
    show ?thesis
    proof (cases "ev_RunID e = i")
      case True
      with publish_suffix [OF p] Pair ok show ?thesis by simp
    next
      case False
      with publish_other [OF p, of i] Pair ok show ?thesis by simp
    qed
  next
    case (Some x)
    with Pair have p: "publish c e s = (Some x, s')" by simp
    then have "s' = s" "\<not> (ctx_guard c = None \<and> event_ok e)"
      using publish_refused publish_iff [of c e s] by auto
    with Pair show ?thesis by (metis append.right_neutral snd_conv suffix_order.order_refl)
  qed
qed

lemma publish_all_suffix:
  "suffix (kept (publish_all publish ps s) i) (kept s i @ accepted_events i ps)"
proof (induction ps arbitrary: s)
  case (Cons p ps)
  let ?s1 = "snd (publish (fst p) (snd p) s)"
  have "suffix (kept ?s1 i @ accepted_events i ps) (kept s i @ accepted_events i (p # ps))"
    using publish_step [of "fst p" "snd p" s i] by (auto simp: suffix_def)
  then show ?case
    using Cons.IH [of ?s1] by (auto intro: suffix_order.trans)
qed simp

end

context lossless_sink begin

lemma publish_all_kept:
  "kept (publish_all publish ps s) i = kept s i @ accepted_events i ps"
proof (induction ps arbitrary: s)
  case (Cons p ps)
  obtain r s1 where p: "publish (fst p) (snd p) s = (r, s1)" by fastforce
  have "kept s1 i = kept s i @
      (if ctx_guard (fst p) = None \<and> event_ok (snd p) \<and> ev_RunID (snd p) = i
       then [cloneEvent (snd p)] else [])"
  proof (cases r)
    case None
    with p show ?thesis
      using publish_iff [of "fst p" "snd p" s] publish_appends publish_other
      by (cases "ev_RunID (snd p) = i") auto
  next
    case (Some x)
    with p show ?thesis
      using publish_iff [of "fst p" "snd p" s] publish_refused by fastforce
  qed
  with p Cons.IH [of s1] show ?case by simp
qed simp

end

section \<open>The in-memory sink\<close>

type_synonym inmem_sink = "Event list"

definition sink_New :: inmem_sink where
  "sink_New = []"

definition sink_Publish :: "seen_ctx \<Rightarrow> Event \<Rightarrow> inmem_sink \<Rightarrow> gerr option \<times> inmem_sink" where
  "sink_Publish c e s =
     (case ctx_guard c of
        Some x \<Rightarrow> (Some x, s)
      | None \<Rightarrow>
     (case ValidateEvent e of
        Some x \<Rightarrow> (Some x, s)
      | None \<Rightarrow> (None, s @ [cloneEvent e])))"

definition sink_Events :: "inmem_sink \<Rightarrow> Event list" where
  "sink_Events s = map cloneEvent s"

definition sink_kept :: "inmem_sink \<Rightarrow> RunID \<Rightarrow> Event list" where
  "sink_kept s i = filter (\<lambda>e. ev_RunID e = i) s"

lemma sink_Publish_iff:
  "fst (sink_Publish c e s) = None \<longleftrightarrow> ctx_guard c = None \<and> event_ok e"
  unfolding ValidateEvent_None_iff [symmetric]
  by (auto simp: sink_Publish_def simp del: ValidateEvent_None_iff split: option.splits)

lemma sink_Publish_state:
  "snd (sink_Publish c e s) =
     (if fst (sink_Publish c e s) = None then s @ [cloneEvent e] else s)"
  by (auto simp: sink_Publish_def split: option.splits)

lemma sink_Publish_None:
  "sink_Publish c e s = (None, s') \<Longrightarrow> s' = s @ [cloneEvent e]"
  using sink_Publish_state [of c e s] by simp

interpretation msink: lossless_sink sink_Publish sink_kept
proof (unfold_locales, goal_cases)
  case (1 c e s x s')
  then show ?case using sink_Publish_state [of c e s] by simp
next
  case (2 c e s)
  then show ?case by (rule sink_Publish_iff)
qed (auto dest!: sink_Publish_None simp: sink_kept_def)

section \<open>The stream broker\<close>

record StreamEvent =
  se_ID :: int
  se_Event :: Event

record runHistory =
  rh_nextID :: int
  rh_events :: "StreamEvent list"

record broker =
  bk_historyLimit :: nat
  bk_runs :: "RunID \<Rightarrow> runHistory option"

definition DefaultHistoryLimit :: nat where
  "DefaultHistoryLimit = 32"

definition broker_New :: "int \<Rightarrow> broker" where
  "broker_New historyLimit =
     \<lparr>bk_historyLimit = (if historyLimit \<le> 0 then DefaultHistoryLimit else nat historyLimit),
      bk_runs = Map.empty\<rparr>"

definition runLocked :: "broker \<Rightarrow> RunID \<Rightarrow> runHistory" where
  "runLocked b runID =
     (case bk_runs b runID of
        Some h \<Rightarrow> h
      | None \<Rightarrow> \<lparr>rh_nextID = 1, rh_events = []\<rparr>)"

definition broker_Publish :: "seen_ctx \<Rightarrow> Event \<Rightarrow> broker \<Rightarrow> gerr option \<times> broker" where
  "broker_Publish c e b =
     (case ctx_guard c of
        Some x \<Rightarrow> (Some x, b)
      | None \<Rightarrow>
     (case ValidateEvent e of
        Some x \<Rightarrow> (Some x, b)
      | None \<Rightarrow>
          let history = runLocked b (ev_RunID e);
              next = \<lparr>se_ID = rh_nextID history, se_Event = cloneEvent e\<rparr>;
              events = rh_events history @ [next];
              drop_n = length events - bk_historyLimit b;
              history' = \<lparr>rh_nextID = wrap64 (rh_nextID history + 1),
                rh_events = (if length events > bk_historyLimit b then drop drop_n events
                             else events)\<rparr>
          in (None, b\<lparr>bk_runs := (bk_runs b)(ev_RunID e \<mapsto> history')\<rparr>)))"

definition cloneStreamEvent :: "StreamEvent \<Rightarrow> StreamEvent" where
  "cloneStreamEvent e = \<lparr>se_ID = se_ID e, se_Event = cloneEvent (se_Event e)\<rparr>"

text \<open>The index loop skips the events whose ID is at most the cursor.\<close>

definition EventsAfter :: "RunID \<Rightarrow> int \<Rightarrow> broker \<Rightarrow> gerr + StreamEvent list" where
  "EventsAfter runID cursor b =
     (if runID = [] then Inl (Errorf [wraps ErrInvalidRunID, Lit '': run_id is required''])
      else if cursor < 0 then
        Inl (Errorf [wraps ErrCursorInvalid, Lit '': cursor must be non-negative''])
      else case bk_runs b runID of
        None \<Rightarrow>
          if cursor = 0 then Inr []
          else Inl (Errorf [wraps ErrCursorInvalid, Lit '': no events for run '', Quo runID])
      | Some history \<Rightarrow>
          if cursor \<ge> rh_nextID history then
            Inl (Errorf [wraps ErrCursorInvalid, Lit '': cursor='', Num cursor,
              Lit '' is beyond latest id='', Num (rh_nextID history - 1)])
          else
            (case rh_events history of
               e # _ \<Rightarrow>
                 if cursor < se_ID e - 1 then
                   Inl (Errorf [wraps ErrCursorExpired, Lit '': cursor='', Num cursor,
                     Lit '' oldest_available='', Num (se_ID e - 1)])
                 else Inr (map cloneStreamEvent
                   (dropWhile (\<lambda>x. se_ID x \<le> cursor) (rh_events history)))
             | [] \<Rightarrow> Inr (map cloneStreamEvent
                   (dropWhile (\<lambda>x. se_ID x \<le> cursor) (rh_events history)))))"

subsection \<open>The broker as a sink\<close>

definition broker_kept :: "broker \<Rightarrow> RunID \<Rightarrow> Event list" where
  "broker_kept b i = map se_Event (rh_events (runLocked b i))"

lemma broker_Publish_iff:
  "fst (broker_Publish c e b) = None \<longleftrightarrow> ctx_guard c = None \<and> event_ok e"
  unfolding ValidateEvent_None_iff [symmetric]
  by (auto simp: broker_Publish_def Let_def simp del: ValidateEvent_None_iff split: option.splits)

lemma broker_Publish_refused: "broker_Publish c e b = (Some x, b') \<Longrightarrow> b' = b"
  by (auto simp: broker_Publish_def Let_def split: option.splits)

text \<open>The history a run has after an accepted event.\<close>

definition extended :: "broker \<Rightarrow> Event \<Rightarrow> runHistory" where
  "extended b e =
     (let h = runLocked b (ev_RunID e);
          es = rh_events h @ [\<lparr>se_ID = rh_nextID h, se_Event = cloneEvent e\<rparr>]
      in \<lparr>rh_nextID = wrap64 (rh_nextID h + 1), rh_events = drop (length es - bk_historyLimit b) es\<rparr>)"

lemma broker_Publish_None:
  "broker_Publish c e b = (None, b') \<Longrightarrow>
   b' = b\<lparr>bk_runs := (bk_runs b)(ev_RunID e \<mapsto> extended b e)\<rparr>"
  by (auto simp: broker_Publish_def extended_def Let_def split: option.splits)

lemma runLocked_upd [simp]:
  "runLocked (b\<lparr>bk_runs := (bk_runs b)(i \<mapsto> h)\<rparr>) j = (if j = i then h else runLocked b j)"
  by (simp add: runLocked_def)

lemma broker_kept_upd [simp]:
  "broker_kept (b\<lparr>bk_runs := (bk_runs b)(i \<mapsto> h)\<rparr>) j =
     (if j = i then map se_Event (rh_events h) else broker_kept b j)"
  by (simp add: broker_kept_def)

lemma extended_events:
  "\<exists>n. map se_Event (rh_events (extended b e)) =
     drop n (broker_kept b (ev_RunID e) @ [cloneEvent e])"
proof -
  let ?es = "rh_events (runLocked b (ev_RunID e)) @
    [\<lparr>se_ID = rh_nextID (runLocked b (ev_RunID e)), se_Event = cloneEvent e\<rparr>]"
  let ?n = "length ?es - bk_historyLimit b"
  have "map se_Event (rh_events (extended b e)) = map se_Event (drop ?n ?es)"
    by (simp add: extended_def Let_def)
  also have "\<dots> = drop ?n (map se_Event ?es)" by (simp only: drop_map)
  finally show ?thesis by (auto simp: broker_kept_def intro!: exI [of _ ?n])
qed

interpretation stream: event_sink broker_Publish broker_kept
proof (unfold_locales, goal_cases)
  case (3 c e s s')
  from broker_Publish_None [OF 3] obtain n where
    "broker_kept s' (ev_RunID e) = drop n (broker_kept s (ev_RunID e) @ [cloneEvent e])"
    using extended_events [of s e] by auto
  then show ?case by (simp only: suffix_drop)
next
  case (4 c e s s' i)
  then show ?case by (auto dest!: broker_Publish_None)
qed (auto dest: broker_Publish_refused simp: broker_Publish_iff)

subsection \<open>The window of retained events\<close>

text \<open>
  A history holds at least one and at most \<open>limit\<close> events, numbered consecutively up to
  \<open>nextID - 1\<close>.
\<close>

definition history_wf :: "nat \<Rightarrow> runHistory \<Rightarrow> bool" where
  "history_wf limit h \<longleftrightarrow>
     rh_events h \<noteq> [] \<and> length (rh_events h) \<le> limit \<and>
     int (length (rh_events h)) < rh_nextID h \<and>
     (\<forall>k < length (rh_events h).
        se_ID (rh_events h ! k) = rh_nextID h - int (length (rh_events h)) + int k)"

definition broker_wf :: "broker \<Rightarrow> bool" where
  "broker_wf b \<longleftrightarrow> 0 < bk_historyLimit b \<and>
     (\<forall>i h. bk_runs b i = Some h \<longrightarrow> history_wf (bk_historyLimit b) h)"

lemma broker_wf_New: "broker_wf (broker_New n)"
  by (simp add: broker_wf_def broker_New_def DefaultHistoryLimit_def)

lemma history_wf_extended:
  assumes "broker_wf b" and "rh_nextID (runLocked b (ev_RunID e)) < 2 ^ 63 - 1"
  shows "history_wf (bk_historyLimit b) (extended b e)"
proof -
  let ?h = "runLocked b (ev_RunID e)" and ?l = "bk_historyLimit b"
  let ?es = "rh_events ?h @ [\<lparr>se_ID = rh_nextID ?h, se_Event = cloneEvent e\<rparr>]"
  from assms(1) have l: "0 < ?l" and
    h: "?h = \<lparr>rh_nextID = 1, rh_events = []\<rparr> \<or> history_wf ?l ?h"
    by (auto simp: broker_wf_def runLocked_def split: option.splits)
  then have len: "int (length (rh_events ?h)) < rh_nextID ?h" "length (rh_events ?h) \<le> ?l"
    by (auto simp: history_wf_def)
  with assms(2) have nx: "wrap64 (rh_nextID ?h + 1) = rh_nextID ?h + 1"
    by (simp add: wrap64_succ)
  have ids: "se_ID (?es ! k) = rh_nextID ?h - int (length (rh_events ?h)) + int k"
    if "k < length ?es" for k
    using h that by (auto simp: history_wf_def nth_append less_Suc_eq)
  show ?thesis
    unfolding history_wf_def extended_def Let_def using l len ids
    by (auto simp: nx simp del: drop_append append_is_Nil_conv)
qed

lemma broker_wf_Publish:
  assumes "broker_wf b" and "rh_nextID (runLocked b (ev_RunID e)) < 2 ^ 63 - 1"
  shows "broker_wf (snd (broker_Publish c e b))"
proof (cases "broker_Publish c e b")
  case (Pair r b')
  with assms show ?thesis
    using history_wf_extended [OF assms] broker_Publish_refused [of c e b _ b']
    by (cases r) (auto simp: broker_wf_def dest!: broker_Publish_None split: if_splits)
qed

lemma nextID_Publish:
  "rh_nextID (runLocked b i) < 2 ^ 63 - 1 \<Longrightarrow> 0 \<le> rh_nextID (runLocked b i) \<Longrightarrow>
   rh_nextID (runLocked (snd (broker_Publish c e b)) i) =
     rh_nextID (runLocked b i) +
     (if ctx_guard c = None \<and> event_ok e \<and> ev_RunID e = i then 1 else 0)"
proof (cases "broker_Publish c e b")
  case (Pair r b')
  assume "rh_nextID (runLocked b i) < 2 ^ 63 - 1" "0 \<le> rh_nextID (runLocked b i)"
  with Pair show ?thesis
    using broker_Publish_iff [of c e b] broker_Publish_refused [of c e b _ b']
    by (cases r) (auto simp: extended_def Let_def wrap64_succ dest!: broker_Publish_None)
qed

text \<open>Dropping what is at or below the cursor, on consecutively numbered elements.\<close>

lemma dropWhile_numbered:
  "(\<forall>k < length xs. f (xs ! k) = b + int k) \<Longrightarrow> b - 1 \<le> c \<Longrightarrow>
   dropWhile (\<lambda>x. f x \<le> c) xs = drop (nat (c - b + 1)) xs"
proof (induction xs arbitrary: b)
  case (Cons x xs)
  have x: "f x = b" using Cons.prems(1) by force
  have rest: "\<forall>k < length xs. f (xs ! k) = (b + 1) + int k"
    using Cons.prems(1) by force
  show ?case
  proof (cases "b \<le> c")
    case True
    then have "nat (c - b + 1) = Suc (nat (c - (b + 1) + 1))" by simp
    with True x Cons.IH [OF rest] show ?thesis by simp
  next
    case False
    with Cons.prems(2) x show ?thesis by simp
  qed
qed simp

lemma EventsAfter_retained:
  assumes "history_wf l h" and "bk_runs b i = Some h" and "i \<noteq> []" and "0 \<le> cursor"
    and "cursor < rh_nextID h" and "rh_nextID h - int (length (rh_events h)) \<le> cursor + 1"
  shows "\<exists>es. EventsAfter i cursor b = Inr es \<and> map se_ID es = [cursor + 1 .. rh_nextID h - 1] \<and>
    suffix (map se_Event es) (map (cloneEvent \<circ> se_Event) (rh_events h))"
proof -
  let ?b = "rh_nextID h - int (length (rh_events h))"
  let ?n = "nat (cursor - ?b + 1)"
  from assms(1) have ids: "\<forall>k < length (rh_events h). se_ID (rh_events h ! k) = ?b + int k"
    and ne: "rh_events h \<noteq> []"
    by (simp_all add: history_wf_def)
  then obtain e0 es0 where es0: "rh_events h = e0 # es0" "se_ID e0 = ?b"
    by (cases "rh_events h") force+
  have dw: "dropWhile (\<lambda>x. se_ID x \<le> cursor) (rh_events h) = drop ?n (rh_events h)"
    using assms(6) by (intro dropWhile_numbered [OF ids]) simp
  let ?out = "map cloneStreamEvent (drop ?n (rh_events h))"
  have "EventsAfter i cursor b = Inr ?out"
    using assms(2-6) es0 dw by (auto simp: EventsAfter_def)
  moreover have "map se_ID ?out = [cursor + 1 .. rh_nextID h - 1]"
  proof (rule nth_equalityI)
    show "length (map se_ID ?out) = length [cursor + 1 .. rh_nextID h - 1]"
      using assms(5,6) by simp
  next
    fix k assume "k < length (map se_ID ?out)"
    then show "map se_ID ?out ! k = [cursor + 1 .. rh_nextID h - 1] ! k"
      using assms(6) ids by (simp add: cloneStreamEvent_def nth_upto)
  qed
  moreover have "suffix (map se_Event ?out) (map (cloneEvent \<circ> se_Event) (rh_events h))"
    by (simp add: cloneStreamEvent_def comp_def suffix_drop flip: drop_map)
  ultimately show ?thesis by blast
qed

lemma EventsAfter_expired:
  assumes "history_wf l h" and "bk_runs b i = Some h" and "i \<noteq> []" and "0 \<le> cursor"
    and "cursor + 1 < rh_nextID h - int (length (rh_events h))"
  shows "\<exists>e. EventsAfter i cursor b = Inl e \<and> errors_Is e ErrCursorExpired"
proof -
  from assms(1) obtain e0 es0 where "rh_events h = e0 # es0"
    "se_ID e0 = rh_nextID h - int (length (rh_events h))"
    by (cases "rh_events h") (force simp: history_wf_def)+
  moreover from assms(5) have "cursor < rh_nextID h" by simp
  ultimately show ?thesis using assms(2-5) by (auto simp: EventsAfter_def)
qed

section \<open>Fan-out\<close>

text \<open>
  \<open>runtimewire.fanoutSink\<close> over sinks of the world; every sink is called, in order, even
  after a failure, and the failures are joined.
\<close>

primrec fanout_loop ::
  "'w publish list \<Rightarrow> ctx \<Rightarrow> Event \<Rightarrow> gerr option \<Rightarrow> 'w \<Rightarrow> gerr option \<times> 'w" where
  "fanout_loop [] c e result w = (result, w)"
| "fanout_loop (sink # sinks) c e result w =
     (case sink c e w of
        (Some err, w') \<Rightarrow> fanout_loop sinks c e (errors_Join [result, Some err]) w'
      | (None, w') \<Rightarrow> fanout_loop sinks c e result w')"

definition fanout_Publish :: "'w publish list \<Rightarrow> 'w publish" where
  "fanout_Publish sinks c e w = fanout_loop sinks c e None w"

text \<open>\<open>newFanoutSink\<close> drops the nil sinks.\<close>

definition newFanoutSink :: "'w publish option list \<Rightarrow> 'w publish list" where
  "newFanoutSink sinks = map the (filter (\<lambda>s. s \<noteq> None) sinks)"

section \<open>Properties\<close>

text \<open>
  the in-memory sink is a faithful journal: after any sequence of publications it holds,
  for every run, the events it held before followed by the copies of exactly those published
  under a live context that pass validation, in their order.
\<close>

theorem sink_journal:
  "sink_kept (publish_all sink_Publish ps s) i = sink_kept s i @ accepted_events i ps"
  by (rule msink.publish_all_kept)

text \<open>
  what the broker retains of a run is always a final segment of everything accepted for
  it: nothing is reordered, invented or dropped from the middle.
\<close>

theorem broker_suffix:
  "suffix (broker_kept (publish_all broker_Publish ps b) i) (broker_kept b i @ accepted_events i ps)"
  by (rule stream.publish_all_suffix)

text \<open>
  publishing keeps the broker well formed (as long as the 64-bit event counter does not
  overflow): every run has between one and \<open>historyLimit\<close> events, numbered consecutively,
  the last one just below the next ID.
\<close>

theorem broker_Publish_wf:
  "broker_wf b \<Longrightarrow> rh_nextID (runLocked b (ev_RunID e)) < 2 ^ 63 - 1 \<Longrightarrow>
   broker_wf (snd (broker_Publish c e b))"
  by (rule broker_wf_Publish)

definition started :: Event where
  "started = run_event ''r1'' 0 EventTypeRunStarted []"

theorem broker_Publish_wf_witness:
  "broker_wf (snd (broker_Publish (Some None) started (broker_New 2)))"
  by (rule broker_Publish_wf [OF broker_wf_New])
    (simp add: runLocked_def broker_New_def)

text \<open>A broker that keeps one event and has dropped the first of two.\<close>

definition full_broker :: broker where
  "full_broker = \<lparr>bk_historyLimit = 1, bk_runs = [''r1'' \<mapsto>
     \<lparr>rh_nextID = 3, rh_events = [\<lparr>se_ID = 2, se_Event = started\<rparr>]\<rparr>]\<rparr>"

lemma full_broker_wf: "broker_wf full_broker"
  by (simp add: broker_wf_def full_broker_def history_wf_def)

text \<open>
  reading after a cursor that is below the next ID either returns every event with a
  larger ID, without a gap and in order, or reports \<open>ErrCursorExpired\<close>; the latter exactly
  when the event right after the cursor has been dropped.
\<close>

theorem EventsAfter_exact:
  assumes "broker_wf b" and "bk_runs b i = Some h" and "i \<noteq> []"
    and "0 \<le> cursor" and "cursor < rh_nextID h"
  shows "if rh_nextID h - int (length (rh_events h)) \<le> cursor + 1
    then \<exists>es. EventsAfter i cursor b = Inr es \<and>
      map se_ID es = [cursor + 1 .. rh_nextID h - 1] \<and>
      suffix (map se_Event es) (map (cloneEvent \<circ> se_Event) (rh_events h))
    else \<exists>e. EventsAfter i cursor b = Inl e \<and> errors_Is e ErrCursorExpired"
proof -
  from assms(1,2) have wf: "history_wf (bk_historyLimit b) h" by (auto simp: broker_wf_def)
  show ?thesis
  proof (cases "rh_nextID h - int (length (rh_events h)) \<le> cursor + 1")
    case True
    with EventsAfter_retained [OF wf assms(2-5)] show ?thesis by simp
  next
    case False
    with EventsAfter_expired [OF wf assms(2-4)] show ?thesis by simp
  qed
qed

theorem EventsAfter_exact_witness:
  "(\<exists>e. EventsAfter ''r1'' 0 full_broker = Inl e \<and> errors_Is e ErrCursorExpired) \<and>
   (\<exists>es. EventsAfter ''r1'' 1 full_broker = Inr es \<and> map se_ID es = [2])"
proof -
  let ?h = "\<lparr>rh_nextID = 3, rh_events = [\<lparr>se_ID = 2, se_Event = started\<rparr>]\<rparr>"
  have h: "bk_runs full_broker ''r1'' = Some ?h" by (simp add: full_broker_def)
  have "\<exists>e. EventsAfter ''r1'' 0 full_broker = Inl e \<and> errors_Is e ErrCursorExpired"
    using EventsAfter_exact [OF full_broker_wf h, of 0] by simp
  moreover have "\<exists>es. EventsAfter ''r1'' 1 full_broker = Inr es \<and> map se_ID es = [2]"
    using EventsAfter_exact [OF full_broker_wf h, of 1] by (auto simp: upto.simps)
  ultimately show ?thesis by blast
qed

end
