(* ===== verification/Runtime.thy ===== *)
theory Runtime
  imports Runner_Calls React_Safety Event_Sinks
begin

text \<open>
  The composition of the server, \<open>runtimewire/runtimewire.go\<close>: the runner over the
  in-memory store, the ReAct engine, and the fan-out of the in-memory sink, the stream
  broker and the event logger. What lies outside (model, tools, logger output, caller's
  cancellation) acts on a part \<open>'x\<close> of the world that it alone can touch.
\<close>

section \<open>The world and its outside\<close>

record 'x runtime =
  rt_store :: store
  rt_events :: inmem_sink
  rt_broker :: broker
  rt_next :: "64 word"
  rt_ext :: 'x

text \<open>
  \<open>ex_log\<close> is what the event logger does with an event of a live context (marshal and log),
  \<open>None\<close> when the server runs without a logger.
\<close>

record 'x external =
  ex_Generate :: "ctx \<Rightarrow> ModelRequest \<Rightarrow> 'x \<Rightarrow> (gerr + Message) \<times> 'x"
  ex_Execute :: "ctx \<Rightarrow> ToolCall \<Rightarrow> 'x \<Rightarrow> (gerr + ToolResult) \<times> 'x"
  ex_log :: "(Event \<Rightarrow> 'x \<Rightarrow> gerr option \<times> 'x) option"
  ex_poll :: "'x \<Rightarrow> gerr option \<times> 'x"
  ex_is_print :: "nat \<Rightarrow> bool"

definition on_ext :: "('x \<Rightarrow> 'a \<times> 'x) \<Rightarrow> 'x runtime \<Rightarrow> 'a \<times> 'x runtime" where
  "on_ext f w = (let (r, x) = f (rt_ext w) in (r, w\<lparr>rt_ext := x\<rparr>))"

section \<open>The services\<close>

definition runtime_poll :: "'x external \<Rightarrow> 'x runtime poll" where
  "runtime_poll E = on_ext (ex_poll E)"

definition runtime_Save :: "'x external \<Rightarrow> ctx \<Rightarrow> RunState \<Rightarrow> 'x runtime \<Rightarrow> gerr option \<times> 'x runtime" where
  "runtime_Save E c st w =
     (let (sc, w1) = see_ctx (runtime_poll E) c w;
          (e, s) = store_Save sc st (rt_store w1)
      in (e, w1\<lparr>rt_store := s\<rparr>))"

definition runtime_Load :: "'x external \<Rightarrow> ctx \<Rightarrow> RunID \<Rightarrow> 'x runtime \<Rightarrow> (gerr + RunState) \<times> 'x runtime" where
  "runtime_Load E c i w =
     (let (sc, w1) = see_ctx (runtime_poll E) c w in (store_Load sc i (rt_store w1), w1))"

definition events_Publish :: "'x external \<Rightarrow> 'x runtime publish" where
  "events_Publish E c e w =
     (let (sc, w1) = see_ctx (runtime_poll E) c w;
          (r, s) = sink_Publish sc e (rt_events w1)
      in (r, w1\<lparr>rt_events := s\<rparr>))"

definition stream_Publish :: "'x external \<Rightarrow> 'x runtime publish" where
  "stream_Publish E c e w =
     (let (sc, w1) = see_ctx (runtime_poll E) c w;
          (r, b) = broker_Publish sc e (rt_broker w1)
      in (r, w1\<lparr>rt_broker := b\<rparr>))"

text \<open>\<open>runtimeEventLogSink.Publish\<close>; \<open>newRuntimeEventLogSink\<close> answers nil without a logger.\<close>

definition log_Publish ::
  "'x external \<Rightarrow> (Event \<Rightarrow> 'x \<Rightarrow> gerr option \<times> 'x) \<Rightarrow> 'x runtime publish" where
  "log_Publish E f c e w =
     (let (sc, w1) = see_ctx (runtime_poll E) c w in
      case ctx_guard sc of
        Some err \<Rightarrow> (Some err, w1)
      | None \<Rightarrow> on_ext (f e) w1)"

definition newRuntimeEventLogSink :: "'x external \<Rightarrow> 'x runtime publish option" where
  "newRuntimeEventLogSink E = map_option (log_Publish E) (ex_log E)"

definition runtime_Publish :: "'x external \<Rightarrow> 'x runtime publish" where
  "runtime_Publish E = fanout_Publish (newFanoutSink
     [Some (events_Publish E), Some (stream_Publish E), newRuntimeEventLogSink E])"

text \<open>\<open>fmt.Sprintf("run-%06d", g.next)\<close>\<close>

definition run_id_text :: "nat \<Rightarrow> string" where
  "run_id_text n =
     (let digits = nat_text n in ''run-'' @ replicate (6 - length digits) (CHR ''0'') @ digits)"

definition sequence_NewRunID :: "64 word \<Rightarrow> RunID \<times> 64 word" where
  "sequence_NewRunID next = (let next' = next + 1 in (run_id_text (unat next'), next'))"

definition runtime_NewRunID :: "ctx \<Rightarrow> 'x runtime \<Rightarrow> (gerr + RunID) \<times> 'x runtime" where
  "runtime_NewRunID c w =
     (let (i, next) = sequence_NewRunID (rt_next w) in (Inr i, w\<lparr>rt_next := next\<rparr>))"

definition runtime_react :: "'x external \<Rightarrow> 'x runtime react" where
  "runtime_react E =
     \<lparr>rx_Generate = (\<lambda>c q. on_ext (ex_Generate E c q)),
      rx_Execute = (\<lambda>c call. on_ext (ex_Execute E c call)),
      rx_Publish = runtime_Publish E, rx_poll = runtime_poll E, rx_is_print = ex_is_print E\<rparr>"

definition runtime_deps :: "'x external \<Rightarrow> 'x runtime deps" where
  "runtime_deps E =
     \<lparr>dp_NewRunID = runtime_NewRunID, dp_Save = runtime_Save E, dp_Load = runtime_Load E,
      dp_Execute = react_Execute (runtime_react E), dp_Publish = runtime_Publish E,
      dp_poll = runtime_poll E, dp_is_print = ex_is_print E\<rparr>"

definition newRuntime :: "'x \<Rightarrow> 'x runtime" where
  "newRuntime x = \<lparr>rt_store = store_New, rt_events = sink_New,
     rt_broker = broker_New (int DefaultHistoryLimit), rt_next = 0, rt_ext = x\<rparr>"

text \<open>The runtime after a sequence of commands on a fresh server.\<close>

definition served :: "'x external \<Rightarrow> 'x \<Rightarrow> (ctx \<times> Command) list \<Rightarrow> outcomes \<times> 'x runtime" where
  "served E x cmds = dispatch_all (runtime_deps E) cmds (Map.empty, newRuntime x)"

lemma runtime_deps_simps [simp]:
  "dp_NewRunID (runtime_deps E) = runtime_NewRunID" "dp_Save (runtime_deps E) = runtime_Save E"
  "dp_Load (runtime_deps E) = runtime_Load E"
  "dp_Execute (runtime_deps E) = react_Execute (runtime_react E)"
  "dp_Publish (runtime_deps E) = runtime_Publish E" "dp_poll (runtime_deps E) = runtime_poll E"
  by (simp_all add: runtime_deps_def)

section \<open>Who touches what\<close>

lemma on_ext_frame [simp]:
  "rt_store (snd (on_ext f w)) = rt_store w" "rt_events (snd (on_ext f w)) = rt_events w"
  "rt_broker (snd (on_ext f w)) = rt_broker w" "rt_next (snd (on_ext f w)) = rt_next w"
  by (simp_all add: on_ext_def case_prod_beta)

lemma on_ext_eq:
  "on_ext f w = (r, w') \<Longrightarrow>
   rt_store w' = rt_store w \<and> rt_events w' = rt_events w \<and> rt_broker w' = rt_broker w \<and>
   f (rt_ext w) = (r, rt_ext w')"
  by (auto simp: on_ext_def split: prod.splits)

lemma see_frame:
  assumes "see_ctx (runtime_poll E) c w = (sc, w1)"
  shows "rt_store w1 = rt_store w" "rt_events w1 = rt_events w" "rt_broker w1 = rt_broker w"
  using assms
  by (auto simp: see_ctx_def ctx_Err_def runtime_poll_def dest: on_ext_eq
      split: option.splits prod.splits if_splits)

lemma fanout_keeps:
  assumes "\<And>p w. p \<in> set ps \<Longrightarrow> Q w \<Longrightarrow> Q (snd (p c e w))" and "Q w"
  shows "Q (snd (fanout_loop ps c e r w))"
  using assms
proof (induction ps arbitrary: r w)
  case (Cons p ps)
  obtain pr w1 where p: "p c e w = (pr, w1)" by fastforce
  have "Q w1" using Cons.prems(1) [of p w] Cons.prems(2) p by simp
  then show ?case
    using Cons p by (cases pr) auto
qed simp

lemma runtime_Publish_keeps:
  assumes "Q w" and "\<And>w. Q w \<Longrightarrow> Q (snd (events_Publish E c e w))"
    and "\<And>w. Q w \<Longrightarrow> Q (snd (stream_Publish E c e w))"
    and "\<And>f w. ex_log E = Some f \<Longrightarrow> Q w \<Longrightarrow> Q (snd (log_Publish E f c e w))"
  shows "Q (snd (runtime_Publish E c e w))"
  unfolding runtime_Publish_def fanout_Publish_def
proof (rule fanout_keeps [where Q = Q, OF _ assms(1)])
  fix p w assume "Q w" and p: "p \<in> set (newFanoutSink [Some (events_Publish E),
    Some (stream_Publish E), newRuntimeEventLogSink E])"
  from p have "p = events_Publish E \<or> p = stream_Publish E \<or>
      (\<exists>f. ex_log E = Some f \<and> p = log_Publish E f)"
    by (cases "ex_log E") (auto simp: newFanoutSink_def newRuntimeEventLogSink_def)
  then show "Q (snd (p c e w))"
    using assms(2,3) [OF \<open>Q w\<close>] assms(4) [OF _ \<open>Q w\<close>] by (elim disjE exE conjE) simp_all
qed

lemma publish_frames [simp]:
  "rt_store (snd (events_Publish E c e w)) = rt_store w"
  "rt_store (snd (stream_Publish E c e w)) = rt_store w"
  "rt_store (snd (log_Publish E f c e w)) = rt_store w"
  by (auto simp: events_Publish_def stream_Publish_def log_Publish_def dest: see_frame
      split: prod.split option.split)

lemma runtime_Publish_store [simp]: "rt_store (snd (runtime_Publish E c e w)) = rt_store w"
  by (rule runtime_Publish_keeps [where Q = "\<lambda>w'. rt_store w' = rt_store w"]) simp_all

lemma runtime_Load_store [simp]: "rt_store (snd (runtime_Load E c i w)) = rt_store w"
  by (auto simp: runtime_Load_def dest: see_frame split: prod.split)

lemma runtime_NewRunID_store [simp]: "rt_store (snd (runtime_NewRunID c w)) = rt_store w"
  by (simp add: runtime_NewRunID_def case_prod_beta)

lemma runtime_poll_store [simp]: "rt_store (snd (runtime_poll E w)) = rt_store w"
  by (simp add: runtime_poll_def)

lemma runtime_react_keeps_store:
  "react_keeps (runtime_react E) A (\<lambda>w. rt_store w = s)"
  "model_keeps (runtime_react E) (\<lambda>w. rt_store w = s)"
  by (simp_all add: react_keeps_def model_keeps_def runtime_react_def)

lemma runtime_Execute_store [simp]:
  "rt_store (snd (react_Execute (runtime_react E) c st inp w)) = rt_store w"
proof (cases c)
  case None
  then show ?thesis by (simp add: react_Execute_def)
next
  case (Some x)
  show ?thesis unfolding Some
    by (rule keeps_Execute_engine [OF runtime_react_keeps_store(1,2)]) simp
qed

lemma runtime_Save_store:
  "runtime_Save E c st w = (e, w') \<Longrightarrow>
   \<exists>sc. store_Save sc st (rt_store w) = (e, rt_store w')"
  by (auto simp: runtime_Save_def dest!: see_frame(1) split: prod.splits)

interpretation wired: runner_env "runtime_deps E" rt_store
proof (unfold_locales, goal_cases)
  case (6 c i w st)
  then obtain sc where "store_Load sc i (rt_store w) = Inr st"
    by (auto simp: runtime_Load_def dest: see_frame(1) split: prod.splits)
  then show ?case by (rule mstore.load_found)
next
  case (7 c st w e)
  then show ?case
    using runtime_Save_store [of E c st w "Some e" "snd (runtime_Save E c st w)"]
      mstore.save_refused by (metis prod.collapse runtime_deps_simps(2))
next
  case (8 c st w)
  then obtain sc where "store_Save sc st (rt_store w) = (None, rt_store (snd (runtime_Save E c st w)))"
    using runtime_Save_store [of E c st w None "snd (runtime_Save E c st w)"]
    by (metis prod.collapse runtime_deps_simps(2))
  from mstore.save_accepted [OF this] show ?case by simp
qed simp_all


section \<open>Histories of the runs\<close>

lemma newRuntime_wf: "stored_wf (rt_store (newRuntime x))"
  by (simp add: newRuntime_def store_New_def stored_wf_def)

lemma dispatch_all_append:
  "dispatch_all D (cs @ ds) s = dispatch_all D ds (dispatch_all D cs s)"
  by (induction cs arbitrary: s) simp_all

lemma served_append:
  "served E x (cs @ ds) = dispatch_all (runtime_deps E) ds (served E x cs)"
  by (simp add: served_def dispatch_all_append)

lemma served_steps: "stored_step\<^sup>*\<^sup>* store_New (rt_store (snd (served E x cmds)))"
  using wired.dispatch_all_steps [OF newRuntime_wf, where cmds = cmds and oc = Map.empty]
  by (simp add: served_def newRuntime_def)

lemma served_wf: "stored_wf (rt_store (snd (served E x cmds)))"
  by (rule stored_steps_wf [OF served_steps]) (simp add: store_New_def stored_wf_def)

lemma served_later:
  "stored_step\<^sup>*\<^sup>* (rt_store (snd (served E x cs))) (rt_store (snd (served E x (cs @ ds))))"
  using wired.dispatch_all_steps [where w = "snd (served E x cs)" and E = E and cmds = ds
      and oc = "fst (served E x cs)", OF served_wf]
  by (simp add: served_append)

section \<open>Approval before replay\<close>

text \<open>
  A call that a user has approved: the run \<open>cmd\<close> continues is suspended on a tool's approval
  requirement, the command brings the approval for it, the context carries the override for
  the requirement's call and fingerprint, and the transcript holds the call.
\<close>

definition approved_call :: "contents \<Rightarrow> Command \<Rightarrow> ctx \<Rightarrow> ToolCall \<Rightarrow> bool" where
  "approved_call m cmd c call \<longleftrightarrow>
     (case cmd of
        CmdContinue command \<Rightarrow>
          (case (m (cc_RunID command), cc_Resolution command) of
             (Some st, Some r) \<Rightarrow>
               (case st_PendingRequirement st of
                  None \<Rightarrow> False
                | Some q \<Rightarrow>
                    st_Status st = RunStatusSuspended \<and> pr_Origin q = RequirementOriginTool \<and>
                    pr_Kind q = RequirementKindApproval \<and>
                    rs_Outcome r = ResolutionOutcomeApproved \<and> rs_RequirementID r = pr_ID q \<and>
                    ApprovedToolCallReplayOverrideFromContext c =
                      Some \<lparr>ov_ToolCallID = pr_ToolCallID q, ov_Fingerprint = pr_Fingerprint q\<rparr> \<and>
                    findToolCallByID (elems (st_Messages st)) (pr_ToolCallID q) = Some call)
           | _ \<Rightarrow> False)
      | _ \<Rightarrow> False)"

text \<open>What the outside keeps, its tools for the calls \<open>allowed\<close>.\<close>

definition ext_keeps :: "'x external \<Rightarrow> (ctx \<Rightarrow> ToolCall \<Rightarrow> bool) \<Rightarrow> ('x \<Rightarrow> bool) \<Rightarrow> bool" where
  "ext_keeps E allowed Q \<longleftrightarrow>
     (\<forall>x. Q x \<longrightarrow> Q (snd (ex_poll E x))) \<and>
     (\<forall>c q x. Q x \<longrightarrow> Q (snd (ex_Generate E c q x))) \<and>
     (\<forall>f e x. ex_log E = Some f \<longrightarrow> Q x \<longrightarrow> Q (snd (f e x))) \<and>
     (\<forall>c call x. Q x \<longrightarrow> allowed c call \<longrightarrow> Q (snd (ex_Execute E c call x)))"

lemma on_ext_ext [simp]: "rt_ext (snd (on_ext f w)) = snd (f (rt_ext w))"
  by (simp add: on_ext_def case_prod_beta)

lemma see_ext:
  assumes "ext_keeps E A Q" and "Q (rt_ext w)" and "see_ctx (runtime_poll E) c w = (sc, w1)"
  shows "Q (rt_ext w1)"
proof -
  have "rt_ext w1 = rt_ext w \<or> rt_ext w1 = snd (ex_poll E (rt_ext w))"
    using assms(3) by (auto simp: see_ctx_def ctx_Err_def runtime_poll_def on_ext_def
        split: option.splits prod.splits if_splits)
  with assms(1,2) show ?thesis by (auto simp: ext_keeps_def)
qed

lemma publishes_ext:
  assumes "ext_keeps E A Q" and "Q (rt_ext w)"
  shows "Q (rt_ext (snd (events_Publish E c e w)))" "Q (rt_ext (snd (stream_Publish E c e w)))"
    "ex_log E = Some f \<Longrightarrow> Q (rt_ext (snd (log_Publish E f c e w)))"
proof -
  obtain sc w1 where sc: "see_ctx (runtime_poll E) c w = (sc, w1)" by fastforce
  note w1 = see_ext [OF assms sc]
  from sc w1 show "Q (rt_ext (snd (events_Publish E c e w)))"
    by (simp add: events_Publish_def case_prod_beta)
  from sc w1 show "Q (rt_ext (snd (stream_Publish E c e w)))"
    by (simp add: stream_Publish_def case_prod_beta)
  assume "ex_log E = Some f"
  with sc w1 assms(1) show "Q (rt_ext (snd (log_Publish E f c e w)))"
    by (auto simp: log_Publish_def ext_keeps_def split: option.split)
qed

lemma runtime_Publish_ext:
  "ext_keeps E A Q \<Longrightarrow> Q (rt_ext w) \<Longrightarrow> Q (rt_ext (snd (runtime_Publish E c e w)))"
  by (rule runtime_Publish_keeps [where Q = "\<lambda>w. Q (rt_ext w)"]) (auto intro: publishes_ext)

lemma runtime_Execute_ext:
  assumes "ext_keeps E (\<lambda>c call. ApprovedToolCallReplayOverrideFromContext c = None \<or> P c call) Q"
    and "\<And>call. replay_due c st inp call \<Longrightarrow> P c call" and "Q (rt_ext w)"
  shows "Q (rt_ext (snd (react_Execute (runtime_react E) c st inp w)))"
proof (cases c)
  case None
  with assms(3) show ?thesis by (simp add: react_Execute_def)
next
  case (Some x)
  have "react_keeps (runtime_react E) (\<lambda>c call.
      guarded_call (indexToolDefinitions (ei_Tools inp)) c call \<or>
      replay_due (Some x) st inp call \<and> c = Some x) (\<lambda>w. Q (rt_ext w))"
    using assms(1,2) Some runtime_Publish_ext [OF assms(1)]
    by (auto simp: react_keeps_def runtime_react_def runtime_poll_def ext_keeps_def guarded_call_def)
  moreover have "model_keeps (runtime_react E) (\<lambda>w. Q (rt_ext w))"
    using assms(1) by (simp add: model_keeps_def runtime_react_def ext_keeps_def)
  ultimately show ?thesis
    unfolding Some using assms(3) by (rule keeps_Execute_engine)
qed

lemma engine_call_replay:
  assumes "engine_call (runtime_deps E) c cmd w c' st inp" and "stored_wf (rt_store w)"
    and "replay_due c' st inp call"
  shows "approved_call (rt_store w) cmd c' call"
proof -
  obtain q r where inp: "ei_ResolvedRequirement inp = Some q" "ei_Resolution inp = Some r"
    using assms(3) by (auto simp: replay_due_def split: option.splits)
  then obtain command where cmd: "cmd = CmdContinue command"
    and cont: "continue_call (runtime_deps E) c command w c' st inp"
    using assms(1) by (auto simp: engine_call_def plain_call_def split: Command.splits)
  from cont obtain state w1 where
    ld: "load_state (runtime_deps E) c (cc_RunID command) w = (Inr state, w1)"
    and rs: "resume_state state = (None, st, Some q)"
    and res: "cc_Resolution command = Some r"
    using inp by (auto simp: continue_call_def)
  note stored = wired.loaded_run [OF ld assms(2)]
  have "st_Status state = RunStatusSuspended" "st_PendingRequirement state = Some q"
    "st_Messages st = st_Messages state"
    using rs by (auto simp: resume_state_def Let_def TransitionRunStatus_eq_None
        split: if_splits prod.splits)
  with assms(3) inp cmd res stored show ?thesis
    by (auto simp: approved_call_def replay_due_def)
qed

lemma runtime_deps_keep:
  assumes "ext_keeps E (\<lambda>c call. ApprovedToolCallReplayOverrideFromContext c = None \<or>
      approved_call (rt_store w) cmd c call) Q" and "stored_wf (rt_store w)"
  shows "deps_keep (runtime_deps E) (engine_call (runtime_deps E) c cmd w) (\<lambda>w. Q (rt_ext w))"
proof -
  have ex: "Q (rt_ext (snd (react_Execute (runtime_react E) c' st inp v)))"
    if "engine_call (runtime_deps E) c cmd w c' st inp" "Q (rt_ext v)" for c' st inp v
    using runtime_Execute_ext [OF assms(1)] engine_call_replay [OF that(1) assms(2)] that(2) by blast
  have save: "Q (rt_ext (snd (runtime_Save E c st v)))" if "Q (rt_ext v)" for c st v
    using see_ext [OF assms(1) that] by (auto simp: runtime_Save_def split: prod.split)
  have load: "Q (rt_ext (snd (runtime_Load E c i v)))" if "Q (rt_ext v)" for c i v
    using see_ext [OF assms(1) that] by (auto simp: runtime_Load_def split: prod.split)
  have poll: "Q (rt_ext (snd (runtime_poll E v)))" if "Q (rt_ext v)" for v
    using assms(1) that by (simp add: runtime_poll_def ext_keeps_def)
  have newid: "rt_ext (snd (runtime_NewRunID c v)) = rt_ext v" for c v
    by (simp add: runtime_NewRunID_def case_prod_beta)
  show ?thesis
    unfolding deps_keep_def runtime_deps_simps newid
    using ex save load poll runtime_Publish_ext [OF assms(1)] by blast
qed

section \<open>Progress\<close>

text \<open>
  With a detached context nothing is cancelled: the run that is in the store is loaded, and a
  valid state that carries the stored version is saved.
\<close>

lemma detached_side [simp]:
  "ctx_detached y \<Longrightarrow> sideEffectContext poll (Some y) w = (Some y, w)"
  by (simp add: sideEffectContext_def ctx_Err_def)

lemma detached_see [simp]: "ctx_detached y \<Longrightarrow> see_ctx poll (Some y) w = (Some None, w)"
  by (simp add: see_ctx_def ctx_Err_def)

lemma detached_load:
  assumes "ctx_detached y" and "stored_wf (rt_store w)" and "rt_store w i = Some st"
  shows "load_state (runtime_deps E) (Some y) i w = (Inr st, w)"
proof -
  from assms(2,3) have "i \<noteq> []" "CloneRunState st = st"
    by (auto simp: stored_wf_def stored_ok_def)
  with assms show ?thesis
    by (simp add: load_state_def runtime_Load_def store_Load_def)
qed

lemma detached_save:
  assumes "ctx_detached y" and "run_state_ok st"
    and "st_Version st = expected_version (rt_store w (st_ID st))"
  shows "fst (save_state (runtime_deps E) (Some y) st w) = None"
proof -
  have "store_Save (Some None) st (rt_store w) =
      (None, (rt_store w)(st_ID st \<mapsto> saved_state st))"
    using assms(2,3) by (simp add: store_Save_eq_None)
  with assms(1) show ?thesis by (simp add: save_state_def runtime_Save_def)
qed

text \<open>A model outside the server that speaks as the assistant.\<close>

definition ext_model_ok :: "'x external \<Rightarrow> bool" where
  "ext_model_ok E \<longleftrightarrow> (\<forall>c q x. assistant_reply (fst (ex_Generate E c q x)))"

lemma runtime_model_ok: "ext_model_ok E \<Longrightarrow> model_ok (runtime_react E)"
  by (simp add: ext_model_ok_def model_ok_def runtime_react_def on_ext_def case_prod_beta)

text \<open>The engine's result is always accepted and stored.\<close>

definition run_saved :: "'x runtime \<Rightarrow> RunID \<Rightarrow> RunState \<Rightarrow> RunState \<Rightarrow> 'x runtime \<Rightarrow> bool" where
  "run_saved w i st final w' \<longleftrightarrow>
     stored_step (rt_store w) (rt_store w') \<and> rt_store w' i = Some (CloneRunState final) \<and>
     st_Version final = wrap64 (st_Version st + 1)"

lemma conclude_progress:
  assumes "ctx_detached y" and "ext_model_ok E" and "executable st1" and "st_Messages st1 \<noteq> None"
    and "react_Execute (runtime_react E) c st1 inp v = (out, v')" and "c = Some z"
    and "st_ID st1 = i" and "rt_store v i = Some st" and "st_Version st1 = st_Version st"
    and "\<not> isTerminalRunStatus (st_Status st)" and "advances st st1"
  shows "\<exists>final e w'. conclude (runtime_deps E) (Some y) k cp ap i st1 out (ev, v') =
    (Inr (final, e), w') \<and> run_saved v i st final w'"
proof -
  have post: "settled True st1 (effective_max_steps inp) (fst out)"
    using react_Execute_post [OF assms(3), of True "runtime_react E" inp z v] assms(5,6)
      runtime_model_ok [OF assms(2)] by (simp add: react_post_def)
  then have ok: "validateEngineOutput st1 (fst out) = None"
    using settled_engine_output [OF post assms(4)] by simp
  have store: "rt_store v' = rt_store v"
    using runtime_Execute_store [of E c st1 inp v] assms(5) by simp
  have saved: "fst (save_state (runtime_deps E) (Some y) (fst out) v') = None"
    using post store assms(7-9)
    by (intro detached_save [OF assms(1)]) (auto simp: settled_def follows_def)
  obtain res w' where c: "conclude (runtime_deps E) (Some y) k cp ap i st1 out (ev, v') = (res, w')"
    by fastforce
  obtain e where res: "res = Inr (bump_version (fst out), e)"
    using ok saved c
    by (cases out)
      (auto simp: conclude_def Let_def case_prod_beta simp del: validateEngineOutput_None_iff
        split: prod.splits option.splits)
  have "st_ID st = i" using assms(7,11) by (simp add: advances_def)
  with wired.conclude_stored [OF c, of st] assms(8,10,11) store res
  have "stored_step (rt_store v) (rt_store w')"
    "rt_store w' i = Some (CloneRunState (bump_version (fst out)))"
    by auto
  moreover have "st_Version (bump_version (fst out)) = wrap64 (st_Version st + 1)"
    using post assms(9) by (simp add: bump_version_def settled_def follows_def)
  ultimately show ?thesis using c res by (auto simp: run_saved_def)
qed

lemma stored_executable:
  assumes "stored_ok i st" and "0 < st_Version st" and "\<not> isTerminalRunStatus (st_Status st)"
    and "st_Status st \<noteq> RunStatusSuspended"
  shows "executable st" "executable (add_message m st)"
  using assms
  by (auto simp: executable_def stored_ok_def run_state_ok_def isKnownRunStatus_def
      isTerminalRunStatus_def suspension_ok_def)

lemma resume_executable:
  assumes "stored_ok i st" and "0 < st_Version st" and "\<not> isTerminalRunStatus (st_Status st)"
  shows "\<exists>st1 q. resume_state st = (None, st1, q) \<and> executable st1 \<and> st_ID st1 = i \<and>
    st_Version st1 = st_Version st \<and> st_Messages st1 = st_Messages st \<and> advances st st1"
proof (cases "st_Status st = RunStatusSuspended")
  case True
  let ?st1 = "st\<lparr>st_PendingRequirement := None, st_Status := RunStatusRunning\<rparr>"
  have "TransitionRunStatus (st\<lparr>st_PendingRequirement := None\<rparr>) RunStatusRunning = (None, ?st1)"
    unfolding TransitionRunStatus_eq_None
    using True by (auto simp: suspension_ok_def intro: status_step.resume)
  moreover have "executable ?st1"
    using assms(1,2) by (auto simp: executable_def stored_ok_def run_state_ok_def suspension_ok_def)
  ultimately show ?thesis using True assms(1)
    by (intro exI [of _ ?st1]) (simp add: resume_state_def stored_ok_def)
next
  case False
  with assms stored_executable(1) [OF assms False] show ?thesis
    by (auto simp: resume_state_def stored_ok_def)
qed

lemma stored_messages: "stored_ok i st \<Longrightarrow> st_Messages st \<noteq> None"
  unfolding stored_ok_def by (metis CloneMessages_def CloneRunState_fields(8) option.distinct(1))

text \<open>
  The commands that drive the engine on an existing run: well formed, not gated, and not answered
  from the cache of outcomes.
\<close>

definition drives :: "outcomes \<Rightarrow> RunState \<Rightarrow> Command \<Rightarrow> bool" where
  "drives oc st cmd \<longleftrightarrow>
     malformed (Some ctx_Background) cmd = None \<and> gate st cmd = None \<and> cached_outcome oc cmd = None \<and>
     (case cmd of
        CmdContinue command \<Rightarrow> tools_ok (cc_Tools command)
      | CmdFollowUp command \<Rightarrow> True
      | _ \<Rightarrow> False)"

lemma follow_up_progress:
  assumes "ctx_detached y" and "ext_model_ok E" and "stored_wf (rt_store w)"
    and "rt_store w (fc_RunID command) = Some st" and "0 < st_Version st"
    and "malformed (Some ctx_Background) (CmdFollowUp command) = None"
    and "gate st (CmdFollowUp command) = None"
  shows "\<exists>final e w'. dispatchFollowUp (runtime_deps E) (Some y) command w =
    ((\<lparr>rr_State = final\<rparr>, e), w') \<and> run_saved w (fc_RunID command) st final w'"
proof -
  let ?i = "fc_RunID command" and ?st1 = "add_message (userMessage (fc_UserPrompt command)) st"
  from assms(3,4) have st: "stored_ok ?i st" by (rule stored_wfD)
  then have live: "\<not> isTerminalRunStatus (st_Status st)" "st_Status st \<noteq> RunStatusSuspended"
    using assms(7) suspended_iff [of st]
    by (auto simp: gate_def stored_ok_def split: if_splits)
  have form: "?i \<noteq> []" "validateToolDefinitions CommandKindFollowUp (fc_Tools command) = None"
    using assms(6) by (auto simp: malformed_def validateToolDefinitions_iff split: if_splits)
  let ?inp = "\<lparr>ei_MaxSteps = fc_MaxSteps command, ei_Tools = CloneToolDefinitions (fc_Tools command),
    ei_Resolution = None, ei_ResolvedRequirement = None\<rparr>"
  obtain out v where ex: "react_Execute (runtime_react E) (Some y) ?st1 ?inp w = (out, v)"
    by fastforce
  have "\<exists>final e w'. conclude (runtime_deps E) (Some y) CommandKindFollowUp
      ''follow-up run state persisted'' ''follow-up command applied'' ?i ?st1 out (None, v) =
      (Inr (final, e), w') \<and> run_saved w ?i st final w'"
    using assms(4) st stored_executable(2) [OF st assms(5) live] live(1)
    by (intro conclude_progress [OF assms(1,2) _ _ ex refl])
      (auto simp: stored_ok_def)
  then show ?thesis
    using form live ex detached_load [OF assms(1,3,4)]
    by (auto simp: dispatchFollowUp_def Let_def conclude_outcome_def)
qed

lemma continue_progress:
  assumes "ctx_detached y" and "ext_model_ok E" and "stored_wf (rt_store w)"
    and "rt_store w (cc_RunID command) = Some st" and "0 < st_Version st"
    and "gate st (CmdContinue command) = None" and "tools_ok (cc_Tools command)"
  shows "\<exists>final e w'. continue_run (runtime_deps E) (Some y) command w =
    (Inr (\<lparr>rr_State = final\<rparr>, e), w') \<and> run_saved w (cc_RunID command) st final w'"
proof -
  let ?i = "cc_RunID command"
  from assms(3,4) have st: "stored_ok ?i st" by (rule stored_wfD)
  have live: "\<not> isTerminalRunStatus (st_Status st)"
    using assms(6) by (auto simp: gate_def split: if_splits)
  have resolved: "validateContinueResolution st command = None"
    using validateContinueResolution_gate [of st command] st live assms(6)
    by (simp add: stored_ok_def)
  obtain st1 q where rs: "resume_state st = (None, st1, q)" "executable st1" "st_ID st1 = ?i"
    "st_Version st1 = st_Version st" "st_Messages st1 = st_Messages st" "advances st st1"
    using resume_executable [OF st assms(5) live] by auto
  let ?inp = "\<lparr>ei_MaxSteps = cc_MaxSteps command, ei_Tools = CloneToolDefinitions (cc_Tools command),
    ei_Resolution = cc_Resolution command, ei_ResolvedRequirement = q\<rparr>"
  let ?c = "continue_context (Some y) (cc_Resolution command) q"
  obtain z where z: "?c = Some z"
    by (cases ?c) (auto simp: continue_context_def WithApprovedToolCallReplayOverride_def
        split: option.splits)
  obtain out v where ex: "react_Execute (runtime_react E) ?c st1 ?inp w = (out, v)"
    by fastforce
  have "\<exists>final e w'. conclude (runtime_deps E) (Some y) CommandKindContinue
      ''continued run state persisted'' ''continue command applied'' ?i st1 out (None, v) =
      (Inr (final, e), w') \<and> run_saved w ?i st final w'"
    using assms(4) stored_messages [OF st] rs live
    by (intro conclude_progress [OF assms(1,2) rs(2) _ ex z]) auto
  then show ?thesis
    using assms(7) live resolved rs ex detached_load [OF assms(1,3,4)]
    by (auto simp: continue_run_def Let_def validateToolDefinitions_iff [THEN iffD2])
qed

lemma driven_progress:
  assumes "ctx_detached y" and "ext_model_ok E" and "stored_wf (rt_store w)"
    and "rt_store w (command_run cmd) = Some st" and "0 < st_Version st" and "drives oc st cmd"
  shows "\<exists>final e oc' w'. Dispatch (runtime_deps E) (Some y) cmd (oc, w) =
      ((\<lparr>rr_State = final\<rparr>, e), (oc', w')) \<and>
    run_saved w (command_run cmd) st final w'"
proof (cases cmd)
  case (CmdFollowUp command)
  with follow_up_progress [OF assms(1-3), of command st] assms(4-6) show ?thesis
    by (auto simp: command_run_def drives_def Dispatch_def on_world_def)
next
  case (CmdContinue command)
  with assms(6) have "cc_RunID command \<noteq> []" by (auto simp: drives_def malformed_def split: if_splits)
  with CmdContinue continue_progress [OF assms(1-3), of command st] assms(4-6) show ?thesis
    by (auto simp: command_run_def drives_def Dispatch_def dispatchContinue_def Let_def
        cached_outcome_def)
qed (use assms(6) in \<open>simp_all add: drives_def\<close>)

section \<open>Refusals under any context\<close>

text \<open>
  Loading a stored run: the context is polled, and only a cancellation between its two polls
  keeps the run from being loaded.
\<close>

lemma runtime_load_cases:
  assumes "stored_wf (rt_store w)" and "rt_store w i = Some st"
  obtains (loaded) x' where "load_state (runtime_deps E) (Some y) i w = (Inr st, w\<lparr>rt_ext := x'\<rparr>)"
      "ctx_detached y \<longrightarrow> x' = rt_ext w"
  | (cancelled) e v x' where "load_state (runtime_deps E) (Some y) i w = (Inl e, w\<lparr>rt_ext := x'\<rparr>)"
      "\<not> ctx_detached y" "fst (ex_poll E v) = Some e"
proof (cases "ctx_detached y")
  case True
  with loaded [of "rt_ext w"] detached_load [OF True assms] show thesis by simp
next
  case False
  from assms have st: "i \<noteq> []" "CloneRunState st = st"
    by (auto simp: stored_wf_def stored_ok_def)
  obtain r1 x1 where p1: "ex_poll E (rt_ext w) = (r1, x1)" by fastforce
  obtain r2 x2 where p2: "ex_poll E x1 = (r2, x2)" by fastforce
  note defs = load_state_def sideEffectContext_def ctx_Err_def runtime_poll_def on_ext_def
    runtime_Load_def see_ctx_def store_Load_def ctx_WithoutCancel_def
  show thesis
  proof (cases r1)
    case None
    with False p1 p2 st assms(2) cancelled [of _ x2 x1] loaded [of x2] show thesis
      by (cases r2) (simp_all add: defs)
  next
    case (Some err)
    with False p1 st assms(2) loaded [of x1] show thesis by (simp add: defs)
  qed
qed

lemma Dispatch_not_loaded:
  assumes "load_state D (Some x) (command_run cmd) w = (Inl e, w1)" and "command_run cmd \<noteq> []"
    and "malformed (Some x) cmd = None" and "cached_outcome oc cmd = None" and "gate st cmd \<noteq> None"
    and "case cmd of CmdContinue command \<Rightarrow> tools_ok (cc_Tools command) | _ \<Rightarrow> True"
  shows "Dispatch D (Some x) cmd (oc, w) = ((zeroRunResult, Some e), (oc, w1))"
proof (cases cmd)
  case (CmdContinue command)
  have "validateToolDefinitions CommandKindContinue (cc_Tools command) = None"
    using assms(6) CmdContinue by (simp add: validateToolDefinitions_iff)
  with assms CmdContinue show ?thesis
    by (auto simp: command_run_def cached_outcome_def Dispatch_def dispatchContinue_def
        continue_run_def Let_def split: option.splits)
next
  case (CmdFollowUp command)
  then have "validateToolDefinitions CommandKindFollowUp (fc_Tools command) = None"
    using assms(3) by (auto simp: malformed_def validateToolDefinitions_iff split: if_splits)
  with assms CmdFollowUp show ?thesis
    by (simp add: command_run_def Dispatch_def on_world_def dispatchFollowUp_def Let_def)
qed (use assms in \<open>simp_all add: command_run_def Dispatch_def on_world_def dispatchCancel_def
  dispatchSteer_def gate_def Let_def\<close>)

lemma runtime_gated:
  assumes "stored_wf (rt_store w)" and "rt_store w (command_run cmd) = Some st"
    and "gate st cmd = Some t" and "malformed (Some y) cmd = None" and "cached_outcome oc cmd = None"
    and "case cmd of CmdContinue command \<Rightarrow> tools_ok (cc_Tools command) | _ \<Rightarrow> True"
  shows "\<exists>r e x'. Dispatch (runtime_deps E) (Some y) cmd (oc, w) =
      ((r, Some e), (oc, w\<lparr>rt_ext := x'\<rparr>)) \<and>
    (if ctx_detached y then x' = rt_ext w \<and> r = \<lparr>rr_State = st\<rparr> \<and> errors_Is e t
     else r = \<lparr>rr_State = st\<rparr> \<and> errors_Is e t \<or>
       r = zeroRunResult \<and> (\<exists>v. fst (ex_poll E v) = Some e))"
proof -
  from stored_wfD [OF assms(1,2)] have ok: "suspension_ok st" "command_run cmd \<noteq> []"
    by (auto simp: stored_ok_def)
  from assms(1,2) show ?thesis
  proof (cases rule: runtime_load_cases [where E = E and y = y])
    case (loaded x')
    from Dispatch_gated [OF assms(3) ok(1) loaded(1) ok(2) assms(4-6)] loaded(2) show ?thesis by auto
  next
    case (cancelled e v x')
    from Dispatch_not_loaded [OF cancelled(1) ok(2) assms(4,5) _ assms(6), of st] assms(3) cancelled(2,3)
    show ?thesis by auto
  qed
qed

section \<open>Properties\<close>

text \<open>A server whose model answers at once, with an echoing tool and no logger.\<close>

definition echo_ext :: "nat external" where
  "echo_ext =
     \<lparr>ex_Generate = (\<lambda>c q x. (Inr (zeroMessage\<lparr>m_Content := ''done''\<rparr>), x)),
      ex_Execute = (\<lambda>c call x. (Inr (zeroToolResult\<lparr>tr_Content := tc_Name call\<rparr>), x + 1)),
      ex_log = None, ex_poll = (\<lambda>x. (None, x)), ex_is_print = (\<lambda>r. False)\<rparr>"

text \<open>A server that holds one pending run.\<close>

definition one_run :: "nat runtime" where
  "one_run = (newRuntime 0)\<lparr>rt_store := [''run-000001'' \<mapsto> fresh_run]\<rparr>"

lemma one_run_store [simp]: "rt_store one_run = [''run-000001'' \<mapsto> fresh_run]"
  by (simp add: one_run_def)

lemma fresh_run_stored [simp]: "stored_ok ''run-000001'' fresh_run"
  by (simp add: stored_ok_def fresh_run_def zeroRunState_def suspension_ok_def in_int64_def
      CloneRunState_def CloneMessages_def)

lemma one_run_wf [simp]: "stored_wf [''run-000001'' \<mapsto> fresh_run]"
  by (simp add: stored_wf_def)

lemma echo_ext_ok [simp]: "ext_model_ok echo_ext"
  by (simp add: ext_model_ok_def echo_ext_def assistant_reply_def zeroMessage_def)

text \<open>What the server does with a cancel command, under any context.\<close>

lemma echo_poll: "runtime_poll echo_ext w = (None, w)"
  by (simp add: runtime_poll_def echo_ext_def on_ext_def)

lemma echo_see: "see_ctx (runtime_poll echo_ext) (Some y) w = (Some None, w)"
  by (simp add: see_ctx_def ctx_Err_def echo_poll)

lemma echo_side: "sideEffectContext (runtime_poll echo_ext) (Some y) w = (Some y, w)"
  by (simp add: sideEffectContext_def ctx_Err_def echo_poll)

lemma echo_publish: "event_ok e \<Longrightarrow> \<exists>w'. runtime_Publish echo_ext (Some y) e w = (None, w')"
proof -
  assume "event_ok e"
  then have v: "ValidateEvent e = None" by simp
  have "ex_log echo_ext = None" by (simp add: echo_ext_def)
  with v show ?thesis
    by (simp add: runtime_Publish_def fanout_Publish_def newFanoutSink_def
        newRuntimeEventLogSink_def events_Publish_def echo_see sink_Publish_def stream_Publish_def
        broker_Publish_def Let_def del: ValidateEvent_None_iff)
qed

lemma echo_emit: "event_ok e \<Longrightarrow> \<exists>w'. emit (runtime_deps echo_ext) (Some y) e (None, w) = (None, w')"
  using echo_publish [of e y w]
  by (auto simp: emit_def echo_side publishEvent_def Let_def simp del: ValidateEvent_None_iff
      dest: ValidateEvent_None_iff [THEN iffD2])

lemma echo_cancel:
  "\<exists>s r. Dispatch (runtime_deps echo_ext) (Some y)
    (CmdCancel \<lparr>xc_RunID = ''run-000001''\<rparr>) (Map.empty, one_run) = ((r, None), s) \<and>
   st_ID (rr_State r) = ''run-000001''"
proof -
  let ?D = "runtime_deps echo_ext" and ?i = "''run-000001''"
  let ?st = "fresh_run\<lparr>st_Status := RunStatusCancelled\<rparr>"
  have f: "st_Status fresh_run = RunStatusPending" "st_ID fresh_run = ?i" "st_Version fresh_run = 1"
      "st_PendingRequirement fresh_run = None" "st_Step fresh_run = 0"
    by (simp_all add: fresh_run_def zeroRunState_def)
  have ld: "load_state ?D (Some y) ?i one_run = (Inr fresh_run, one_run)"
    using fresh_run_stored by (simp add: load_state_def echo_side runtime_Load_def echo_see store_Load_def stored_ok_def)
  have tr: "TransitionRunStatus fresh_run RunStatusCancelled = (None, ?st)"
    unfolding TransitionRunStatus_eq_None
    by (auto simp: f suspension_ok_def intro: status_step.cancel_pending)
  have v: "ValidateRunState ?st = None" by (simp add: f run_state_ok_def suspension_ok_def)
  obtain w2 where sv: "save_state ?D (Some y) ?st one_run = (None, w2)"
    using v by (simp add: f save_state_def echo_side runtime_Save_def echo_see store_Save_def del: ValidateRunState_None_iff)
  obtain w3 where e3: "emit ?D (Some y)
      (run_event ?i 0 EventTypeRunCancelled ''run cancelled'') (None, w2) = (None, w3)"
    using echo_emit by (fastforce simp: run_event_def event_ok_def payload_ok_def zeroEvent_def
        lifecycleEventTypes_def event_type_defs)
  obtain w4 where e4: "emit ?D (Some y)
      (command_event ?i 0 CommandKindCancel ''cancel command applied'') (None, w3) = (None, w4)"
    using echo_emit by (fastforce simp: command_event_def event_ok_def payload_ok_def zeroEvent_def
        lifecycleEventTypes_def event_type_defs CommandKindCancel_def)
  show ?thesis using ld tr sv e3 e4 
    by (simp add: Dispatch_def on_world_def dispatchCancel_def f Let_def bump_version_def)
qed

text \<open>
  C1: whatever commands a server is given, its stored runs take only the steps of
  \<open>stored_step\<close>: a run is created pending, valid and at step 0; a run that is not in a
  terminal status is replaced by a valid one with the next version that keeps its ID, does
  not go back in steps and extends its transcript. Every stored run is well formed.
\<close>

theorem served_runs_evolve:
  "stored_step\<^sup>*\<^sup>* store_New (rt_store (snd (served E x cs))) \<and>
   stored_step\<^sup>*\<^sup>* (rt_store (snd (served E x cs))) (rt_store (snd (served E x (cs @ ds)))) \<and>
   stored_wf (rt_store (snd (served E x cs)))"
  by (intro conjI served_steps served_later served_wf)

text \<open>
  C2: a run that is completed, failed or cancelled is never written again: no sequence of
  commands, whatever the model, the tools and the caller's cancellation do, changes anything
  of it.
\<close>

theorem terminal_run_immutable:
  assumes "stored_wf (rt_store w)" and "rt_store w i = Some st"
    and "isTerminalRunStatus (st_Status st)"
  shows "rt_store (snd (dispatch_all (runtime_deps E) cmds (oc, w))) i = Some st"
  using stored_steps_terminal [OF wired.dispatch_all_steps [OF assms(1)] assms(2,3)] .

definition done_run :: RunState where
  "done_run = fresh_run\<lparr>st_Status := RunStatusCompleted\<rparr>"

theorem terminal_run_immutable_witness:
  "rt_store (snd (dispatch_all (runtime_deps echo_ext)
     [(Some ctx_Background, CmdCancel \<lparr>xc_RunID = ''run-000001''\<rparr>),
      (Some ctx_Background, CmdSteer \<lparr>stc_RunID = ''run-000001'', stc_Instruction = ''more''\<rparr>)]
     (Map.empty, one_run\<lparr>rt_store := [''run-000001'' \<mapsto> done_run]\<rparr>))) ''run-000001'' = Some done_run"
proof (rule terminal_run_immutable)
  show "stored_wf (rt_store (one_run\<lparr>rt_store := [''run-000001'' \<mapsto> done_run]\<rparr>))"
    by (simp add: stored_wf_def stored_ok_def done_run_def fresh_run_def zeroRunState_def
        suspension_ok_def in_int64_def CloneRunState_def CloneMessages_def)
qed (simp_all add: done_run_def)

text \<open>
  C14: no run is lost and no history is rewritten: a run that is stored stays stored under
  every sequence of commands, with its ID, at least its step, and its transcript as a prefix.
\<close>

theorem no_history_lost:
  assumes "stored_wf (rt_store w)" and "rt_store w i = Some st"
  shows "\<exists>st'. rt_store (snd (dispatch_all (runtime_deps E) cmds (oc, w))) i = Some st' \<and>
    advances st st'"
  by (rule stored_steps_advance [OF wired.dispatch_all_steps [OF assms(1)] assms(2)])

theorem no_history_lost_witness:
  "\<exists>st'. rt_store (snd (dispatch_all (runtime_deps echo_ext)
     [(Some ctx_Background, CmdCancel \<lparr>xc_RunID = ''run-000001''\<rparr>)] (Map.empty, one_run))) ''run-000001'' =
     Some st' \<and> advances fresh_run st'"
  by (rule no_history_lost) simp_all

text \<open>
  C13: what a command reports is what is stored: the run returned by a command that is not
  answered from the cache, with or without an error, is the one the store then holds (messages
  deep-copied); only an error can come with the zero run instead.
\<close>

theorem reported_run_is_stored:
  assumes "Dispatch (runtime_deps E) c cmd (oc, w) = ((r, e), (oc', w'))"
    and "stored_wf (rt_store w)" and "cached_outcome oc cmd = None"
  shows "r = zeroRunResult \<and> e \<noteq> None \<or>
    rt_store w' (st_ID (rr_State r)) = Some (CloneRunState (rr_State r))"
  by (rule wired.Dispatch_result_stored [OF assms])

theorem reported_run_is_stored_witness:
  "\<exists>r e s. Dispatch (runtime_deps echo_ext) (Some ctx_Background) (CmdCancel \<lparr>xc_RunID = ''run-000001''\<rparr>)
       (Map.empty, one_run) = ((r, e), s) \<and> r \<noteq> zeroRunResult \<and>
     rt_store (snd s) (st_ID (rr_State r)) = Some (CloneRunState (rr_State r))"
proof -
  let ?cmd = "CmdCancel \<lparr>xc_RunID = ''run-000001''\<rparr>"
  let ?d = "Dispatch (runtime_deps echo_ext) (Some ctx_Background) ?cmd (Map.empty, one_run)"
  obtain r e oc' w' where d: "?d = ((r, e), (oc', w'))" "st_ID (rr_State r) = ''run-000001''"
    using echo_cancel by (metis prod.collapse)
  then have "r \<noteq> zeroRunResult" by (auto simp: zeroRunResult_def zeroRunState_def)
  with reported_run_is_stored [OF d(1)] d(1) show ?thesis by (simp add: cached_outcome_def)
qed


definition continue_fresh :: Command where
  "continue_fresh = CmdContinue \<lparr>cc_RunID = ''run-000001'', cc_CommandID = ''c-1'',
     cc_MaxSteps = 4, cc_Tools = [], cc_Resolution = None\<rparr>"

lemma continue_fresh_drives: "drives Map.empty fresh_run continue_fresh"
  by (simp add: drives_def continue_fresh_def malformed_def gate_def cached_outcome_def tools_ok_def
      outcomes_load_def bind_eq_None_conv)

lemma continue_fresh_run [simp]: "command_run continue_fresh = ''run-000001''"
  by (simp add: command_run_def continue_fresh_def)



text \<open>
  C15: a continue command with a command ID is applied once: when it has changed the store,
  every later continue command for the same run with the same ID (up to surrounding white
  space), after whatever other commands, is answered with the recorded result and error and
  touches neither the run nor the engine nor the sinks.
\<close>

theorem continue_applied_once:
  assumes "Dispatch (runtime_deps E) (Some x) (CmdContinue cmd) (oc, w) = (r, (oc', w'))"
    and "stored_wf (rt_store w)" and "rt_store w' \<noteq> rt_store w"
    and "continueIdempotencyKey (cc_RunID cmd) (cc_CommandID cmd) = Some k"
    and "continueIdempotencyKey (cc_RunID cmd') (cc_CommandID cmd') = Some k"
    and "dispatch_all (runtime_deps E) cmds (oc', w') = s"
  shows "Dispatch (runtime_deps E) (Some y) (CmdContinue cmd') s =
    ((cloneRunResult (fst r), snd r), s)"
  by (rule wired.continue_cached [OF assms])

lemma continue_fresh_changes:
  "\<exists>r oc' w'. Dispatch (runtime_deps echo_ext) (Some ctx_Background) continue_fresh
      (Map.empty, one_run) = (r, (oc', w')) \<and> rt_store w' \<noteq> rt_store one_run"
proof -
  obtain final e oc' w' where d: "Dispatch (runtime_deps echo_ext) (Some ctx_Background) continue_fresh
      (Map.empty, one_run) = ((\<lparr>rr_State = final\<rparr>, e), (oc', w'))"
    and saved: "run_saved one_run ''run-000001'' fresh_run final w'"
    using driven_progress [of ctx_Background echo_ext one_run continue_fresh fresh_run Map.empty]
      continue_fresh_drives by (auto simp: ctx_Background_def)
  have v: "st_Version (CloneRunState final) = 2"
    using saved by (simp add: run_saved_def wrap64_def)
  have "CloneRunState final \<noteq> fresh_run"
  proof
    assume "CloneRunState final = fresh_run"
    with v have "st_Version fresh_run = 2" by (simp only:)
    then show False by simp
  qed
  then have "rt_store w' ''run-000001'' \<noteq> Some fresh_run"
    using saved by (simp add: run_saved_def)
  then have "rt_store w' \<noteq> rt_store one_run" by auto
  with d show ?thesis by blast
qed

theorem continue_applied_once_witness:
  "\<exists>r s. Dispatch (runtime_deps echo_ext) (Some ctx_Background) continue_fresh (Map.empty, one_run) = (r, s) \<and>
     Dispatch (runtime_deps echo_ext) (Some ctx_Background)
       (CmdContinue \<lparr>cc_RunID = ''run-000001'', cc_CommandID = ''c-1'', cc_MaxSteps = 9,
          cc_Tools = [], cc_Resolution = None\<rparr>) s = ((cloneRunResult (fst r), snd r), s)"
proof -
  obtain r oc' w' where d: "Dispatch (runtime_deps echo_ext) (Some ctx_Background) continue_fresh
      (Map.empty, one_run) = (r, (oc', w'))" and ne: "rt_store w' \<noteq> rt_store one_run"
    using continue_fresh_changes by blast
  have trim: "TrimSpace ''c-1'' = ''c-1''"
    by (rule TrimSpace_graphic) (simp_all add: graphic_def)
  show ?thesis
    using continue_applied_once [OF d [unfolded continue_fresh_def] _ ne, where cmds = "[]"] d
    by (simp add: continueIdempotencyKey_def trim)
qed

text \<open>
  C3: no tool runs on a replay override without an approval. When a command is dispatched,
  the tool executor is called in a context that carries an override only if the command
  continues a run that is suspended on a tool's approval requirement and brings the approval
  for this requirement; then the override names the requirement's call and fingerprint, and
  the executed call is the one of the transcript. In every other call of a tool the context
  carries none, not even one the caller put there. (Any fact about the outside that such
  calls preserve is preserved.)
\<close>

theorem approval_gates_replay:
  assumes "ext_keeps E (\<lambda>c call. ApprovedToolCallReplayOverrideFromContext c = None \<or>
      approved_call (rt_store w) cmd c call) Q"
    and "stored_wf (rt_store w)" and "Q (rt_ext w)"
  shows "Q (rt_ext (snd (snd (Dispatch (runtime_deps E) c cmd (oc, w)))))"
  by (rule keep_Dispatch [OF runtime_deps_keep [OF assms(1,2)] assms(3)])

text \<open>A tool executor that counts the calls it gets under an override.\<close>

definition override_counter :: "nat external" where
  "override_counter = echo_ext\<lparr>ex_Execute := (\<lambda>c call x. (Inr zeroToolResult,
     if ApprovedToolCallReplayOverrideFromContext c = None then x else x + 1))\<rparr>"

theorem approval_gates_replay_witness:
  "rt_ext (snd (snd (Dispatch (runtime_deps override_counter)
     (WithApprovedToolCallReplayOverride None \<lparr>ov_ToolCallID = ''c1'', ov_Fingerprint = ''f''\<rparr>)
     continue_fresh (Map.empty, one_run)))) = 0"
  by (rule approval_gates_replay [where Q = "\<lambda>x. x = 0"])
    (auto simp: ext_keeps_def override_counter_def echo_ext_def approved_call_def continue_fresh_def
      one_run_def newRuntime_def)


text \<open>
  C16: a command that the state of its run does not admit, and that is not the repetition of a
  continue command answered from the cache (C15), is refused with the sentinel for it and the
  store, the sinks and the cache stay as they are: continue, steer and follow-up on a terminal
  run (\<open>ErrRunNotContinuable\<close>), cancel on a terminal run (\<open>ErrRunNotCancellable\<close>), steer,
  follow-up and a bare continue on a suspended run (\<open>ErrResolutionRequired\<close>), a resolution that
  does not resolve the pending requirement (\<open>ErrResolutionInvalid\<close>) or that nothing asked for
  (\<open>ErrResolutionUnexpected\<close>). This holds for every context. A context that can be cancelled is
  polled, which is all that happens outside; if it is cancelled just before the run is loaded,
  the command ends with the context's error and no run in place of the refusal.
\<close>

theorem gated_commands_refused:
  assumes "stored_wf (rt_store w)" and "rt_store w (command_run cmd) = Some st"
    and "gate st cmd = Some t" and "malformed (Some y) cmd = None" and "cached_outcome oc cmd = None"
    and "case cmd of CmdContinue command \<Rightarrow> tools_ok (cc_Tools command) | _ \<Rightarrow> True"
  shows "\<exists>r e x'. Dispatch (runtime_deps E) (Some y) cmd (oc, w) =
      ((r, Some e), (oc, w\<lparr>rt_ext := x'\<rparr>)) \<and>
    (if ctx_detached y then x' = rt_ext w \<and> r = \<lparr>rr_State = st\<rparr> \<and> errors_Is e t
     else r = \<lparr>rr_State = st\<rparr> \<and> errors_Is e t \<or>
       r = zeroRunResult \<and> (\<exists>v. fst (ex_poll E v) = Some e))"
  by (rule runtime_gated [OF assms])

theorem gated_commands_refused_witness:
  "\<exists>r e x'. Dispatch (runtime_deps echo_ext) (Some ctx_Background)
      (CmdContinue \<lparr>cc_RunID = ''run-000001'', cc_CommandID = [], cc_MaxSteps = 1, cc_Tools = [],
         cc_Resolution = Some \<lparr>rs_RequirementID = ''q'', rs_Kind = RequirementKindApproval,
           rs_Outcome = ResolutionOutcomeApproved, rs_Value = []\<rparr>\<rparr>) (Map.empty, one_run) =
      ((r, Some e), (Map.empty, one_run\<lparr>rt_ext := x'\<rparr>)) \<and>
    (if ctx_detached ctx_Background
     then x' = rt_ext one_run \<and> r = \<lparr>rr_State = fresh_run\<rparr> \<and> errors_Is e ErrResolutionUnexpected
     else r = \<lparr>rr_State = fresh_run\<rparr> \<and> errors_Is e ErrResolutionUnexpected \<or>
       r = zeroRunResult \<and> (\<exists>v. fst (ex_poll echo_ext v) = Some e))"
  by (rule gated_commands_refused)
    (simp_all add: command_run_def gate_def malformed_def cached_outcome_def
      continueIdempotencyKey_def tools_ok_def)

end
