(* ===== verification/Go_Paths.thy ===== *)
theory Go_Paths
  imports Go_Strings
begin

text \<open>
  The lexical part of Go's \<open>path/filepath\<close> on Unix that the tool set uses: \<open>IsAbs\<close>,
  \<open>Clean\<close>, \<open>Join\<close>, \<open>Dir\<close> and \<open>Rel\<close>. A path is a string; \<open>Clean\<close> works on the elements
  between its slashes. The lemmas relate the strings to lists of elements.
\<close>

section \<open>Elements of a path\<close>

primrec split_char :: "char \<Rightarrow> string \<Rightarrow> string list" where
  "split_char d [] = [[]]"
| "split_char d (c # s) =
     (if c = d then [] # split_char d s
      else (c # hd (split_char d s)) # tl (split_char d s))"

primrec join_char :: "char \<Rightarrow> string list \<Rightarrow> string" where
  "join_char d [] = []"
| "join_char d (w # ws) = (if ws = [] then w else w @ d # join_char d ws)"

abbreviation slash :: char where "slash \<equiv> CHR ''/''"

definition IsAbs :: "string \<Rightarrow> bool" where
  "IsAbs p = HasPrefix p ''/''"

text \<open>
  One element of \<open>Clean\<close>, on the stack of the elements kept so far: empty elements and
  \<open>.\<close> are dropped, \<open>..\<close> removes the element before it, and is dropped at the root.
\<close>

definition clean_step :: "bool \<Rightarrow> string list \<Rightarrow> string \<Rightarrow> string list" where
  "clean_step rooted st e =
     (if e = [] \<or> e = ''.'' then st
      else if e = ''..'' then
        (case st of
           [] \<Rightarrow> if rooted then [] else [''..'']
         | d # ds \<Rightarrow> if d = ''..'' then ''..'' # st else ds)
      else e # st)"

definition clean_elems :: "bool \<Rightarrow> string list \<Rightarrow> string list" where
  "clean_elems rooted es = rev (foldl (clean_step rooted) [] es)"

definition Clean :: "string \<Rightarrow> string" where
  "Clean p =
     (if p = [] then ''.''
      else let es = clean_elems (IsAbs p) (split_char slash p) in
        if IsAbs p then slash # join_char slash es
        else if es = [] then ''.'' else join_char slash es)"

definition path_Join :: "string list \<Rightarrow> string" where
  "path_Join ps =
     (let ne = filter (\<lambda>p. p \<noteq> []) ps in if ne = [] then [] else Clean (join_char slash ne))"

definition Dir :: "string \<Rightarrow> string" where
  "Dir p = Clean (rev (dropWhile (\<lambda>c. c \<noteq> slash) (rev p)))"

text \<open>The elements of a cleaned path.\<close>

definition path_elems :: "string \<Rightarrow> string list" where
  "path_elems p =
     (let s = (if IsAbs p then tl p else p) in if s = [] then [] else split_char slash s)"

fun strip_common :: "'a list \<Rightarrow> 'a list \<Rightarrow> 'a list \<times> 'a list" where
  "strip_common (b # bs) (t # ts) = (if b = t then strip_common bs ts else (b # bs, t # ts))"
| "strip_common bs ts = (bs, ts)"

text \<open>\<open>Rel\<close>, \<open>None\<close> for its error.\<close>

definition Rel :: "string \<Rightarrow> string \<Rightarrow> string option" where
  "Rel basepath targpath =
     (let base = Clean basepath; targ = Clean targpath in
      if targ = base then Some ''.''
      else let base' = (if base = ''.'' then [] else base) in
        if IsAbs base' \<noteq> IsAbs targ then None
        else let (bs, ts) = strip_common (path_elems base') (path_elems targ) in
          if bs \<noteq> [] \<and> hd bs = ''..'' then None
          else Some (join_char slash (replicate (length bs) ''..'' @ ts)))"

section \<open>Splitting and joining\<close>

lemma split_char_nonempty [simp]: "split_char d s \<noteq> []"
  by (cases s) simp_all

lemma split_char_no_sep: "w \<in> set (split_char d s) \<Longrightarrow> d \<notin> set w"
proof (induction s arbitrary: w)
  case (Cons c s)
  have "hd (split_char d s) \<in> set (split_char d s)" by simp
  with Cons show ?case by (auto split: if_splits dest: list.set_sel(2) [rotated])
qed simp

lemma split_char_app:
  "d \<notin> set w \<Longrightarrow> split_char d (w @ d # s) = w # split_char d s"
  by (induction w) auto

lemma split_char_word: "d \<notin> set w \<Longrightarrow> split_char d w = [w]"
  by (induction w) auto

lemma split_join:
  "ws \<noteq> [] \<Longrightarrow> \<forall>w \<in> set ws. d \<notin> set w \<Longrightarrow> split_char d (join_char d ws) = ws"
  by (induction ws) (auto simp: split_char_app split_char_word)

lemma join_split: "join_char d (split_char d s) = s"
proof (induction s)
  case (Cons c s)
  obtain w ws where "split_char d s = w # ws" by (cases "split_char d s") auto
  with Cons show ?case by (cases ws) (auto split: if_splits)
qed simp

lemma join_char_eq_Nil: "join_char d ws = [] \<longleftrightarrow> ws = [] \<or> ws = [[]]"
  by (cases ws) auto

lemma join_char_append:
  "us \<noteq> [] \<Longrightarrow> vs \<noteq> [] \<Longrightarrow> join_char d (us @ vs) = join_char d us @ d # join_char d vs"
  by (induction us) auto

section \<open>Clean paths\<close>

text \<open>An element that \<open>Clean\<close> keeps in an absolute path.\<close>

definition plain :: "string \<Rightarrow> bool" where
  "plain e \<longleftrightarrow> e \<noteq> [] \<and> e \<noteq> ''.'' \<and> e \<noteq> ''..'' \<and> slash \<notin> set e"

definition abs_path :: "string list \<Rightarrow> string" where
  "abs_path es = slash # join_char slash es"

lemma IsAbs_Cons [simp]: "IsAbs (c # s) \<longleftrightarrow> c = slash" "\<not> IsAbs []"
  by (auto simp: IsAbs_def HasPrefix_def)

lemma IsAbs_abs_path [simp]: "IsAbs (abs_path es)"
  by (simp add: abs_path_def)

lemma clean_stack_plain:
  "\<forall>e \<in> set st. plain e \<Longrightarrow> \<forall>e \<in> set es. slash \<notin> set e \<Longrightarrow>
   \<forall>e \<in> set (foldl (clean_step True) st es). plain e"
proof (induction es arbitrary: st)
  case (Cons e es)
  have "\<forall>x \<in> set (clean_step True st e). plain x"
    using Cons.prems unfolding clean_step_def
    by (cases st) (simp_all add: plain_def split: if_split)
  with Cons show ?case by simp
qed simp

lemma clean_elems_plain:
  "\<forall>e \<in> set es. slash \<notin> set e \<Longrightarrow> \<forall>e \<in> set (clean_elems True es). plain e"
  using clean_stack_plain [of "[]" es] by (simp add: clean_elems_def)

lemma clean_plain_stack:
  "\<forall>e \<in> set es. plain e \<Longrightarrow> foldl (clean_step True) st es = rev es @ st"
  by (induction es arbitrary: st) (auto simp: clean_step_def plain_def)

lemma clean_elems_id: "\<forall>e \<in> set es. plain e \<Longrightarrow> clean_elems True es = es"
  by (simp add: clean_elems_def clean_plain_stack)

lemma clean_elems_Nil_Cons [simp]: "clean_elems r ([] # es) = clean_elems r es"
  by (simp add: clean_elems_def clean_step_def)

lemma split_abs_path:
  "\<forall>e \<in> set es. plain e \<Longrightarrow>
   split_char slash (abs_path es) = [] # (if es = [] then [[]] else es)"
  by (auto simp: abs_path_def plain_def intro!: split_join)

text \<open>\<open>Clean\<close> makes an absolute path a clean one, and leaves a clean one alone.\<close>

lemma Clean_abs:
  "IsAbs p \<Longrightarrow> \<exists>es. (\<forall>e \<in> set es. plain e) \<and> Clean p = abs_path es"
  by (rule exI [of _ "clean_elems True (split_char slash p)"])
    (auto simp: Clean_def abs_path_def Let_def IsAbs_def
      dest: split_char_no_sep clean_elems_plain [THEN bspec, rotated])

lemma Clean_abs_path: "\<forall>e \<in> set es. plain e \<Longrightarrow> Clean (abs_path es) = abs_path es"
  using split_abs_path [of es] clean_elems_id [of es]
  by (cases es) (auto simp: Clean_def abs_path_def Let_def clean_elems_def clean_step_def)

lemma Clean_idem: "IsAbs p \<Longrightarrow> Clean (Clean p) = Clean p"
  using Clean_abs [of p] Clean_abs_path by auto

lemma path_elems_abs: "path_elems (slash # s) = (if s = [] then [] else split_char slash s)"
  by (simp add: path_elems_def)

lemma plain_no_slash: "\<forall>e \<in> set es. plain e \<Longrightarrow> \<forall>e \<in> set es. slash \<notin> set e"
  by (simp add: plain_def)

lemma join_plain_nonempty:
  assumes "es \<noteq> []" and "\<forall>e \<in> set es. plain e"
  shows "join_char slash es \<noteq> []"
proof (cases es)
  case (Cons e fs)
  with assms(2) have "e \<noteq> []" by (simp add: plain_def)
  with Cons show ?thesis by simp
qed (use assms(1) in simp)

lemma path_elems_abs_path:
  assumes "\<forall>e \<in> set es. plain e"
  shows "path_elems (abs_path es) = es"
proof (cases es)
  case Nil
  then show ?thesis by (simp add: path_elems_abs abs_path_def)
next
  case (Cons e fs)
  then have "es \<noteq> []" by simp
  from \<open>es \<noteq> []\<close> assms have "join_char slash es \<noteq> []" by (rule join_plain_nonempty)
  then show ?thesis
    unfolding abs_path_def path_elems_abs
    using split_join [OF \<open>es \<noteq> []\<close> plain_no_slash [OF assms]] by (simp only: if_False)
qed

lemma abs_path_inject:
  "\<forall>e \<in> set es. plain e \<Longrightarrow> \<forall>e \<in> set fs. plain e \<Longrightarrow> abs_path es = abs_path fs \<longleftrightarrow> es = fs"
  by (metis path_elems_abs_path)

section \<open>Relative paths\<close>

lemma strip_common_prefix: "strip_common bs (bs @ ts) = ([], ts)"
  by (induction bs) (cases ts; simp)+

lemma strip_common_Nil: "strip_common bs ts = ([], us) \<Longrightarrow> ts = bs @ us"
  by (induction bs ts rule: strip_common.induct) (auto split: if_splits)

lemma strip_common_subset:
  "strip_common bs ts = (bs', ts') \<Longrightarrow> \<exists>us. bs = us @ bs' \<and> ts = us @ ts'"
proof (induction bs ts rule: strip_common.induct)
  case (1 b bs t ts)
  then show ?case by (cases "b = t") (auto intro: exI [of _ "t # _"])
qed auto

text \<open>Between clean absolute paths, \<open>Rel\<close> goes up from what the target does not share.\<close>

lemma Rel_abs_path:
  assumes "\<forall>e \<in> set rs. plain e" and "\<forall>e \<in> set es. plain e"
  shows "Rel (abs_path rs) (abs_path es) =
    (if es = rs then Some ''.''
     else case strip_common rs es of
       (bs, ts) \<Rightarrow> Some (join_char slash (replicate (length bs) ''..'' @ ts)))"
proof -
  obtain bs ts where st: "strip_common rs es = (bs, ts)" by fastforce
  have "set bs \<subseteq> set rs" using strip_common_subset [OF st] by auto
  then have "bs \<noteq> [] \<Longrightarrow> hd bs \<noteq> ''..''"
    using assms(1) unfolding plain_def by (meson hd_in_set subsetD)
  moreover have "abs_path rs \<noteq> ''.''" by (simp add: abs_path_def)
  ultimately show ?thesis
    using assms st abs_path_inject [OF assms]
    by (auto simp: Rel_def Let_def Clean_abs_path path_elems_abs_path)
qed

lemma Rel_below:
  assumes "\<forall>e \<in> set (rs @ ts). plain e" and "ts \<noteq> []"
  shows "Rel (abs_path rs) (abs_path (rs @ ts)) = Some (join_char slash ts)"
  using assms Rel_abs_path [of rs "rs @ ts"] by (auto simp: strip_common_prefix)

section \<open>Going up\<close>

lemma dropWhile_no_slash: "slash \<notin> set w \<Longrightarrow> dropWhile (\<lambda>c. c \<noteq> slash) (w @ s) = dropWhile (\<lambda>c. c \<noteq> slash) s"
  by (induction w) auto

lemma Dir_abs_path:
  assumes "\<forall>e \<in> set (es @ [e]). plain e"
  shows "Dir (abs_path (es @ [e])) = abs_path es"
proof -
  have e: "slash \<notin> set e" using assms by (simp add: plain_def)
  have "rev (dropWhile (\<lambda>c. c \<noteq> slash) (rev (abs_path (es @ [e])))) =
      (if es = [] then [slash] else abs_path es @ [slash])"
    using e by (simp add: abs_path_def join_char_append dropWhile_no_slash)
  moreover have "Clean (abs_path es @ [slash]) = abs_path es" if "es \<noteq> []"
  proof -
    have "abs_path es @ [slash] = abs_path (es @ [[]])"
      using that by (simp add: abs_path_def join_char_append)
    moreover have "split_char slash (abs_path (es @ [[]])) = [] # es @ [[]]"
      using assms split_join [of "es @ [[]]" slash] by (simp add: abs_path_def plain_def ball_Un)
    ultimately show ?thesis
      using assms clean_elems_id [of es]
      by (simp add: Clean_def abs_path_def clean_elems_def clean_step_def)
  qed
  moreover have "Clean [slash] = abs_path []"
    by (simp add: Clean_def abs_path_def clean_elems_def clean_step_def)
  ultimately show ?thesis by (simp add: Dir_def)
qed

lemma Dir_root: "Dir (abs_path []) = abs_path []"
  by (simp add: Dir_def abs_path_def Clean_def clean_elems_def clean_step_def)

text \<open>
  Going up makes any path shorter, up to a fixed point: the measure of the loops that follow
  \<open>Dir\<close>. \<open>weight\<close> counts every element with the slash after it.
\<close>

definition dir_measure :: "string \<Rightarrow> nat" where
  "dir_measure p = (if p = ''.'' then 0 else length p + 1)"

definition weight :: "string list \<Rightarrow> nat" where
  "weight es = sum_list (map (\<lambda>e. length e + 1) es)"

lemma weight_simps [simp]:
  "weight [] = 0" "weight (e # es) = length e + 1 + weight es"
  "weight (es @ fs) = weight es + weight fs" "weight (rev es) = weight es"
  by (simp_all add: weight_def rev_map [symmetric])

lemma length_join_char: "es \<noteq> [] \<Longrightarrow> length (join_char d es) + 1 = weight es"
  by (induction es) auto

lemma weight_split: "weight (split_char d s) = length s + 1"
  using length_join_char [of "split_char d s" d] by (simp add: join_split)

lemma weight_clean_step: "weight (clean_step r st e) \<le> weight st + (length e + 1)"
  by (cases st) (simp_all add: clean_step_def)

lemma weight_clean_stack: "weight (foldl (clean_step r) st es) \<le> weight st + weight es"
proof (induction es arbitrary: st)
  case (Cons e es)
  from Cons [of "clean_step r st e"] weight_clean_step [of r st e] show ?case by simp
qed simp

lemma weight_clean_elems: "weight (clean_elems r es) \<le> weight es"
  using weight_clean_stack [of r "[]" es] by (simp add: clean_elems_def)

lemma clean_elems_snoc_Nil: "clean_elems r (es @ [[]]) = clean_elems r es"
  by (simp add: clean_elems_def clean_step_def)

lemma split_char_snoc: "split_char d (s @ [d]) = split_char d s @ [[]]"
  by (induction s) auto

text \<open>A trailing slash is dropped, except at the root.\<close>

lemma Clean_slash_shorter:
  assumes "q \<noteq> []" and "Clean (q @ [slash]) \<noteq> ''.''"
  shows "length (Clean (q @ [slash])) \<le> length q"
proof -
  let ?es = "clean_elems (IsAbs q) (split_char slash q)"
  have abs: "IsAbs (q @ [slash]) = IsAbs q" using assms(1) by (cases q) simp_all
  have C: "Clean (q @ [slash]) = (if IsAbs q then slash # join_char slash ?es
      else if ?es = [] then ''.'' else join_char slash ?es)"
    by (simp add: Clean_def abs split_char_snoc clean_elems_snoc_Nil Let_def)
  have w: "weight ?es \<le> length q + 1"
    using weight_clean_elems [of "IsAbs q" "split_char slash q"] by (simp add: weight_split)
  show ?thesis
  proof (cases "IsAbs q")
    case False
    with C assms(2) length_join_char [of ?es slash] w show ?thesis by (auto split: if_splits)
  next
    case True
    then obtain t where q: "q = slash # t" using assms(1) by (cases q) auto
    have "weight ?es \<le> length t + 1"
      using weight_clean_elems [of True "split_char slash t"] True
      by (simp add: q weight_split)
    moreover have "length (join_char slash ?es) + 1 = weight ?es" if "?es \<noteq> []"
      using length_join_char [OF that] .
    ultimately show ?thesis using C True q by (cases "?es = []") auto
  qed
qed

lemma Dir_shorter:
  assumes "Dir p \<noteq> p"
  shows "dir_measure (Dir p) < dir_measure p"
proof -
  let ?q = "rev (dropWhile (\<lambda>c. c \<noteq> slash) (rev p))"
  have D: "Dir p = Clean ?q" by (simp add: Dir_def)
  have le: "length ?q \<le> length p"
    by (metis length_dropWhile_le length_rev)
  have dot: "?q = []" if "p = ''.''" using that by simp
  consider "?q = []" | "?q = [slash]" | q where "?q = q @ [slash]" "q \<noteq> []"
  proof (cases "dropWhile (\<lambda>c. c \<noteq> slash) (rev p)")
    case (Cons c cs)
    then have "c = slash" by (simp add: dropWhile_eq_Cons_conv)
    with Cons that show ?thesis by (cases "cs = []") simp_all
  qed (use that in simp)
  then show ?thesis
  proof cases
    case 1
    with D assms have "Dir p = ''.''" by (simp add: Clean_def)
    with assms show ?thesis by (simp add: dir_measure_def)
  next
    case 2
    have "Clean [slash] = [slash]" by (simp add: Clean_def clean_elems_def clean_step_def)
    with 2 D have d: "Dir p = [slash]" by simp
    from 2 le have "length p \<ge> 1" by simp
    moreover have "p \<noteq> ''.''" using 2 dot by (metis list.distinct(1))
    moreover have "length p \<noteq> 1"
    proof
      assume "length p = 1"
      then obtain c where c: "p = [c]" by (metis One_nat_def length_0_conv length_Suc_conv)
      with 2 have "c = slash" by (cases "c = slash") simp_all
      with c d assms show False by simp
    qed
    ultimately show ?thesis using d by (simp add: dir_measure_def)
  next
    case 3
    show ?thesis
    proof (cases "Dir p = ''.''")
      case True
      with assms show ?thesis by (simp add: dir_measure_def)
    next
      case False
      with Clean_slash_shorter [OF 3(2)] 3(1) D have "length (Dir p) \<le> length q" by simp
      moreover have "length q + 1 \<le> length p" using 3(1) le by simp
      moreover have "p \<noteq> ''.''" using 3(1) dot by (metis snoc_eq_iff_butlast)
      ultimately show ?thesis by (simp add: dir_measure_def)
    qed
  qed
qed

end
