(* ===== verification/Go_Format.thy ===== *)
theory Go_Format
  imports Go_Strings
begin

text \<open>
  Renderings of Go's standard library that end up in results and fingerprints: JSON strings
  as \<open>encoding/json\<close> writes them (with HTML escaping) and \<open>time.Duration.String\<close>.
\<close>

section \<open>JSON strings\<close>

definition json_rune :: "nat \<Rightarrow> string \<Rightarrow> string" where
  "json_rune r enc =
     (if r = 34 \<or> r = 92 then bytes [92, r]
      else if r = 8 then bytes [92, 98]
      else if r = 12 then bytes [92, 102]
      else if r = 10 then bytes [92, 110]
      else if r = 13 then bytes [92, 114]
      else if r = 9 then bytes [92, 116]
      else if r < 32 \<or> r \<in> {60, 62, 38, 0x2028, 0x2029} then bytes [92, 117] @ hex_text 4 r
      else enc)"

text \<open>A byte that is not valid UTF-8 is written as \<open>\ufffd\<close>.\<close>

function json_body :: "string \<Rightarrow> string" where
  "json_body [] = []"
| "json_body (c # cs) =
     (let b = of_char c; (r, w) = decode_rune b (map of_char (take 3 cs)) in
      (if w = 1 \<and> r = 0xFFFD then bytes [92, 117] @ hex_text 4 0xFFFD
       else json_rune r (take w (c # cs))) @ json_body (drop (w - 1) cs))"
  by pat_completeness auto
termination
  by (relation "measure length") auto

definition json_string :: "string \<Rightarrow> string" where
  "json_string s = bytes [34] @ json_body s @ bytes [34]"

text \<open>An object of rendered members, in the order of the list.\<close>

primrec json_members :: "(string \<times> string) list \<Rightarrow> string" where
  "json_members [] = []"
| "json_members (m # ms) =
     json_string (fst m) @ '':'' @ snd m @ (if ms = [] then [] else '','' @ json_members ms)"

definition json_object :: "(string \<times> string) list \<Rightarrow> string" where
  "json_object ms = ''{'' @ json_members ms @ ''}''"

section \<open>Durations\<close>

definition Second :: int where "Second = 1000000000"
definition Millisecond :: int where "Millisecond = 1000000"
definition Microsecond :: int where "Microsecond = 1000"

text \<open>The fraction below \<open>10 ^ k\<close>, without trailing zeros.\<close>

definition frac_text :: "nat \<Rightarrow> nat \<Rightarrow> string" where
  "frac_text k v =
     (let t = nat_text (v mod 10 ^ k);
          ds = rev (dropWhile (\<lambda>c. c = CHR ''0'')
                 (rev (replicate (k - length t) (CHR ''0'') @ t)))
      in if ds = [] then [] else CHR ''.'' # ds)"

definition Duration_String :: "int \<Rightarrow> string" where
  "Duration_String d =
     (let u = nat \<bar>d\<bar>;
          sgn = (if d < 0 then ''-'' else []) in
      if u = 0 then ''0s''
      else if u < nat Microsecond then sgn @ nat_text u @ ''ns''
      else if u < nat Millisecond then
        sgn @ nat_text (u div 10 ^ 3) @ frac_text 3 u @ bytes [0xC2, 0xB5] @ ''s''
      else if u < nat Second then sgn @ nat_text (u div 10 ^ 6) @ frac_text 6 u @ ''ms''
      else
      let secs = u div 10 ^ 9; mins = secs div 60; hours = mins div 60 in
        sgn @ (if hours > 0 then nat_text hours @ ''h'' else []) @
        (if mins > 0 then nat_text (mins mod 60) @ ''m'' else []) @
        nat_text (secs mod 60) @ frac_text 9 u @ ''s'')"

end
