(* ===== verification/Toolset.thy ===== *)
theory Toolset
  imports Go_Paths Go_Format Tool_Validation Go_Context
begin

text \<open>
  The server's real tools, \<open>toolset/*.go\<close>: the workspace policy (\<open>policy.go\<close>) and the tools
  \<open>read\<close>, \<open>write\<close>, \<open>edit\<close> and \<open>bash\<close>. The operating system (file system, processes, the
  clock behind cancellation) is the record \<open>os\<close> of functions on a world \<open>'w\<close>; the path
  arithmetic is that of theory \<open>Go_Paths\<close>.
\<close>

section \<open>The operating system\<close>

record file_info =
  fi_IsDir :: bool
  fi_Size :: int

text \<open>A finished process: its error, the error of its context, and what it wrote.\<close>

record bash_run =
  br_err :: "gerr option"
  br_ctxErr :: "gerr option"
  br_stdout :: string
  br_stderr :: string

text \<open>
  \<open>os_Bash x timeout dir command\<close> runs \<open>bash -lc command\<close> in \<open>dir\<close> under the context \<open>x\<close>
  with the timeout; \<open>os_hash\<close> is SHA-256 in hexadecimal.
\<close>

record 'w os =
  os_Getwd :: "'w \<Rightarrow> (gerr + string) \<times> 'w"
  os_EvalSymlinks :: "string \<Rightarrow> 'w \<Rightarrow> (gerr + string) \<times> 'w"
  os_Stat :: "string \<Rightarrow> 'w \<Rightarrow> (gerr + file_info) \<times> 'w"
  os_ReadFile :: "string \<Rightarrow> 'w \<Rightarrow> (gerr + string) \<times> 'w"
  os_WriteFile :: "string \<Rightarrow> string \<Rightarrow> 'w \<Rightarrow> gerr option \<times> 'w"
  os_MkdirAll :: "string \<Rightarrow> 'w \<Rightarrow> gerr option \<times> 'w"
  os_Bash :: "go_ctx \<Rightarrow> int \<Rightarrow> string \<Rightarrow> string \<Rightarrow> 'w \<Rightarrow> bash_run \<times> 'w"
  os_poll :: "'w poll"
  os_IsNotExist :: "gerr \<Rightarrow> bool"
  os_hash :: "string \<Rightarrow> string"
  os_is_print :: "nat \<Rightarrow> bool"

definition Abs :: "'w os \<Rightarrow> string \<Rightarrow> 'w \<Rightarrow> (gerr + string) \<times> 'w" where
  "Abs S path w =
     (if IsAbs path then (Inr (Clean path), w)
      else case os_Getwd S w of
        (Inl e, w1) \<Rightarrow> (Inl e, w1)
      | (Inr wd, w1) \<Rightarrow> (Inr (path_Join [wd, path]), w1))"

section \<open>Policy\<close>

definition ToolRead :: string where "ToolRead = ''read''"
definition ToolWrite :: string where "ToolWrite = ''write''"
definition ToolEdit :: string where "ToolEdit = ''edit''"
definition ToolBash :: string where "ToolBash = ''bash''"

definition DefaultBashTimeout :: int where "DefaultBashTimeout = 3 * Second"
definition DefaultMaxReadSize :: int where "DefaultMaxReadSize = 2 ^ 20"

definition string_property :: "string \<Rightarrow> string \<times> any" where
  "string_property name = (name, AnyMap (Some [(''type'', AnyString ''string'')]))"

text \<open>A schema, its members in ascending order of their keys as in every \<open>gomap\<close>.\<close>

definition object_schema :: "string list \<Rightarrow> string list \<Rightarrow> gomap" where
  "object_schema properties required =
     Some [(''properties'', AnyMap (Some (map string_property properties))),
       (''required'', AnySlice (Some (map AnyString required))), (''type'', AnyString ''object'')]"

definition toolDefinitions :: "ToolDefinition list" where
  "toolDefinitions =
     [\<lparr>td_Name = ToolRead, td_Description = ''Read a UTF-8 text file within the workspace root.'',
       td_InputSchema = object_schema [''path''] [''path'']\<rparr>,
      \<lparr>td_Name = ToolWrite,
       td_Description = ''Write UTF-8 text content to a file within the workspace root.'',
       td_InputSchema = object_schema [''content'', ''path''] [''path'', ''content'']\<rparr>,
      \<lparr>td_Name = ToolEdit,
       td_Description =
         ''Replace the first occurrence of old text with new text in a file within the workspace root.'',
       td_InputSchema = object_schema [''new'', ''old'', ''path''] [''path'', ''old'', ''new'']\<rparr>,
      \<lparr>td_Name = ToolBash,
       td_Description =
         ''Run a bounded command in the workspace root under command policy restrictions.'',
       td_InputSchema = object_schema [''command''] [''command'']\<rparr>]"

definition toolset_Definitions :: "ToolDefinition list" where
  "toolset_Definitions = CloneToolDefinitions toolDefinitions"

definition allowedBashCommands :: "string list" where
  "allowedBashCommands = [''cat'', ''echo'', ''find'', ''grep'', ''head'', ''ls'', ''pwd'', ''rg'',
     ''sed'', ''stat'', ''tail'', ''wc'', ''which'', ''printf'']"

record Policy =
  tp_workspaceRoot :: string
  tp_bashTimeout :: int
  tp_maxReadSize :: int

definition NewPolicy :: "'w os \<Rightarrow> string \<Rightarrow> int \<Rightarrow> 'w \<Rightarrow> (gerr + Policy) \<times> 'w" where
  "NewPolicy S workspaceRoot bashTimeout w =
     (let root = TrimSpace workspaceRoot in
      if root = [] then (Inl (Errorf [Lit ''new tool policy: workspace root is required'']), w)
      else case Abs S root w of
        (Inl e, w1) \<Rightarrow> (Inl (Errorf [Lit ''new tool policy: resolve workspace root: '', Wrap e]), w1)
      | (Inr rootAbs, w1) \<Rightarrow>
     (case os_EvalSymlinks S rootAbs w1 of
        (Inl e, w2) \<Rightarrow>
          (Inl (if os_IsNotExist S e
                then Errorf [Lit ''new tool policy: workspace root does not exist: '', Quo rootAbs]
                else Errorf [Lit ''new tool policy: resolve workspace root symlinks: '', Wrap e]), w2)
      | (Inr rootResolved, w2) \<Rightarrow>
     (case os_Stat S rootResolved w2 of
        (Inl e, w3) \<Rightarrow> (Inl (Errorf [Lit ''new tool policy: stat workspace root: '', Wrap e]), w3)
      | (Inr info, w3) \<Rightarrow>
          if \<not> fi_IsDir info then
            (Inl (Errorf [Lit ''new tool policy: workspace root is not a directory: '',
               Quo rootResolved]), w3)
          else
            (Inr \<lparr>tp_workspaceRoot = rootResolved,
                  tp_bashTimeout = (if bashTimeout \<le> 0 then DefaultBashTimeout else bashTimeout),
                  tp_maxReadSize = DefaultMaxReadSize\<rparr>, w3))))"

text \<open>
  The loop of \<open>resolveExistingPrefix\<close>: \<open>current\<close> is \<open>path\<close> or a directory above it.
\<close>

function resolve_from ::
  "'w os \<Rightarrow> string \<Rightarrow> string \<Rightarrow> 'w \<Rightarrow> (gerr + string) \<times> 'w" where
  "resolve_from S path current w =
     (case os_EvalSymlinks S current w of
        (Inr resolved, w1) \<Rightarrow>
          (case Rel current path of
             None \<Rightarrow> (Inl (Errorf [Lit (''Rel: can'' @ bytes [39] @ ''t make ''), Lit path, Lit '' relative to '',
               Lit current]), w1)
           | Some rel \<Rightarrow> (Inr (Clean (path_Join [resolved, rel])), w1))
      | (Inl err, w1) \<Rightarrow>
          if \<not> os_IsNotExist S err then (Inl err, w1)
          else let parent = Dir current in
            if parent = current then (Inr (Clean path), w1)
            else resolve_from S path parent w1)"
  by pat_completeness auto
termination
  by (relation "measure (\<lambda>(S, path, current, w). dir_measure current)") (auto intro: Dir_shorter)

declare resolve_from.simps [simp del]

definition resolveExistingPrefix :: "'w os \<Rightarrow> string \<Rightarrow> 'w \<Rightarrow> (gerr + string) \<times> 'w" where
  "resolveExistingPrefix S path w = resolve_from S path path w"

definition hasPathPrefix :: "string \<Rightarrow> string \<Rightarrow> bool" where
  "hasPathPrefix base candidate =
     (case Rel base candidate of
        None \<Rightarrow> False
      | Some rel \<Rightarrow> rel = ''.'' \<or> (\<not> HasPrefix rel ''..'' \<and> rel \<noteq> []))"

definition ResolvePath :: "'w os \<Rightarrow> Policy \<Rightarrow> string \<Rightarrow> 'w \<Rightarrow> (gerr + string) \<times> 'w" where
  "ResolvePath S p raw w =
     (let path = TrimSpace raw in
      if path = [] then (Inl (Sentinel ErrPathRequired), w)
      else
      let candidate = (if IsAbs path then Clean path
                       else path_Join [tp_workspaceRoot p, Clean path]) in
      case Abs S candidate w of
        (Inl e, w1) \<Rightarrow> (Inl (Errorf [Lit ''resolve path '', Quo path, Lit '': '', Wrap e]), w1)
      | (Inr candidateAbs, w1) \<Rightarrow>
     (case resolveExistingPrefix S candidateAbs w1 of
        (Inl e, w2) \<Rightarrow> (Inl (Errorf [Lit ''resolve path '', Quo path, Lit '': '', Wrap e]), w2)
      | (Inr resolved, w2) \<Rightarrow>
          if \<not> hasPathPrefix (tp_workspaceRoot p) resolved
          then (Inl (Errorf [wraps ErrPathOutsideWorkspace, Lit '': '', Quo path]), w2)
          else (Inr candidateAbs, w2)))"

definition forbiddenTokens :: "string list" where
  "forbiddenTokens = [bytes [10], bytes [13], '';'', ''&&'', ''||'', ''|'', ''>'', ''<'', bytes [96],
     ''$'', ''('', '')'']"

definition ValidateBashCommand :: "string \<Rightarrow> gerr option" where
  "ValidateBashCommand command =
     (let trimmed = TrimSpace command in
      if trimmed = [] then Some (Sentinel ErrBashCommandEmpty)
      else case find (Contains trimmed) forbiddenTokens of
        Some token \<Rightarrow>
          Some (Errorf [wraps ErrBashCommandDenied, Lit '': forbidden token '', Quo token])
      | None \<Rightarrow>
     (case Fields trimmed of
        [] \<Rightarrow> Some (Sentinel ErrBashCommandEmpty)
      | verb # _ \<Rightarrow>
          if verb \<notin> set allowedBashCommands then
            Some (Errorf [wraps ErrBashCommandDenied, Lit '': command '', Quo verb,
              Lit '' is not allowed''])
          else None))"

section \<open>File tools\<close>

definition stringArgument :: "gomap \<Rightarrow> string \<Rightarrow> gerr + string" where
  "stringArgument arguments key =
     (if arguments = None then
        Inl (Errorf [wraps ErrArgumentInvalid, Lit '': missing argument '', Quo key])
      else case gomap_lookup arguments key of
        None \<Rightarrow> Inl (Errorf [wraps ErrArgumentInvalid, Lit '': missing argument '', Quo key])
      | Some (AnyString stringValue) \<Rightarrow>
          if TrimSpace stringValue = [] then
            Inl (Errorf [wraps ErrArgumentInvalid, Lit '': argument '', Quo key,
              Lit '' must not be empty''])
          else Inr stringValue
      | Some _ \<Rightarrow>
          Inl (Errorf [wraps ErrArgumentInvalid, Lit '': argument '', Quo key,
            Lit '' must be a string'']))"

definition executeRead :: "'w os \<Rightarrow> Policy \<Rightarrow> gomap \<Rightarrow> 'w \<Rightarrow> (gerr + string) \<times> 'w" where
  "executeRead S p arguments w =
     (case stringArgument arguments ''path'' of
        Inl e \<Rightarrow> (Inl e, w)
      | Inr path \<Rightarrow>
     (case ResolvePath S p path w of
        (Inl e, w1) \<Rightarrow> (Inl e, w1)
      | (Inr resolved, w1) \<Rightarrow>
     (case os_Stat S resolved w1 of
        (Inl e, w2) \<Rightarrow> (Inl (Errorf [Lit ''read '', Quo path, Lit '': '', Wrap e]), w2)
      | (Inr info, w2) \<Rightarrow>
          if fi_IsDir info then
            (Inl (Errorf [Lit ''read '', Quo path, Lit '': path is a directory'']), w2)
          else if fi_Size info > tp_maxReadSize p then
            (Inl (Errorf [Lit ''read '', Quo path, Lit '': file size '', Num (fi_Size info),
               Lit '' exceeds limit '', Num (tp_maxReadSize p)]), w2)
          else
     (case os_ReadFile S resolved w2 of
        (Inl e, w3) \<Rightarrow> (Inl (Errorf [Lit ''read '', Quo path, Lit '': '', Wrap e]), w3)
      | (Inr content, w3) \<Rightarrow> (Inr content, w3)))))"

definition executeWrite :: "'w os \<Rightarrow> Policy \<Rightarrow> gomap \<Rightarrow> 'w \<Rightarrow> (gerr + string) \<times> 'w" where
  "executeWrite S p arguments w =
     (case stringArgument arguments ''path'' of
        Inl e \<Rightarrow> (Inl e, w)
      | Inr path \<Rightarrow>
     (case stringArgument arguments ''content'' of
        Inl e \<Rightarrow> (Inl e, w)
      | Inr content \<Rightarrow>
     (case ResolvePath S p path w of
        (Inl e, w1) \<Rightarrow> (Inl e, w1)
      | (Inr resolved, w1) \<Rightarrow>
     (case os_MkdirAll S (Dir resolved) w1 of
        (Some e, w2) \<Rightarrow>
          (Inl (Errorf [Lit ''write '', Quo path, Lit '': create parent directory: '', Wrap e]), w2)
      | (None, w2) \<Rightarrow>
     (case os_WriteFile S resolved content w2 of
        (Some e, w3) \<Rightarrow> (Inl (Errorf [Lit ''write '', Quo path, Lit '': '', Wrap e]), w3)
      | (None, w3) \<Rightarrow>
          (Inr (''write_ok path='' @ path @ '' bytes='' @ nat_text (length content)), w3))))))"

definition executeEdit :: "'w os \<Rightarrow> Policy \<Rightarrow> gomap \<Rightarrow> 'w \<Rightarrow> (gerr + string) \<times> 'w" where
  "executeEdit S p arguments w =
     (case stringArgument arguments ''path'' of
        Inl e \<Rightarrow> (Inl e, w)
      | Inr path \<Rightarrow>
     (case stringArgument arguments ''old'' of
        Inl e \<Rightarrow> (Inl e, w)
      | Inr oldValue \<Rightarrow>
     (case stringArgument arguments ''new'' of
        Inl e \<Rightarrow> (Inl e, w)
      | Inr newValue \<Rightarrow>
     (case ResolvePath S p path w of
        (Inl e, w1) \<Rightarrow> (Inl e, w1)
      | (Inr resolved, w1) \<Rightarrow>
     (case os_ReadFile S resolved w1 of
        (Inl e, w2) \<Rightarrow> (Inl (Errorf [Lit ''edit '', Quo path, Lit '': read: '', Wrap e]), w2)
      | (Inr content, w2) \<Rightarrow>
          if \<not> Contains content oldValue then
            (Inl (Errorf [Lit ''edit '', Quo path, Lit '': target text not found'']), w2)
          else
     (case os_WriteFile S resolved (replace_first content oldValue newValue) w2 of
        (Some e, w3) \<Rightarrow> (Inl (Errorf [Lit ''edit '', Quo path, Lit '': write: '', Wrap e]), w3)
      | (None, w3) \<Rightarrow> (Inr (''edit_ok path='' @ path @ '' replacements=1''), w3)))))))"

section \<open>Bash\<close>

definition bashApprovalFingerprint :: "(string \<Rightarrow> string) \<Rightarrow> ToolCall \<Rightarrow> string \<Rightarrow> Policy \<Rightarrow> string" where
  "bashApprovalFingerprint hash call command p =
     hash (json_object
       [(''tool_name'', json_string (tc_Name call)), (''call_id'', json_string (tc_ID call)),
        (''command'', json_string (TrimSpace command)),
        (''workspace_root'', json_string (tp_workspaceRoot p)),
        (''bash_timeout_ns'', int_text (tp_bashTimeout p))])"

definition approvedBashReplay :: "ctx \<Rightarrow> string \<Rightarrow> string \<Rightarrow> bool" where
  "approvedBashReplay c callID fingerprint =
     (case ApprovedToolCallReplayOverrideFromContext c of
        None \<Rightarrow> False
      | Some override \<Rightarrow> ov_ToolCallID override = callID \<and> ov_Fingerprint override = fingerprint)"

definition validateApprovedBashReplay :: "ctx \<Rightarrow> string \<Rightarrow> string \<Rightarrow> gerr option" where
  "validateApprovedBashReplay c callID fingerprint =
     (case ApprovedToolCallReplayOverrideFromContext c of
        None \<Rightarrow> None
      | Some override \<Rightarrow>
          if ov_ToolCallID override = callID \<and> ov_Fingerprint override = fingerprint then None
          else Some (Errorf [wraps ErrBashReplayMismatch,
            Lit '': field=approved_tool_replay_override reason=mismatch got_tool_call_id='',
            Quo (ov_ToolCallID override), Lit '' got_fingerprint='', Quo (ov_Fingerprint override),
            Lit '' want_tool_call_id='', Quo callID, Lit '' want_fingerprint='', Quo fingerprint]))"

text \<open>The part of \<open>executeBash\<close> before the process: \<open>None\<close> lets the command run.\<close>

definition bash_gate :: "'w os \<Rightarrow> Policy \<Rightarrow> go_ctx \<Rightarrow> ToolCall \<Rightarrow> string \<Rightarrow> gerr option" where
  "bash_gate S p x call command =
     (case ValidateBashCommand command of
        None \<Rightarrow> None
      | Some err \<Rightarrow>
          if errors_Is err ErrBashCommandDenied then
            let fingerprint = bashApprovalFingerprint (os_hash S) call command p in
            case validateApprovedBashReplay (Some x) (tc_ID call) fingerprint of
              Some mismatch \<Rightarrow> Some mismatch
            | None \<Rightarrow>
                if \<not> approvedBashReplay (Some x) (tc_ID call) fingerprint then
                  Some (Suspend
                    (Some \<lparr>pr_ID = ''req-bash-policy-'' @ tc_ID call,
                           pr_Kind = RequirementKindApproval, pr_Origin = RequirementOriginTool,
                           pr_ToolCallID = tc_ID call, pr_Fingerprint = fingerprint,
                           pr_Prompt = ''approve bash command denied by policy''\<rparr>)
                    (Some err))
                else None
          else Some err)"

definition executeBash ::
  "'w os \<Rightarrow> Policy \<Rightarrow> go_ctx \<Rightarrow> ToolCall \<Rightarrow> 'w \<Rightarrow> (gerr + string) \<times> 'w" where
  "executeBash S p x call w =
     (case stringArgument (tc_Arguments call) ''command'' of
        Inl e \<Rightarrow> (Inl e, w)
      | Inr command \<Rightarrow>
     (case bash_gate S p x call command of
        Some e \<Rightarrow> (Inl e, w)
      | None \<Rightarrow>
          let (r, w1) = os_Bash S x (tp_bashTimeout p) (tp_workspaceRoot p) command w in
          if is_err (br_ctxErr r) ContextDeadlineExceeded then
            (Inl (Errorf [wraps ErrBashExecutionTimedOut, Lit '': command='', Quo command,
               Lit '' timeout='', Lit (Duration_String (tp_bashTimeout p)), Lit '' stdout='',
               Quo (br_stdout r), Lit '' stderr='', Quo (br_stderr r)]), w1)
          else (case br_err r of
            Some err \<Rightarrow>
              (Inl (Errorf [Lit ''bash command '', Quo command, Lit '' failed: '', Wrap err,
                 Lit '' stdout='', Quo (br_stdout r), Lit '' stderr='', Quo (br_stderr r)]), w1)
          | None \<Rightarrow>
              (Inr (''bash_ok command='' @ Quote (os_is_print S) command @
                 '' stdout='' @ Quote (os_is_print S) (TrimSpace (br_stdout r)) @
                 '' stderr='' @ Quote (os_is_print S) (TrimSpace (br_stderr r))), w1))))"

section \<open>The executor\<close>

text \<open>The \<open>switch\<close> over the tool's name.\<close>

definition toolset_run ::
  "'w os \<Rightarrow> Policy \<Rightarrow> go_ctx \<Rightarrow> ToolCall \<Rightarrow> 'w \<Rightarrow> (gerr + string) \<times> 'w" where
  "toolset_run S p x call w =
     (if tc_Name call = ToolRead then executeRead S p (tc_Arguments call) w
      else if tc_Name call = ToolWrite then executeWrite S p (tc_Arguments call) w
      else if tc_Name call = ToolEdit then executeEdit S p (tc_Arguments call) w
      else if tc_Name call = ToolBash then executeBash S p x call w
      else (Inl (Errorf [Lit ''toolset: unsupported tool '', Quo (tc_Name call)]), w))"

definition toolset_Execute ::
  "'w os \<Rightarrow> Policy \<Rightarrow> ctx \<Rightarrow> ToolCall \<Rightarrow> 'w \<Rightarrow> (gerr + ToolResult) \<times> 'w" where
  "toolset_Execute S p c call w =
     (case c of
        None \<Rightarrow> (Inl (Sentinel ErrContextNil), w)
      | Some x \<Rightarrow>
     (case ctx_Err (os_poll S) x w of
        (Some ctxErr, w1) \<Rightarrow> (Inl ctxErr, w1)
      | (None, w1) \<Rightarrow>
     (case toolset_run S p x call w1 of
        (Inl err, w2) \<Rightarrow> (Inl err, w2)
      | (Inr content, w2) \<Rightarrow>
          (Inr (zeroToolResult\<lparr>tr_CallID := tc_ID call, tr_Name := tc_Name call,
             tr_Content := content\<rparr>), w2))))"

end
