(* ===== verification/Toolset_Safety.thy ===== *)
theory Toolset_Safety
  imports Toolset
begin

text \<open>
  What the tool set's policy guarantees: file tools stay at or below the workspace root
  where no symbolic link dangles, and a command outside the bash policy runs only under the approval
  of exactly this call; and where the policy is weaker than it looks.
\<close>

section \<open>The lexical check\<close>

text \<open>Being at or below a directory, by elements; a child whose name starts with two dots is left out.\<close>

definition below :: "string list \<Rightarrow> string list \<Rightarrow> bool" where
  "below rs es \<longleftrightarrow> (\<exists>ts. es = rs @ ts \<and> (ts = [] \<or> \<not> HasPrefix (hd ts) ''..''))"

lemma HasPrefix_dots_app:
  assumes "e = ''..'' \<or> plain e" and "s = [] \<or> hd s = slash"
  shows "HasPrefix (e @ s) ''..'' \<longleftrightarrow> HasPrefix e ''..''"
proof -
  consider "e = ''..''" | c where "e = [c]" "c \<noteq> CHR ''.''" | c d t where "e = c # d # t"
    using assms(1) by (cases e; cases "tl e") (auto simp: plain_def)
  then show ?thesis
    using assms(2) by cases (auto simp: HasPrefix_def)
qed

lemma join_char_hd: "es \<noteq> [] \<Longrightarrow> \<exists>s. join_char d es = hd es @ s \<and> (s = [] \<or> hd s = d)"
  by (cases es) auto

lemma join_dots_iff:
  assumes "es \<noteq> []" and "hd es = ''..'' \<or> plain (hd es)"
  shows "HasPrefix (join_char slash es) ''..'' \<longleftrightarrow> HasPrefix (hd es) ''..''"
  using join_char_hd [OF assms(1), of slash] HasPrefix_dots_app [OF assms(2)] by metis

lemma hasPathPrefix_iff:
  assumes "\<forall>e \<in> set rs. plain e" and "\<forall>e \<in> set es. plain e"
  shows "hasPathPrefix (abs_path rs) (abs_path es) \<longleftrightarrow> below rs es"
proof -
  obtain bs ts where st: "strip_common rs es = (bs, ts)" by fastforce
  from strip_common_subset [OF st] obtain us where us: "rs = us @ bs" "es = us @ ts" by blast
  show ?thesis
  proof (cases "es = rs")
    case True
    then show ?thesis using Rel_abs_path [OF assms] by (auto simp: hasPathPrefix_def below_def)
  next
    case False
    let ?rel = "join_char slash (replicate (length bs) ''..'' @ ts)"
    have R: "Rel (abs_path rs) (abs_path es) = Some ?rel"
      using Rel_abs_path [OF assms] False st by simp
    show ?thesis
    proof (cases bs)
      case Nil
      with us False have ts: "es = rs @ ts" "ts \<noteq> []" by auto
      then have p: "plain (hd ts)" using assms(2) by simp
      then have "join_char slash ts \<noteq> []" "join_char slash ts \<noteq> ''.''"
        using join_char_hd [OF ts(2), of slash] by (cases "hd ts"; force simp: plain_def)+
      with R Nil ts p join_dots_iff [of ts] show ?thesis
        by (auto simp: hasPathPrefix_def below_def)
    next
      case (Cons b bs')
      then have "HasPrefix ?rel ''..''" and "?rel \<noteq> ''.''"
        using join_dots_iff [of "replicate (length bs) ''..'' @ ts"] by (auto simp: HasPrefix_def)
      moreover have "\<not> below rs es"
      proof
        assume "below rs es"
        then obtain vs where "es = rs @ vs" by (auto simp: below_def)
        with st strip_common_prefix [of rs vs] Cons show False by simp
      qed
      ultimately show ?thesis using R by (simp add: hasPathPrefix_def)
    qed
  qed
qed

section \<open>Resolution\<close>

text \<open>
  Where a path leads: \<open>loc w ps\<close> is the place, without symbolic links, that the file system \<open>w\<close>
  reads or writes when it is given the clean absolute path \<open>ps\<close>. It is what the outside
  decides; the three hypotheses below are all that is used of it.

  \<open>links_followed\<close> is the documented behaviour of \<open>filepath.EvalSymlinks\<close>: what it answers for
  a path is the place where this path leads, in this file system.
\<close>

definition links_followed :: "'w os \<Rightarrow> ('w \<Rightarrow> string list \<Rightarrow> string list) \<Rightarrow> bool" where
  "links_followed S loc \<longleftrightarrow>
     (\<forall>w. loc w [] = []) \<and>
     (\<forall>w qs. (\<forall>e \<in> set qs. plain e) \<longrightarrow> (\<forall>e \<in> set (loc w qs). plain e)) \<and>
     (\<forall>w qs r. (\<forall>e \<in> set qs. plain e) \<longrightarrow> fst (os_EvalSymlinks S (abs_path qs) w) = Inr r \<longrightarrow>
        r = abs_path (loc w qs))"

text \<open>
  No symbolic link dangles: what \<open>EvalSymlinks\<close> reports as missing is no link, and would lie in
  the place of the directory above it. Without this hypothesis the tools leave the workspace
  (\<open>dangling_link_escapes\<close> below).
\<close>

definition no_dangling_links :: "'w os \<Rightarrow> ('w \<Rightarrow> string list \<Rightarrow> string list) \<Rightarrow> bool" where
  "no_dangling_links S loc \<longleftrightarrow>
     (\<forall>w qs x err. (\<forall>e \<in> set (qs @ [x]). plain e) \<longrightarrow>
        fst (os_EvalSymlinks S (abs_path (qs @ [x])) w) = Inl err \<longrightarrow> os_IsNotExist S err \<longrightarrow>
        loc w (qs @ [x]) = loc w qs @ [x])"

text \<open>
  While a tool runs nobody else moves a directory or a link: looking at the file system, reading
  a file and making directories leave the place of every path as it is.
\<close>

definition links_stay :: "'w os \<Rightarrow> ('w \<Rightarrow> string list \<Rightarrow> string list) \<Rightarrow> bool" where
  "links_stay S loc \<longleftrightarrow>
     (\<forall>w q. loc (snd (os_EvalSymlinks S q w)) = loc w \<and> loc (snd (os_Stat S q w)) = loc w \<and>
        loc (snd (os_ReadFile S q w)) = loc w \<and> loc (snd (os_MkdirAll S q w)) = loc w)"

definition fs_ok :: "'w os \<Rightarrow> ('w \<Rightarrow> string list \<Rightarrow> string list) \<Rightarrow> bool" where
  "fs_ok S loc \<longleftrightarrow> links_followed S loc \<and> no_dangling_links S loc \<and> links_stay S loc"

text \<open>The path leads, in the file system \<open>w\<close>, to a place at or below \<open>rs\<close>.\<close>

definition leads_below ::
  "('w \<Rightarrow> string list \<Rightarrow> string list) \<Rightarrow> string list \<Rightarrow> 'w \<Rightarrow> string \<Rightarrow> bool" where
  "leads_below loc rs w path \<longleftrightarrow>
     (\<exists>ps. (\<forall>e \<in> set ps. plain e) \<and> path = abs_path ps \<and> below rs (loc w ps))"

lemma Clean_under:
  assumes "\<forall>e \<in> set ls. plain e" and "vs \<noteq> []" and "\<forall>e \<in> set vs. slash \<notin> set e"
  shows "Clean (abs_path ls @ slash # join_char slash vs) = abs_path (clean_elems True (ls @ vs))"
proof -
  have "split_char slash (abs_path ls @ slash # join_char slash vs) =
      [] # (if ls = [] then [] # vs else ls @ vs)"
  proof (cases "ls = []")
    case True
    then show ?thesis using split_join [OF assms(2,3)] by (simp add: abs_path_def)
  next
    case False
    have no: "\<forall>e \<in> set (ls @ vs). slash \<notin> set e"
      using assms(1,3) by (auto simp: plain_def)
    from False assms(2) have "abs_path ls @ slash # join_char slash vs = slash # join_char slash (ls @ vs)"
      by (simp add: abs_path_def join_char_append)
    then show ?thesis using False split_join [of "ls @ vs", OF _ no] by simp
  qed
  then show ?thesis by (simp add: Clean_def abs_path_def)
qed

lemma Join_under:
  assumes "\<forall>e \<in> set ls. plain e" and "\<forall>e \<in> set us. plain e"
  shows "Clean (path_Join [abs_path ls, if us = [] then ''.'' else join_char slash us]) =
    abs_path (ls @ us)"
proof (cases "us = []")
  case True
  have "clean_elems True (ls @ [''.'']) = ls"
    using clean_elems_id [OF assms(1)] by (simp add: clean_elems_def clean_step_def)
  with Clean_under [OF assms(1), of "[''.'']"]
  have "Clean (abs_path ls @ slash # ''.'') = abs_path ls" by simp
  moreover have "path_Join [abs_path ls, ''.''] = Clean (abs_path ls @ slash # ''.'')"
    by (simp add: path_Join_def abs_path_def)
  ultimately show ?thesis using True Clean_abs_path [OF assms(1)] by simp
next
  case False
  have all: "\<forall>e \<in> set (ls @ us). plain e" using assms by auto
  from False assms(2) have "join_char slash us \<noteq> []" by (rule join_plain_nonempty)
  with False Clean_under [OF assms(1) False plain_no_slash [OF assms(2)]]
    clean_elems_id [OF all] Clean_abs_path [OF all]
  show ?thesis by (simp add: path_Join_def abs_path_def)
qed

lemma resolve_step_found:
  assumes "links_followed S loc" and plain: "\<forall>e \<in> set (qs @ us). plain e"
    and ev: "os_EvalSymlinks S (abs_path qs) w = (Inr r, w1)"
    and "resolve_from S (abs_path (qs @ us)) (abs_path qs) w = (Inr q, w')"
  shows "q = abs_path (loc w qs @ us)" and "w' = w1"
proof -
  have r: "r = abs_path (loc w qs)" and ls: "\<forall>e \<in> set (loc w qs). plain e"
    using assms(1) plain ev unfolding links_followed_def by (metis Un_iff fst_conv set_append)+
  have "Rel (abs_path qs) (abs_path (qs @ us)) = Some (if us = [] then ''.'' else join_char slash us)"
    using plain Rel_below [of qs us] Rel_abs_path [of qs qs] by auto
  with assms(4) ev r have "w' = w1"
    and "q = Clean (path_Join [abs_path (loc w qs), if us = [] then ''.'' else join_char slash us])"
    by (simp_all add: resolve_from.simps [of S "abs_path (qs @ us)"])
  with Join_under [OF ls, of us] plain show "q = abs_path (loc w qs @ us)" and "w' = w1" by simp_all
qed

text \<open>The loop ends at the place where the path leads, and moves nothing.\<close>

lemma resolve_from_loc:
  assumes "fs_ok S loc" and "\<forall>e \<in> set (qs @ us). plain e" and "loc w (qs @ us) = loc w qs @ us"
    and "resolve_from S (abs_path (qs @ us)) (abs_path qs) w = (Inr q, w')"
  shows "q = abs_path (loc w (qs @ us)) \<and> loc w' = loc w"
  using assms(2-)
proof (induction qs arbitrary: us w rule: rev_induct)
  case Nil
  have followed: "links_followed S loc" and stay: "links_stay S loc"
    using assms(1) by (simp_all add: fs_ok_def)
  obtain r w1 where ev: "os_EvalSymlinks S (abs_path []) w = (r, w1)" by fastforce
  from stay ev have w1: "loc w1 = loc w" unfolding links_stay_def by (metis snd_conv)
  show ?case
  proof (cases r)
    case (Inr p)
    with resolve_step_found [OF followed Nil(1) _ Nil(3)] ev w1 Nil(2) show ?thesis by simp
  next
    case (Inl e)
    with Nil(3) ev have "q = Clean (abs_path us)" "w' = w1"
      by (auto simp: resolve_from.simps [of S "abs_path us"] Dir_root split: if_splits)
    moreover have "loc w [] = []" using followed by (simp add: links_followed_def)
    ultimately show ?thesis using Nil(1,2) w1 Clean_abs_path [of us] by simp
  qed
next
  case (snoc e qs)
  have followed: "links_followed S loc" and stay: "links_stay S loc" and dangling: "no_dangling_links S loc"
    using assms(1) by (simp_all add: fs_ok_def)
  obtain r w1 where ev: "os_EvalSymlinks S (abs_path (qs @ [e])) w = (r, w1)" by fastforce
  from stay ev have w1: "loc w1 = loc w" unfolding links_stay_def by (metis snd_conv)
  show ?case
  proof (cases r)
    case (Inr p)
    with resolve_step_found [OF followed snoc.prems(1) _ snoc.prems(3)] ev w1 snoc.prems(2)
    show ?thesis by simp
  next
    case (Inl err)
    have up: "Dir (abs_path (qs @ [e])) = abs_path qs"
      using snoc.prems(1) by (intro Dir_abs_path) auto
    have "abs_path (qs @ [e]) \<noteq> abs_path qs"
      using snoc.prems(1) abs_path_inject [of "qs @ [e]" qs] by auto
    with snoc.prems(3) ev Inl up have ne: "os_IsNotExist S err"
      and rest: "resolve_from S (abs_path (qs @ e # us)) (abs_path qs) w1 = (Inr q, w')"
      by (auto simp: resolve_from.simps [of S _ "abs_path (qs @ [e])"] split: if_splits)
    have "\<forall>x \<in> set (qs @ [e]). plain x" using snoc.prems(1) by auto
    with dangling ev Inl ne have "loc w (qs @ [e]) = loc w qs @ [e]"
      unfolding no_dangling_links_def by (metis fst_conv)
    with snoc.prems(2) w1 have "loc w1 (qs @ e # us) = loc w1 qs @ e # us" by simp
    from snoc.IH [OF _ this rest] snoc.prems(1) w1 show ?thesis by simp
  qed
qed

section \<open>The workspace policy\<close>

text \<open>The path elements of a policy's root.\<close>

definition rooted_at :: "Policy \<Rightarrow> string list \<Rightarrow> bool" where
  "rooted_at p rs \<longleftrightarrow> tp_workspaceRoot p = abs_path rs \<and> (\<forall>e \<in> set rs. plain e)"

text \<open>What a path that the policy accepts looks like.\<close>

lemma candidate_abs:
  assumes "rooted_at p rs"
  shows "\<exists>ps. (\<forall>e \<in> set ps. plain e) \<and>
    (if IsAbs path then Clean path else path_Join [tp_workspaceRoot p, Clean path]) = abs_path ps"
proof (cases "IsAbs path")
  case True
  then show ?thesis using Clean_abs [of path] by auto
next
  case False
  have ne: "tp_workspaceRoot p \<noteq> []" and ab: "IsAbs (tp_workspaceRoot p)"
    using assms by (simp_all add: rooted_at_def abs_path_def)
  then have "IsAbs (join_char slash (tp_workspaceRoot p # ws))" for ws
    by (cases "tp_workspaceRoot p") auto
  with Clean_abs False ne show ?thesis by (auto simp: path_Join_def)
qed

lemma ResolvePath_confined:
  assumes "fs_ok S loc" and "rooted_at p rs"
    and "ResolvePath S p raw w = (Inr path, w')"
  shows "leads_below loc rs w' path"
proof -
  from candidate_abs [OF assms(2)] obtain ps where ps: "\<forall>e \<in> set ps. plain e"
    "(if IsAbs (TrimSpace raw) then Clean (TrimSpace raw)
      else path_Join [tp_workspaceRoot p, Clean (TrimSpace raw)]) = abs_path ps"
    by blast
  obtain q where q: "resolveExistingPrefix S (abs_path ps) w = (Inr q, w')"
    "hasPathPrefix (tp_workspaceRoot p) q" "path = abs_path ps"
    using assms(3) ps Clean_abs_path [OF ps(1)]
    by (auto simp: ResolvePath_def Abs_def Let_def split: if_splits sum.splits prod.splits)
  have "q = abs_path (loc w ps)" and "loc w' = loc w"
    using q(1) resolve_from_loc [OF assms(1), of ps "[]" w q w'] ps(1)
    by (simp_all add: resolveExistingPrefix_def)
  moreover have "\<forall>e \<in> set (loc w ps). plain e"
    using assms(1) ps(1) by (simp add: fs_ok_def links_followed_def)
  ultimately have "below rs (loc w' ps)"
    using q(2) assms(2) hasPathPrefix_iff [of rs "loc w ps"] by (simp add: rooted_at_def)
  with q(3) ps(1) show ?thesis by (auto simp: leads_below_def)
qed

section \<open>The bash policy\<close>

definition bash_command_ok :: "string \<Rightarrow> bool" where
  "bash_command_ok command \<longleftrightarrow>
     TrimSpace command \<noteq> [] \<and> (\<forall>t \<in> set forbiddenTokens. \<not> Contains (TrimSpace command) t) \<and>
     (\<exists>verb args. Fields (TrimSpace command) = verb # args \<and> verb \<in> set allowedBashCommands)"

lemma find_None_or: "find P xs = None \<longleftrightarrow> (\<forall>x \<in> set xs. \<not> P x)"
  by (auto simp: find_None_iff)

lemma ValidateBashCommand_None_iff: "ValidateBashCommand command = None \<longleftrightarrow> bash_command_ok command"
proof (cases "find (Contains (TrimSpace command)) forbiddenTokens")
  case None
  then have "\<forall>t \<in> set forbiddenTokens. \<not> Contains (TrimSpace command) t"
    by (simp only: find_None_or)
  with None show ?thesis
    by (auto simp: ValidateBashCommand_def bash_command_ok_def Let_def split: list.splits)
next
  case (Some t)
  then have "\<not> (\<forall>t \<in> set forbiddenTokens. \<not> Contains (TrimSpace command) t)"
    unfolding find_None_or [symmetric] by simp
  with Some show ?thesis by (simp add: ValidateBashCommand_def bash_command_ok_def Let_def)
qed

text \<open>A context's override names exactly this call and its fingerprint.\<close>

lemma approvedBashReplay_iff:
  "approvedBashReplay c i f \<longleftrightarrow>
   ApprovedToolCallReplayOverrideFromContext c = Some \<lparr>ov_ToolCallID = i, ov_Fingerprint = f\<rparr>"
  by (auto simp: approvedBashReplay_def split: option.splits)

definition permitted :: "'w os \<Rightarrow> Policy \<Rightarrow> go_ctx \<Rightarrow> ToolCall \<Rightarrow> string \<Rightarrow> bool" where
  "permitted S p x call command \<longleftrightarrow>
     bash_command_ok command \<or>
     approvedBashReplay (Some x) (tc_ID call) (bashApprovalFingerprint (os_hash S) call command p)"

lemma bash_gate_permitted: "bash_gate S p x call command = None \<Longrightarrow> permitted S p x call command"
  by (auto simp: bash_gate_def permitted_def ValidateBashCommand_None_iff [symmetric] Let_def
      split: option.splits if_splits)

section \<open>What the tools touch\<close>

text \<open>
  \<open>Q\<close> is a fact about the world that every look at the file system preserves, that reading and
  writing a file at a path \<open>q\<close> with \<open>A w q\<close> in the file system \<open>w\<close> at this moment (and making the
  parent directory there) preserves, and that running the commands \<open>B\<close> in the workspace
  preserves.
\<close>

definition touches ::
  "'w os \<Rightarrow> Policy \<Rightarrow> ('w \<Rightarrow> string \<Rightarrow> bool) \<Rightarrow> (go_ctx \<Rightarrow> string \<Rightarrow> bool) \<Rightarrow> ('w \<Rightarrow> bool) \<Rightarrow> bool" where
  "touches S p A B Q \<longleftrightarrow>
     (\<forall>w. Q w \<longrightarrow> Q (snd (os_poll S w)) \<and> Q (snd (os_Getwd S w))) \<and>
     (\<forall>q w. Q w \<longrightarrow> Q (snd (os_EvalSymlinks S q w)) \<and> Q (snd (os_Stat S q w))) \<and>
     (\<forall>q w. A w q \<longrightarrow> Q w \<longrightarrow> Q (snd (os_ReadFile S q w)) \<and> Q (snd (os_MkdirAll S (Dir q) w))) \<and>
     (\<forall>q t w. A w q \<longrightarrow> Q w \<longrightarrow> Q (snd (os_WriteFile S q t w))) \<and>
     (\<forall>x command w. B x command \<longrightarrow> Q w \<longrightarrow>
        Q (snd (os_Bash S x (tp_bashTimeout p) (tp_workspaceRoot p) command w)))"

lemma touches_steps:
  assumes "touches S p A B Q"
  shows "os_poll S w = (r1, v) \<Longrightarrow> Q w \<Longrightarrow> Q v" and "os_Getwd S w = (r2, v) \<Longrightarrow> Q w \<Longrightarrow> Q v"
    and "os_EvalSymlinks S q w = (r2, v) \<Longrightarrow> Q w \<Longrightarrow> Q v" and "os_Stat S q w = (r3, v) \<Longrightarrow> Q w \<Longrightarrow> Q v"
    and "os_ReadFile S q w = (r2, v) \<Longrightarrow> A w q \<Longrightarrow> Q w \<Longrightarrow> Q v"
    and "os_MkdirAll S (Dir q) w = (r4, v) \<Longrightarrow> A w q \<Longrightarrow> Q w \<Longrightarrow> Q v"
    and "os_WriteFile S q t w = (r4, v) \<Longrightarrow> A w q \<Longrightarrow> Q w \<Longrightarrow> Q v"
    and "os_Bash S x (tp_bashTimeout p) (tp_workspaceRoot p) command w = (r5, v) \<Longrightarrow> B x command \<Longrightarrow>
      Q w \<Longrightarrow> Q v"
  using assms unfolding touches_def by (metis snd_conv)+

text \<open>The paths \<open>A\<close> stay good while a tool looks at the file, reads it and makes its directory.\<close>

definition stable_paths :: "'w os \<Rightarrow> ('w \<Rightarrow> string \<Rightarrow> bool) \<Rightarrow> bool" where
  "stable_paths S A \<longleftrightarrow>
     (\<forall>w q. A w q \<longrightarrow> A (snd (os_Stat S q w)) q \<and> A (snd (os_ReadFile S q w)) q \<and>
        A (snd (os_MkdirAll S (Dir q) w)) q)"

lemma stable_paths_steps:
  assumes "stable_paths S A" and "A w q"
  shows "os_Stat S q w = (r3, v) \<Longrightarrow> A v q" and "os_ReadFile S q w = (r2, v) \<Longrightarrow> A v q"
    and "os_MkdirAll S (Dir q) w = (r4, v) \<Longrightarrow> A v q"
  using assms unfolding stable_paths_def by (metis snd_conv)+

lemma leads_below_stable: "fs_ok S loc \<Longrightarrow> stable_paths S (leads_below loc rs)"
  by (simp add: stable_paths_def fs_ok_def links_stay_def leads_below_def)

lemma touches_resolve_from:
  "touches S p A B Q \<Longrightarrow> Q w \<Longrightarrow> Q (snd (resolve_from S path current w))"
proof (induction S path current w rule: resolve_from.induct)
  case (1 S path current w)
  obtain r w1 where ev: "os_EvalSymlinks S current w = (r, w1)" by fastforce
  from touches_steps(3) [OF 1(2) ev 1(3)] have w1: "Q w1" .
  show ?case
  proof (cases r)
    case (Inr resolved)
    with ev w1 show ?thesis by (simp add: resolve_from.simps [of S path current] split: option.split)
  next
    case (Inl err)
    then show ?thesis
      using ev w1 "1.IH" [OF ev [symmetric] Inl _ refl _ 1(2) w1]
      by (simp add: resolve_from.simps [of S path current] Let_def)
  qed
qed

lemma touches_ResolvePath:
  assumes "touches S p A B Q" and "Q w" and "ResolvePath S p' raw w = (r, v)"
  shows "Q v"
proof -
  have "Q (snd (Abs S path w))" for path
    using assms(2) touches_steps(2) [OF assms(1)]
    by (auto simp: Abs_def split: sum.splits prod.splits)
  then show ?thesis
    using assms(2,3) touches_resolve_from [OF assms(1)]
    by (auto simp: ResolvePath_def Let_def resolveExistingPrefix_def
        split: if_splits sum.splits prod.splits) (metis snd_conv)+
qed

text \<open>The paths that \<open>ResolvePath\<close> answers, and the commands that pass the gate.\<close>

lemma tools_touch:
  assumes "touches S p A (\<lambda>y c. y = x \<and> permitted S p x call c) Q" and "Q w" and "stable_paths S A"
    and "\<And>raw v path v'. ResolvePath S p raw v = (Inr path, v') \<Longrightarrow> A v' path"
  shows "Q (snd (executeRead S p args w))" "Q (snd (executeWrite S p args w))"
    "Q (snd (executeEdit S p args w))" "Q (snd (executeBash S p x call w))"
proof -
  note steps = touches_steps [OF assms(1)] and path = touches_ResolvePath [OF assms(1)]
    and stay = stable_paths_steps [OF assms(3)]
  show "Q (snd (executeRead S p args w))"
    using assms(2,4) unfolding executeRead_def
    by (auto split: sum.split prod.split) (meson steps path stay assms(2,4))+
  show "Q (snd (executeWrite S p args w))"
    using assms(2,4) unfolding executeWrite_def
    by (auto split: sum.split prod.split option.split) (meson steps path stay assms(2,4))+
  show "Q (snd (executeEdit S p args w))"
    using assms(2,4) unfolding executeEdit_def
    by (auto split: sum.split prod.split option.split) (meson steps path stay assms(2,4))+
  show "Q (snd (executeBash S p x call w))"
    using assms(2) unfolding executeBash_def
    by (auto split: sum.split prod.split option.split intro: steps dest: bash_gate_permitted)
qed

text \<open>A denied command: the three outcomes by what override the context carries.\<close>

lemma bash_gate_denied:
  assumes "ValidateBashCommand command = Some err" and "errors_Is err ErrBashCommandDenied"
  shows "case ApprovedToolCallReplayOverrideFromContext (Some x) of
      None \<Rightarrow> \<exists>q. bash_gate S p x call command = Some (Suspend (Some q) (Some err)) \<and>
        pr_Kind q = RequirementKindApproval \<and> pr_Origin q = RequirementOriginTool \<and>
        pr_ToolCallID q = tc_ID call \<and> pr_ID q = ''req-bash-policy-'' @ tc_ID call \<and>
        pr_Fingerprint q = bashApprovalFingerprint (os_hash S) call command p
    | Some override \<Rightarrow>
        if override = \<lparr>ov_ToolCallID = tc_ID call,
             ov_Fingerprint = bashApprovalFingerprint (os_hash S) call command p\<rparr>
        then bash_gate S p x call command = None
        else \<exists>e. bash_gate S p x call command = Some e \<and> errors_Is e ErrBashReplayMismatch"
  using assms
  by (auto simp: bash_gate_def Let_def validateApprovedBashReplay_def approvedBashReplay_def
      split: option.split)

lemma toolset_Execute_touches:
  assumes "touches S p A (\<lambda>y command. y = x \<and> permitted S p x call command) Q" and "Q w"
    and "stable_paths S A" and "\<And>raw v path v'. ResolvePath S p raw v = (Inr path, v') \<Longrightarrow> A v' path"
  shows "Q (snd (toolset_Execute S p (Some x) call w))"
proof -
  have tool: "Q (snd (toolset_run S p x call w1))" if "Q w1" for w1
    using tools_touch [OF assms(1) that assms(3,4)] that
    by (simp add: toolset_run_def)
  obtain r w1 where r: "ctx_Err (os_poll S) x w = (r, w1)" by fastforce
  with assms(2) touches_steps(1) [OF assms(1)] have w1: "Q w1"
    by (auto simp: ctx_Err_def split: if_splits)
  obtain s w2 where s: "toolset_run S p x call w1 = (s, w2)" by fastforce
  with tool [OF w1] have "Q w2" by simp
  with r s w1 show ?thesis by (cases r; cases s) (simp_all add: toolset_Execute_def)
qed

text \<open>With no hypothesis on the file system: only paths that the policy's check answered.\<close>

definition check_answered :: "'w os \<Rightarrow> Policy \<Rightarrow> string \<Rightarrow> bool" where
  "check_answered S p path \<longleftrightarrow> (\<exists>raw v v'. ResolvePath S p raw v = (Inr path, v'))"

lemma toolset_Execute_checked:
  assumes "touches S p (\<lambda>w. check_answered S p) (\<lambda>y command. y = x \<and> permitted S p x call command) Q"
    and "Q w"
  shows "Q (snd (toolset_Execute S p (Some x) call w))"
  by (rule toolset_Execute_touches [OF assms]) (auto simp: stable_paths_def check_answered_def)

section \<open>Properties\<close>

text \<open>
  the path check is the one on elements: between clean absolute paths a candidate passes
  exactly when it is the workspace root or below it, with the exception of what lies under a
  child of the root whose name begins with two dots.
\<close>

theorem hasPathPrefix_correct:
  assumes "\<forall>e \<in> set rs. plain e" and "\<forall>e \<in> set es. plain e"
  shows "hasPathPrefix (abs_path rs) (abs_path es) \<longleftrightarrow>
    (\<exists>ts. es = rs @ ts \<and> (ts = [] \<or> \<not> HasPrefix (hd ts) ''..''))"
  using hasPathPrefix_iff [OF assms] by (simp only: below_def)

theorem hasPathPrefix_correct_witness:
  "hasPathPrefix (abs_path [''ws'']) (abs_path [''ws'', ''a'']) \<and>
   \<not> hasPathPrefix (abs_path [''ws'']) (abs_path [''wsx'']) \<and>
   \<not> hasPathPrefix (abs_path [''ws'']) (abs_path [''ws'', ''..a''])"
  using hasPathPrefix_correct [of "[''ws'']" "[''ws'', ''a'']"]
    hasPathPrefix_correct [of "[''ws'']" "[''wsx'']"]
    hasPathPrefix_correct [of "[''ws'']" "[''ws'', ''..a'']"]
  by (simp add: plain_def HasPrefix_def)

text \<open>
  C5: the tools stay in the workspace. Whatever the call, a file is read or written, and its
  parent directory created, only at a clean absolute path that in the file system of that very
  moment, symbolic links followed, leads to a place at or below the workspace root; and a process
  is started only in the workspace, with the policy's timeout, for a command that the bash policy
  accepts or that an override for exactly this call and fingerprint approves. (Any fact about the
  world that such accesses preserve is preserved.) The hypotheses on the file system: the answers
  of \<open>EvalSymlinks\<close> are the places where paths lead, no symbolic link dangles (the tools do
  escape through one that does, \<open>dangling_link_escapes\<close>), and nobody else moves directories
  or links while the tool runs. Which processes a permitted command starts itself is not covered.
\<close>

theorem toolset_confined:
  assumes "links_followed S loc" and "no_dangling_links S loc" and "links_stay S loc"
    and "rooted_at p rs"
    and "touches S p (leads_below loc rs) (\<lambda>y command. y = x \<and> permitted S p x call command) Q"
    and "Q w"
  shows "Q (snd (toolset_Execute S p (Some x) call w))"
proof -
  have fs: "fs_ok S loc" using assms(1-3) by (simp add: fs_ok_def)
  show ?thesis
    by (rule toolset_Execute_touches [OF assms(5,6) leads_below_stable [OF fs]])
      (rule ResolvePath_confined [OF fs assms(4)])
qed

text \<open>
  A system with two links in the workspace, \<open>/ws/in\<close> to \<open>/ws/d\<close> and \<open>/ws/out\<close> to \<open>/etc\<close>; it
  logs the places of the files it touches.
\<close>

fun two_links :: "string list \<Rightarrow> string list" where
  "two_links (d # e # es) =
     (if d = ''ws'' \<and> e = ''in'' then ''ws'' # ''d'' # es
      else if d = ''ws'' \<and> e = ''out'' then ''etc'' # es else d # e # es)"
| "two_links es = es"

definition two_links_exist :: "string list list" where
  "two_links_exist = [[''ws''], [''ws'', ''in''], [''ws'', ''out''], [''ws'', ''d''], [''etc'']]"

definition logging_os :: "string list list os" where
  "logging_os =
     \<lparr>os_Getwd = (\<lambda>w. (Inr ''/'', w)),
      os_EvalSymlinks = (\<lambda>q w. (if path_elems q \<in> set two_links_exist
        then Inr (abs_path (two_links (path_elems q))) else Inl (External ''missing'' []), w)),
      os_Stat = (\<lambda>q w. (Inr \<lparr>fi_IsDir = False, fi_Size = 0\<rparr>, w)),
      os_ReadFile = (\<lambda>q w. (Inr [], w @ [two_links (path_elems q)])),
      os_WriteFile = (\<lambda>q t w. (None, w @ [two_links (path_elems q)])),
      os_MkdirAll = (\<lambda>q w. (None, w)),
      os_Bash = (\<lambda>x t d c w. (\<lparr>br_err = None, br_ctxErr = None, br_stdout = [], br_stderr = []\<rparr>, w)),
      os_poll = (\<lambda>w. (None, w)), os_IsNotExist = (\<lambda>e. True), os_hash = (\<lambda>s. CHR ''h'' # s),
      os_is_print = (\<lambda>r. True)\<rparr>"

definition ws_policy :: Policy where
  "ws_policy = \<lparr>tp_workspaceRoot = ''/ws'', tp_bashTimeout = DefaultBashTimeout,
     tp_maxReadSize = DefaultMaxReadSize\<rparr>"

definition write_call :: "string \<Rightarrow> ToolCall" where
  "write_call path = \<lparr>tc_ID = ''c1'', tc_Name = ToolWrite,
     tc_Arguments = Some [(''content'', AnyString ''x''), (''path'', AnyString path)]\<rparr>"

lemma ws_rooted: "rooted_at ws_policy [''ws'']"
  by (simp add: rooted_at_def ws_policy_def abs_path_def plain_def)

lemma two_links_plain: "\<forall>e \<in> set qs. plain e \<Longrightarrow> \<forall>e \<in> set (two_links qs). plain e"
  by (induction qs rule: two_links.induct) (auto simp: plain_def)

lemma two_links_snoc: "qs @ [x] \<notin> set two_links_exist \<Longrightarrow> two_links (qs @ [x]) = two_links qs @ [x]"
  by (induction qs rule: two_links.induct) (auto simp: two_links_exist_def)

lemma logging_os_links:
  "links_followed logging_os (\<lambda>w. two_links)" "no_dangling_links logging_os (\<lambda>w. two_links)"
  "links_stay logging_os (\<lambda>w. two_links)"
  using two_links_plain two_links_snoc
  by (auto simp: links_followed_def no_dangling_links_def links_stay_def logging_os_def
      path_elems_abs_path split: if_splits)

theorem toolset_confined_witness:
  "list_all (below [''ws''])
     (snd (toolset_Execute logging_os ws_policy (Some ctx_Background) (write_call ''in/b.txt'') []) @
      snd (toolset_Execute logging_os ws_policy (Some ctx_Background) (write_call ''out/b.txt'') []))"
proof -
  have "touches logging_os ws_policy (leads_below (\<lambda>w. two_links) [''ws''])
      (\<lambda>y command. y = x \<and> permitted logging_os ws_policy x call command) (list_all (below [''ws'']))"
    for x call
    by (auto simp: touches_def logging_os_def leads_below_def path_elems_abs_path)
  from toolset_confined [OF logging_os_links ws_rooted this] show ?thesis by simp
qed

section \<open>Where the policy is weaker than it looks\<close>

text \<open>
  A single ampersand is no forbidden token: behind an allowed command, any other one is run in
  the background.
\<close>

lemma strip_graphic: "graphic c \<Longrightarrow> strip_prefix space_seqs (c # s) = None"
  unfolding strip_prefix_None_iff HasPrefix_iff
  by (metis hd_append2 list.sel(1) space_seqs_not_graphic)

lemma strip_blank: "strip_prefix space_seqs (CHR '' '' # s) = Some s"
  by (simp add: space_seqs_def bytes_def HasPrefix_def char_of_def bit_Suc_0_iff)

lemma ampersand_not_denied: "ValidateBashCommand ''ls & rm -rf notes'' = None"
proof -
  have trim: "TrimSpace ''ls & rm -rf notes'' = ''ls & rm -rf notes''"
    by (rule TrimSpace_graphic) (simp_all add: graphic_def)
  have "Fields ''ls & rm -rf notes'' = [''ls'', ''&'', ''rm'', ''-rf'', ''notes'']"
    by (simp add: Fields_def strip_graphic strip_blank graphic_def)
  moreover have "\<forall>t \<in> set forbiddenTokens. \<not> Contains ''ls & rm -rf notes'' t"
    by (simp add: forbiddenTokens_def HasPrefix_def bytes_def char_of_def bit_Suc_0_iff)
  ultimately show ?thesis
    unfolding ValidateBashCommand_None_iff bash_command_ok_def trim
    by (simp add: allowedBashCommands_def)
qed

text \<open>
  \<open>EvalSymlinks\<close> reports a dangling symbolic link as not existing, so \<open>resolveExistingPrefix\<close>
  goes on with its directory and the link itself is never looked at; the write then follows it.
  In this system \<open>/ws/link\<close> points to \<open>/etc/new\<close>, which does not exist; the world lists the
  files written.
\<close>

definition linked_os :: "(string \<times> string) list os" where
  "linked_os =
     \<lparr>os_Getwd = (\<lambda>w. (Inr ''/'', w)),
      os_EvalSymlinks = (\<lambda>q w. (if q = ''/ws'' then Inr q else Inl (External ''missing'' []), w)),
      os_Stat = (\<lambda>q w. (Inr \<lparr>fi_IsDir = False, fi_Size = 0\<rparr>, w)),
      os_ReadFile = (\<lambda>q w. (Inr [], w)),
      os_WriteFile = (\<lambda>q t w. (None, (if q = ''/ws/link'' then ''/etc/new'' else q, t) # w)),
      os_MkdirAll = (\<lambda>q w. (None, w)),
      os_Bash = (\<lambda>x t d c w. (\<lparr>br_err = None, br_ctxErr = None, br_stdout = [], br_stderr = []\<rparr>, w)),
      os_poll = (\<lambda>w. (None, w)), os_IsNotExist = (\<lambda>e. True), os_hash = (\<lambda>s. CHR ''h'' # s),
      os_is_print = (\<lambda>r. True)\<rparr>"

lemma link_resolved: "ResolvePath linked_os ws_policy ''link'' w = (Inr ''/ws/link'', w)"
proof -
  have trim: "TrimSpace ''link'' = ''link''" by (rule TrimSpace_graphic) (simp_all add: graphic_def)
  have ws: "abs_path [''ws''] = ''/ws''" "abs_path [''ws'', ''link''] = ''/ws/link''"
    by (simp_all add: abs_path_def)
  have plain: "\<forall>e \<in> set [''ws'', ''link'']. plain e" by (simp add: plain_def)
  have "Clean ''link'' = ''link''" by (simp add: Clean_def clean_elems_def clean_step_def)
  moreover have join: "path_Join [''/ws'', ''link''] = ''/ws/link''"
    using Clean_abs_path [OF plain] by (simp add: path_Join_def ws)
  moreover have clean: "Clean ''/ws/link'' = ''/ws/link''" using Clean_abs_path [OF plain] by (simp add: ws)
  moreover have "Dir ''/ws/link'' = ''/ws''" using Dir_abs_path [of "[''ws'']" "''link''"] plain by (simp add: ws)
  moreover have "Rel ''/ws'' ''/ws/link'' = Some ''link''"
    using Rel_below [of "[''ws'']" "[''link'']"] plain by (simp add: ws)
  ultimately have "resolveExistingPrefix linked_os ''/ws/link'' w = (Inr ''/ws/link'', w)"
    by (simp add: resolveExistingPrefix_def resolve_from.simps [of _ _ "''/ws/link''"]
        resolve_from.simps [of _ _ "''/ws''"] linked_os_def)
  moreover have "hasPathPrefix ''/ws'' ''/ws/link''"
    using hasPathPrefix_iff [of "[''ws'']" "[''ws'', ''link'']"] plain
    by (simp add: ws below_def HasPrefix_def)
  ultimately show ?thesis
    using trim join clean \<open>Clean ''link'' = ''link''\<close>
    by (simp add: ResolvePath_def Abs_def ws_policy_def)
qed

lemma dangling_link_escapes:
  "snd (toolset_Execute linked_os ws_policy (Some ctx_Background) (write_call ''link'') []) =
     [(''/etc/new'', ''x'')]"
proof -
  have "TrimSpace ''link'' = ''link''" "TrimSpace ''x'' = ''x''"
    by (rule TrimSpace_graphic; simp add: graphic_def)+
  then have "executeWrite linked_os ws_policy (tc_Arguments (write_call ''link'')) [] =
      (Inr ''write_ok path=link bytes=1'', [(''/etc/new'', ''x'')])"
    using link_resolved [of "[]"]
    by (simp add: executeWrite_def stringArgument_def write_call_def gomap_lookup_def linked_os_def
        nat_text.simps digit_char_def char_of_def bit_Suc_0_iff)
  then show ?thesis
    by (simp add: toolset_Execute_def toolset_run_def ctx_Err_def ctx_Background_def write_call_def
        ToolRead_def ToolWrite_def)
qed

end
