(* ===== verification/Tool_Runtime.thy ===== *)
theory Tool_Runtime
  imports Runtime Toolset_Safety
begin

text \<open>
  The server in its real tool mode (\<open>buildTools\<close> of \<open>runtimewire/runtimewire.go\<close>): the
  runtime with the tool set as its executor. The guarantees of the runner, of the engine and
  of the tool set combine: what the policy denies runs only after a user's approval of this
  very call.
\<close>

section \<open>Wiring\<close>

definition with_toolset :: "'x external \<Rightarrow> 'x os \<Rightarrow> Policy \<Rightarrow> 'x external" where
  "with_toolset E S p = E\<lparr>ex_Execute := toolset_Execute S p\<rparr>"

text \<open>
  A command that may run for \<open>call\<close> while \<open>cmd\<close> is dispatched on the stored runs \<open>m\<close>: the
  policy accepts it, or the user's approval names the call and its fingerprint.
\<close>

definition allowed_bash ::
  "'x os \<Rightarrow> Policy \<Rightarrow> contents \<Rightarrow> Command \<Rightarrow> go_ctx \<Rightarrow> ToolCall \<Rightarrow> string \<Rightarrow> bool" where
  "allowed_bash S p m cmd y call command \<longleftrightarrow>
     bash_command_ok command \<or>
     (approved_call m cmd (Some y) call \<and>
      approvedBashReplay (Some y) (tc_ID call)
        (bashApprovalFingerprint (os_hash S) call command p))"

lemma touches_mono:
  "touches S p A B Q \<Longrightarrow> (\<And>y c. B' y c \<Longrightarrow> B y c) \<Longrightarrow> touches S p A B' Q"
  unfolding touches_def by blast

lemma with_toolset_keeps:
  assumes "touches S p (\<lambda>w. check_answered S p) (\<lambda>y command. \<exists>call. allowed_bash S p m cmd y call command) Q"
    and "ext_keeps E (\<lambda>c call. False) Q"
  shows "ext_keeps (with_toolset E S p)
    (\<lambda>c call. ApprovedToolCallReplayOverrideFromContext c = None \<or> approved_call m cmd c call) Q"
proof -
  have "Q (snd (toolset_Execute S p c call v))"
    if "Q v" and allowed: "ApprovedToolCallReplayOverrideFromContext c = None \<or> approved_call m cmd c call"
    for c call v
  proof (cases c)
    case None
    with that show ?thesis by (simp add: toolset_Execute_def)
  next
    case (Some y)
    have "touches S p (\<lambda>w. check_answered S p) (\<lambda>y' c. y' = y \<and> permitted S p y call c) Q"
      by (rule touches_mono [OF assms(1)])
        (use allowed Some in \<open>auto simp: permitted_def allowed_bash_def approvedBashReplay_iff\<close>)
    from toolset_Execute_checked [OF this that(1)] Some show ?thesis by simp
  qed
  with assms(2) show ?thesis by (simp add: ext_keeps_def with_toolset_def)
qed

section \<open>Properties\<close>

text \<open>
  C4: a user decides over denied commands. While the server dispatches any command on well
  formed runs, a process is started, if at all, in the workspace and under the policy's
  timeout, for a command line that the bash policy accepts or for one whose tool call the
  dispatched command approves: it continues a run that is suspended on the approval of that
  call, and the approved fingerprint is the one of the call and the command line. Files are
  touched only at paths that \<open>ResolvePath\<close>, the workspace policy's check, has answered (where
  these lead is the subject of \<open>toolset_confined\<close>). Nothing is assumed of the file system.
  (Any fact about the outside that such accesses preserve is preserved.)
\<close>

theorem denied_bash_needs_approval:
  assumes "touches S p (\<lambda>w. check_answered S p)
      (\<lambda>y command. \<exists>call. allowed_bash S p (rt_store w) cmd y call command) Q"
    and "ext_keeps E (\<lambda>c call. False) Q" and "stored_wf (rt_store w)" and "Q (rt_ext w)"
  shows "Q (rt_ext (snd (snd (Dispatch (runtime_deps (with_toolset E S p)) c cmd (oc, w)))))"
  by (rule keep_Dispatch [OF runtime_deps_keep [OF with_toolset_keeps [OF assms(1,2)] assms(3)]
        assms(4)])

text \<open>A system that logs the commands it runs, and a server with one pending run on it.\<close>

definition bash_log_os :: "string list os" where
  "bash_log_os =
     \<lparr>os_Getwd = (\<lambda>w. (Inr ''/'', w)), os_EvalSymlinks = (\<lambda>q w. (Inr q, w)),
      os_Stat = (\<lambda>q w. (Inr \<lparr>fi_IsDir = False, fi_Size = 0\<rparr>, w)),
      os_ReadFile = (\<lambda>q w. (Inr [], w)), os_WriteFile = (\<lambda>q t w. (None, w)),
      os_MkdirAll = (\<lambda>q w. (None, w)),
      os_Bash = (\<lambda>x t d c w. (\<lparr>br_err = None, br_ctxErr = None, br_stdout = [], br_stderr = []\<rparr>,
        w @ [c])),
      os_poll = (\<lambda>w. (None, w)), os_IsNotExist = (\<lambda>e. True), os_hash = (\<lambda>s. CHR ''h'' # s),
      os_is_print = (\<lambda>r. True)\<rparr>"

definition bash_call :: "string \<Rightarrow> ToolCall" where
  "bash_call command = \<lparr>tc_ID = ''c1'', tc_Name = ToolBash,
     tc_Arguments = Some [(''command'', AnyString command)]\<rparr>"

text \<open>Its model asks for a denied command.\<close>

definition bash_ext :: "string list external" where
  "bash_ext =
     \<lparr>ex_Generate = (\<lambda>c q x. (Inr (zeroMessage\<lparr>m_ToolCalls := Some [bash_call ''rm x'']\<rparr>), x)),
      ex_Execute = (\<lambda>c call x. (Inr zeroToolResult, x)), ex_log = None,
      ex_poll = (\<lambda>x. (None, x)), ex_is_print = (\<lambda>r. False)\<rparr>"

definition suspended_bash :: "string list runtime" where
  "suspended_bash = (newRuntime [])\<lparr>rt_store := [''run-000001'' \<mapsto> fresh_run]\<rparr>"

lemma continue_fresh_no_approval: "\<not> approved_call [''run-000001'' \<mapsto> fresh_run] continue_fresh c call"
  by (simp add: approved_call_def continue_fresh_def)

theorem denied_bash_needs_approval_witness:
  "list_all bash_command_ok
     (rt_ext (snd (snd (Dispatch (runtime_deps (with_toolset bash_ext bash_log_os ws_policy))
        (Some ctx_Background) continue_fresh (Map.empty, suspended_bash)))))"
  by (rule denied_bash_needs_approval)
    (auto simp: touches_def bash_log_os_def allowed_bash_def suspended_bash_def
      continue_fresh_no_approval ext_keeps_def bash_ext_def newRuntime_def)

text \<open>
  C32: the approval protocol closes. A call of the bash tool with a denied command suspends with
  a requirement that the engine accepts for a valid run; and when the runner continues with an
  approval of this requirement, the context it passes lets the same call run its command.
\<close>

theorem bash_approval_roundtrip:
  assumes "ValidateBashCommand command = Some err" and "errors_Is err ErrBashCommandDenied"
    and "tc_Name call = ToolBash" and "tc_ID call \<noteq> []"
    and "stringArgument (tc_Arguments call) ''command'' = Inr command"
    and "ctx_Err (os_poll S) x w = (None, w1)"
    and "ApprovedToolCallReplayOverrideFromContext (Some x) = None"
    and "\<And>s. os_hash S s \<noteq> []" and "run_state_ok st"
  shows "\<exists>q. toolset_Execute S p (Some x) call w = (Inl (Suspend (Some q) (Some err)), w1) \<and>
    validateToolSuspendRequest st call (Some (Some q)) = Inr q \<and>
    (\<forall>r y. rs_Outcome r = ResolutionOutcomeApproved \<longrightarrow>
      (\<exists>z. continue_context (Some y) (Some r) (Some q) = Some z \<and>
        bash_gate S p z call command = None))"
proof -
  from bash_gate_denied [OF assms(1,2), where x = x and S = S and p = p and call = call] assms(7)
  obtain q where q: "bash_gate S p x call command = Some (Suspend (Some q) (Some err))"
    "pr_Kind q = RequirementKindApproval" "pr_Origin q = RequirementOriginTool"
    "pr_ToolCallID q = tc_ID call" "pr_ID q = ''req-bash-policy-'' @ tc_ID call"
    "pr_Fingerprint q = bashApprovalFingerprint (os_hash S) call command p"
    by auto
  have "toolset_run S p x call w1 = (Inl (Suspend (Some q) (Some err)), w1)"
    using assms(3,5) q(1) by (simp add: toolset_run_def executeBash_def ToolRead_def ToolWrite_def
        ToolEdit_def ToolBash_def)
  then have "toolset_Execute S p (Some x) call w = (Inl (Suspend (Some q) (Some err)), w1)"
    using assms(6) by (simp add: toolset_Execute_def)
  moreover have same: "q\<lparr>pr_ToolCallID := tc_ID call\<rparr> = q" using q(4) by (cases q) simp
  have "requirement_ok q"
    using q(2-) assms(4,8)
    by (simp add: requirement_ok_def bashApprovalFingerprint_def isKnownRequirementKind_def
        isKnownRequirementOrigin_def)
  then have "validateToolSuspendRequest st call (Some (Some q)) = Inr q"
    using q(3,4) validateRequirementContract_iff [OF assms(9), of q]
    by (simp del: validateRequirementContract_iff add: validateToolSuspendRequest_def Let_def same)
  moreover have "\<exists>z. continue_context (Some y) (Some r) (Some q) = Some z \<and>
      bash_gate S p z call command = None" if approved: "rs_Outcome r = ResolutionOutcomeApproved" for r y
  proof -
    obtain z where z: "continue_context (Some y) (Some r) (Some q) = Some z"
      "ApprovedToolCallReplayOverrideFromContext (Some z) =
         Some \<lparr>ov_ToolCallID = pr_ToolCallID q, ov_Fingerprint = pr_Fingerprint q\<rparr>"
      using approved q(3)
      by (auto simp: continue_context_def approvedToolCallReplayOverrideForContinue_def
          WithApprovedToolCallReplayOverride_def ApprovedToolCallReplayOverrideFromContext_def)
    with bash_gate_denied [OF assms(1,2), where x = z and S = S and p = p and call = call] q(4,6) show ?thesis by auto
  qed
  ultimately show ?thesis by blast
qed

lemma rm_denied:
  "\<exists>err. ValidateBashCommand ''rm x'' = Some err \<and> errors_Is err ErrBashCommandDenied"
proof -
  have trim: "TrimSpace ''rm x'' = ''rm x''" by (rule TrimSpace_graphic) (simp_all add: graphic_def)
  have "Fields ''rm x'' = [''rm'', ''x'']"
    by (simp add: Fields_def strip_graphic strip_blank graphic_def)
  moreover have "find (Contains ''rm x'') forbiddenTokens = None"
    by (simp add: forbiddenTokens_def HasPrefix_def bytes_def char_of_def bit_Suc_0_iff)
  ultimately show ?thesis
    by (simp add: ValidateBashCommand_def trim allowedBashCommands_def)
qed

theorem bash_approval_roundtrip_witness:
  "\<exists>q e. toolset_Execute bash_log_os ws_policy (Some ctx_Background) (bash_call ''rm x'') [] =
      (Inl (Suspend (Some q) e), []) \<and>
    validateToolSuspendRequest fresh_run (bash_call ''rm x'') (Some (Some q)) = Inr q"
proof -
  obtain err where err: "ValidateBashCommand ''rm x'' = Some err" "errors_Is err ErrBashCommandDenied"
    using rm_denied by blast
  have "TrimSpace ''rm x'' = ''rm x''" by (rule TrimSpace_graphic) (simp_all add: graphic_def)
  then have "stringArgument (tc_Arguments (bash_call ''rm x'')) ''command'' = Inr ''rm x''"
    by (simp add: stringArgument_def bash_call_def gomap_lookup_def)
  moreover have "run_state_ok fresh_run" using fresh_run_stored by (simp add: stored_ok_def run_state_ok_def)
  ultimately show ?thesis
    using bash_approval_roundtrip [OF err, of "bash_call ''rm x''" bash_log_os ctx_Background "[]" "[]"
        fresh_run ws_policy]
    by (auto simp: bash_call_def ctx_Err_def ctx_Background_def bash_log_os_def
        ApprovedToolCallReplayOverrideFromContext_def)
qed

end
