(* ===== verification/Executors.thy ===== *)
theory Executors
  imports React_Loop Toolset
begin

text \<open>
  The contract between the engine and a tool executor (\<open>agentreact/contracts.go\<close>) as a locale,
  and the executors of the repository that keep it: the registry of handlers
  (\<open>tooling/registry/registry.go\<close>), the real tool set and the mock tools
  (\<open>runtimewire/mocks/tools.go\<close>).
\<close>

section \<open>The contract\<close>

text \<open>A result carries the identity of the call it answers.\<close>

locale tool_executor =
  fixes execute :: "ctx \<Rightarrow> ToolCall \<Rightarrow> 'w \<Rightarrow> (gerr + ToolResult) \<times> 'w"
  assumes identity: "execute c call w = (Inr r, w') \<Longrightarrow>
    tr_CallID r = tc_ID call \<and> tr_Name r = tc_Name call"
begin

lemma result_identity: "execute c call w = (Inr r, w') \<Longrightarrow> validateToolResultIdentity call r = None"
  by (drule identity) (simp add: validateToolResultIdentity_def)

lemma result_filled: "execute c call w = (Inr r, w') \<Longrightarrow> fill_identity call r = r"
  by (drule identity) (auto simp: fill_identity_def Let_def)

text \<open>So the engine takes the results of such an executor as they are.\<close>

lemma run_tool_executed:
  assumes "rx_Execute L = execute" and "defs (tc_Name call) = Some d"
    and "validateToolCallArguments call d = None"
    and "execute (WithoutApprovedToolCallReplayOverride (Some x)) call w = (Inr r, w')"
  shows "run_tool L x defs st call w = (CallResult r, w')"
  using assms result_identity [OF assms(4)] by (simp add: run_tool_def)

lemma replay_executed:
  assumes "rx_Execute L = execute" and "execute (Some x) call w = (Inr r, w')"
  shows "executeApprovedToolReplay L x call w = (Inr r, w')"
  using assms result_identity [OF assms(2)] by (simp add: executeApprovedToolReplay_def)

end

section \<open>Registry\<close>

text \<open>A handler of the map is \<open>None\<close> for the nil function.\<close>

type_synonym 'w Handler = "go_ctx \<Rightarrow> gomap \<Rightarrow> 'w \<Rightarrow> (gerr + string) \<times> 'w"
type_synonym 'w Registry = "string \<Rightarrow> 'w Handler option option"

definition validateRegistration :: "string \<Rightarrow> 'w Handler option \<Rightarrow> gerr option" where
  "validateRegistration name handler =
     (if name = [] then Some (Sentinel ErrToolNameEmpty)
      else if handler = None then Some (Sentinel ErrNilHandler)
      else None)"

text \<open>\<open>New\<close>, for the order in which the loop over the initial map visits its entries.\<close>

primrec registry_from ::
  "(string \<times> 'w Handler option) list \<Rightarrow> 'w Registry \<Rightarrow> gerr + 'w Registry" where
  "registry_from [] handlers = Inr handlers"
| "registry_from (e # es) handlers =
     (case validateRegistration (fst e) (snd e) of
        Some err \<Rightarrow> Inl err
      | None \<Rightarrow> registry_from es (handlers(fst e \<mapsto> snd e)))"

definition registry_New :: "(string \<times> 'w Handler option) list \<Rightarrow> gerr + 'w Registry" where
  "registry_New initial = registry_from initial Map.empty"

definition Register :: "string \<Rightarrow> 'w Handler option \<Rightarrow> 'w Registry \<Rightarrow> gerr option \<times> 'w Registry" where
  "Register name handler r =
     (case validateRegistration name handler of
        Some err \<Rightarrow> (Some err, r)
      | None \<Rightarrow> (None, r(name \<mapsto> handler)))"

definition registry_Execute ::
  "'w poll \<Rightarrow> 'w Registry \<Rightarrow> ctx \<Rightarrow> ToolCall \<Rightarrow> 'w \<Rightarrow> (gerr + ToolResult) \<times> 'w" where
  "registry_Execute poll reg c call w =
     (case c of
        None \<Rightarrow> (Inl (Sentinel ErrContextNil), w)
      | Some x \<Rightarrow>
     (case ctx_Err poll x w of
        (Some ctxErr, w1) \<Rightarrow> (Inl ctxErr, w1)
      | (None, w1) \<Rightarrow>
          if tc_Name call = [] then
            (Inl (Errorf [wraps ErrToolNameEmpty, Lit '': call '', Quo (tc_ID call)]), w1)
          else (case reg (tc_Name call) of
            None \<Rightarrow> (Inl (Errorf [wraps ErrToolUnregistered, Lit '': '', Quo (tc_Name call)]), w1)
          | Some None \<Rightarrow> (Inl (Errorf [wraps ErrNilHandler, Lit '': '', Quo (tc_Name call)]), w1)
          | Some (Some handler) \<Rightarrow>
              (case handler x (tc_Arguments call) w1 of
                 (Inl err, w2) \<Rightarrow> (Inl err, w2)
               | (Inr content, w2) \<Rightarrow>
                   (Inr (zeroToolResult\<lparr>tr_CallID := tc_ID call, tr_Name := tc_Name call,
                      tr_Content := content\<rparr>), w2)))))"

interpretation registry: tool_executor "registry_Execute poll reg"
  by unfold_locales
    (auto simp: registry_Execute_def split: option.splits prod.splits sum.splits if_splits)

interpretation toolset: tool_executor "toolset_Execute S p"
  by unfold_locales (auto simp: toolset_Execute_def split: option.splits prod.splits sum.splits)

text \<open>The handlers of a registry that \<open>New\<close> and \<open>Register\<close> built are never nil.\<close>

definition registry_ok :: "'w Registry \<Rightarrow> bool" where
  "registry_ok reg \<longleftrightarrow> reg [] = None \<and> (\<forall>name. reg name \<noteq> Some None)"

lemma Register_ok: "registry_ok reg \<Longrightarrow> registry_ok (snd (Register name handler reg))"
  by (auto simp: Register_def registry_ok_def validateRegistration_def)

lemma registry_from_ok:
  "registry_from es handlers = Inr reg \<Longrightarrow> registry_ok handlers \<Longrightarrow> registry_ok reg"
  by (induction es arbitrary: handlers)
    (auto simp: registry_ok_def validateRegistration_def split: if_splits)

lemma registry_from_iff:
  "(\<exists>reg. registry_from es handlers = Inr reg) \<longleftrightarrow>
   (\<forall>(name, handler) \<in> set es. name \<noteq> [] \<and> handler \<noteq> None)"
  by (induction es arbitrary: handlers) (auto simp: validateRegistration_def)

lemma registry_from_result:
  "registry_from es handlers = Inr reg \<Longrightarrow> reg = handlers ++ map_of (rev es)"
  by (induction es arbitrary: handlers) (auto split: option.splits)

lemma registry_New_accepts:
  assumes "distinct (map fst es)" and "\<forall>(name, handler) \<in> set es. name \<noteq> [] \<and> handler \<noteq> None"
  shows "registry_New es = Inr (map_of es)"
proof -
  from assms(2) obtain reg where reg: "registry_from es Map.empty = Inr reg"
    using registry_from_iff by blast
  moreover have "map_of (rev es) = map_of es"
    using assms(1) by (intro map_of_inject_set [THEN iffD2]) (simp_all add: rev_map [symmetric])
  ultimately show ?thesis using registry_from_result [OF reg] by (simp add: registry_New_def)
qed

lemma registry_from_refuses:
  "registry_from es handlers = Inl e \<Longrightarrow> errors_Is e ErrToolNameEmpty \<or> errors_Is e ErrNilHandler"
  by (induction es arbitrary: handlers)
    (auto simp: validateRegistration_def split: option.splits if_splits)

lemma registry_Execute_handler:
  assumes "ctx_detached x" and "tc_Name call \<noteq> []" and "reg (tc_Name call) = Some (Some handler)"
  shows "registry_Execute poll reg (Some x) call w =
    (case handler x (tc_Arguments call) w of
       (Inl e, w') \<Rightarrow> (Inl e, w')
     | (Inr content, w') \<Rightarrow> (Inr \<lparr>tr_CallID = tc_ID call, tr_Name = tc_Name call,
         tr_Content = content, tr_IsError = False, tr_FailureReason = []\<rparr>, w'))"
  using assms
  by (simp add: registry_Execute_def ctx_Err_def zeroToolResult_def split: prod.split sum.split)

section \<open>Mock tools\<close>

text \<open>\<open>marshal\<close> is \<open>json.Marshal\<close> of the arguments.\<close>

definition mock_Definitions :: "ToolDefinition list" where
  "mock_Definitions = CloneToolDefinitions
     [\<lparr>td_Name = ''mock_lookup'', td_Description = ''Deterministic mock lookup tool.'',
       td_InputSchema = Some
         [(''properties'', AnyMap (Some [string_property ''query''])),
          (''type'', AnyString ''object'')]\<rparr>]"

definition mock_Execute ::
  "(gomap \<Rightarrow> gerr + string) \<Rightarrow> ctx \<Rightarrow> ToolCall \<Rightarrow> 'w \<Rightarrow> (gerr + ToolResult) \<times> 'w" where
  "mock_Execute marshal c call w =
     (if tc_Name call = [] then (Inl (Errorf [Lit ''mock tools: empty call name'']), w)
      else case (if elems (tc_Arguments call) \<noteq> [] then marshal (tc_Arguments call)
                 else Inr ''{}'') of
        Inl e \<Rightarrow> (Inl (Errorf [Lit ''mock tools: encode arguments: '', Wrap e]), w)
      | Inr arguments \<Rightarrow>
          (Inr (zeroToolResult\<lparr>tr_CallID := tc_ID call, tr_Name := tc_Name call,
             tr_Content := ''mock_tool_result name='' @ tc_Name call @ '' args='' @ arguments\<rparr>), w))"

interpretation mock: tool_executor "mock_Execute marshal"
  by unfold_locales (auto simp: mock_Execute_def split: sum.splits if_splits)

section \<open>Properties\<close>

text \<open>
  C37: the registry accepts exactly the maps without an empty name and without a nil handler,
  whatever order its entries are visited in, holds the handler of every entry then, and
  executes a call by the handler of its name: an empty name, an unregistered name and a
  failing handler are errors, and the handler's content is returned under the identity of the
  call.
\<close>

theorem registry_correct:
  assumes "distinct (map fst es)" and "ctx_detached x"
  shows "if \<forall>(name, handler) \<in> set es. name \<noteq> [] \<and> handler \<noteq> None
    then \<exists>reg. registry_New es = Inr reg \<and>
      (case map_of es (tc_Name call) of
         None \<Rightarrow> \<exists>e. registry_Execute poll reg (Some x) call w = (Inl e, w) \<and>
           errors_Is e (if tc_Name call = [] then ErrToolNameEmpty else ErrToolUnregistered)
       | Some handler \<Rightarrow> registry_Execute poll reg (Some x) call w =
           (case the handler x (tc_Arguments call) w of
              (Inl e, w') \<Rightarrow> (Inl e, w')
            | (Inr content, w') \<Rightarrow> (Inr \<lparr>tr_CallID = tc_ID call, tr_Name = tc_Name call,
                tr_Content = content, tr_IsError = False, tr_FailureReason = []\<rparr>, w')))
    else \<exists>e. registry_New es = Inl e \<and> (errors_Is e ErrToolNameEmpty \<or> errors_Is e ErrNilHandler)"
proof (cases "\<forall>(name, handler) \<in> set es. name \<noteq> [] \<and> handler \<noteq> None")
  case True
  note new = registry_New_accepts [OF assms(1) True]
  show ?thesis
  proof (cases "map_of es (tc_Name call)")
    case None
    with True new assms(2) show ?thesis by (simp add: registry_Execute_def ctx_Err_def)
  next
    case (Some handler)
    with True have "tc_Name call \<noteq> []" "handler \<noteq> None" by (auto dest: map_of_SomeD)
    then obtain f where f: "handler = Some f" and ne: "tc_Name call \<noteq> []" by blast
    with Some have "map_of es (tc_Name call) = Some (Some f)" by simp
    from registry_Execute_handler
        [where reg = "map_of es" and handler = f and poll = poll and w = w, OF assms(2) ne this]
      True new Some f show ?thesis by simp
  qed
next
  case False
  then have "\<nexists>reg. registry_New es = Inr reg"
    using registry_from_iff [of es Map.empty] by (auto simp: registry_New_def)
  then obtain e where e: "registry_New es = Inl e" by (cases "registry_New es") auto
  then have "errors_Is e ErrToolNameEmpty \<or> errors_Is e ErrNilHandler"
    using registry_from_refuses [of es Map.empty e] by (simp add: registry_New_def)
  with e show ?thesis by (simp only: if_not_P [OF False]) blast
qed

text \<open>A registry with one handler.\<close>

theorem registry_correct_witness:
  "\<exists>reg. registry_New [(''echo'', Some (\<lambda>x arguments w. (Inr ''hello'', w)))] = Inr reg \<and>
    registry_Execute (\<lambda>w. (None, w)) reg (Some ctx_Background)
      \<lparr>tc_ID = ''c1'', tc_Name = ''echo'', tc_Arguments = None\<rparr> () =
    (Inr \<lparr>tr_CallID = ''c1'', tr_Name = ''echo'', tr_Content = ''hello'', tr_IsError = False,
       tr_FailureReason = []\<rparr>, ())"
  using registry_correct [where x = ctx_Background
      and es = "[(''echo'', Some (\<lambda>x arguments w. (Inr ''hello'', w)))]"
      and call = "\<lparr>tc_ID = ''c1'', tc_Name = ''echo'', tc_Arguments = None\<rparr>"
      and poll = "\<lambda>w. (None, w)" and w = "()"]
  by (auto simp: ctx_Background_def)

end
