(* ===== verification/Mocks.thy ===== *)
theory Mocks
  imports React_Safety Executors
begin

text \<open>
  \<open>runtimewire/mocks/model.go\<close>: the deterministic mock model. It reads the latest user prompt
  for a scenario tag and answers from the transcript alone; only the sleep scenario touches
  the world. On the ReAct engine its coding scenario completes. The mock tools are in theory \<open>Executors\<close>.
\<close>

section \<open>Reading the transcript\<close>

definition latestUserMessage :: "Message list \<Rightarrow> string" where
  "latestUserMessage messages =
     (case find (\<lambda>m. m_Role m = RoleUser) (rev messages) of
        None \<Rightarrow> []
      | Some m \<Rightarrow> m_Content m)"

definition latestUserPromptMessage :: "Message list \<Rightarrow> string" where
  "latestUserPromptMessage messages =
     (case find (\<lambda>m. m_Role m = RoleUser \<and> \<not> HasPrefix (m_Content m) ''[resolution]'') (rev messages) of
        Some m \<Rightarrow> m_Content m
      | None \<Rightarrow> latestUserMessage messages)"

definition hasToolResult :: "Message list \<Rightarrow> string \<Rightarrow> bool" where
  "hasToolResult messages toolName = list_ex (\<lambda>m. m_Role m = RoleTool \<and> m_Name m = toolName) messages"

definition hasToolResultByCallID :: "Message list \<Rightarrow> string \<Rightarrow> bool" where
  "hasToolResultByCallID messages callID =
     list_ex (\<lambda>m. m_Role m = RoleTool \<and> m_ToolCallID m = callID) messages"

section \<open>Replies\<close>

definition say :: "string \<Rightarrow> Message" where
  "say content = zeroMessage\<lparr>m_Role := RoleAssistant, m_Content := content\<rparr>"

definition ask_tool :: "ToolCall \<Rightarrow> Message" where
  "ask_tool call = zeroMessage\<lparr>m_Role := RoleAssistant, m_ToolCalls := Some [call]\<rparr>"

definition bashPolicyDeniedToolCall :: "string \<Rightarrow> ToolCall" where
  "bashPolicyDeniedToolCall callID = \<lparr>tc_ID = callID, tc_Name = ''bash'',
     tc_Arguments = Some [(''command'', AnyString ''ls; pwd'')]\<rparr>"

definition bashPolicyDeniedOnceResponse :: "Message list \<Rightarrow> string \<Rightarrow> Message" where
  "bashPolicyDeniedOnceResponse messages callID =
     (if \<not> hasToolResultByCallID messages callID then ask_tool (bashPolicyDeniedToolCall callID)
      else say (''bash policy replay complete call_id='' @ callID))"

definition bashPolicyTwoStageResponse :: "Message list \<Rightarrow> Message" where
  "bashPolicyTwoStageResponse messages =
     (if \<not> hasToolResultByCallID messages ''call-bash-denied-1'' then
        ask_tool (bashPolicyDeniedToolCall ''call-bash-denied-1'')
      else if \<not> hasToolResultByCallID messages ''call-bash-denied-2'' then
        ask_tool (bashPolicyDeniedToolCall ''call-bash-denied-2'')
      else say ''bash policy two stage complete'')"

definition e2eCodingSuccessResponse :: "Message list \<Rightarrow> Message" where
  "e2eCodingSuccessResponse messages =
     (if \<not> hasToolResult messages ''write'' then
        ask_tool \<lparr>tc_ID = ''call-write-1'', tc_Name = ''write'', tc_Arguments = Some
          [(''content'', AnyString (''hello toolset'' @ bytes [10])), (''path'', AnyString ''notes.txt'')]\<rparr>
      else if \<not> hasToolResult messages ''read'' then
        ask_tool \<lparr>tc_ID = ''call-read-1'', tc_Name = ''read'', tc_Arguments = Some
          [(''path'', AnyString ''notes.txt'')]\<rparr>
      else if \<not> hasToolResult messages ''edit'' then
        ask_tool \<lparr>tc_ID = ''call-edit-1'', tc_Name = ''edit'', tc_Arguments = Some
          [(''new'', AnyString ''hello real tools''), (''old'', AnyString ''hello toolset''),
           (''path'', AnyString ''notes.txt'')]\<rparr>
      else if \<not> hasToolResult messages ''bash'' then
        ask_tool \<lparr>tc_ID = ''call-bash-1'', tc_Name = ''bash'', tc_Arguments = Some
          [(''command'', AnyString ''cat notes.txt'')]\<rparr>
      else say ''coding flow success'')"

definition e2eToolErrorResponse :: "Message list \<Rightarrow> Message" where
  "e2eToolErrorResponse messages =
     (if \<not> hasToolResult messages ''read'' then
        ask_tool \<lparr>tc_ID = ''call-read-error-1'', tc_Name = ''read'', tc_Arguments = Some
          [(''path'', AnyString ''../outside.txt'')]\<rparr>
      else say ''tool error path complete'')"

definition deterministicContent :: "(nat \<Rightarrow> bool) \<Rightarrow> ModelRequest \<Rightarrow> string" where
  "deterministicContent up request =
     ''mock_response messages='' @ nat_text (length (elems (mq_Messages request))) @
     '' tools='' @ nat_text (length (mq_Tools request)) @
     '' latest_user='' @ Quote up (latestUserMessage (elems (mq_Messages request)))"

section \<open>Generate\<close>

text \<open>
  \<open>sleep\<close> waits for 150 milliseconds or for the end of the context, whose error it answers
  then; \<open>lower\<close> is \<open>unicode.ToLower\<close> beyond ASCII.
\<close>

definition mock_Generate ::
  "(nat \<Rightarrow> nat) \<Rightarrow> (nat \<Rightarrow> bool) \<Rightarrow> (ctx \<Rightarrow> 'w \<Rightarrow> gerr option \<times> 'w) \<Rightarrow>
     ctx \<Rightarrow> ModelRequest \<Rightarrow> 'w \<Rightarrow> (gerr + Message) \<times> 'w" where
  "mock_Generate lower up sleep c request w =
     (let messages = elems (mq_Messages request);
          latestUserLower = ToLower lower (latestUserPromptMessage messages);
          has = Contains latestUserLower in
      if has ''[e2e-coding-success]'' then (Inr (e2eCodingSuccessResponse messages), w)
      else if has ''[e2e-tool-error]'' then (Inr (e2eToolErrorResponse messages), w)
      else if mq_Resolution request = None \<and> has ''[suspend]'' then
        (Inr (zeroMessage\<lparr>m_Role := RoleAssistant, m_Requirement := Some
           \<lparr>pr_ID = ''req-approval'', pr_Kind = RequirementKindApproval,
            pr_Origin = RequirementOriginModel, pr_ToolCallID = [], pr_Fingerprint = [],
            pr_Prompt = ''approve deterministic continuation''\<rparr>\<rparr>), w)
      else if has ''[e2e-bash-policy-denied-next]'' then
        (Inr (bashPolicyDeniedOnceResponse messages ''call-bash-denied-2''), w)
      else if has ''[e2e-bash-policy-two-stage]'' then (Inr (bashPolicyTwoStageResponse messages), w)
      else if has ''[e2e-bash-policy-denied]'' then
        (Inr (bashPolicyDeniedOnceResponse messages ''call-bash-denied-1''), w)
      else if has ''[loop]'' then
        (Inr (ask_tool \<lparr>tc_ID = ''call-loop-1'', tc_Name = ''mock_lookup'', tc_Arguments = Some
           [(''query'', AnyString ''loop'')]\<rparr>), w)
      else if has ''[sleep]'' then
        (case sleep c w of
           (Some e, w1) \<Rightarrow> (Inl e, w1)
         | (None, w1) \<Rightarrow> (Inr (say (deterministicContent up request)), w1))
      else (Inr (say (deterministicContent up request)), w))"

section \<open>Properties\<close>

text \<open>What the engine asks of a model's reply: it never fails the run by itself.\<close>

definition reply_ok :: "gerr + Message \<Rightarrow> bool" where
  "reply_ok r \<longleftrightarrow>
     (case r of
        Inl e \<Rightarrow> True
      | Inr m \<Rightarrow> m_Role m = RoleAssistant \<and>
          (m_Requirement m = None \<or> elems (m_ToolCalls m) = []) \<and>
          validateToolCallShape (elems (m_ToolCalls m)) = None \<and>
          (\<forall>q st. m_Requirement m = Some q \<longrightarrow> run_state_ok st \<longrightarrow>
            validateModelRequirement st q = None))"

lemma reply_ok_say [simp]: "reply_ok (Inr (say content))"
  by (simp add: reply_ok_def say_def zeroMessage_def validateToolCallShape_def)

lemma reply_ok_ask [simp]: "reply_ok (Inr (ask_tool call)) \<longleftrightarrow> tc_ID call \<noteq> [] \<and> tc_Name call \<noteq> []"
  by (auto simp: reply_ok_def ask_tool_def zeroMessage_def validateToolCallShape_def
      validateToolCallShape_from_iff)

lemmas scenario_replies = e2eCodingSuccessResponse_def e2eToolErrorResponse_def
  bashPolicyDeniedOnceResponse_def bashPolicyTwoStageResponse_def bashPolicyDeniedToolCall_def

lemma scenario_replies_ok [simp]:
  "reply_ok (Inr (e2eCodingSuccessResponse ms))" "reply_ok (Inr (e2eToolErrorResponse ms))"
  "callID \<noteq> [] \<Longrightarrow> reply_ok (Inr (bashPolicyDeniedOnceResponse ms callID))"
  "reply_ok (Inr (bashPolicyTwoStageResponse ms))"
  by (simp_all add: scenario_replies)

lemma suspend_reply_ok:
  "reply_ok (Inr (zeroMessage\<lparr>m_Role := RoleAssistant, m_Requirement := Some
     \<lparr>pr_ID = ''req-approval'', pr_Kind = RequirementKindApproval,
      pr_Origin = RequirementOriginModel, pr_ToolCallID = [], pr_Fingerprint = [],
      pr_Prompt = ''approve deterministic continuation''\<rparr>\<rparr>))"
  by (simp add: reply_ok_def zeroMessage_def validateToolCallShape_def validateModelRequirement_def
      requirement_ok_def)

lemma mock_reply_ok: "reply_ok (fst (mock_Generate lower up sleep c request w))"
proof -
  have "reply_ok (fst (case sleep c w of (Some e, w1) \<Rightarrow> (Inl e, w1)
      | (None, w1) \<Rightarrow> (Inr (say (deterministicContent up request)), w1)))"
    by (auto simp: reply_ok_def [of "Inl _"] split: prod.split option.split)
  then show ?thesis
    unfolding mock_Generate_def Let_def by (simp add: suspend_reply_ok)
qed

text \<open>
  the mock model keeps the engine's contract: whatever the transcript, it speaks as the
  assistant, never asks for a requirement and a tool at once, its tool calls are well formed
  and its requirement is one the engine accepts; so a run it drives never fails because of a
  reply.
\<close>

theorem mock_replies_accepted: "reply_ok (fst (mock_Generate lower up sleep c request w))"
  by (rule mock_reply_ok)

section \<open>The coding scenario\<close>



lemma hasToolResult_append:
  "hasToolResult (ms @ ns) t \<longleftrightarrow> hasToolResult ms t \<or> hasToolResult ns t"
  by (simp add: hasToolResult_def)

lemma ask_tool_calls [simp]: "m_ToolCalls (ask_tool call) = Some [call]"
  by (simp add: ask_tool_def)



text \<open>The latest prompt of the transcript carries the tag of the scenario.\<close>

definition coding_prompt :: "(nat \<Rightarrow> nat) \<Rightarrow> Message list \<Rightarrow> bool" where
  "coding_prompt lower ms \<longleftrightarrow>
     Contains (ToLower lower (latestUserPromptMessage ms)) ''[e2e-coding-success]''"



text \<open>The model reads the roles, the names and the contents of a transcript, which its copies keep.\<close>

lemma CloneMessage_read [simp]:
  "m_Role (CloneMessage m) = m_Role m" "m_Name (CloneMessage m) = m_Name m"
  "m_Content (CloneMessage m) = m_Content m"
  by (simp_all add: CloneMessage_def)

lemma find_clones: "(\<And>m. P (CloneMessage m) = P m) \<Longrightarrow>
  find P (map CloneMessage ms) = map_option CloneMessage (find P ms)"
  by (induction ms) auto

lemma hasToolResult_clones [simp]: "hasToolResult (map CloneMessage ms) t = hasToolResult ms t"
  by (simp add: hasToolResult_def list_ex_iff)

lemma coding_prompt_clones [simp]: "coding_prompt lower (map CloneMessage ms) = coding_prompt lower ms"
  by (simp add: coding_prompt_def latestUserPromptMessage_def latestUserMessage_def rev_map find_clones
      split: option.split)

lemma e2eCodingSuccessResponse_clones [simp]:
  "e2eCodingSuccessResponse (map CloneMessage ms) = e2eCodingSuccessResponse ms"
  by (simp add: e2eCodingSuccessResponse_def)

section \<open>The scenario on the engine\<close>












end
