(* ===== verification/Preflight.thy ===== *)
theory Preflight
  imports Agent_Types Go_Errors
begin

text \<open>
  \<open>modelprovider/preflight/normalize.go\<close>: the transcript as it is sent to a model provider.
  Tool observations must answer a tool call of an earlier assistant message, and only the
  latest observation of a call is kept, at the place of the first one.
\<close>

section \<open>The loop\<close>

record preflight_state =
  pf_normalized :: "Message list"
  pf_assistantToolCalls :: "string set"
  pf_toolMessageIndexByCallID :: "string \<Rightarrow> nat option"

definition preflight_start :: preflight_state where
  "preflight_start = \<lparr>pf_normalized = [], pf_assistantToolCalls = {},
     pf_toolMessageIndexByCallID = Map.empty\<rparr>"

text \<open>One round of the loop, for the message at index \<open>i\<close>.\<close>

definition preflight_message :: "nat \<Rightarrow> Message \<Rightarrow> preflight_state \<Rightarrow> gerr + preflight_state" where
  "preflight_message i m s =
     (let message = CloneMessage m in
      if m_Role message = RoleAssistant then
        Inr (s\<lparr>pf_normalized := pf_normalized s @ [message],
          pf_assistantToolCalls := pf_assistantToolCalls s \<union>
            set (filter (\<lambda>i. i \<noteq> []) (map tc_ID (elems (m_ToolCalls message))))\<rparr>)
      else if m_Role message = RoleTool then
        let toolCallID = TrimSpace (m_ToolCallID message) in
        if toolCallID = [] then
          Inl (Errorf [Lit ''decode messages: tool message at index '', Num (int i),
            Lit '' missing tool_call_id''])
        else if toolCallID \<notin> pf_assistantToolCalls s then
          Inl (Errorf [Lit ''decode messages: tool message at index '', Num (int i),
            Lit '' references unknown tool_call_id '', Quo toolCallID])
        else (case pf_toolMessageIndexByCallID s toolCallID of
          Some existingIndex \<Rightarrow>
            Inr (s\<lparr>pf_normalized := (pf_normalized s)[existingIndex := message]\<rparr>)
        | None \<Rightarrow>
            Inr (s\<lparr>pf_normalized := pf_normalized s @ [message],
              pf_toolMessageIndexByCallID :=
                (pf_toolMessageIndexByCallID s)(toolCallID \<mapsto> length (pf_normalized s))\<rparr>))
      else Inr (s\<lparr>pf_normalized := pf_normalized s @ [message]\<rparr>))"

primrec preflight_loop :: "nat \<Rightarrow> Message list \<Rightarrow> preflight_state \<Rightarrow> gerr + preflight_state" where
  "preflight_loop i [] s = Inr s"
| "preflight_loop i (m # ms) s =
     (case preflight_message i m s of
        Inl e \<Rightarrow> Inl e
      | Inr s' \<Rightarrow> preflight_loop (Suc i) ms s')"

definition NormalizeMessagesForProvider :: "Message list \<Rightarrow> gerr + Message list" where
  "NormalizeMessagesForProvider messages =
     (case preflight_loop 0 messages preflight_start of
        Inl e \<Rightarrow> Inl e
      | Inr s \<Rightarrow> Inr (pf_normalized s))"

section \<open>What it computes\<close>

text \<open>The calls an observation may answer, the call it answers, and the observations of a call.\<close>

definition offered :: "Message list \<Rightarrow> string set" where
  "offered ms = (\<Union>m \<in> {m \<in> set ms. m_Role m = RoleAssistant}.
     {i \<in> tc_ID ` set (elems (m_ToolCalls m)). i \<noteq> []})"

definition observed :: "Message \<Rightarrow> string option" where
  "observed m = (if m_Role m = RoleTool then Some (TrimSpace (m_ToolCallID m)) else None)"

definition observation_ok :: "Message list \<Rightarrow> Message \<Rightarrow> bool" where
  "observation_ok before m \<longleftrightarrow> (case observed m of None \<Rightarrow> True | Some i \<Rightarrow> i \<in> offered before)"

primrec observations_ok :: "Message list \<Rightarrow> Message list \<Rightarrow> bool" where
  "observations_ok before [] \<longleftrightarrow> True"
| "observations_ok before (m # ms) \<longleftrightarrow> observation_ok before m \<and> observations_ok (before @ [m]) ms"

text \<open>The last message of \<open>ms\<close> that observes \<open>i\<close>, the copy \<open>m\<close> when there is none.\<close>

definition latest :: "Message list \<Rightarrow> Message \<Rightarrow> Message" where
  "latest ms m =
     (case observed m of
        None \<Rightarrow> m
      | Some i \<Rightarrow>
          let ns = filter (\<lambda>n. observed n = Some i) ms in if ns = [] then m else last ns)"

text \<open>
  The specification: of every call the first observation only, and in its place the latest;
  every other message where it is.
\<close>

primrec first_observations :: "string set \<Rightarrow> Message list \<Rightarrow> Message list" where
  "first_observations seen [] = []"
| "first_observations seen (m # ms) =
     (case observed m of
        None \<Rightarrow> m # first_observations seen ms
      | Some i \<Rightarrow>
          if i \<in> seen then first_observations seen ms
          else m # first_observations (insert i seen) ms)"

definition provider_transcript :: "Message list \<Rightarrow> Message list" where
  "provider_transcript ms = map (\<lambda>m. CloneMessage (latest ms m)) (first_observations {} ms)"

section \<open>The loop keeps the specification of what it has read\<close>

definition observations :: "Message list \<Rightarrow> string set" where
  "observations ms = {i. \<exists>m \<in> set ms. observed m = Some i}"

definition preflight_inv :: "Message list \<Rightarrow> preflight_state \<Rightarrow> bool" where
  "preflight_inv ms s \<longleftrightarrow>
     pf_normalized s = provider_transcript ms \<and>
     pf_assistantToolCalls s = offered ms \<and>
     (\<forall>i. pf_toolMessageIndexByCallID s i =
        (if i \<in> observations ms
         then Some (length (takeWhile (\<lambda>m. observed m \<noteq> Some i) (first_observations {} ms)))
         else None))"

lemma observed_Clone [simp]: "observed (CloneMessage m) = observed m"
  by (simp add: observed_def)

lemma observations_simps [simp]:
  "observations [] = {}"
  "observations (ms @ ns) = observations ms \<union> observations ns"
  "observations [m] = (case observed m of None \<Rightarrow> {} | Some i \<Rightarrow> {i})"
  by (auto simp: observations_def split: option.splits)

lemma offered_snoc:
  "offered (ms @ [m]) = offered ms \<union>
     (if m_Role m = RoleAssistant then {i \<in> tc_ID ` set (elems (m_ToolCalls m)). i \<noteq> []} else {})"
  by (auto simp: offered_def)

lemma offered_nonempty: "i \<in> offered ms \<Longrightarrow> i \<noteq> []"
  by (auto simp: offered_def)

lemma first_observations_subset: "set (first_observations S ms) \<subseteq> set ms"
  by (induction ms arbitrary: S) (auto split: option.splits)

lemma first_observations_snoc:
  "first_observations S (ms @ [m]) = first_observations S ms @
     (case observed m of None \<Rightarrow> [m] | Some i \<Rightarrow> if i \<in> S \<union> observations ms then [] else [m])"
  by (induction ms arbitrary: S) (auto simp: observations_def split: option.split)

lemma first_observations_covers:
  "i \<in> observations ms \<Longrightarrow> i \<notin> S \<Longrightarrow> \<exists>m \<in> set (first_observations S ms). observed m = Some i"
proof (induction ms arbitrary: S)
  case (Cons n ms)
  then show ?case
    by (cases "observed n = Some i") (auto simp: observations_def split: option.split)
qed simp

lemma first_observations_fresh:
  "m \<in> set (first_observations S ms) \<Longrightarrow> observed m = Some i \<Longrightarrow> i \<notin> S"
  by (induction ms arbitrary: S) (auto split: option.splits if_splits)

lemma first_observations_once:
  assumes "j < length (first_observations S ms)" and "k < length (first_observations S ms)"
    and "observed (first_observations S ms ! j) = Some i"
    and "observed (first_observations S ms ! k) = Some i"
  shows "j = k"
  using assms
proof (induction ms arbitrary: S j k)
  case (Cons m ms)
  have late: "observed (first_observations (insert i S') ms ! l) \<noteq> Some i"
    if "l < length (first_observations (insert i S') ms)" for l S'
    using first_observations_fresh [OF nth_mem [OF that]] by blast
  show ?case
  proof (cases "observed m")
    case None
    with Cons.prems Cons.IH [of "j - 1" S "k - 1"] show ?thesis
      by (cases j; cases k) auto
  next
    case (Some o')
    show ?thesis
    proof (cases "o' \<in> S")
      case True
      with Some Cons.prems Cons.IH [of j S k] show ?thesis by simp
    next
      case False
      with Some Cons.prems Cons.IH [of "j - 1" "insert o' S" "k - 1"] late show ?thesis
        by (cases j; cases k) auto
    qed
  qed
qed simp

lemma latest_snoc:
  "latest (ms @ [m]) n = (if observed n \<noteq> None \<and> observed n = observed m then m else latest ms n)"
  by (auto simp: latest_def Let_def split: option.split)

text \<open>Reading one more message changes the specified transcript as the loop does.\<close>

lemma provider_transcript_new:
  assumes "case observed m of None \<Rightarrow> True | Some i \<Rightarrow> i \<notin> observations ms"
  shows "provider_transcript (ms @ [m]) = provider_transcript ms @ [CloneMessage m]"
proof -
  have "latest (ms @ [m]) n = latest ms n" if "n \<in> set (first_observations {} ms)" for n
    using that assms first_observations_subset [of "{}" ms]
    by (auto simp: latest_snoc observations_def split: option.splits)
  moreover have "first_observations {} (ms @ [m]) = first_observations {} ms @ [m]"
    using assms by (auto simp: first_observations_snoc split: option.splits)
  moreover have "latest (ms @ [m]) m = m"
    by (cases "observed m") (simp_all add: latest_def)
  ultimately show ?thesis by (simp add: provider_transcript_def)
qed

lemma provider_transcript_again:
  fixes m and ms
  defines "fs \<equiv> first_observations {} ms"
  assumes "observed m = Some i" and "i \<in> observations ms"
  shows "provider_transcript (ms @ [m]) = (provider_transcript ms)
    [length (takeWhile (\<lambda>n. observed n \<noteq> Some i) fs) := CloneMessage m]"
proof -
  let ?k = "length (takeWhile (\<lambda>n. observed n \<noteq> Some i) fs)"
  have fs: "first_observations {} (ms @ [m]) = fs"
    using assms(2,3) by (simp add: first_observations_snoc fs_def)
  have "\<exists>n \<in> set fs. observed n = Some i"
    using first_observations_covers [OF assms(3)] by (simp add: fs_def)
  then have k: "?k < length fs" "observed (fs ! ?k) = Some i"
    using nth_length_takeWhile [of "\<lambda>n. observed n \<noteq> Some i" fs]
      takeWhile_eq_all_conv [of "\<lambda>n. observed n \<noteq> Some i" fs]
      length_takeWhile_le [of "\<lambda>n. observed n \<noteq> Some i" fs]
    by (metis le_neq_implies_less takeWhile_eq_take take_all, metis le_neq_implies_less takeWhile_eq_take take_all)
  have "latest (ms @ [m]) (fs ! j) = (if j = ?k then m else latest ms (fs ! j))" if j: "j < length fs" for j
  proof (cases "j = ?k")
    case True
    with k(2) assms(2) show ?thesis by (simp add: latest_snoc)
  next
    case False
    with first_observations_once [of j "{}" ms ?k i] j k have "observed (fs ! j) \<noteq> Some i"
      by (auto simp: fs_def)
    with False assms(2) show ?thesis by (simp add: latest_snoc)
  qed
  then have "map (\<lambda>n. CloneMessage (latest (ms @ [m]) n)) fs =
      (map (\<lambda>n. CloneMessage (latest ms n)) fs)[?k := CloneMessage m]"
    by (intro nth_equalityI) (simp_all add: nth_list_update)
  then show ?thesis by (simp only: provider_transcript_def fs fs_def [symmetric])
qed

lemma takeWhile_observed:
  "k \<in> observations ms \<Longrightarrow>
   takeWhile (\<lambda>n. observed n \<noteq> Some k) (first_observations {} ms @ xs) =
   takeWhile (\<lambda>n. observed n \<noteq> Some k) (first_observations {} ms)"
  using first_observations_covers [of k ms "{}"] by (auto intro: takeWhile_append1)

lemma takeWhile_unobserved:
  "k \<notin> observations ms \<Longrightarrow> observed m = Some k \<Longrightarrow>
   takeWhile (\<lambda>n. observed n \<noteq> Some k) (first_observations {} ms @ [m]) = first_observations {} ms"
  using first_observations_subset [of "{}" ms]
  by (subst takeWhile_append2) (auto simp: observations_def)

lemma offered_tool: "m_Role m = RoleTool \<Longrightarrow> offered (ms @ [m]) = offered ms"
  by (simp add: offered_snoc RoleTool_def RoleAssistant_def)

lemma preflight_message_plain:
  assumes "preflight_inv ms s" and "observed m = None"
  shows "\<exists>s'. preflight_message i m s = Inr s' \<and> preflight_inv (ms @ [m]) s'"
proof -
  let ?s = "s\<lparr>pf_normalized := pf_normalized s @ [CloneMessage m],
    pf_assistantToolCalls := offered (ms @ [m])\<rparr>"
  have "m_Role m \<noteq> RoleTool" using assms(2) by (simp add: observed_def split: if_splits)
  with assms(1) have "preflight_message i m s = Inr ?s"
    by (auto simp: preflight_message_def preflight_inv_def offered_snoc Let_def)
  moreover have "preflight_inv (ms @ [m]) ?s"
    using assms provider_transcript_new [where m = m and ms = ms]
    by (simp add: preflight_inv_def first_observations_snoc takeWhile_observed)
  ultimately show ?thesis by blast
qed

lemma preflight_message_first:
  assumes "preflight_inv ms s" and "observed m = Some j" and "j \<in> offered ms" and "j \<notin> observations ms"
  shows "\<exists>s'. preflight_message i m s = Inr s' \<and> preflight_inv (ms @ [m]) s'"
proof -
  let ?s = "s\<lparr>pf_normalized := pf_normalized s @ [CloneMessage m],
    pf_toolMessageIndexByCallID := (pf_toolMessageIndexByCallID s)(j \<mapsto> length (pf_normalized s))\<rparr>"
  have m: "m_Role m = RoleTool" "TrimSpace (m_ToolCallID m) = j" "m_Role m \<noteq> RoleAssistant"
    using assms(2) by (auto simp: observed_def RoleTool_def RoleAssistant_def split: if_splits)
  with assms offered_nonempty [OF assms(3)] have "preflight_message i m s = Inr ?s"
    by (simp add: preflight_message_def preflight_inv_def Let_def)
  moreover have "preflight_inv (ms @ [m]) ?s"
    using assms provider_transcript_new [where m = m and ms = ms]
    by (simp add: preflight_inv_def first_observations_snoc takeWhile_observed takeWhile_unobserved
        offered_tool [OF m(1)] provider_transcript_def)
  ultimately show ?thesis by blast
qed

lemma preflight_message_again:
  assumes "preflight_inv ms s" and "observed m = Some j" and "j \<in> offered ms" and "j \<in> observations ms"
  shows "\<exists>s'. preflight_message i m s = Inr s' \<and> preflight_inv (ms @ [m]) s'"
proof -
  let ?s = "s\<lparr>pf_normalized := (pf_normalized s)
    [length (takeWhile (\<lambda>n. observed n \<noteq> Some j) (first_observations {} ms)) := CloneMessage m]\<rparr>"
  have m: "m_Role m = RoleTool" "TrimSpace (m_ToolCallID m) = j" "m_Role m \<noteq> RoleAssistant"
    using assms(2) by (auto simp: observed_def RoleTool_def RoleAssistant_def split: if_splits)
  with assms offered_nonempty [OF assms(3)] have "preflight_message i m s = Inr ?s"
    by (simp add: preflight_message_def preflight_inv_def Let_def)
  moreover have "preflight_inv (ms @ [m]) ?s"
    using assms provider_transcript_again [OF assms(2,4)]
    by (simp add: preflight_inv_def first_observations_snoc insert_absorb offered_tool [OF m(1)])
  ultimately show ?thesis by blast
qed

lemma preflight_message_ok:
  assumes "preflight_inv ms s" and "observation_ok ms m"
  shows "\<exists>s'. preflight_message i m s = Inr s' \<and> preflight_inv (ms @ [m]) s'"
proof (cases "observed m")
  case None
  with assms(1) show ?thesis by (rule preflight_message_plain)
next
  case (Some j)
  with assms(2) have "j \<in> offered ms" by (simp add: observation_ok_def)
  with assms(1) Some show ?thesis
    by (cases "j \<in> observations ms") (auto intro: preflight_message_first preflight_message_again)
qed

lemma preflight_message_refused:
  assumes "preflight_inv ms s" and "\<not> observation_ok ms m"
  shows "\<exists>e. preflight_message i m s = Inl e"
  using assms
  by (auto simp: preflight_message_def preflight_inv_def observation_ok_def observed_def Let_def
      RoleTool_def RoleAssistant_def split: if_splits)

lemma preflight_loop_spec:
  assumes "preflight_inv before s"
  shows "if observations_ok before ms
    then \<exists>s'. preflight_loop i ms s = Inr s' \<and> preflight_inv (before @ ms) s'
    else \<exists>e. preflight_loop i ms s = Inl e"
  using assms
proof (induction ms arbitrary: before s i)
  case (Cons m ms)
  show ?case
  proof (cases "observation_ok before m")
    case True
    from preflight_message_ok [OF Cons.prems True] obtain s'
      where s': "preflight_message i m s = Inr s'" "preflight_inv (before @ [m]) s'" by blast
    from Cons.IH [OF s'(2), of "Suc i"] s'(1) True show ?thesis by (auto split: if_splits)
  next
    case False
    with preflight_message_refused [OF Cons.prems False, of i] show ?thesis by auto
  qed
qed simp

lemma preflight_start_inv: "preflight_inv [] preflight_start"
  by (simp add: preflight_inv_def preflight_start_def provider_transcript_def offered_def)

lemma preflight_outcome:
  "if observations_ok [] ms
   then NormalizeMessagesForProvider ms = Inr (provider_transcript ms)
   else \<exists>e. NormalizeMessagesForProvider ms = Inl e"
  using preflight_loop_spec [OF preflight_start_inv, of ms 0]
  by (auto simp: NormalizeMessagesForProvider_def preflight_inv_def split: if_splits)

section \<open>Properties\<close>

text \<open>
  C34: the transcript is accepted exactly when every tool observation answers a call of an
  earlier assistant message, and what is sent then is the transcript with, of every call, one
  observation only: the latest, in the place of the first.
\<close>

theorem NormalizeMessagesForProvider_correct:
  "if observations_ok [] ms
   then NormalizeMessagesForProvider ms = Inr (provider_transcript ms)
   else \<exists>e. NormalizeMessagesForProvider ms = Inl e"
  by (rule preflight_outcome)

text \<open>
  The identifier of the observation is trimmed, the identifiers of the calls are not: a call
  whose identifier has a blank at its end is never answered.
\<close>

lemma blank_call_never_answered:
  assumes "TrimSpace i \<noteq> i" and "\<forall>m \<in> set ms. \<forall>call \<in> set (elems (m_ToolCalls m)). tc_ID call = i"
    and "m_Role m = RoleTool" and "m_ToolCallID m = i"
  shows "\<exists>e. NormalizeMessagesForProvider (ms @ [m]) = Inl e"
proof -
  have "TrimSpace i \<notin> offered ms" using assms(1,2) by (auto simp: offered_def)
  with assms(3,4) have bad: "\<not> observation_ok ms m" by (simp add: observation_ok_def observed_def)
  have "observations_ok before (ms @ [m]) \<Longrightarrow> observation_ok (before @ ms) m" for before ms
  proof (induction ms arbitrary: before)
    case (Cons a ms)
    from Cons.IH [of "before @ [a]"] Cons.prems show ?case by simp
  qed simp
  from this [of "[]" ms] bad have "\<not> observations_ok [] (ms @ [m])" by auto
  then show ?thesis
    using preflight_loop_spec [OF preflight_start_inv, of "ms @ [m]" 0]
    by (auto simp: NormalizeMessagesForProvider_def)
qed

end
