(* ===== verification/Config.thy ===== *)
theory Config
  imports Go_Format Go_Errors
begin

text \<open>
  \<open>config/config.go\<close>: the server's configuration from environment variables. The environment
  is a function from names to values, \<open>''\<close> for an unset variable as \<open>os.Getenv\<close> answers;
  \<open>time.ParseDuration\<close> and \<open>unicode.ToLower\<close> beyond ASCII are parameters.
\<close>

section \<open>Modes and levels\<close>

type_synonym ModelMode = string
type_synonym ToolMode = string
type_synonym LogFormat = string

definition ModelModeMock :: ModelMode where "ModelModeMock = ''mock''"
definition ModelModeProvider :: ModelMode where "ModelModeProvider = ''provider''"
definition ToolModeMock :: ToolMode where "ToolModeMock = ''mock''"
definition ToolModeReal :: ToolMode where "ToolModeReal = ''real''"
definition LogFormatText :: LogFormat where "LogFormatText = ''text''"
definition LogFormatJSON :: LogFormat where "LogFormatJSON = ''json''"

text \<open>The levels of \<open>log/slog\<close> and their names.\<close>

definition LevelDebug :: int where "LevelDebug = -4"
definition LevelInfo :: int where "LevelInfo = 0"
definition LevelWarn :: int where "LevelWarn = 4"
definition LevelError :: int where "LevelError = 8"

definition Level_String :: "int \<Rightarrow> string" where
  "Level_String l =
     (let offset = (\<lambda>base v. if v = 0 then base
            else base @ (if v > 0 then ''+'' else []) @ int_text v) in
      if l < LevelInfo then offset ''DEBUG'' (l - LevelDebug)
      else if l < LevelWarn then offset ''INFO'' (l - LevelInfo)
      else if l < LevelError then offset ''WARN'' (l - LevelWarn)
      else offset ''ERROR'' (l - LevelError))"

record Config =
  cf_HTTPAddr :: string
  cf_ShutdownTimeout :: int
  cf_LogFormat :: LogFormat
  cf_LogLevel :: int
  cf_ModelMode :: ModelMode
  cf_ProviderAPIKey :: string
  cf_ProviderModel :: string
  cf_ProviderBaseURL :: string
  cf_ProviderTimeout :: int
  cf_ToolMode :: ToolMode
  cf_WorkspaceRoot :: string
  cf_BashTimeout :: int

text \<open>\<open>Default\<close>, for what \<open>os.Getwd\<close> answers.\<close>

definition config_Default :: "gerr + string \<Rightarrow> Config" where
  "config_Default getwd =
     (let workspaceRoot = (case getwd of
            Inl err \<Rightarrow> ''.''
          | Inr wd \<Rightarrow> if TrimSpace wd = [] then ''.'' else wd) in
      \<lparr>cf_HTTPAddr = ''127.0.0.1:8080'', cf_ShutdownTimeout = 5 * Second,
       cf_LogFormat = LogFormatText, cf_LogLevel = LevelInfo, cf_ModelMode = ModelModeMock,
       cf_ProviderAPIKey = [], cf_ProviderModel = ''gpt-4.1-mini'',
       cf_ProviderBaseURL = ''https://api.openai.com/v1'', cf_ProviderTimeout = 30 * Second,
       cf_ToolMode = ToolModeReal, cf_WorkspaceRoot = workspaceRoot,
       cf_BashTimeout = 3 * Second\<rparr>)"

section \<open>Validation\<close>

definition validate_model :: "Config \<Rightarrow> gerr option" where
  "validate_model c =
     (if cf_ModelMode c = ModelModeMock then None
      else if cf_ModelMode c = ModelModeProvider then
        (if TrimSpace (cf_ProviderAPIKey c) = [] then
           Some (Errorf [Lit ''validate config: provider mode requires CODING_AGENT_PROVIDER_API_KEY''])
         else if TrimSpace (cf_ProviderModel c) = [] then
           Some (Errorf [Lit ''validate config: provider mode requires CODING_AGENT_PROVIDER_MODEL''])
         else if TrimSpace (cf_ProviderBaseURL c) = [] then
           Some (Errorf [Lit ''validate config: provider mode requires CODING_AGENT_PROVIDER_BASE_URL''])
         else if cf_ProviderTimeout c \<le> 0 then
           Some (Errorf [Lit ''validate config: provider mode requires CODING_AGENT_PROVIDER_TIMEOUT > 0''])
         else None)
      else Some (Errorf [Lit ''validate config: unsupported CODING_AGENT_MODEL_MODE '',
        Quo (cf_ModelMode c), Lit '' (allowed: '', Quo ModelModeMock, Lit '', '',
        Quo ModelModeProvider, Lit '')'']))"

definition validate_tools :: "Config \<Rightarrow> gerr option" where
  "validate_tools c =
     (if cf_ToolMode c = ToolModeMock then None
      else if cf_ToolMode c = ToolModeReal then
        (if TrimSpace (cf_WorkspaceRoot c) = [] then
           Some (Errorf [Lit ''validate config: real tool mode requires CODING_AGENT_WORKSPACE_ROOT''])
         else if cf_BashTimeout c \<le> 0 then
           Some (Errorf [Lit ''validate config: real tool mode requires CODING_AGENT_BASH_TIMEOUT > 0''])
         else None)
      else Some (Errorf [Lit ''validate config: unsupported CODING_AGENT_TOOL_MODE '',
        Quo (cf_ToolMode c), Lit '' (allowed: '', Quo ToolModeMock, Lit '', '',
        Quo ToolModeReal, Lit '')'']))"

definition allowed_levels :: "frag list" where
  "allowed_levels = [Lit '' (allowed: '', Quo (Level_String LevelDebug), Lit '', '',
     Quo (Level_String LevelInfo), Lit '', '', Quo (Level_String LevelWarn), Lit '', '',
     Quo (Level_String LevelError), Lit '')'']"

definition validate_logging :: "Config \<Rightarrow> gerr option" where
  "validate_logging c =
     (if cf_LogLevel c \<notin> {LevelDebug, LevelInfo, LevelWarn, LevelError} then
        Some (Errorf ([Lit ''validate config: unsupported CODING_AGENT_LOG_LEVEL '',
          Quo (Level_String (cf_LogLevel c))] @ allowed_levels))
      else if cf_LogFormat c \<notin> {LogFormatText, LogFormatJSON} then
        Some (Errorf [Lit ''validate config: unsupported CODING_AGENT_LOG_FORMAT '',
          Quo (cf_LogFormat c), Lit '' (allowed: '', Quo LogFormatText, Lit '', '',
          Quo LogFormatJSON, Lit '')''])
      else None)"

text \<open>\<open>Config.Validate\<close>: the three switches in the source's order.\<close>

definition config_Validate :: "Config \<Rightarrow> gerr option" where
  "config_Validate c =
     (case validate_model c of
        Some e \<Rightarrow> Some e
      | None \<Rightarrow> (case validate_tools c of Some e \<Rightarrow> Some e | None \<Rightarrow> validate_logging c))"

section \<open>Parsing\<close>

definition parseLogLevel :: "(nat \<Rightarrow> nat) \<Rightarrow> string \<Rightarrow> gerr + int" where
  "parseLogLevel lower input =
     (let l = ToLower lower (TrimSpace input) in
      if l = ''debug'' then Inr LevelDebug
      else if l = ''info'' then Inr LevelInfo
      else if l = ''warn'' \<or> l = ''warning'' then Inr LevelWarn
      else if l = ''error'' then Inr LevelError
      else Inl (Errorf ([Lit ''parse CODING_AGENT_LOG_LEVEL: unsupported value '', Quo input] @
        allowed_levels)))"

definition parseLogFormat :: "(nat \<Rightarrow> nat) \<Rightarrow> string \<Rightarrow> gerr + LogFormat" where
  "parseLogFormat lower input =
     (let f = ToLower lower (TrimSpace input) in
      if f = LogFormatText then Inr LogFormatText
      else if f = LogFormatJSON then Inr LogFormatJSON
      else Inl (Errorf [Lit ''parse CODING_AGENT_LOG_FORMAT: unsupported value '', Quo input,
        Lit '' (allowed: '', Quo LogFormatText, Lit '', '', Quo LogFormatJSON, Lit '')'']))"

text \<open>What the process environment provides.\<close>

record environment =
  en_Getenv :: "string \<Rightarrow> string"
  en_Getwd :: "gerr + string"
  en_ParseDuration :: "string \<Rightarrow> gerr + int"
  en_lower :: "nat \<Rightarrow> nat"

text \<open>
  The blocks of \<open>Load\<close>: a variable that is empty changes nothing. \<open>set_duration\<close> parses the
  value as given; \<open>Load\<close> trims it first for all but the shutdown timeout.
\<close>

definition set_duration ::
  "environment \<Rightarrow> string \<Rightarrow> string \<Rightarrow> (int \<Rightarrow> Config \<Rightarrow> Config) \<Rightarrow> Config \<Rightarrow> gerr + Config" where
  "set_duration E name timeout set_field cfg =
     (if timeout = [] then Inr cfg
      else case en_ParseDuration E timeout of
        Inl err \<Rightarrow> Inl (Errorf [Lit ''parse '', Lit name, Lit '': '', Wrap err])
      | Inr parsed \<Rightarrow>
          if parsed \<le> 0 then Inl (Errorf [Lit ''parse '', Lit name, Lit '': value must be > 0''])
          else Inr (set_field parsed cfg))"

definition set_trimmed ::
  "environment \<Rightarrow> string \<Rightarrow> (string \<Rightarrow> Config \<Rightarrow> Config) \<Rightarrow> Config \<Rightarrow> Config" where
  "set_trimmed E name set_field cfg =
     (let v = TrimSpace (en_Getenv E name) in if v = [] then cfg else set_field v cfg)"

definition set_parsed ::
  "environment \<Rightarrow> string \<Rightarrow> (string \<Rightarrow> gerr + 'a) \<Rightarrow> ('a \<Rightarrow> Config \<Rightarrow> Config) \<Rightarrow> Config \<Rightarrow> gerr + Config" where
  "set_parsed E name parse set_field cfg =
     (let v = TrimSpace (en_Getenv E name) in
      if v = [] then Inr cfg
      else case parse v of Inl e \<Rightarrow> Inl e | Inr parsed \<Rightarrow> Inr (set_field parsed cfg))"

definition config_Load :: "environment \<Rightarrow> gerr + Config" where
  "config_Load E =
     (let cfg0 = config_Default (en_Getwd E);
          addr = en_Getenv E ''CODING_AGENT_HTTP_ADDR'';
          cfg1 = (if addr \<noteq> [] then cfg0\<lparr>cf_HTTPAddr := addr\<rparr> else cfg0) in
      case set_duration E ''CODING_AGENT_SHUTDOWN_TIMEOUT''
          (en_Getenv E ''CODING_AGENT_SHUTDOWN_TIMEOUT'') (\<lambda>d c. c\<lparr>cf_ShutdownTimeout := d\<rparr>) cfg1 of
        Inl e \<Rightarrow> Inl e
      | Inr cfg2 \<Rightarrow>
     (case set_parsed E ''CODING_AGENT_LOG_LEVEL'' (parseLogLevel (en_lower E))
          (\<lambda>l c. c\<lparr>cf_LogLevel := l\<rparr>) cfg2 of
        Inl e \<Rightarrow> Inl e
      | Inr cfg3 \<Rightarrow>
     (case set_parsed E ''CODING_AGENT_LOG_FORMAT'' (parseLogFormat (en_lower E))
          (\<lambda>f c. c\<lparr>cf_LogFormat := f\<rparr>) cfg3 of
        Inl e \<Rightarrow> Inl e
      | Inr cfg4 \<Rightarrow>
      let cfg5 = set_trimmed E ''CODING_AGENT_PROVIDER_BASE_URL'' (\<lambda>u c. c\<lparr>cf_ProviderBaseURL := u\<rparr>)
           (set_trimmed E ''CODING_AGENT_PROVIDER_MODEL'' (\<lambda>m c. c\<lparr>cf_ProviderModel := m\<rparr>)
           (set_trimmed E ''CODING_AGENT_PROVIDER_API_KEY'' (\<lambda>k c. c\<lparr>cf_ProviderAPIKey := k\<rparr>)
           (set_trimmed E ''CODING_AGENT_MODEL_MODE'' (\<lambda>m c. c\<lparr>cf_ModelMode := m\<rparr>) cfg4))) in
     (case set_duration E ''CODING_AGENT_PROVIDER_TIMEOUT''
          (TrimSpace (en_Getenv E ''CODING_AGENT_PROVIDER_TIMEOUT''))
          (\<lambda>d c. c\<lparr>cf_ProviderTimeout := d\<rparr>) cfg5 of
        Inl e \<Rightarrow> Inl e
      | Inr cfg6 \<Rightarrow>
      let cfg7 = set_trimmed E ''CODING_AGENT_WORKSPACE_ROOT'' (\<lambda>r c. c\<lparr>cf_WorkspaceRoot := r\<rparr>)
           (set_trimmed E ''CODING_AGENT_TOOL_MODE'' (\<lambda>m c. c\<lparr>cf_ToolMode := m\<rparr>) cfg6) in
     (case set_duration E ''CODING_AGENT_BASH_TIMEOUT''
          (TrimSpace (en_Getenv E ''CODING_AGENT_BASH_TIMEOUT''))
          (\<lambda>d c. c\<lparr>cf_BashTimeout := d\<rparr>) cfg7 of
        Inl e \<Rightarrow> Inl e
      | Inr cfg8 \<Rightarrow>
     (case config_Validate cfg8 of Some e \<Rightarrow> Inl e | None \<Rightarrow> Inr cfg8))))))"

section \<open>Properties\<close>

text \<open>What a valid configuration is.\<close>

definition config_ok :: "Config \<Rightarrow> bool" where
  "config_ok c \<longleftrightarrow>
     (cf_ModelMode c = ModelModeMock \<or>
      cf_ModelMode c = ModelModeProvider \<and> TrimSpace (cf_ProviderAPIKey c) \<noteq> [] \<and>
        TrimSpace (cf_ProviderModel c) \<noteq> [] \<and> TrimSpace (cf_ProviderBaseURL c) \<noteq> [] \<and>
        0 < cf_ProviderTimeout c) \<and>
     (cf_ToolMode c = ToolModeMock \<or>
      cf_ToolMode c = ToolModeReal \<and> TrimSpace (cf_WorkspaceRoot c) \<noteq> [] \<and> 0 < cf_BashTimeout c) \<and>
     cf_LogLevel c \<in> {LevelDebug, LevelInfo, LevelWarn, LevelError} \<and>
     cf_LogFormat c \<in> {LogFormatText, LogFormatJSON}"

lemma mode_neqs [simp]: "ModelModeProvider \<noteq> ModelModeMock" "ToolModeReal \<noteq> ToolModeMock"
  by (simp_all add: ModelModeMock_def ModelModeProvider_def ToolModeMock_def ToolModeReal_def)

lemma validate_model_None_iff:
  "validate_model c = None \<longleftrightarrow> cf_ModelMode c = ModelModeMock \<or>
     cf_ModelMode c = ModelModeProvider \<and> TrimSpace (cf_ProviderAPIKey c) \<noteq> [] \<and>
       TrimSpace (cf_ProviderModel c) \<noteq> [] \<and> TrimSpace (cf_ProviderBaseURL c) \<noteq> [] \<and>
       0 < cf_ProviderTimeout c"
  by (simp add: validate_model_def not_le)

lemma validate_tools_None_iff:
  "validate_tools c = None \<longleftrightarrow> cf_ToolMode c = ToolModeMock \<or>
     cf_ToolMode c = ToolModeReal \<and> TrimSpace (cf_WorkspaceRoot c) \<noteq> [] \<and> 0 < cf_BashTimeout c"
  by (simp add: validate_tools_def not_le)

lemma validate_logging_None_iff:
  "validate_logging c = None \<longleftrightarrow>
     cf_LogLevel c \<in> {LevelDebug, LevelInfo, LevelWarn, LevelError} \<and>
     cf_LogFormat c \<in> {LogFormatText, LogFormatJSON}"
  by (simp add: validate_logging_def)

lemma config_Validate_None_iff: "config_Validate c = None \<longleftrightarrow> config_ok c"
  by (simp add: config_Validate_def config_ok_def validate_model_None_iff validate_tools_None_iff
      validate_logging_None_iff split: option.split)
    (metis option.distinct(1) validate_model_None_iff validate_tools_None_iff)

lemma set_duration_keeps:
  "set_duration E name timeout set_field c = Inr c' \<Longrightarrow>
   P c \<Longrightarrow> (\<And>d. 0 < d \<Longrightarrow> P (set_field d c)) \<Longrightarrow> P c'"
  by (auto simp: set_duration_def split: if_splits sum.splits)

lemma set_parsed_keeps:
  "set_parsed E name parse set_field c = Inr c' \<Longrightarrow>
   P c \<Longrightarrow> (\<And>v. P (set_field v c)) \<Longrightarrow> P c'"
  by (auto simp: set_parsed_def Let_def split: if_splits sum.splits)

definition timeouts_positive :: "Config \<Rightarrow> bool" where
  "timeouts_positive c \<longleftrightarrow> 0 < cf_ShutdownTimeout c \<and> 0 < cf_ProviderTimeout c \<and> 0 < cf_BashTimeout c"

lemma timeouts_positive_upd [simp]:
  "timeouts_positive (c\<lparr>cf_HTTPAddr := a\<rparr>) = timeouts_positive c"
  "timeouts_positive (c\<lparr>cf_LogLevel := l\<rparr>) = timeouts_positive c"
  "timeouts_positive (c\<lparr>cf_LogFormat := f\<rparr>) = timeouts_positive c"
  "timeouts_positive (set_trimmed E n (\<lambda>v c. c\<lparr>cf_ModelMode := v\<rparr>) c) = timeouts_positive c"
  "timeouts_positive (set_trimmed E n (\<lambda>v c. c\<lparr>cf_ProviderAPIKey := v\<rparr>) c) = timeouts_positive c"
  "timeouts_positive (set_trimmed E n (\<lambda>v c. c\<lparr>cf_ProviderModel := v\<rparr>) c) = timeouts_positive c"
  "timeouts_positive (set_trimmed E n (\<lambda>v c. c\<lparr>cf_ProviderBaseURL := v\<rparr>) c) = timeouts_positive c"
  "timeouts_positive (set_trimmed E n (\<lambda>v c. c\<lparr>cf_ToolMode := v\<rparr>) c) = timeouts_positive c"
  "timeouts_positive (set_trimmed E n (\<lambda>v c. c\<lparr>cf_WorkspaceRoot := v\<rparr>) c) = timeouts_positive c"
  by (simp_all add: timeouts_positive_def set_trimmed_def Let_def)

lemma set_duration_positive:
  "set_duration E n t (\<lambda>d c. c\<lparr>cf_ShutdownTimeout := d\<rparr>) c = Inr c' \<Longrightarrow>
    timeouts_positive c \<Longrightarrow> timeouts_positive c'"
  "set_duration E n t (\<lambda>d c. c\<lparr>cf_ProviderTimeout := d\<rparr>) c = Inr c' \<Longrightarrow>
    timeouts_positive c \<Longrightarrow> timeouts_positive c'"
  "set_duration E n t (\<lambda>d c. c\<lparr>cf_BashTimeout := d\<rparr>) c = Inr c' \<Longrightarrow>
    timeouts_positive c \<Longrightarrow> timeouts_positive c'"
  by (erule set_duration_keeps, simp, simp add: timeouts_positive_def)+

lemma set_parsed_positive:
  "set_parsed E n p (\<lambda>l c. c\<lparr>cf_LogLevel := l\<rparr>) c = Inr c' \<Longrightarrow>
    timeouts_positive c \<Longrightarrow> timeouts_positive c'"
  "set_parsed E n q (\<lambda>f c. c\<lparr>cf_LogFormat := f\<rparr>) c = Inr c' \<Longrightarrow>
    timeouts_positive c \<Longrightarrow> timeouts_positive c'"
  by (erule set_parsed_keeps, simp, simp)+

lemma timeouts_positive_Default [simp]: "timeouts_positive (config_Default wd)"
  by (simp add: timeouts_positive_def config_Default_def Second_def Let_def)

text \<open>
  C40: whatever the environment holds, a configuration that is loaded is valid, and all its
  timeouts are positive, also the ones its modes do not use.
\<close>

theorem config_Load_ok:
  "case config_Load E of Inl e \<Rightarrow> True | Inr c \<Rightarrow> config_ok c \<and> timeouts_positive c"
proof (cases "config_Load E")
  case (Inr c)
  from Inr have "config_Validate c = None"
    by (auto simp: config_Load_def Let_def split: sum.splits option.splits)
  moreover have "timeouts_positive c"
  proof -
    have start: "timeouts_positive (if en_Getenv E ''CODING_AGENT_HTTP_ADDR'' \<noteq> []
        then config_Default (en_Getwd E)\<lparr>cf_HTTPAddr := en_Getenv E ''CODING_AGENT_HTTP_ADDR''\<rparr>
        else config_Default (en_Getwd E))" by simp
    show ?thesis
      using Inr unfolding config_Load_def Let_def
      apply (simp split: sum.splits option.splits)
      apply (drule set_duration_positive(1) [OF _ start])
      apply (drule (1) set_parsed_positive(1))
      apply (drule (1) set_parsed_positive(2))
      apply (drule set_duration_positive(2), simp)
      apply (drule set_duration_positive(3), simp)
      apply simp
      done
  qed
  ultimately show ?thesis using Inr by (simp add: config_Validate_None_iff)
qed simp

end
