(* ===== verification/Command_Locks.thy ===== *)
theory Command_Locks
  imports Agent_Types
begin

text \<open>
  The per-run mutex of \<open>agent/runner.go\<close> (\<open>runCommandLocks\<close>): entries are allocated on
  demand, counted and deleted when the last user has left. Goroutines are numbered; the
  sections under \<open>l.mu\<close> are atomic steps, as is taking or releasing the mutex of an entry,
  and the steps of different goroutines interleave arbitrarily.
\<close>

section \<open>State\<close>

text \<open>
  Where a goroutine is in \<open>lock\<close> and the function it returns, with the run it locks and the
  address of the entry it has got hold of.
\<close>

datatype lock_pc =
    Idle
  | Waiting RunID nat
  | Holding RunID nat
  | Releasing RunID nat

record runCommandLocks =
  lk_entries :: "RunID \<Rightarrow> nat option"
  lk_refCount :: "nat \<Rightarrow> int"
  lk_owner :: "nat \<Rightarrow> nat option"
  lk_next :: nat
  lk_pc :: "nat \<Rightarrow> lock_pc"

definition newRunCommandLocks :: runCommandLocks where
  "newRunCommandLocks =
     \<lparr>lk_entries = Map.empty, lk_refCount = (\<lambda>a. 0), lk_owner = (\<lambda>a. None), lk_next = 0,
      lk_pc = (\<lambda>t. Idle)\<rparr>"

section \<open>Operations\<close>

text \<open>The section of \<open>lock\<close> under \<open>l.mu\<close>: find or create the entry and count one more user.\<close>

definition lock_enter :: "nat \<Rightarrow> RunID \<Rightarrow> runCommandLocks \<Rightarrow> runCommandLocks" where
  "lock_enter t i s =
     (case lk_entries s i of
        None \<Rightarrow>
          let a = lk_next s in
          s\<lparr>lk_entries := (lk_entries s)(i \<mapsto> a), lk_refCount := (lk_refCount s)(a := 1),
            lk_owner := (lk_owner s)(a := None), lk_next := a + 1,
            lk_pc := (lk_pc s)(t := Waiting i a)\<rparr>
      | Some a \<Rightarrow>
          s\<lparr>lk_refCount := (lk_refCount s)(a := lk_refCount s a + 1),
            lk_pc := (lk_pc s)(t := Waiting i a)\<rparr>)"

text \<open>\<open>entry.mu.Lock()\<close>, which returns once the mutex is free.\<close>

definition lock_acquire :: "nat \<Rightarrow> RunID \<Rightarrow> nat \<Rightarrow> runCommandLocks \<Rightarrow> runCommandLocks" where
  "lock_acquire t i a s =
     s\<lparr>lk_owner := (lk_owner s)(a := Some t), lk_pc := (lk_pc s)(t := Holding i a)\<rparr>"

text \<open>\<open>entry.mu.Unlock()\<close>\<close>

definition lock_release :: "nat \<Rightarrow> RunID \<Rightarrow> nat \<Rightarrow> runCommandLocks \<Rightarrow> runCommandLocks" where
  "lock_release t i a s =
     s\<lparr>lk_owner := (lk_owner s)(a := None), lk_pc := (lk_pc s)(t := Releasing i a)\<rparr>"

text \<open>The second section under \<open>l.mu\<close>: count one user less, delete an unused entry.\<close>

definition lock_leave :: "nat \<Rightarrow> RunID \<Rightarrow> nat \<Rightarrow> runCommandLocks \<Rightarrow> runCommandLocks" where
  "lock_leave t i a s =
     (let n = lk_refCount s a - 1 in
      s\<lparr>lk_refCount := (lk_refCount s)(a := n),
        lk_entries := (if n = 0 then (lk_entries s)(i := None) else lk_entries s),
        lk_pc := (lk_pc s)(t := Idle)\<rparr>)"

text \<open>\<open>lockRunMutation\<close> enters for every run ID but the empty one.\<close>

inductive lock_step :: "runCommandLocks \<Rightarrow> runCommandLocks \<Rightarrow> bool" where
  enter: "lk_pc s t = Idle \<Longrightarrow> i \<noteq> [] \<Longrightarrow> lock_step s (lock_enter t i s)"
| acquire: "lk_pc s t = Waiting i a \<Longrightarrow> lk_owner s a = None \<Longrightarrow> lock_step s (lock_acquire t i a s)"
| release: "lk_pc s t = Holding i a \<Longrightarrow> lock_step s (lock_release t i a s)"
| leave: "lk_pc s t = Releasing i a \<Longrightarrow> lock_step s (lock_leave t i a s)"

inductive_cases lock_stepE: "lock_step s s'"

definition lock_reachable :: "runCommandLocks \<Rightarrow> bool" where
  "lock_reachable s \<longleftrightarrow> lock_step\<^sup>*\<^sup>* newRunCommandLocks s"

section \<open>Invariant\<close>

text \<open>The entry a goroutine refers to, and the goroutines that refer to an entry.\<close>

fun pc_ref :: "lock_pc \<Rightarrow> (RunID \<times> nat) option" where
  "pc_ref Idle = None"
| "pc_ref (Waiting i a) = Some (i, a)"
| "pc_ref (Holding i a) = Some (i, a)"
| "pc_ref (Releasing i a) = Some (i, a)"

definition users :: "runCommandLocks \<Rightarrow> nat \<Rightarrow> nat set" where
  "users s a = {t. \<exists>i. pc_ref (lk_pc s t) = Some (i, a)}"

text \<open>
  An entry in use is in the map under its run; the map points to distinct allocated entries,
  each counted by its users, of which there is at least one; and the mutex of an entry is
  held by a goroutine exactly when that goroutine is in the critical section.
\<close>

definition locks_ok :: "runCommandLocks \<Rightarrow> bool" where
  "locks_ok s \<longleftrightarrow>
     (\<forall>t i a. pc_ref (lk_pc s t) = Some (i, a) \<longrightarrow> lk_entries s i = Some a) \<and>
     (\<forall>i a. lk_entries s i = Some a \<longrightarrow>
        a < lk_next s \<and> users s a \<noteq> {} \<and> finite (users s a) \<and>
        lk_refCount s a = int (card (users s a))) \<and>
     (\<forall>i j a. lk_entries s i = Some a \<longrightarrow> lk_entries s j = Some a \<longrightarrow> i = j) \<and>
     (\<forall>t a. lk_owner s a = Some t \<longleftrightarrow> (\<exists>i. lk_pc s t = Holding i a))"

lemma locks_okD:
  assumes "locks_ok s"
  shows "pc_ref (lk_pc s t) = Some (i, a) \<Longrightarrow> lk_entries s i = Some a"
    and "lk_entries s i = Some a \<Longrightarrow> a < lk_next s"
    and "lk_entries s i = Some a \<Longrightarrow> users s a \<noteq> {}"
    and "lk_entries s i = Some a \<Longrightarrow> finite (users s a)"
    and "lk_entries s i = Some a \<Longrightarrow> lk_refCount s a = int (card (users s a))"
    and "lk_entries s i = Some a \<Longrightarrow> lk_entries s j = Some a \<Longrightarrow> i = j"
    and "lk_pc s t = Holding i a \<Longrightarrow> lk_owner s a = Some t"
    and "lk_owner s a = Some t \<Longrightarrow> \<exists>i. lk_pc s t = Holding i a"
  using assms unfolding locks_ok_def by blast+

lemma locks_ok_owner: "locks_ok s \<Longrightarrow> lk_owner s a = Some t \<longleftrightarrow> (\<exists>i. lk_pc s t = Holding i a)"
  by (simp add: locks_ok_def)

lemma locks_ok_pc:
  "locks_ok s \<Longrightarrow> pc_ref (lk_pc s t) = None \<or>
   (\<exists>i a. pc_ref (lk_pc s t) = Some (i, a) \<and> lk_entries s i = Some a)"
  by (cases "pc_ref (lk_pc s t)") (auto dest: locks_okD(1))

text \<open>The users of an entry after goroutine \<open>t\<close> has moved to \<open>p\<close>.\<close>

definition moved :: "runCommandLocks \<Rightarrow> nat \<Rightarrow> lock_pc \<Rightarrow> nat \<Rightarrow> nat set" where
  "moved s t p a =
     (if \<exists>i. pc_ref p = Some (i, a) then insert t (users s a) else users s a - {t})"

lemma users_moved: "lk_pc s' = (lk_pc s)(t := p) \<Longrightarrow> users s' a = moved s t p a"
  by (auto simp: users_def moved_def)

lemma newRunCommandLocks_ok: "locks_ok newRunCommandLocks"
  by (simp add: locks_ok_def newRunCommandLocks_def)


lemma lock_enter_ok:
  assumes "locks_ok s" and "lk_pc s t = Idle"
  shows "locks_ok (lock_enter t i s)"
proof -
  have own: "lk_owner s b \<noteq> Some t" for b
    using locks_okD(8) [OF assms(1), of b t] assms(2) by auto
  show ?thesis
  proof (cases "lk_entries s i")
  case (Some a)
  let ?s = "lock_enter t i s"
  have pc: "lk_pc ?s = (lk_pc s)(t := Waiting i a)" and e: "lk_entries ?s = lk_entries s"
    and r: "lk_refCount ?s = (lk_refCount s)(a := lk_refCount s a + 1)"
    and o: "lk_owner ?s = lk_owner s" "lk_next ?s = lk_next s"
    using Some by (simp_all add: lock_enter_def)
  have t: "t \<notin> users s b" for b using assms(2) by (simp add: users_def)
  have u: "users ?s b = (if b = a then insert t (users s b) else users s b)" for b
    using users_moved [OF pc] t by (auto simp: moved_def)
  show ?thesis
    unfolding locks_ok_def e r o u pc
    using locks_okD [OF assms(1)] assms(2) Some t own
    by auto
next
  case None
  let ?s = "lock_enter t i s" and ?a = "lk_next s"
  have pc: "lk_pc ?s = (lk_pc s)(t := Waiting i ?a)"
    and e: "lk_entries ?s = (lk_entries s)(i \<mapsto> ?a)"
    and r: "lk_refCount ?s = (lk_refCount s)(?a := 1)"
    and o: "lk_owner ?s = (lk_owner s)(?a := None)" "lk_next ?s = ?a + 1"
    using None by (simp_all add: lock_enter_def Let_def)
  have fresh: "lk_entries s j \<noteq> Some ?a" for j using locks_okD(2) [OF assms(1), of j ?a] by auto
  then have no: "pc_ref (lk_pc s u) \<noteq> Some (j, ?a)" for u j using locks_okD(1) [OF assms(1)] by metis
  have t: "t \<notin> users s b" for b using assms(2) by (simp add: users_def)
  have u: "users ?s b = (if b = ?a then {t} else users s b)" for b
    using users_moved [OF pc] t no by (auto simp: moved_def users_def)
  have h: "lk_pc s u \<noteq> Holding j ?a" for u j using no [of u j] by auto
  show ?thesis
    unfolding locks_ok_def e r o u pc
    using locks_okD [OF assms(1)] assms(2) None t fresh no h own
    by (auto simp: less_Suc_eq)
qed
qed

text \<open>Taking and releasing a mutex changes neither the entries nor who refers to them.\<close>

lemma locks_ok_same_entries:
  assumes "locks_ok s" and "lk_entries s' = lk_entries s" and "lk_refCount s' = lk_refCount s"
    and "lk_next s' = lk_next s" and refs: "\<And>u. pc_ref (lk_pc s' u) = pc_ref (lk_pc s u)"
    and "\<And>u b. lk_owner s' b = Some u \<longleftrightarrow> (\<exists>j. lk_pc s' u = Holding j b)"
  shows "locks_ok s'"
proof -
  have "users s' b = users s b" for b by (simp add: users_def refs)
  with assms show ?thesis by (simp add: locks_ok_def)
qed

lemma lock_acquire_ok:
  assumes "locks_ok s" and "lk_pc s t = Waiting i a" and "lk_owner s a = None"
  shows "locks_ok (lock_acquire t i a s)"
proof (rule locks_ok_same_entries [OF assms(1)])
  fix u show "pc_ref (lk_pc (lock_acquire t i a s) u) = pc_ref (lk_pc s u)"
    using assms(2) by (simp add: lock_acquire_def)
next
  fix u b
  have "lk_owner s b \<noteq> Some t"
    using locks_okD(8) [OF assms(1), of b t] assms(2) by auto
  moreover have "lk_pc s u \<noteq> Holding j a" for j
    using locks_okD(7) [OF assms(1), of u j a] assms(3) by auto
  ultimately show "lk_owner (lock_acquire t i a s) b = Some u \<longleftrightarrow>
      (\<exists>j. lk_pc (lock_acquire t i a s) u = Holding j b)"
    using locks_okD(7) [OF assms(1), of u _ b] locks_okD(8) [OF assms(1), of b u]
    by (auto simp: lock_acquire_def)
qed (simp_all add: lock_acquire_def)

lemma lock_release_ok:
  assumes "locks_ok s" and "lk_pc s t = Holding i a"
  shows "locks_ok (lock_release t i a s)"
proof (rule locks_ok_same_entries [OF assms(1)])
  fix u show "pc_ref (lk_pc (lock_release t i a s) u) = pc_ref (lk_pc s u)"
    using assms(2) by (simp add: lock_release_def)
next
  fix u b
  show "lk_owner (lock_release t i a s) b = Some u \<longleftrightarrow>
      (\<exists>j. lk_pc (lock_release t i a s) u = Holding j b)"
  proof (cases "u = t")
    case True
    have "b = a" if "lk_owner s b = Some t"
      using that assms(2) by (simp add: locks_ok_owner [OF assms(1)])
    then show ?thesis using True by (simp add: lock_release_def) blast
  next
    case u: False
    show ?thesis
    proof (cases "b = a")
      case True
      have "lk_owner s a = Some t" using assms locks_ok_owner [OF assms(1)] by blast
      then have "\<not> (\<exists>j. lk_pc s u = Holding j a)"
        using u locks_ok_owner [OF assms(1), of a u] by simp
      then show ?thesis using u True by (simp add: lock_release_def)
    next
      case False
      with u locks_ok_owner [OF assms(1), of b u] show ?thesis by (simp add: lock_release_def)
    qed
  qed
qed (simp_all add: lock_release_def)

lemma lock_leave_ok:
  assumes "locks_ok s" and "lk_pc s t = Releasing i a"
  shows "locks_ok (lock_leave t i a s)"
proof -
  let ?s = "lock_leave t i a s"
  have ref: "pc_ref (lk_pc s t) = Some (i, a)" by (simp add: assms(2))
  note ia = locks_okD(1) [OF assms(1) ref]
  note fin = locks_okD(4) [OF assms(1) ia] and cnt = locks_okD(5) [OF assms(1) ia]
  have t: "t \<in> users s a" using ref by (auto simp: users_def)
  have pc: "lk_pc ?s = (lk_pc s)(t := Idle)" and o: "lk_owner ?s = lk_owner s" "lk_next ?s = lk_next s"
    and r: "lk_refCount ?s = (lk_refCount s)(a := lk_refCount s a - 1)"
    by (simp_all add: lock_leave_def Let_def)
  have u: "users ?s b = users s b - {t}" for b
    using users_moved [OF pc] by (simp add: moved_def)
  have tb: "t \<notin> users s b" if "b \<noteq> a" for b using ref that by (auto simp: users_def)
  have own: "lk_owner s b \<noteq> Some t" for b
    using locks_okD(8) [OF assms(1), of b t] assms(2) by auto
  have "lk_refCount s a - 1 = int (card (users s a - {t}))"
    using cnt card_Suc_Diff1 [OF fin t] by simp
  moreover have "card (users s a - {t}) = 0 \<longleftrightarrow> users s a - {t} = {}"
    using fin by (intro card_0_eq) simp
  ultimately have zero: "lk_refCount s a - 1 = 0 \<longleftrightarrow> users s a - {t} = {}"
    by linarith
  have e: "lk_entries ?s = (if users s a - {t} = {} then (lk_entries s)(i := None) else lk_entries s)"
    using zero by (simp add: lock_leave_def Let_def)
  have dec: "lk_refCount s a - 1 = int (card (users s a - {t}))"
    using fin cnt t card_Suc_Diff1 [OF fin t] by simp
  have stays: "lk_entries ?s j = Some b" if "pc_ref (lk_pc s v) = Some (j, b)" "v \<noteq> t" for v j b
  proof -
    have jb: "lk_entries s j = Some b" by (rule locks_okD(1) [OF assms(1) that(1)])
    show ?thesis
    proof (cases "j = i")
      case True
      with jb ia have "v \<in> users s a - {t}" using that by (auto simp: users_def)
      then have "users s a - {t} \<noteq> {}" by blast
      with jb show ?thesis by (simp only: e if_False)
    qed (simp add: e jb)
  qed
  have old: "lk_entries s j = Some b" if "lk_entries ?s j = Some b" for j b
    using that by (auto simp: e split: if_splits)
  have used: "users s b - {t} \<noteq> {}" if "lk_entries ?s j = Some b" for j b
  proof (cases "b = a")
    case True
    with locks_okD(6) [OF assms(1) old [OF that, unfolded True] ia] that show ?thesis
      by (auto simp: e split: if_splits)
  next
    case False
    with tb locks_okD(3) [OF assms(1) old [OF that]] show ?thesis by auto
  qed
  have counts: "lk_refCount ?s b = int (card (users s b - {t}))" if "lk_entries ?s j = Some b" for j b
    using dec tb locks_okD(5) [OF assms(1) old [OF that]] by (cases "b = a") (auto simp: r)
  show ?thesis
    unfolding locks_ok_def u o
  proof (intro conjI allI impI)
    fix v j b assume "pc_ref (lk_pc ?s v) = Some (j, b)"
    then show "lk_entries ?s j = Some b" using stays by (auto simp: pc split: if_splits)
  next
    fix j b assume jb: "lk_entries ?s j = Some b"
    show "b < lk_next s" "users s b - {t} \<noteq> {}" "finite (users s b - {t})"
      "lk_refCount ?s b = int (card (users s b - {t}))"
      using locks_okD(2,4) [OF assms(1) old [OF jb]] used [OF jb] counts [OF jb] by auto
  next
    fix j k b assume "lk_entries ?s j = Some b" "lk_entries ?s k = Some b"
    then show "j = k" using locks_okD(6) [OF assms(1)] old by metis
  next
    fix v b
    show "lk_owner s b = Some v \<longleftrightarrow> (\<exists>j. lk_pc ?s v = Holding j b)"
      using own [of b] locks_okD(7,8) [OF assms(1)] assms(2) by (auto simp: pc)
  qed
qed

lemma lock_step_ok: "lock_step s s' \<Longrightarrow> locks_ok s \<Longrightarrow> locks_ok s'"
  by (induction rule: lock_step.induct)
    (auto intro: lock_enter_ok lock_acquire_ok lock_release_ok lock_leave_ok)

lemma lock_reachable_ok: "lock_reachable s \<Longrightarrow> locks_ok s"
  unfolding lock_reachable_def
  by (induction rule: rtranclp_induct) (auto intro: newRunCommandLocks_ok lock_step_ok)


section \<open>Properties\<close>

text \<open>Goroutine 0 holds the lock of a run, goroutine 1 waits for it.\<close>

definition contended_locks :: runCommandLocks where
  "contended_locks = lock_enter 1 ''r1'' (lock_acquire 0 ''r1'' 0 (lock_enter 0 ''r1'' newRunCommandLocks))"

lemma contended_locks_reachable: "lock_reachable contended_locks"
proof -
  let ?s1 = "lock_enter 0 ''r1'' newRunCommandLocks" and
    ?s2 = "lock_acquire 0 ''r1'' 0 (lock_enter 0 ''r1'' newRunCommandLocks)"
  have "lock_step newRunCommandLocks ?s1"
    by (rule lock_step.enter) (simp_all add: newRunCommandLocks_def)
  moreover have "lock_step ?s1 ?s2"
    by (rule lock_step.acquire) (simp_all add: newRunCommandLocks_def lock_enter_def Let_def)
  moreover have "lock_step ?s2 contended_locks"
    unfolding contended_locks_def
    by (rule lock_step.enter)
      (simp_all add: newRunCommandLocks_def lock_enter_def lock_acquire_def Let_def)
  ultimately show ?thesis
    unfolding lock_reachable_def by (meson rtranclp.rtrancl_into_rtrancl rtranclp.rtrancl_refl)
qed

text \<open>
  C30: mutual exclusion: in whatever way the goroutines interleave, while one of them is in
  the critical section of a run, no other is in the critical section of the same run.
\<close>

theorem run_locks_exclude:
  assumes "lock_reachable s" and "lk_pc s t = Holding i a" and "u \<noteq> t"
  shows "lk_pc s u \<noteq> Holding i b"
proof
  assume u: "lk_pc s u = Holding i b"
  note ok = lock_reachable_ok [OF assms(1)]
  have "lk_entries s i = Some a" "lk_entries s i = Some b"
    using locks_okD(1) [OF ok, of t i a] locks_okD(1) [OF ok, of u i b] assms(2) u by simp_all
  then have "a = b" by simp
  with locks_okD(7) [OF ok assms(2)] locks_okD(7) [OF ok u] assms(3) show False by simp
qed

theorem run_locks_exclude_witness:
  "lk_pc contended_locks 1 \<noteq> Holding ''r1'' 0"
  by (rule run_locks_exclude [OF contended_locks_reachable, where t = 0 and a = 0])
    (simp_all add: contended_locks_def newRunCommandLocks_def lock_enter_def lock_acquire_def Let_def)

text \<open>
  no entry is leaked and none is deleted too early: a run has an entry exactly while
  some goroutine is between entering and leaving its lock, and the entry's reference count is
  the number of these goroutines.
\<close>

theorem run_locks_counted:
  assumes "lock_reachable s"
  shows "case lk_entries s i of
      None \<Rightarrow> \<not> (\<exists>t a. pc_ref (lk_pc s t) = Some (i, a))
    | Some a \<Rightarrow> (\<exists>t. pc_ref (lk_pc s t) = Some (i, a)) \<and> lk_refCount s a = int (card (users s a))"
proof (cases "lk_entries s i")
  case None
  with locks_okD(1) [OF lock_reachable_ok [OF assms]] show ?thesis by auto
next
  case (Some a)
  note ok = lock_reachable_ok [OF assms]
  from locks_okD(3) [OF ok Some] obtain t j where t: "pc_ref (lk_pc s t) = Some (j, a)"
    by (auto simp: users_def)
  with locks_okD(6) [OF ok locks_okD(1) [OF ok t] Some] have "j = i" by simp
  with t Some locks_okD(5) [OF ok Some] show ?thesis by auto
qed

theorem run_locks_counted_witness: "lk_refCount contended_locks 0 = int (card (users contended_locks 0))"
  using run_locks_counted [OF contended_locks_reachable, of "''r1''"]
  by (simp add: contended_locks_def newRunCommandLocks_def lock_enter_def lock_acquire_def Let_def)

text \<open>
  C31: no deadlock: whenever a goroutine waits for the lock of a run, it can take it at once,
  or another goroutine is in the critical section of this run and can release it.
\<close>

theorem run_locks_progress:
  assumes "lock_reachable s" and "lk_pc s t = Waiting i a"
  shows "lock_step s (lock_acquire t i a s) \<or>
    (\<exists>u. lk_pc s u = Holding i a \<and> lock_step s (lock_release u i a s))"
proof (cases "lk_owner s a")
  case None
  with assms(2) show ?thesis by (auto intro: lock_step.acquire)
next
  case (Some u)
  note ok = lock_reachable_ok [OF assms(1)]
  from Some obtain j where u: "lk_pc s u = Holding j a" using locks_ok_owner [OF ok] by blast
  have "lk_entries s i = Some a" "lk_entries s j = Some a"
    using locks_okD(1) [OF ok, of t i a] locks_okD(1) [OF ok, of u j a] assms(2) u by simp_all
  with locks_okD(6) [OF ok] have "j = i" by blast
  with u show ?thesis by (auto intro: lock_step.release)
qed

theorem run_locks_progress_witness:
  "lock_step contended_locks (lock_acquire 1 ''r1'' 0 contended_locks) \<or>
   (\<exists>u. lk_pc contended_locks u = Holding ''r1'' 0 \<and>
     lock_step contended_locks (lock_release u ''r1'' 0 contended_locks))"
  by (rule run_locks_progress [OF contended_locks_reachable])
    (simp add: contended_locks_def newRunCommandLocks_def lock_enter_def lock_acquire_def Let_def)

end
