(* ===== verification/Retry.thy ===== *)
theory Retry
  imports Runner
begin

text \<open>
  \<open>policy/retry/retry.go\<close>: an engine wrapped so that a failing call is repeated. The loop
  over the attempts recurses on the attempts left.
\<close>

section \<open>The wrapper\<close>

record retry_Config =
  rc_MaxAttempts :: int
  rc_ShouldRetry :: "(gerr \<Rightarrow> bool) option"

definition normalizedAttempts :: "int \<Rightarrow> nat" where
  "normalizedAttempts maxAttempts = (if maxAttempts < 1 then 1 else nat maxAttempts)"

definition shouldRetry :: "'w poll \<Rightarrow> go_ctx \<Rightarrow> retry_Config \<Rightarrow> gerr \<Rightarrow> 'w \<Rightarrow> bool \<times> 'w" where
  "shouldRetry poll x cfg err w =
     (case ctx_Err poll x w of
        (Some _, w1) \<Rightarrow> (False, w1)
      | (None, w1) \<Rightarrow>
          (case rc_ShouldRetry cfg of
             None \<Rightarrow>
               \<not> (errors_Is err ContextCanceled \<or> errors_Is err ContextDeadlineExceeded)
           | Some f \<Rightarrow> f err, w1))"

text \<open>
  The base input is rebuilt from two fields of the caller's: the resolution and the resolved
  requirement are not handed on.
\<close>

definition retry_input :: "EngineInput \<Rightarrow> EngineInput" where
  "retry_input input =
     \<lparr>ei_MaxSteps = ei_MaxSteps input, ei_Tools = CloneToolDefinitions (ei_Tools input),
      ei_Resolution = None, ei_ResolvedRequirement = None\<rparr>"

lemma retry_input_drop [simp]:
  "retry_input (input\<lparr>ei_Resolution := r, ei_ResolvedRequirement := q\<rparr>) = retry_input input"
  by (simp add: retry_input_def)

text \<open>\<open>n\<close> attempts are left after the next one.\<close>

primrec retry_loop ::
  "'w poll \<Rightarrow> 'w engine \<Rightarrow> retry_Config \<Rightarrow> go_ctx \<Rightarrow> RunState \<Rightarrow> EngineInput \<Rightarrow> nat \<Rightarrow> 'w \<Rightarrow>
     (RunState \<times> gerr option) \<times> 'w" where
  "retry_loop poll next cfg x base input 0 w =
     next (Some x) (CloneRunState base) (retry_input input) w"
| "retry_loop poll next cfg x base input (Suc n) w =
     (case next (Some x) (CloneRunState base) (retry_input input) w of
        ((state, None), w1) \<Rightarrow> ((state, None), w1)
      | ((state, Some err), w1) \<Rightarrow>
          (case shouldRetry poll x cfg err w1 of
             (False, w2) \<Rightarrow> ((state, Some err), w2)
           | (True, w2) \<Rightarrow> retry_loop poll next cfg x base input n w2))"

definition retry_Execute :: "'w poll \<Rightarrow> 'w engine \<Rightarrow> retry_Config \<Rightarrow> 'w engine" where
  "retry_Execute poll next cfg c state input w =
     (case c of
        None \<Rightarrow> ((state, Some (Sentinel ErrContextNil)), w)
      | Some x \<Rightarrow>
          (case ctx_Err poll x w of
             (Some ctxErr, w1) \<Rightarrow> ((state, Some ctxErr), w1)
           | (None, w1) \<Rightarrow>
               retry_loop poll next cfg x (CloneRunState state) (retry_input input)
                 (normalizedAttempts (rc_MaxAttempts cfg) - 1) w1))"

text \<open>\<open>WrapEngine\<close> answers nil for a nil engine.\<close>

definition WrapEngine :: "'w poll \<Rightarrow> 'w engine option \<Rightarrow> retry_Config \<Rightarrow> 'w engine option" where
  "WrapEngine poll engine cfg = map_option (\<lambda>next. retry_Execute poll next cfg) engine"

section \<open>Calls of the wrapped engine\<close>

text \<open>\<open>calls\<close> counts the calls of the wrapped engine; nothing else changes the count.\<close>

definition counts_engine :: "'w poll \<Rightarrow> 'w engine \<Rightarrow> ('w \<Rightarrow> nat) \<Rightarrow> bool" where
  "counts_engine poll next calls \<longleftrightarrow>
     (\<forall>w. calls (snd (poll w)) = calls w) \<and>
     (\<forall>c st inp w. calls (snd (next c st inp w)) = calls w + 1)"

lemma shouldRetry_calls:
  "counts_engine poll next calls \<Longrightarrow> shouldRetry poll x cfg err w = (b, w') \<Longrightarrow> calls w' = calls w"
  unfolding counts_engine_def shouldRetry_def ctx_Err_def
  by (auto split: option.splits prod.splits if_splits) (metis snd_conv)+

lemma retry_loop_calls:
  assumes "counts_engine poll next calls"
  shows "calls w + 1 \<le> calls (snd (retry_loop poll next cfg x base input n w)) \<and>
    calls (snd (retry_loop poll next cfg x base input n w)) \<le> calls w + n + 1"
proof (induction n arbitrary: w)
  case 0
  with assms show ?case by (simp add: counts_engine_def)
next
  case (Suc n)
  obtain st e w1 where r: "next (Some x) (CloneRunState base) (retry_input input) w = ((st, e), w1)"
    by (metis surj_pair)
  have w1: "calls w1 = calls w + 1" using assms r unfolding counts_engine_def by (metis snd_conv)
  show ?case
  proof (cases e)
    case None
    with r w1 show ?thesis by simp
  next
    case (Some err)
    obtain b w2 where s: "shouldRetry poll x cfg err w1 = (b, w2)" by fastforce
    with shouldRetry_calls [OF assms s] r w1 Some Suc.IH [of w2] show ?thesis
      by (cases b) auto
  qed
qed

lemma retry_loop_result:
  assumes "\<And>st w. P st \<Longrightarrow> R (fst (next (Some x) st (retry_input input) w))" and "P (CloneRunState base)"
  shows "R (fst (retry_loop poll next cfg x base input n w))"
  using assms
  by (induction n arbitrary: w)
    (auto split: prod.split option.split bool.split, (metis fst_conv)+)

lemma retry_loop_bound:
  assumes "counts_engine poll next calls" and "ctx_Err poll x w = (None, w1)"
  shows "calls w + 1 \<le> calls (snd (retry_loop poll next cfg x base input n w1)) \<and>
    calls (snd (retry_loop poll next cfg x base input n w1)) \<le> calls w + n + 1"
proof -
  have "calls w1 = calls w"
    using assms unfolding counts_engine_def ctx_Err_def by (metis prod.inject snd_conv)
  with retry_loop_calls [OF assms(1), where w = w1] show ?thesis by metis
qed

lemma normalizedAttempts_bound: "int (normalizedAttempts m - 1) + 1 = max 1 m"
  by (simp add: normalizedAttempts_def)

section \<open>Properties\<close>

text \<open>
  C38: when the context is live on entry, the wrapped engine is called at least once and at
  most \<open>max 1 MaxAttempts\<close> times, and what is returned is the outcome of such a call on a
  copy of the caller's state.
\<close>

theorem retry_bounded:
  assumes "counts_engine poll next calls" and "ctx_Err poll x w = (None, w1)"
  shows "calls w + 1 \<le> calls (snd (retry_Execute poll next cfg (Some x) state input w)) \<and>
    int (calls (snd (retry_Execute poll next cfg (Some x) state input w))) \<le>
      int (calls w) + max 1 (rc_MaxAttempts cfg) \<and>
    (\<exists>w'. fst (retry_Execute poll next cfg (Some x) state input w) =
      fst (next (Some x) (CloneRunState (CloneRunState state)) (retry_input (retry_input input)) w'))"
proof -
  let ?n = "normalizedAttempts (rc_MaxAttempts cfg) - 1"
  let ?r = "retry_loop poll next cfg x (CloneRunState state) (retry_input input) ?n w1"
  have "int (calls (snd ?r)) \<le> int (calls w) + max 1 (rc_MaxAttempts cfg)"
    and "calls w + 1 \<le> calls (snd ?r)"
    using retry_loop_bound [OF assms, of cfg "CloneRunState state" "retry_input input" ?n]
      normalizedAttempts_bound [of "rc_MaxAttempts cfg"] by linarith+
  moreover have "\<exists>w'. fst ?r =
      fst (next (Some x) (CloneRunState (CloneRunState state)) (retry_input (retry_input input)) w')"
    by (rule retry_loop_result
        [where P = "\<lambda>st. st = CloneRunState (CloneRunState state)" and
          R = "\<lambda>r. \<exists>w'. r = fst (next (Some x) (CloneRunState (CloneRunState state)) (retry_input (retry_input input)) w')"])
      auto
  ultimately show ?thesis using assms(2) by (simp add: retry_Execute_def)
qed

text \<open>An engine that fails on its first two calls, with the number of calls as the world.\<close>

definition flaky_engine :: "nat engine" where
  "flaky_engine c st inp n =
     ((st, if n < 2 then Some (Sentinel ErrRunNotFound) else None), n + 1)"

definition zeroEngineInput :: EngineInput where
  "zeroEngineInput = \<lparr>ei_MaxSteps = 0, ei_Tools = [], ei_Resolution = None,
     ei_ResolvedRequirement = None\<rparr>"

definition live_poll :: "nat poll" where
  "live_poll n = (None, n)"

theorem retry_bounded_witness:
  "int (snd (retry_Execute live_poll flaky_engine \<lparr>rc_MaxAttempts = 5, rc_ShouldRetry = None\<rparr>
      (Some ctx_Background) zeroRunState zeroEngineInput 0)) \<le> 5"
proof -
  have "counts_engine live_poll flaky_engine (\<lambda>n. n)"
    by (simp add: counts_engine_def live_poll_def flaky_engine_def)
  moreover have "ctx_Err live_poll ctx_Background 0 = (None, 0)"
    by (simp add: ctx_Err_def live_poll_def ctx_Background_def)
  ultimately show ?thesis
    using retry_bounded [of live_poll flaky_engine "\<lambda>n. n" ctx_Background 0 0
        "\<lparr>rc_MaxAttempts = 5, rc_ShouldRetry = None\<rparr>" zeroRunState zeroEngineInput] by simp
qed

text \<open>
  the resolution and the resolved requirement the caller passes make no difference to the
  wrapped engine: \<open>Execute\<close> rebuilds its input from the step limit and the tools only, so
  that an approved tool call is not replayed through the wrapper.
\<close>

theorem retry_drops_resolution:
  "retry_Execute poll next cfg c state
     (input\<lparr>ei_Resolution := r, ei_ResolvedRequirement := q\<rparr>) =
   retry_Execute poll next cfg c state input"
  by (simp add: fun_eq_iff retry_Execute_def split: option.split prod.split)

end
