(* ===== verification/Go_Url.thy ===== *)
theory Go_Url
  imports Go_Paths Go_Errors
begin

text \<open>
  What the repository uses of \<open>net/url\<close>, \<open>net/http\<close> and \<open>strings\<close> around URLs:
  \<open>url.PathEscape\<close> and its inverse (which \<open>http.ServeMux\<close> applies to the segments it
  captures), \<open>http.StatusText\<close>, \<open>strings.TrimRight\<close> and \<open>strings.Trim\<close>.
\<close>

section \<open>Trimming and cutting\<close>

definition TrimRight :: "string \<Rightarrow> char set \<Rightarrow> string" where
  "TrimRight s cs = rev (dropWhile (\<lambda>c. c \<in> cs) (rev s))"

definition Trim :: "string \<Rightarrow> char set \<Rightarrow> string" where
  "Trim s cs = TrimRight (dropWhile (\<lambda>c. c \<in> cs) s) cs"

text \<open>\<open>strings.Cut\<close> at a byte: what is before the first one, and what is after it, if any.\<close>

definition cut_at :: "char \<Rightarrow> string \<Rightarrow> string \<times> string option" where
  "cut_at d s =
     (let rest = dropWhile (\<lambda>c. c \<noteq> d) s in
      (takeWhile (\<lambda>c. c \<noteq> d) s, if rest = [] then None else Some (tl rest)))"

lemma cut_at_found: "d \<notin> set a \<Longrightarrow> cut_at d (a @ d # b) = (a, Some b)"
  by (induction a) (auto simp: cut_at_def Let_def split: if_splits)

lemma cut_at_missing: "d \<notin> set a \<Longrightarrow> cut_at d a = (a, None)"
  by (induction a) (auto simp: cut_at_def Let_def split: if_splits)

lemma TrimRight_snoc: "c \<notin> cs \<Longrightarrow> TrimRight (s @ [c]) cs = s @ [c]"
  by (simp add: TrimRight_def)

lemma TrimRight_prefix: "\<exists>q. s = TrimRight s cs @ q \<and> set q \<subseteq> cs"
proof -
  have "rev s = takeWhile (\<lambda>c. c \<in> cs) (rev s) @ dropWhile (\<lambda>c. c \<in> cs) (rev s)" by simp
  then have "s = TrimRight s cs @ rev (takeWhile (\<lambda>c. c \<in> cs) (rev s))"
    unfolding TrimRight_def by (metis rev_append rev_rev_ident)
  moreover have "set (rev (takeWhile (\<lambda>c. c \<in> cs) (rev s))) \<subseteq> cs"
    using set_takeWhileD by fastforce
  ultimately show ?thesis by blast
qed

text \<open>The newline that \<open>ReadString\<close> leaves at the end of a line is trimmed off.\<close>

lemma char_of_newline [simp]:
  "char_of (n :: nat) = CHR 0x0A \<longleftrightarrow> n mod 256 = 10" "CHR 0x0A = char_of n \<longleftrightarrow> n mod 256 = 10"
proof -
  have "char_of n = CHR 0x0A \<longleftrightarrow> of_char (char_of n :: char) = (of_char (CHR 0x0A) :: nat)"
    by (simp only: of_char_eq_iff)
  also have "\<dots> \<longleftrightarrow> n mod 256 = 10" by simp
  finally show "char_of (n :: nat) = CHR 0x0A \<longleftrightarrow> n mod 256 = 10" .
  then show "CHR 0x0A = char_of n \<longleftrightarrow> n mod 256 = 10" by auto
qed

lemma strip_prefix_snoc:
  assumes "\<forall>p \<in> set ps. p \<noteq> [] \<and> (last p = c \<longrightarrow> p = [c])" and "s \<noteq> []"
  shows "strip_prefix ps (s @ [c]) = map_option (\<lambda>t. t @ [c]) (strip_prefix ps s)"
  using assms(1)
proof (induction ps)
  case (Cons p ps)
  have "HasPrefix (s @ [c]) p \<longleftrightarrow> HasPrefix s p"
  proof
    assume h: "HasPrefix (s @ [c]) p"
    show "HasPrefix s p"
    proof (cases "length p \<le> length s")
      case True
      with h show ?thesis by (simp add: HasPrefix_def)
    next
      case False
      with h have "p = s @ [c]" by (simp add: HasPrefix_def)
      with Cons.prems assms(2) show ?thesis by auto
    qed
  qed (rule HasPrefix_append)
  moreover have "HasPrefix s p \<Longrightarrow> length p \<le> length s"
    by (auto simp: HasPrefix_def dest: arg_cong [where f = length])
  ultimately show ?case using Cons by auto
qed simp

lemma space_seqs_newline: "\<forall>p \<in> set space_seqs. p \<noteq> [] \<and> (last p = CHR 0x0A \<longrightarrow> p = [CHR 0x0A])"
  by (simp add: space_seqs_def bytes_def)

lemma strip_all_newline:
  "strip_all space_seqs (s @ [CHR 0x0A]) =
     (if strip_all space_seqs s = [] then [] else strip_all space_seqs s @ [CHR 0x0A])"
proof (induction s rule: length_induct)
  case (1 s)
  have single: "strip_all space_seqs [CHR 0x0A] = []"
    by (simp add: strip_all.simps [of _ "[_]"] strip_all.simps [of _ "[]"] space_seqs_def bytes_def HasPrefix_def)
  show ?case
  proof (cases "s = []")
    case True
    moreover have "strip_all space_seqs [] = []" using strip_all_suffix [of "[]" space_seqs] by simp
    ultimately show ?thesis using single by simp
  next
    case False
    note snoc = strip_prefix_snoc [OF space_seqs_newline False]
    show ?thesis
    proof (cases "strip_prefix space_seqs s")
      case None
      then have "strip_all space_seqs (s @ [CHR 0x0A]) = s @ [CHR 0x0A]"
        using snoc by (intro strip_all_id) simp
      with None False show ?thesis by (simp add: strip_all_id)
    next
      case (Some t)
      then have len: "length t < length s" by (rule strip_space_shorter)
      have "strip_all space_seqs (s @ [CHR 0x0A]) = strip_all space_seqs (t @ [CHR 0x0A])"
        using Some snoc len by (subst strip_all.simps) simp
      moreover have "strip_all space_seqs s = strip_all space_seqs t"
        using Some len by (subst strip_all.simps) simp
      ultimately show ?thesis using 1 len by auto
    qed
  qed
qed

lemma TrimRightSpace_newline: "TrimRightSpace (s @ [CHR 0x0A]) = TrimRightSpace s"
proof -
  have "strip_prefix (map rev space_seqs) (CHR 0x0A # rev s) = Some (rev s)"
    by (simp add: space_seqs_def bytes_def HasPrefix_def)
  then have "strip_all (map rev space_seqs) (CHR 0x0A # rev s) = strip_all (map rev space_seqs) (rev s)"
    by (subst strip_all.simps) simp
  then show ?thesis by (simp add: TrimRightSpace_def)
qed

lemma TrimSpace_newline [simp]: "TrimSpace (s @ [CHR 0x0A]) = TrimSpace s"
proof (cases "TrimLeftSpace s = []")
  case True
  then have "TrimLeftSpace (s @ [CHR 0x0A]) = []"
    using strip_all_newline [of s] by (simp add: TrimLeftSpace_def)
  with True show ?thesis by (simp add: TrimSpace_def)
next
  case False
  then have "TrimLeftSpace (s @ [CHR 0x0A]) = TrimLeftSpace s @ [CHR 0x0A]"
    using strip_all_newline [of s] by (simp add: TrimLeftSpace_def)
  then show ?thesis by (simp add: TrimSpace_def TrimRightSpace_newline)
qed

section \<open>Path segments\<close>

definition upper_hex :: "nat \<Rightarrow> char" where
  "upper_hex d = (if d < 10 then char_of (48 + d) else char_of (55 + d))"

definition hex_digit :: "char \<Rightarrow> nat option" where
  "hex_digit c =
     (let n = of_char c :: nat in
      if 48 \<le> n \<and> n \<le> 57 then Some (n - 48)
      else if 97 \<le> n \<and> n \<le> 102 then Some (n - 87)
      else if 65 \<le> n \<and> n \<le> 70 then Some (n - 55)
      else None)"

text \<open>\<open>shouldEscape\<close> in the mode of a path segment, negated.\<close>

definition segment_safe :: "char \<Rightarrow> bool" where
  "segment_safe c \<longleftrightarrow>
     (let n = of_char c :: nat in
      48 \<le> n \<and> n \<le> 57 \<or> 65 \<le> n \<and> n \<le> 90 \<or> 97 \<le> n \<and> n \<le> 122) \<or> c \<in> set ''-_.~$&+=:@''"

definition escape_char :: "char \<Rightarrow> string" where
  "escape_char c =
     (if segment_safe c then [c]
      else [CHR ''%'', upper_hex (of_char c div 16), upper_hex (of_char c mod 16)])"

definition PathEscape :: "string \<Rightarrow> string" where
  "PathEscape s = concat (map escape_char s)"

fun PathUnescape :: "string \<Rightarrow> gerr + string" where
  "PathUnescape [] = Inr []"
| "PathUnescape (c # s) =
     (if c = CHR ''%'' then
        case s of
          a # b # t \<Rightarrow>
            (case (hex_digit a, hex_digit b) of
               (Some h, Some l) \<Rightarrow>
                 (case PathUnescape t of Inl e \<Rightarrow> Inl e | Inr u \<Rightarrow> Inr (char_of (16 * h + l) # u))
             | _ \<Rightarrow> Inl (Errorf [Lit ''invalid URL escape '', Quo [c, a, b]]))
        | _ \<Rightarrow> Inl (Errorf [Lit ''invalid URL escape '', Quo (c # s)])
      else case PathUnescape s of Inl e \<Rightarrow> Inl e | Inr u \<Rightarrow> Inr (c # u))"

lemma hex_digit_upper_hex: "d < 16 \<Longrightarrow> hex_digit (upper_hex d) = Some d"
  by (simp add: hex_digit_def upper_hex_def)

lemma upper_hex_graphic: "d < 16 \<Longrightarrow> segment_safe (upper_hex d)"
  by (auto simp: segment_safe_def upper_hex_def)

lemma hex_digits_of_char: "(of_char c div 16 :: nat) < 16" "(of_char c mod 16 :: nat) < 16"
  using nat_of_char_less_256 [of c] by (simp_all add: less_mult_imp_div_less)

lemma PathEscape_simps [simp]:
  "PathEscape [] = []" "PathEscape (c # s) = escape_char c @ PathEscape s"
  by (simp_all add: PathEscape_def)

lemma PathEscape_set: "set (PathEscape s) \<subseteq> {c. segment_safe c \<or> c = CHR ''%''}"
  by (induction s) (auto simp: escape_char_def upper_hex_graphic hex_digits_of_char)

lemma segment_safe_delims:
  "\<not> segment_safe slash" "\<not> segment_safe (CHR ''?'')" "\<not> segment_safe (CHR ''%'')"
  "\<not> segment_safe (CHR ''#'')"
  by (simp_all add: segment_safe_def)

lemma PathEscape_no_delims:
  "slash \<notin> set (PathEscape s)" "CHR ''?'' \<notin> set (PathEscape s)" "CHR ''#'' \<notin> set (PathEscape s)"
  using PathEscape_set [of s] segment_safe_delims by auto

lemma PathUnescape_PathEscape: "PathUnescape (PathEscape s) = Inr s"
proof (induction s)
  case (Cons c s)
  show ?case
  proof (cases "segment_safe c")
    case True
    with segment_safe_delims have "c \<noteq> CHR ''%''" by auto
    with Cons True show ?thesis by (simp add: escape_char_def)
  next
    case False
    with Cons show ?thesis
      by (simp add: escape_char_def hex_digit_upper_hex hex_digits_of_char)
  qed
qed simp

lemma PathEscape_inject: "PathEscape s = PathEscape t \<longleftrightarrow> s = t"
  by (metis PathUnescape_PathEscape Inr_inject)

lemma PathEscape_eq_Nil [simp]: "PathEscape s = [] \<longleftrightarrow> s = []"
  using PathEscape_inject [of s "[]"] by simp

section \<open>Status texts\<close>

definition status_texts :: "(int \<times> string) list" where
  "status_texts =
    [(100, ''Continue''), (101, ''Switching Protocols''), (102, ''Processing''), (103, ''Early Hints''),
     (200, ''OK''), (201, ''Created''), (202, ''Accepted''), (203, ''Non-Authoritative Information''),
     (204, ''No Content''), (205, ''Reset Content''), (206, ''Partial Content''),
     (207, ''Multi-Status''), (208, ''Already Reported''), (226, ''IM Used''),
     (300, ''Multiple Choices''), (301, ''Moved Permanently''), (302, ''Found''), (303, ''See Other''),
     (304, ''Not Modified''), (305, ''Use Proxy''), (307, ''Temporary Redirect''),
     (308, ''Permanent Redirect''),
     (400, ''Bad Request''), (401, ''Unauthorized''), (402, ''Payment Required''), (403, ''Forbidden''),
     (404, ''Not Found''), (405, ''Method Not Allowed''), (406, ''Not Acceptable''),
     (407, ''Proxy Authentication Required''), (408, ''Request Timeout''), (409, ''Conflict''),
     (410, ''Gone''), (411, ''Length Required''), (412, ''Precondition Failed''),
     (413, ''Request Entity Too Large''), (414, ''Request URI Too Long''),
     (415, ''Unsupported Media Type''), (416, ''Requested Range Not Satisfiable''),
     (417, ''Expectation Failed''), (418, ''I'' @ [char_of (39 :: nat)] @ ''m a teapot''),
     (421, ''Misdirected Request''), (422, ''Unprocessable Entity''), (423, ''Locked''),
     (424, ''Failed Dependency''), (425, ''Too Early''), (426, ''Upgrade Required''),
     (428, ''Precondition Required''), (429, ''Too Many Requests''),
     (431, ''Request Header Fields Too Large''), (451, ''Unavailable For Legal Reasons''),
     (500, ''Internal Server Error''), (501, ''Not Implemented''), (502, ''Bad Gateway''),
     (503, ''Service Unavailable''), (504, ''Gateway Timeout''), (505, ''HTTP Version Not Supported''),
     (506, ''Variant Also Negotiates''), (507, ''Insufficient Storage''), (508, ''Loop Detected''),
     (510, ''Not Extended''), (511, ''Network Authentication Required'')]"

definition StatusText :: "int \<Rightarrow> string" where
  "StatusText status = (case map_of status_texts status of None \<Rightarrow> [] | Some t \<Rightarrow> t)"

end
