(* ===== verification/Client_Api.thy ===== *)
theory Client_Api
  imports Go_Url Go_Context
begin

text \<open>
  The client's HTTP layer: \<open>client/internal/api/*.go\<close>. What lies outside is a record \<open>net\<close>
  of parameters over a world \<open>'w\<close>: sending a request, building one, parsing a URL and the JSON
  codecs. A request is what the code sets of an \<open>*http.Request\<close>, an answer is the status, the
  bytes that reading the body delivers and the error that ends the reading, if any.
\<close>

section \<open>Types\<close>

record StartRequest =
  aq_RunID :: string
  aq_SystemPrompt :: string
  aq_UserPrompt :: string
  aq_MaxSteps :: "int option"

record api_Resolution =
  az_RequirementID :: string
  az_Kind :: string
  az_Outcome :: string
  az_Value :: string

record ContinueRequest =
  ac_CommandID :: string
  ac_MaxSteps :: "int option"
  ac_Resolution :: "api_Resolution option"

record SteerRequest =
  at_Instruction :: string

record FollowUpRequest =
  af_Prompt :: string
  af_MaxSteps :: "int option"

record api_PendingRequirement =
  ap_ID :: string
  ap_Kind :: string
  ap_Origin :: string
  ap_ToolCallID :: string
  ap_Fingerprint :: string
  ap_Prompt :: string

record api_RunState =
  as_RunID :: string
  as_Status :: string
  as_Step :: int
  as_Version :: int
  as_Output :: string
  as_Error :: string
  as_PendingRequirement :: "api_PendingRequirement option"

record ErrorBody =
  eb_Code :: string
  eb_Message :: string

record ErrorResponse =
  er_Error :: ErrorBody

datatype api_payload =
    StartBody StartRequest
  | ContinueBody ContinueRequest
  | SteerBody SteerRequest
  | FollowUpBody FollowUpRequest

section \<open>The outside\<close>

record http_call =
  hc_Context :: go_ctx
  hc_Method :: string
  hc_URL :: string
  hc_ContentType :: "string option"
  hc_Authorization :: "string option"
  hc_Body :: "string option"

text \<open>
  \<open>ha_Early\<close> is the number of lines of the body that are still unread when a reader that
  buffers meets the error \<open>ha_ReadErr\<close>.
\<close>

record http_answer =
  ha_Status :: int
  ha_Body :: string
  ha_ReadErr :: "gerr option"
  ha_Early :: nat

type_synonym 'w http_do = "http_call \<Rightarrow> 'w \<Rightarrow> (gerr + http_answer) \<times> 'w"

record 'w net =
  nt_DefaultDo :: "'w http_do"
  nt_NewRequest :: "string \<Rightarrow> string \<Rightarrow> gerr option"
  nt_ParseURL :: "string \<Rightarrow> gerr + string \<times> string"
  nt_Encode :: "api_payload \<Rightarrow> gerr + string"
  nt_DecodeState :: "string \<Rightarrow> gerr + api_RunState"
  nt_DecodeError :: "string \<Rightarrow> gerr + ErrorResponse"

section \<open>Errors\<close>

record RequestError =
  re_StatusCode :: int
  re_Code :: string
  re_Message :: string
  re_Body :: string

definition RequestError_Error :: "RequestError option \<Rightarrow> string" where
  "RequestError_Error e =
     (case e of
        None \<Rightarrow> ''<nil>''
      | Some e \<Rightarrow>
          let statusText = StatusText (re_StatusCode e);
              statusText = (if statusText = [] then ''unknown status'' else statusText)
          in if re_Code e \<noteq> [] then
               ''request failed: status='' @ int_text (re_StatusCode e) @ '' ('' @ statusText @
                 '') code='' @ re_Code e @ '' message='' @ re_Message e
             else
               ''request failed: status='' @ int_text (re_StatusCode e) @ '' ('' @ statusText @
                 '') message='' @ re_Message e)"

text \<open>
  The errors the client's commands return: an error of theory \<open>Go_Errors\<close>, a
  \<open>*RequestError\<close> or a \<open>*ResolutionRequiredError\<close> of the chat.
\<close>

record ResolutionPromptDefaults =
  pd_RequirementID :: string
  pd_Kind :: string
  pd_Prompt :: string

datatype client_err =
    Err gerr
  | RequestErr RequestError
  | ResolutionRequired ResolutionPromptDefaults

definition client_Is :: "client_err \<Rightarrow> sentinel \<Rightarrow> bool" where
  "client_Is e s = (case e of Err g \<Rightarrow> errors_Is g s | _ \<Rightarrow> False)"

lemma client_Is_simps [simp]:
  "client_Is (Err g) s = errors_Is g s" "\<not> client_Is (RequestErr q) s"
  "\<not> client_Is (ResolutionRequired d) s"
  by (simp_all add: client_Is_def)

text \<open>The decoded error body, when there is one with a code.\<close>

definition decodeAPIError :: "'w net \<Rightarrow> string \<Rightarrow> ErrorResponse option" where
  "decodeAPIError N body =
     (if body = [] then None
      else case nt_DecodeError N body of
        Inl err \<Rightarrow> None
      | Inr out \<Rightarrow> if TrimSpace (eb_Code (er_Error out)) \<noteq> [] then Some out else None)"

definition mapRequestError :: "'w net \<Rightarrow> int \<Rightarrow> string \<Rightarrow> client_err" where
  "mapRequestError N statusCode body =
     (let trimmedBody = TrimSpace body;
          trimmedBody = (if trimmedBody = [] then StatusText statusCode else trimmedBody)
      in case decodeAPIError N body of
           Some parsed \<Rightarrow>
             RequestErr \<lparr>re_StatusCode = statusCode, re_Code = eb_Code (er_Error parsed),
               re_Message = eb_Message (er_Error parsed), re_Body = body\<rparr>
         | None \<Rightarrow>
             RequestErr \<lparr>re_StatusCode = statusCode, re_Code = [], re_Message = trimmedBody,
               re_Body = body\<rparr>)"

section \<open>The client\<close>

record 'w Client =
  cl_baseURL :: string
  cl_authToken :: string
  cl_do :: "'w http_do"

definition client_New :: "'w net \<Rightarrow> string \<Rightarrow> string \<Rightarrow> 'w http_do option \<Rightarrow> gerr + 'w Client" where
  "client_New N baseURL authToken httpClient =
     (let trimmedBaseURL = TrimSpace baseURL in
      if trimmedBaseURL = [] then Inl (Errorf [Lit ''new client: base URL is required''])
      else case nt_ParseURL N trimmedBaseURL of
        Inl err \<Rightarrow> Inl (Errorf [Lit ''new client: parse base URL: '', Wrap err])
      | Inr (scheme, host) \<Rightarrow>
          if scheme = [] \<or> host = []
          then Inl (Errorf [Lit ''new client: base URL must include scheme and host''])
          else Inr \<lparr>cl_baseURL = TrimRight trimmedBaseURL {slash}, cl_authToken = TrimSpace authToken,
            cl_do = (case httpClient of None \<Rightarrow> nt_DefaultDo N | Some d \<Rightarrow> d)\<rparr>)"

definition encode_payload :: "'w net \<Rightarrow> api_payload option \<Rightarrow> gerr + string option" where
  "encode_payload N payload =
     (case payload of
        None \<Rightarrow> Inr None
      | Some p \<Rightarrow>
          (case nt_Encode N p of
             Inl err \<Rightarrow> Inl (Errorf [wraps ErrEncodeRequest, Lit '': '', Val err])
           | Inr encoded \<Rightarrow> Inr (Some encoded)))"

definition doRaw ::
  "'w net \<Rightarrow> 'w Client \<Rightarrow> ctx \<Rightarrow> string \<Rightarrow> string \<Rightarrow> api_payload option \<Rightarrow> bool \<Rightarrow> 'w \<Rightarrow>
     (client_err + string) \<times> 'w" where
  "doRaw N c ctx method path payload requiresAuth w =
     (case encode_payload N payload of
        Inl e \<Rightarrow> (Inl (Err e), w)
      | Inr body \<Rightarrow>
     (case nt_NewRequest N method (cl_baseURL c @ path) of
        Some err \<Rightarrow> (Inl (Err (Errorf [Lit ''new request: '', Wrap err])), w)
      | None \<Rightarrow>
          if requiresAuth \<and> cl_authToken c = [] then (Inl (Err (Sentinel ErrAuthTokenMissing)), w)
          else
     (case cl_do c \<lparr>hc_Context = ctx_orBackground ctx, hc_Method = method, hc_URL = cl_baseURL c @ path,
          hc_ContentType = (if payload \<noteq> None then Some ''application/json'' else None),
          hc_Authorization = (if requiresAuth then Some (''Bearer '' @ cl_authToken c) else None),
          hc_Body = body\<rparr> w of
        (Inl err, w) \<Rightarrow> (Inl (Err (Errorf [Lit ''do request: '', Wrap err])), w)
      | (Inr response, w) \<Rightarrow>
     (case ha_ReadErr response of
        Some err \<Rightarrow> (Inl (Err (Errorf [wraps ErrReadResponse, Lit '': '', Val err])), w)
      | None \<Rightarrow>
          if ha_Status response < 200 \<or> 300 \<le> ha_Status response
          then (Inl (mapRequestError N (ha_Status response) (ha_Body response)), w)
          else (Inr (ha_Body response), w)))))"

definition doJSON ::
  "'w net \<Rightarrow> 'w Client \<Rightarrow> ctx \<Rightarrow> string \<Rightarrow> string \<Rightarrow> api_payload option \<Rightarrow> bool \<Rightarrow> 'w \<Rightarrow>
     (client_err + api_RunState \<times> string) \<times> 'w" where
  "doJSON N c ctx method path payload requiresAuth w =
     (case doRaw N c ctx method path payload requiresAuth w of
        (Inl e, w) \<Rightarrow> (Inl e, w)
      | (Inr raw, w) \<Rightarrow>
          (case nt_DecodeState N raw of
             Inl err \<Rightarrow> (Inl (Err (Errorf [wraps ErrDecodeResponse, Lit '': '', Val err])), w)
           | Inr out \<Rightarrow> (Inr (out, raw), w)))"

definition runPath :: "string \<Rightarrow> gerr + string" where
  "runPath runID =
     (let trimmedRunID = TrimSpace runID in
      if trimmedRunID = [] then Inl (Sentinel ErrRunIDRequired)
      else Inr (''/v1/runs/'' @ PathEscape trimmedRunID))"

type_synonym 'w api_result = "(client_err + api_RunState \<times> string) \<times> 'w"

definition api_Health :: "'w net \<Rightarrow> 'w Client \<Rightarrow> ctx \<Rightarrow> 'w \<Rightarrow> (client_err + string) \<times> 'w" where
  "api_Health N c ctx = doRaw N c ctx ''GET'' ''/healthz'' None False"

definition api_Start :: "'w net \<Rightarrow> 'w Client \<Rightarrow> ctx \<Rightarrow> StartRequest \<Rightarrow> 'w \<Rightarrow> 'w api_result" where
  "api_Start N c ctx request = doJSON N c ctx ''POST'' ''/v1/runs/start'' (Some (StartBody request)) True"

definition api_Get :: "'w net \<Rightarrow> 'w Client \<Rightarrow> ctx \<Rightarrow> string \<Rightarrow> 'w \<Rightarrow> 'w api_result" where
  "api_Get N c ctx runID w =
     (case runPath runID of
        Inl e \<Rightarrow> (Inl (Err e), w)
      | Inr path \<Rightarrow> doJSON N c ctx ''GET'' path None False w)"

definition api_Continue ::
  "'w net \<Rightarrow> 'w Client \<Rightarrow> ctx \<Rightarrow> string \<Rightarrow> ContinueRequest \<Rightarrow> 'w \<Rightarrow> 'w api_result" where
  "api_Continue N c ctx runID request w =
     (case runPath runID of
        Inl e \<Rightarrow> (Inl (Err e), w)
      | Inr path \<Rightarrow> doJSON N c ctx ''POST'' (path @ ''/continue'') (Some (ContinueBody request)) True w)"

definition api_Steer ::
  "'w net \<Rightarrow> 'w Client \<Rightarrow> ctx \<Rightarrow> string \<Rightarrow> SteerRequest \<Rightarrow> 'w \<Rightarrow> 'w api_result" where
  "api_Steer N c ctx runID request w =
     (case runPath runID of
        Inl e \<Rightarrow> (Inl (Err e), w)
      | Inr path \<Rightarrow> doJSON N c ctx ''POST'' (path @ ''/steer'') (Some (SteerBody request)) True w)"

definition api_FollowUp ::
  "'w net \<Rightarrow> 'w Client \<Rightarrow> ctx \<Rightarrow> string \<Rightarrow> FollowUpRequest \<Rightarrow> 'w \<Rightarrow> 'w api_result" where
  "api_FollowUp N c ctx runID request w =
     (case runPath runID of
        Inl e \<Rightarrow> (Inl (Err e), w)
      | Inr path \<Rightarrow> doJSON N c ctx ''POST'' (path @ ''/follow-up'') (Some (FollowUpBody request)) True w)"

definition api_Cancel :: "'w net \<Rightarrow> 'w Client \<Rightarrow> ctx \<Rightarrow> string \<Rightarrow> 'w \<Rightarrow> 'w api_result" where
  "api_Cancel N c ctx runID w =
     (case runPath runID of
        Inl e \<Rightarrow> (Inl (Err e), w)
      | Inr path \<Rightarrow> doJSON N c ctx ''POST'' (path @ ''/cancel'') None True w)"

end
