(* ===== verification/Go_Flags.thy ===== *)
theory Go_Flags
  imports Go_Errors
begin

text \<open>
  What the client uses of the package \<open>flag\<close>: a \<open>FlagSet\<close> with string, integer, boolean and
  duration flags and its \<open>Parse\<close>. \<open>strconv.ParseInt\<close> with base 0 and \<open>time.ParseDuration\<close> are
  parameters. The usage text that a failure prints on the error output is left out.
\<close>

datatype flag_kind = FlagString | FlagBool | FlagInt | FlagDuration

datatype flag_value = StringValue string | BoolValue bool | IntValue int

record number_parsers =
  np_ParseInt :: "string \<Rightarrow> gerr + int"
  np_ParseDuration :: "string \<Rightarrow> gerr + int"

text \<open>\<open>strconv.ParseBool\<close>, \<open>None\<close> for its error.\<close>

definition ParseBool :: "string \<Rightarrow> bool option" where
  "ParseBool s =
     (if s \<in> {''1'', ''t'', ''T'', ''TRUE'', ''true'', ''True''} then Some True
      else if s \<in> {''0'', ''f'', ''F'', ''FALSE'', ''false'', ''False''} then Some False
      else None)"

fun flag_set :: "number_parsers \<Rightarrow> flag_kind \<Rightarrow> string \<Rightarrow> gerr + flag_value" where
  "flag_set P FlagString s = Inr (StringValue s)"
| "flag_set P FlagBool s =
     (case ParseBool s of None \<Rightarrow> Inl (External ''parse error'' []) | Some b \<Rightarrow> Inr (BoolValue b))"
| "flag_set P FlagInt s =
     (case np_ParseInt P s of Inl e \<Rightarrow> Inl e | Inr i \<Rightarrow> Inr (IntValue i))"
| "flag_set P FlagDuration s =
     (case np_ParseDuration P s of Inl e \<Rightarrow> Inl (External ''parse error'' []) | Inr i \<Rightarrow> Inr (IntValue i))"

type_synonym flags = "(string \<times> flag_value) list"

text \<open>The name of a flag and the value that follows an equals sign, if there is one.\<close>

definition flag_name :: "string \<Rightarrow> string \<times> string option" where
  "flag_name s =
     (let name = drop (if HasPrefix s ''--'' then 2 else 1) s in
      case name of
        [] \<Rightarrow> ([], None)
      | c # cs \<Rightarrow>
          (c # takeWhile (\<lambda>d. d \<noteq> CHR ''='') cs,
           case dropWhile (\<lambda>d. d \<noteq> CHR ''='') cs of [] \<Rightarrow> None | e # v \<Rightarrow> Some v))"

fun flag_Parse ::
  "number_parsers \<Rightarrow> (string \<times> flag_kind) list \<Rightarrow> flags \<Rightarrow> string list \<Rightarrow> gerr + flags \<times> string list" where
  "flag_Parse P formal actual [] = Inr (actual, [])"
| "flag_Parse P formal actual (s # args) =
     (if length s < 2 \<or> hd s \<noteq> CHR ''-'' then Inr (actual, s # args)
      else if s = ''--'' then Inr (actual, args)
      else
     (let (name, given) = flag_name s in
      if name = [] \<or> hd name = CHR ''-'' \<or> hd name = CHR ''=''
      then Inl (Errorf [Lit ''bad flag syntax: '', Lit s])
      else case map_of formal name of
        None \<Rightarrow>
          if name = ''help'' \<or> name = ''h'' then Inl (External ''flag: help requested'' [])
          else Inl (Errorf [Lit ''flag provided but not defined: -'', Lit name])
      | Some FlagBool \<Rightarrow>
          (case given of
             None \<Rightarrow> flag_Parse P formal ((name, BoolValue True) # actual) args
           | Some v \<Rightarrow>
               (case flag_set P FlagBool v of
                  Inl e \<Rightarrow> Inl (Errorf [Lit ''invalid boolean value '', Quo v, Lit '' for -'', Lit name, Lit '': '', Val e])
                | Inr x \<Rightarrow> flag_Parse P formal ((name, x) # actual) args))
      | Some kind \<Rightarrow>
          (case given of
             Some v \<Rightarrow>
               (case flag_set P kind v of
                  Inl e \<Rightarrow> Inl (Errorf [Lit ''invalid value '', Quo v, Lit '' for flag -'', Lit name, Lit '': '', Val e])
                | Inr x \<Rightarrow> flag_Parse P formal ((name, x) # actual) args)
           | None \<Rightarrow>
               (case args of
                  [] \<Rightarrow> Inl (Errorf [Lit ''flag needs an argument: -'', Lit name])
                | v # args \<Rightarrow>
                    (case flag_set P kind v of
                       Inl e \<Rightarrow> Inl (Errorf [Lit ''invalid value '', Quo v, Lit '' for flag -'', Lit name, Lit '': '', Val e])
                     | Inr x \<Rightarrow> flag_Parse P formal ((name, x) # actual) args)))))"

text \<open>The value of a flag: the last one given, else its default.\<close>

definition string_flag :: "flags \<Rightarrow> string \<Rightarrow> string \<Rightarrow> string" where
  "string_flag actual name d = (case map_of actual name of Some (StringValue s) \<Rightarrow> s | _ \<Rightarrow> d)"

definition int_flag :: "flags \<Rightarrow> string \<Rightarrow> int \<Rightarrow> int" where
  "int_flag actual name d = (case map_of actual name of Some (IntValue i) \<Rightarrow> i | _ \<Rightarrow> d)"

definition bool_flag :: "flags \<Rightarrow> string \<Rightarrow> bool \<Rightarrow> bool" where
  "bool_flag actual name d = (case map_of actual name of Some (BoolValue b) \<Rightarrow> b | _ \<Rightarrow> d)"

end
