(* ===== verification/Client_Stream.thy ===== *)
theory Client_Stream
  imports Client_Api Go_Flags Event_Sinks
begin

text \<open>
  The client's side of an event stream: the frame reader of \<open>client/internal/events/sse.go\<close> over
  a \<open>bufio.Scanner\<close>, and the \<open>events\<close> command of \<open>client/internal/cmd/cmd_events.go\<close>, which
  reconnects at the end of a stream with the cursor it has reached.

  The client's \<open>StreamEvent\<close> has the fields of the server's, so the record of theory
  \<open>Event_Sinks\<close> stands for both. The unbounded reconnecting loop takes fuel, one unit for each
  connection; the result \<open>None\<close> means that the command is still running after that many.
\<close>

section \<open>Lines\<close>

abbreviation newline :: char where "newline \<equiv> CHR 0x0A"

definition maxFrameBytes :: nat where "maxFrameBytes = 1024 * 1024"

text \<open>\<open>bufio.ScanLines\<close>: lines without their end, the last one only if it is not empty.\<close>

definition drop_CR :: "string \<Rightarrow> string" where
  "drop_CR s = (if s \<noteq> [] \<and> last s = CHR 0x0D then butlast s else s)"

definition split_lines :: "string \<Rightarrow> string list" where
  "split_lines s =
     (let ps = split_char newline s in if last ps = [] then butlast ps else ps)"

record scanner =
  sc_lines :: "string list"
  sc_err :: "gerr option"
  sc_early :: nat

text \<open>
  \<open>NewReader\<close>: a line that does not fit the buffer ends the scan with an error. \<open>Err()\<close> shows
  the error of the underlying reader once it has been met.
\<close>

definition NewReader :: "http_answer \<Rightarrow> scanner" where
  "NewReader source =
     (let raw = split_lines (ha_Body source); fits = takeWhile (\<lambda>l. length l < maxFrameBytes) raw in
      if length fits < length raw
      then \<lparr>sc_lines = map drop_CR fits, sc_err = Some (Sentinel ScannerTooLong), sc_early = 0\<rparr>
      else \<lparr>sc_lines = map drop_CR raw, sc_err = ha_ReadErr source, sc_early = ha_Early source\<rparr>)"

definition scan_Err :: "scanner \<Rightarrow> gerr option" where
  "scan_Err sc = (if length (sc_lines sc) \<le> sc_early sc then sc_err sc else None)"

section \<open>Frames\<close>

text \<open>The loop of \<open>parsePayload\<close>: the data so far and the lines behind it.\<close>

primrec data_lines :: "string list \<Rightarrow> string \<Rightarrow> (gerr + string) \<times> string list" where
  "data_lines [] data = (Inr data, [])"
| "data_lines (t # ls) data =
     (let line = TrimSpace t in
      if line = [] then (Inr data, ls)
      else if HasPrefix line '':'' then data_lines ls data
      else if \<not> HasPrefix line ''data:''
        then (Inl (Errorf [Lit ''decode stream event: unsupported SSE field '', Quo line]), ls)
      else let part = TrimSpace (drop 5 line) in
        data_lines ls (if data = [] then part else data @ newline # part))"

definition parsePayload :: "scanner \<Rightarrow> string \<Rightarrow> (gerr + string) \<times> scanner" where
  "parsePayload sc firstLine =
     (if \<not> HasPrefix firstLine ''data:'' then (Inr firstLine, sc)
      else case data_lines (sc_lines sc) (TrimSpace (drop 5 firstLine)) of
        (Inl e, ls) \<Rightarrow> (Inl e, sc\<lparr>sc_lines := ls\<rparr>)
      | (Inr data, ls) \<Rightarrow>
          let sc = sc\<lparr>sc_lines := ls\<rparr> in
          (case scan_Err sc of
             Some err \<Rightarrow> (Inl err, sc)
           | None \<Rightarrow>
               if TrimSpace data = []
               then (Inl (Errorf [Lit ''decode stream event: empty SSE data payload'']), sc)
               else (Inr data, sc)))"

definition decode_frame :: "(string \<Rightarrow> gerr + StreamEvent) \<Rightarrow> string \<Rightarrow> gerr + StreamEvent \<times> string" where
  "decode_frame dec payload =
     (case dec payload of
        Inl err \<Rightarrow> Inl (Errorf [Lit ''decode stream event: '', Wrap err])
      | Inr frame \<Rightarrow>
          if se_ID frame \<le> 0 then Inl (Errorf [Lit ''decode stream event: invalid id '', Num (se_ID frame)])
          else if TrimSpace (ev_RunID (se_Event frame)) = []
          then Inl (Errorf [Lit ''decode stream event: run_id is required''])
          else Inr (frame, payload @ [newline]))"

lemma data_lines_rest: "length (snd (data_lines ls data)) \<le> length ls"
  by (induction ls arbitrary: data) (auto simp: Let_def intro: le_SucI)

lemma parsePayload_rest: "length (sc_lines (snd (parsePayload sc line))) \<le> length (sc_lines sc)"
  using data_lines_rest [of "sc_lines sc" "TrimSpace (drop 5 line)"]
  by (auto simp: parsePayload_def Let_def split: prod.split sum.split option.split)

text \<open>\<open>Reader.Next\<close> of a reader that has a scanner.\<close>

function next_frame ::
  "(string \<Rightarrow> gerr + StreamEvent) \<Rightarrow> scanner \<Rightarrow> (gerr + StreamEvent \<times> string) \<times> scanner" where
  "next_frame dec sc =
     (case sc_lines sc of
        [] \<Rightarrow> (Inl (case sc_err sc of None \<Rightarrow> Sentinel IoEOF | Some err \<Rightarrow> err), sc)
      | t # ls \<Rightarrow>
          let sc = sc\<lparr>sc_lines := ls\<rparr>; line = TrimSpace t in
          if line = [] \<or> HasPrefix line '':'' then next_frame dec sc
          else case parsePayload sc line of
            (Inl err, sc) \<Rightarrow> (Inl err, sc)
          | (Inr payload, sc) \<Rightarrow> (decode_frame dec payload, sc))"
  by pat_completeness auto
termination
  by (relation "measure (\<lambda>(dec, sc). length (sc_lines sc))") auto

declare next_frame.simps [simp del]

definition reader_Next ::
  "(string \<Rightarrow> gerr + StreamEvent) \<Rightarrow> scanner option \<Rightarrow>
     (gerr + StreamEvent \<times> string) \<times> scanner option" where
  "reader_Next dec r =
     (case r of
        None \<Rightarrow> (Inl (Sentinel IoEOF), None)
      | Some sc \<Rightarrow> let (res, sc) = next_frame dec sc in (res, Some sc))"

lemma next_frame_rest:
  "length (sc_lines (snd (next_frame dec sc))) \<le> length (sc_lines sc)"
proof (induction dec sc rule: next_frame.induct)
  case (1 dec sc)
  show ?case
  proof (cases "sc_lines sc")
    case Nil
    then show ?thesis by (simp add: next_frame.simps)
  next
    case (Cons t ls)
    have "length (sc_lines (snd (parsePayload (sc\<lparr>sc_lines := ls\<rparr>) (TrimSpace t)))) \<le> length ls"
      using parsePayload_rest [of "sc\<lparr>sc_lines := ls\<rparr>" "TrimSpace t"] by simp
    with 1 [OF Cons refl refl] Cons show ?thesis
      by (auto simp: next_frame.simps [of dec sc] Let_def split: prod.split sum.split)
  qed
qed

lemma next_frame_progress:
  assumes "next_frame dec sc = (Inr f, sc')"
  shows "length (sc_lines sc') < length (sc_lines sc)"
proof (cases "sc_lines sc")
  case Nil
  with assms show ?thesis by (simp add: next_frame.simps)
next
  case (Cons t ls)
  have "length (sc_lines (snd (parsePayload (sc\<lparr>sc_lines := ls\<rparr>) (TrimSpace t)))) \<le> length ls"
    using parsePayload_rest [of "sc\<lparr>sc_lines := ls\<rparr>" "TrimSpace t"] by simp
  with assms Cons next_frame_rest [of dec "sc\<lparr>sc_lines := ls\<rparr>"] show ?thesis
    by (auto simp: next_frame.simps [of dec sc] Let_def split: prod.splits sum.splits if_splits)
qed

section \<open>The loop over the frames of one connection\<close>

text \<open>
  \<open>Reconnect\<close>: the stream has ended; the other ways out report. \<open>deliver\<close> is what is done
  with a frame: both loops of the client, \<open>runEvents\<close> and the chat's \<open>streamLoop\<close>, have this
  shape.
\<close>

datatype loop_end =
    Reconnect
  | ReadError gerr
  | NonMonotonic int int
  | DeliverError gerr

function frames_loop ::
  "(string \<Rightarrow> gerr + StreamEvent) \<Rightarrow> (StreamEvent \<Rightarrow> string \<Rightarrow> 'w \<Rightarrow> gerr option \<times> 'w) \<Rightarrow>
     scanner \<Rightarrow> int \<Rightarrow> 'w \<Rightarrow> loop_end \<times> int \<times> 'w" where
  "frames_loop dec deliver sc cursor w =
     (case next_frame dec sc of
        (Inl err, sc') \<Rightarrow> (if errors_Is err IoEOF then Reconnect else ReadError err, cursor, w)
      | (Inr (frame, raw), sc') \<Rightarrow>
          if se_ID frame \<le> cursor then (NonMonotonic (se_ID frame) cursor, cursor, w)
          else case deliver frame raw w of
            (Some err, w) \<Rightarrow> (DeliverError err, se_ID frame, w)
          | (None, w) \<Rightarrow> frames_loop dec deliver sc' (se_ID frame) w)"
  by pat_completeness auto
termination
  by (relation "measure (\<lambda>(dec, deliver, sc, cursor, w). length (sc_lines sc))")
    (auto dest: next_frame_progress [OF sym])

declare frames_loop.simps [simp del]

section \<open>Opening a stream\<close>

definition decodeEventsOpenError :: "'w net \<Rightarrow> int \<Rightarrow> string \<Rightarrow> gerr" where
  "decodeEventsOpenError N statusCode body =
     (let trimmed = TrimSpace body;
          plain = Errorf [Lit ''events stream rejected: status='', Num statusCode, Lit '' message='',
            Lit (if trimmed = [] then StatusText statusCode else trimmed)]
      in case nt_DecodeError N body of
           Inl err \<Rightarrow> plain
         | Inr parsed \<Rightarrow>
             if TrimSpace (eb_Code (er_Error parsed)) \<noteq> []
             then Errorf [Lit ''events stream rejected: status='', Num statusCode, Lit '' code='',
               Lit (eb_Code (er_Error parsed)), Lit '' message='', Lit (eb_Message (er_Error parsed))]
             else plain)"

definition streamURL :: "string \<Rightarrow> string \<Rightarrow> int \<Rightarrow> string" where
  "streamURL baseURL runID cursor =
     TrimRight (TrimSpace baseURL) {slash} @ ''/v1/runs/'' @ PathEscape (TrimSpace runID) @
       ''/events?cursor='' @ int_text cursor"

definition openEventsStream ::
  "'w net \<Rightarrow> ctx \<Rightarrow> 'w http_do option \<Rightarrow> string \<Rightarrow> string \<Rightarrow> int \<Rightarrow> 'w \<Rightarrow> (gerr + http_answer) \<times> 'w" where
  "openEventsStream N ctx httpClient baseURL runID cursor w =
     (let url = streamURL baseURL runID cursor in
      case nt_NewRequest N ''GET'' url of
        Some err \<Rightarrow> (Inl (Errorf [Lit ''new events request: '', Wrap err]), w)
      | None \<Rightarrow>
     (case (case httpClient of None \<Rightarrow> nt_DefaultDo N | Some d \<Rightarrow> d)
          \<lparr>hc_Context = ctx_orBackground ctx, hc_Method = ''GET'', hc_URL = url, hc_ContentType = None,
           hc_Authorization = None, hc_Body = None\<rparr> w of
        (Inl err, w) \<Rightarrow> (Inl (Errorf [Lit ''open events stream: '', Wrap err]), w)
      | (Inr response, w) \<Rightarrow>
          if ha_Status response \<noteq> 200 then
            (case ha_ReadErr response of
               Some readErr \<Rightarrow> (Inl (Errorf [Lit ''read events error body: '', Wrap readErr]), w)
             | None \<Rightarrow> (Inl (decodeEventsOpenError N (ha_Status response) (ha_Body response)), w))
          else (Inr response, w)))"

section \<open>The events command\<close>

text \<open>
  The terminal and the clock: writing to the standard output, the context's error, whether
  the context is done before the reconnect delay has passed; and two parameters, the JSON decoder
  of a frame and the table of printable runes for \<open>%q\<close>.
\<close>

record 'w console =
  co_Write :: "string \<Rightarrow> 'w \<Rightarrow> gerr option \<times> 'w"
  co_ctxErr :: "'w poll"
  co_doneFirst :: "'w \<Rightarrow> bool \<times> 'w"
  co_DecodeFrame :: "string \<Rightarrow> gerr + StreamEvent"
  co_isPrint :: "nat \<Rightarrow> bool"

definition writeRaw :: "'w console \<Rightarrow> string \<Rightarrow> 'w \<Rightarrow> gerr option \<times> 'w" where
  "writeRaw C body w = (if body = [] then (None, w) else co_Write C body w)"

definition human_event :: "StreamEvent \<Rightarrow> string" where
  "human_event frame =
     ''id='' @ int_text (se_ID frame) @ '' run_id='' @ ev_RunID (se_Event frame) @
     '' step='' @ int_text (ev_Step (se_Event frame)) @ '' type='' @ ev_Type (se_Event frame) @
     '' description='' @ TrimSpace (ev_Description (se_Event frame))"

definition writeHumanEvent :: "'w console \<Rightarrow> StreamEvent \<Rightarrow> 'w \<Rightarrow> gerr option \<times> 'w" where
  "writeHumanEvent C frame = co_Write C (human_event frame @ [newline])"

definition deliver_event :: "'w console \<Rightarrow> bool \<Rightarrow> StreamEvent \<Rightarrow> string \<Rightarrow> 'w \<Rightarrow> gerr option \<times> 'w" where
  "deliver_event C jsonMode frame raw =
     (if jsonMode then writeRaw C raw else writeHumanEvent C frame)"

primrec events_loop ::
  "nat \<Rightarrow> 'w net \<Rightarrow> 'w console \<Rightarrow> ctx \<Rightarrow> 'w http_do \<Rightarrow> string \<Rightarrow> bool \<Rightarrow> string \<Rightarrow> int \<Rightarrow> 'w \<Rightarrow>
     gerr option option \<times> 'w" where
  "events_loop 0 N C ctx client baseURL jsonMode runID cursor w = (None, w)"
| "events_loop (Suc n) N C ctx client baseURL jsonMode runID cursor w =
     (case openEventsStream N ctx (Some client) baseURL runID cursor w of
        (Inl err, w) \<Rightarrow>
          (case co_ctxErr C w of (e, w) \<Rightarrow> (Some (if is_err e ContextCanceled then None else Some err), w))
      | (Inr streamBody, w) \<Rightarrow>
     (case frames_loop (co_DecodeFrame C) (deliver_event C jsonMode) (NewReader streamBody) cursor w of
        (Reconnect, cursor, w) \<Rightarrow>
          (case co_doneFirst C w of
             (True, w) \<Rightarrow> (Some None, w)
           | (False, w) \<Rightarrow> events_loop n N C ctx client baseURL jsonMode runID cursor w)
      | (ReadError err, cursor, w) \<Rightarrow> (Some (Some (Errorf [Lit ''read events stream: '', Wrap err])), w)
      | (NonMonotonic i c, cursor, w) \<Rightarrow>
          (Some (Some (Errorf [Lit ''read events stream: non-monotonic id='', Num i, Lit '' cursor='', Num c])), w)
      | (DeliverError err, cursor, w) \<Rightarrow> (Some (Some err), w)))"

definition runEvents ::
  "nat \<Rightarrow> 'w net \<Rightarrow> 'w console \<Rightarrow> number_parsers \<Rightarrow> ctx \<Rightarrow> 'w http_do \<Rightarrow> string \<Rightarrow> bool \<Rightarrow> string list \<Rightarrow> 'w \<Rightarrow>
     gerr option option \<times> 'w" where
  "runEvents n N C P ctx client baseURL jsonMode args w =
     (if args = [] \<or> TrimSpace (hd args) = [] then (Some (Some (Errorf [Lit ''events requires <run-id>''])), w)
      else case flag_Parse P [(''cursor'', FlagInt)] [] (tl args) of
        Inl err \<Rightarrow> (Some (Some err), w)
      | Inr (fs, rest) \<Rightarrow>
          if rest \<noteq> [] then (Some (Some (Errorf [Lit ''events accepts one run-id and flags only''])), w)
          else if int_flag fs ''cursor'' 0 < 0 then (Some (Some (Errorf [Lit ''cursor must be >= 0''])), w)
          else events_loop n N C ctx client baseURL jsonMode (TrimSpace (hd args)) (int_flag fs ''cursor'' 0) w)"

end
