(* ===== verification/Policies.thy ===== *)
theory Policies
  imports Go_Format React_Loop
begin

text \<open>
  The policies of the server's mutating routes: the limits of \<open>policylimit/middleware.go\<close>
  (body size, request timeout, step budget of a command) and the bearer token of
  \<open>policyauth/middleware.go\<close>, as functions on requests. A handler is a function of a
  request and a state \<open>'s\<close>; a middleware wraps a handler.
\<close>

section \<open>Requests\<close>

text \<open>
  What two calls of \<open>json.Decoder.Decode\<close> on a body answer: the first the decoded value or
  an error, the second an error or none. The error of a body over its limit is a
  \<open>*http.MaxBytesError\<close>. The answers depend on the limit of the reader.
\<close>

datatype decode_error = MaxBytesError int | DecodeError gerr

record 'a decoded =
  dc_first :: "decode_error + 'a"
  dc_second :: "gerr option"

record 'a body =
  bd_limit :: "int option"
  bd_decode :: "int option \<Rightarrow> 'a decoded"

record 'a http_request =
  rq_Authorization :: string
  rq_run_id :: string
  rq_cursor :: string
  rq_Body :: "'a body option"
  rq_Context :: go_ctx
  rq_timeout :: "int option"

type_synonym ('a, 's, 'r) http_handler = "'a http_request \<Rightarrow> 's \<Rightarrow> 'r \<times> 's"
type_synonym ('a, 's, 'r) middleware = "('a, 's, 'r) http_handler \<Rightarrow> ('a, 's, 'r) http_handler"

text \<open>\<open>chain\<close>: the first middleware is the outermost.\<close>

definition chain :: "('a, 's, 'r) middleware list \<Rightarrow> ('a, 's, 'r) middleware" where
  "chain middlewares next = foldr (\<lambda>m h. m h) middlewares next"

section \<open>Limits\<close>

definition DefaultMaxRequestBodyBytes :: int where "DefaultMaxRequestBodyBytes = 2 ^ 20"
definition DefaultRequestTimeout :: int where "DefaultRequestTimeout = 10 * Second"
definition DefaultMaxCommandSteps :: int where "DefaultMaxCommandSteps = 8"

record limit_Config =
  lc_MaxRequestBodyBytes :: int
  lc_RequestTimeout :: int
  lc_MaxCommandSteps :: int

definition NormalizeConfig :: "limit_Config \<Rightarrow> limit_Config" where
  "NormalizeConfig cfg =
     (let cfg = (if lc_MaxRequestBodyBytes cfg \<le> 0
            then cfg\<lparr>lc_MaxRequestBodyBytes := DefaultMaxRequestBodyBytes\<rparr> else cfg);
          cfg = (if lc_RequestTimeout cfg \<le> 0
            then cfg\<lparr>lc_RequestTimeout := DefaultRequestTimeout\<rparr> else cfg)
      in if lc_MaxCommandSteps cfg \<le> 0
         then cfg\<lparr>lc_MaxCommandSteps := DefaultMaxCommandSteps\<rparr> else cfg)"

text \<open>
  The context with the timeout is cancelled by the clock, so it is not detached; when that
  happens is up to the polls of its \<open>Err()\<close>.
\<close>

definition limit_Middleware :: "limit_Config \<Rightarrow> ('a, 's, 'r) middleware" where
  "limit_Middleware cfg0 next r s =
     (let cfg = NormalizeConfig cfg0 in
      next (r\<lparr>rq_Body := map_option (bd_limit_update (\<lambda>_. Some (lc_MaxRequestBodyBytes cfg))) (rq_Body r),
        rq_Context := (rq_Context r)\<lparr>ctx_detached := False\<rparr>,
        rq_timeout := Some (lc_RequestTimeout cfg)\<rparr>) s)"

definition NormalizeCommandMaxSteps :: "int option \<Rightarrow> int \<Rightarrow> gerr + int" where
  "NormalizeCommandMaxSteps input maxAllowed0 =
     (let maxAllowed = (if maxAllowed0 \<le> 0 then DefaultMaxCommandSteps else maxAllowed0) in
      case input of
        None \<Rightarrow>
          if DefaultMaxCommandSteps > maxAllowed then
            Inl (Errorf [wraps ErrCommandBudgetExceeded, Lit '': implicit max_steps='',
              Num DefaultMaxCommandSteps, Lit '' exceeds policy max_steps='', Num maxAllowed])
          else Inr 0
      | Some i \<Rightarrow>
          if i \<le> 0 then Inl (Errorf [Lit ''max_steps must be greater than 0 when provided''])
          else if i > maxAllowed then
            Inl (Errorf [wraps ErrCommandBudgetExceeded, Lit '': requested max_steps='', Num i,
              Lit '' policy max_steps='', Num maxAllowed])
          else Inr i)"

section \<open>Authentication\<close>

definition BearerPrefix :: string where "BearerPrefix = ''Bearer ''"
definition DefaultToken :: string where "DefaultToken = ''coding-agent-dev-token''"

definition auth_Middleware :: "string \<Rightarrow> (gerr \<Rightarrow> 'r) \<Rightarrow> ('a, 's, 'r) middleware" where
  "auth_Middleware token reject next r s =
     (let expected = TrimSpace token in
      if expected = [] then next r s
      else if TrimSpace (rq_Authorization r) \<noteq> BearerPrefix @ expected then
        (reject (Errorf [wraps ErrUnauthorized, Lit '': missing or invalid bearer token'']), s)
      else next r s)"

end
