(* ===== verification/Http_Api.thy ===== *)
theory Http_Api
  imports Policies Runtime
begin

text \<open>
  \<open>httpapi/*.go\<close>: the HTTP handlers over the runtime. A request is what the handlers read of
  an \<open>*http.Request\<close> (theory \<open>Policies\<close>); a response is the status and the payload before
  its JSON encoding. The handlers' state is the runner's table of outcomes and the runtime.
\<close>

section \<open>Responses\<close>

definition errorCodeUnauthorized :: string where "errorCodeUnauthorized = ''unauthorized''"
definition errorCodePolicyRejected :: string where "errorCodePolicyRejected = ''policy_rejected''"
definition errorCodeInvalidRequest :: string where "errorCodeInvalidRequest = ''invalid_request''"
definition errorCodeNotFound :: string where "errorCodeNotFound = ''not_found''"
definition errorCodeConflict :: string where "errorCodeConflict = ''conflict''"
definition errorCodeForbidden :: string where "errorCodeForbidden = ''forbidden''"
definition errorCodeRuntime :: string where "errorCodeRuntime = ''runtime_error''"

record pendingRequirementResponse =
  pp_ID :: string
  pp_Kind :: RequirementKind
  pp_Origin :: RequirementOrigin
  pp_ToolCallID :: string
  pp_Fingerprint :: string
  pp_Prompt :: string

record runStateResponse =
  ps_RunID :: string
  ps_Status :: RunStatus
  ps_Step :: int
  ps_Version :: int
  ps_Output :: string
  ps_Error :: string
  ps_PendingRequirement :: "pendingRequirementResponse option"

datatype payload = ErrorPayload string string | StatePayload runStateResponse
  | StreamPayload "StreamEvent list"

record http_response =
  hr_status :: int
  hr_payload :: payload

definition run_state_response :: "RunState \<Rightarrow> runStateResponse" where
  "run_state_response state =
     \<lparr>ps_RunID = st_ID state, ps_Status = st_Status state, ps_Step = st_Step state,
      ps_Version = st_Version state, ps_Output = st_Output state, ps_Error = st_Error state,
      ps_PendingRequirement = map_option
        (\<lambda>q. \<lparr>pp_ID = pr_ID q, pp_Kind = pr_Kind q, pp_Origin = pr_Origin q,
              pp_ToolCallID = pr_ToolCallID q, pp_Fingerprint = pr_Fingerprint q,
              pp_Prompt = pr_Prompt q\<rparr>) (st_PendingRequirement state)\<rparr>"

definition writeRunState :: "int \<Rightarrow> RunState \<Rightarrow> http_response" where
  "writeRunState status state =
     \<lparr>hr_status = status, hr_payload = StatePayload (run_state_response state)\<rparr>"

definition writeError :: "int \<Rightarrow> string \<Rightarrow> string \<Rightarrow> http_response" where
  "writeError status code message = \<lparr>hr_status = status, hr_payload = ErrorPayload code message\<rparr>"

definition mapRuntimeError :: "gerr \<Rightarrow> int \<times> string" where
  "mapRuntimeError err =
     (if errors_Is err ErrUnauthorized then (401, errorCodeUnauthorized)
      else if errors_Is err ErrRequestTooLarge then (413, errorCodePolicyRejected)
      else if errors_Is err ErrRequestTimedOut then (408, errorCodePolicyRejected)
      else if errors_Is err ErrCommandBudgetExceeded then (429, errorCodePolicyRejected)
      else if errors_Is err ErrInvalidRequest then (400, errorCodeInvalidRequest)
      else if errors_Is err ErrRunNotFound then (404, errorCodeNotFound)
      else if errors_Is err ErrCommandConflict \<or> errors_Is err ErrRunVersionConflict
        then (409, errorCodeConflict)
      else if errors_Is err ErrCursorInvalid \<or> errors_Is err ErrCursorExpired
        then (409, errorCodeConflict)
      else if errors_Is err ErrRunNotContinuable \<or> errors_Is err ErrRunNotCancellable \<or>
          errors_Is err ErrResolutionRequired then (403, errorCodeForbidden)
      else if errors_Is err ErrInvalidRunID \<or> errors_Is err ErrResolutionInvalid \<or>
          errors_Is err ErrResolutionUnexpected \<or> errors_Is err ErrCommandInvalid \<or>
          errors_Is err ErrCommandNil \<or> errors_Is err ErrCommandUnsupported \<or>
          errors_Is err ErrRunStateInvalid \<or> errors_Is err ErrToolDefinitionsInvalid \<or>
          errors_Is err ErrContextNil then (400, errorCodeInvalidRequest)
      else if errors_Is err ContextCanceled then (500, errorCodeRuntime)
      else if errors_Is err ContextDeadlineExceeded then (408, errorCodePolicyRejected)
      else (500, errorCodeRuntime))"

definition isAcceptedRunError :: "gerr \<Rightarrow> bool" where
  "isAcceptedRunError err \<longleftrightarrow> errors_Is err ErrMaxStepsExceeded \<and> \<not> errors_Is err ErrEventPublish"

text \<open>The message is given as the pieces of its text.\<close>

definition invalidRequestError :: "frag list \<Rightarrow> gerr" where
  "invalidRequestError message = Errorf (wraps ErrInvalidRequest # Lit '': '' # message)"

definition writeMappedError :: "(nat \<Rightarrow> bool) \<Rightarrow> gerr \<Rightarrow> http_response" where
  "writeMappedError up err =
     (let (status, code) = mapRuntimeError err in writeError status code (error_text up err))"

definition writeInvalidRequest :: "(nat \<Rightarrow> bool) \<Rightarrow> string \<Rightarrow> http_response" where
  "writeInvalidRequest up message = writeMappedError up (invalidRequestError [Lit message])"

definition decodeJSONBody :: "'a http_request \<Rightarrow> gerr + 'a" where
  "decodeJSONBody r =
     (case rq_Body r of
        None \<Rightarrow> Inl (invalidRequestError [Lit ''request body is required''])
      | Some b \<Rightarrow>
     (let d = bd_decode b (bd_limit b) in
      case dc_first d of
        Inl (MaxBytesError limit) \<Rightarrow>
          Inl (Errorf [wraps ErrRequestTooLarge, Lit '': request body exceeds '', Num limit,
            Lit '' bytes''])
      | Inl (DecodeError err) \<Rightarrow>
          if errors_Is err IoEOF then Inl (invalidRequestError [Lit ''request body is required''])
          else Inl (invalidRequestError [Lit ''invalid JSON body: '', Val err])
      | Inr dst \<Rightarrow>
          if \<not> is_err (dc_second d) IoEOF then
            Inl (invalidRequestError [Lit ''request body must contain exactly one JSON object''])
          else Inr dst))"

section \<open>Policies of the router\<close>

record PolicyConfig =
  pc_AuthToken :: string
  pc_MaxRequestBodyBytes :: int
  pc_RequestTimeout :: int
  pc_MaxCommandSteps :: int

definition DefaultPolicyConfig :: PolicyConfig where
  "DefaultPolicyConfig =
     \<lparr>pc_AuthToken = DefaultToken, pc_MaxRequestBodyBytes = DefaultMaxRequestBodyBytes,
      pc_RequestTimeout = DefaultRequestTimeout, pc_MaxCommandSteps = DefaultMaxCommandSteps\<rparr>"

definition normalizePolicyConfig :: "PolicyConfig \<Rightarrow> PolicyConfig" where
  "normalizePolicyConfig input =
     (let defaults = DefaultPolicyConfig;
          input = (if pc_AuthToken input = []
            then input\<lparr>pc_AuthToken := pc_AuthToken defaults\<rparr> else input);
          input = (if pc_MaxRequestBodyBytes input \<le> 0
            then input\<lparr>pc_MaxRequestBodyBytes := pc_MaxRequestBodyBytes defaults\<rparr> else input);
          input = (if pc_RequestTimeout input \<le> 0
            then input\<lparr>pc_RequestTimeout := pc_RequestTimeout defaults\<rparr> else input)
      in if pc_MaxCommandSteps input \<le> 0
         then input\<lparr>pc_MaxCommandSteps := pc_MaxCommandSteps defaults\<rparr> else input)"

text \<open>
  The handlers' fields: which parts of the runtime are there (\<open>None\<close> for a nil runtime), the
  outside it runs on, its tool definitions, and the policy.
\<close>

record runtime_parts =
  has_Runner :: bool
  has_RunStore :: bool
  has_StreamBroker :: bool

record 'x handlers =
  h_parts :: "runtime_parts option"
  h_ext :: "'x external"
  h_ToolDefinitions :: "ToolDefinition list"
  h_policy :: PolicyConfig

type_synonym 'x api_state = "outcomes \<times> 'x runtime"

definition h_print :: "'x handlers \<Rightarrow> nat \<Rightarrow> bool" where
  "h_print h = ex_is_print (h_ext h)"

text \<open>The response \<open>ensureRuntime\<close> writes, \<open>None\<close> when it answers true.\<close>

definition ensureRuntime :: "'x handlers \<Rightarrow> http_response option" where
  "ensureRuntime h =
     (case h_parts h of
        Some p \<Rightarrow>
          if has_Runner p \<and> has_RunStore p \<and> has_StreamBroker p then None
          else Some (writeError 500 errorCodeRuntime ''runtime dependencies are not initialized'')
      | None \<Rightarrow> Some (writeError 500 errorCodeRuntime ''runtime dependencies are not initialized''))"

definition validateMaxSteps :: "int option \<Rightarrow> int \<Rightarrow> gerr + int" where
  "validateMaxSteps input maxAllowed =
     (case NormalizeCommandMaxSteps input maxAllowed of
        Inr maxSteps \<Rightarrow> Inr maxSteps
      | Inl err \<Rightarrow>
          if errors_Is err ErrCommandBudgetExceeded then Inl err
          else Inl (invalidRequestError [Val err]))"

definition pathRunID :: "'a http_request \<Rightarrow> gerr + RunID" where
  "pathRunID r =
     (let runID = TrimSpace (rq_run_id r) in
      if runID = [] then Inl (Sentinel ErrInvalidRunID) else Inr runID)"

section \<open>Commands\<close>

record startRequest =
  sr_RunID :: string
  sr_SystemPrompt :: string
  sr_UserPrompt :: string
  sr_MaxSteps :: "int option"

record resolutionRequest =
  zr_RequirementID :: string
  zr_Kind :: string
  zr_Outcome :: string
  zr_Value :: string

record continueRequest =
  cr_CommandID :: string
  cr_MaxSteps :: "int option"
  cr_Resolution :: "resolutionRequest option"

record steerRequest =
  tr_Instruction :: string

record followUpRequest =
  fr_Prompt :: string
  fr_MaxSteps :: "int option"

definition toResolution :: "resolutionRequest option \<Rightarrow> Resolution option" where
  "toResolution input = map_option
     (\<lambda>i. \<lparr>rs_RequirementID = TrimSpace (zr_RequirementID i), rs_Kind = zr_Kind i,
           rs_Outcome = zr_Outcome i, rs_Value = zr_Value i\<rparr>) input"

text \<open>The tail of the engine-driven commands, and of the others.\<close>

definition answer_run :: "'x handlers \<Rightarrow> 's outcome \<Rightarrow> http_response \<times> 's" where
  "answer_run h out =
     (let ((result, err), s) = out in
      case err of
        Some e \<Rightarrow>
          if \<not> isAcceptedRunError e then (writeMappedError (h_print h) e, s)
          else (writeRunState 200 (rr_State result), s)
      | None \<Rightarrow> (writeRunState 200 (rr_State result), s))"

definition answer_mutation :: "'x handlers \<Rightarrow> 's outcome \<Rightarrow> http_response \<times> 's" where
  "answer_mutation h out =
     (let ((result, err), s) = out in
      case err of
        Some e \<Rightarrow> (writeMappedError (h_print h) e, s)
      | None \<Rightarrow> (writeRunState 200 (rr_State result), s))"

definition handleRunStart ::
  "'x handlers \<Rightarrow> (startRequest, 'x api_state, http_response) http_handler" where
  "handleRunStart h r s =
     (case ensureRuntime h of
        Some missing \<Rightarrow> (missing, s)
      | None \<Rightarrow>
     (case decodeJSONBody r of
        Inl e \<Rightarrow> (writeMappedError (h_print h) e, s)
      | Inr request \<Rightarrow>
          if TrimSpace (sr_UserPrompt request) = [] then
            (writeInvalidRequest (h_print h) ''user_prompt is required'', s)
          else if sr_RunID request \<noteq> [] \<and> TrimSpace (sr_RunID request) = [] then
            (writeInvalidRequest (h_print h) ''run_id must not be blank'', s)
          else
     (case validateMaxSteps (sr_MaxSteps request) (pc_MaxCommandSteps (h_policy h)) of
        Inl e \<Rightarrow> (writeMappedError (h_print h) e, s)
      | Inr maxSteps \<Rightarrow>
          answer_run h (runner_Run (runtime_deps (h_ext h)) (Some (rq_Context r))
            \<lparr>ri_RunID = TrimSpace (sr_RunID request), ri_SystemPrompt = sr_SystemPrompt request,
             ri_UserPrompt = sr_UserPrompt request, ri_MaxSteps = maxSteps,
             ri_Tools = h_ToolDefinitions h\<rparr> s))))"

definition handleRunContinue ::
  "'x handlers \<Rightarrow> (continueRequest, 'x api_state, http_response) http_handler" where
  "handleRunContinue h r s =
     (case ensureRuntime h of
        Some missing \<Rightarrow> (missing, s)
      | None \<Rightarrow>
     (case pathRunID r of
        Inl e \<Rightarrow> (writeMappedError (h_print h) e, s)
      | Inr runID \<Rightarrow>
     (case decodeJSONBody r of
        Inl e \<Rightarrow> (writeMappedError (h_print h) e, s)
      | Inr request \<Rightarrow>
     (case validateMaxSteps (cr_MaxSteps request) (pc_MaxCommandSteps (h_policy h)) of
        Inl e \<Rightarrow> (writeMappedError (h_print h) e, s)
      | Inr maxSteps \<Rightarrow>
          answer_run h (Dispatch (runtime_deps (h_ext h)) (Some (rq_Context r))
            (CmdContinue \<lparr>cc_RunID = runID, cc_CommandID = TrimSpace (cr_CommandID request),
               cc_MaxSteps = maxSteps, cc_Tools = h_ToolDefinitions h,
               cc_Resolution = toResolution (cr_Resolution request)\<rparr>) s)))))"

definition handleRunCancel :: "'x handlers \<Rightarrow> (unit, 'x api_state, http_response) http_handler" where
  "handleRunCancel h r s =
     (case ensureRuntime h of
        Some missing \<Rightarrow> (missing, s)
      | None \<Rightarrow>
     (case pathRunID r of
        Inl e \<Rightarrow> (writeMappedError (h_print h) e, s)
      | Inr runID \<Rightarrow>
          answer_mutation h (runner_Cancel (runtime_deps (h_ext h)) (Some (rq_Context r)) runID s)))"

definition handleRunSteer ::
  "'x handlers \<Rightarrow> (steerRequest, 'x api_state, http_response) http_handler" where
  "handleRunSteer h r s =
     (case ensureRuntime h of
        Some missing \<Rightarrow> (missing, s)
      | None \<Rightarrow>
     (case pathRunID r of
        Inl e \<Rightarrow> (writeMappedError (h_print h) e, s)
      | Inr runID \<Rightarrow>
     (case decodeJSONBody r of
        Inl e \<Rightarrow> (writeMappedError (h_print h) e, s)
      | Inr request \<Rightarrow>
          if TrimSpace (tr_Instruction request) = [] then
            (writeInvalidRequest (h_print h) ''instruction is required'', s)
          else answer_mutation h (runner_Steer (runtime_deps (h_ext h)) (Some (rq_Context r)) runID
            (tr_Instruction request) s))))"

definition handleRunFollowUp ::
  "'x handlers \<Rightarrow> (followUpRequest, 'x api_state, http_response) http_handler" where
  "handleRunFollowUp h r s =
     (case ensureRuntime h of
        Some missing \<Rightarrow> (missing, s)
      | None \<Rightarrow>
     (case pathRunID r of
        Inl e \<Rightarrow> (writeMappedError (h_print h) e, s)
      | Inr runID \<Rightarrow>
     (case decodeJSONBody r of
        Inl e \<Rightarrow> (writeMappedError (h_print h) e, s)
      | Inr request \<Rightarrow>
          if TrimSpace (fr_Prompt request) = [] then
            (writeInvalidRequest (h_print h) ''prompt is required'', s)
          else
     (case validateMaxSteps (fr_MaxSteps request) (pc_MaxCommandSteps (h_policy h)) of
        Inl e \<Rightarrow> (writeMappedError (h_print h) e, s)
      | Inr maxSteps \<Rightarrow>
          answer_run h (runner_FollowUp (runtime_deps (h_ext h)) (Some (rq_Context r)) runID
            (fr_Prompt request) maxSteps (h_ToolDefinitions h) s)))))"

section \<open>Queries\<close>

definition handleRunQuery :: "'x handlers \<Rightarrow> (unit, 'x api_state, http_response) http_handler" where
  "handleRunQuery h r s =
     (case ensureRuntime h of
        Some missing \<Rightarrow> (missing, s)
      | None \<Rightarrow>
     (case pathRunID r of
        Inl e \<Rightarrow> (writeMappedError (h_print h) e, s)
      | Inr runID \<Rightarrow>
     (case runtime_Load (h_ext h) (Some (rq_Context r)) runID (snd s) of
        (Inl e, w) \<Rightarrow> (writeMappedError (h_print h) e, (fst s, w))
      | (Inr state, w) \<Rightarrow> (writeRunState 200 state, (fst s, w)))))"

definition parseCursor :: "'a http_request \<Rightarrow> gerr + int" where
  "parseCursor r =
     (let raw = rq_cursor r in
      if raw = [] then Inr 0
      else case ParseInt64 raw of
        None \<Rightarrow> Inl (Errorf [wraps ErrCursorInvalid, Lit '': cursor must be a non-negative integer''])
      | Some cursor \<Rightarrow>
          if cursor < 0
          then Inl (Errorf [wraps ErrCursorInvalid, Lit '': cursor must be a non-negative integer''])
          else Inr cursor)"

text \<open>
  The frames of one batch are written one by one. \<open>can_write\<close> says whether the next write
  succeeds, given the frames already written; the result tells whether all of them were.
\<close>

fun write_frames ::
  "(StreamEvent list \<Rightarrow> bool) \<Rightarrow> StreamEvent list \<Rightarrow> int \<Rightarrow> StreamEvent list \<Rightarrow>
     bool \<times> StreamEvent list \<times> int" where
  "write_frames can_write written cursor [] = (True, written, cursor)"
| "write_frames can_write written cursor (e # es) =
     (if can_write written then write_frames can_write (written @ [e]) (se_ID e) es
      else (False, written, cursor))"

text \<open>
  The polling loop: one round per tick, with the broker as it is then; the list ends when the
  context of the request is done.
\<close>

primrec stream_loop ::
  "(StreamEvent list \<Rightarrow> bool) \<Rightarrow> RunID \<Rightarrow> broker list \<Rightarrow> StreamEvent list \<Rightarrow> int \<Rightarrow>
     StreamEvent list" where
  "stream_loop can_write runID [] written cursor = written"
| "stream_loop can_write runID (b # bs) written cursor =
     (case EventsAfter runID cursor b of
        Inl e \<Rightarrow> written
      | Inr next \<Rightarrow>
          (case write_frames can_write written cursor next of
             (False, written', cursor') \<Rightarrow> written'
           | (True, written', cursor') \<Rightarrow> stream_loop can_write runID bs written' cursor'))"

text \<open>\<open>flusher\<close>: the response writer can flush; \<open>bs\<close>: the broker at the ticks.\<close>

definition handleRunEvents ::
  "'x handlers \<Rightarrow> bool \<Rightarrow> (StreamEvent list \<Rightarrow> bool) \<Rightarrow> broker list \<Rightarrow>
     (unit, 'x api_state, http_response) http_handler" where
  "handleRunEvents h flusher can_write bs r s =
     (case ensureRuntime h of
        Some missing \<Rightarrow> (missing, s)
      | None \<Rightarrow>
     (case pathRunID r of
        Inl e \<Rightarrow> (writeMappedError (h_print h) e, s)
      | Inr runID \<Rightarrow>
     (case runtime_Load (h_ext h) (Some (rq_Context r)) runID (snd s) of
        (Inl e, w) \<Rightarrow> (writeMappedError (h_print h) e, (fst s, w))
      | (Inr state, w) \<Rightarrow>
     (case parseCursor r of
        Inl e \<Rightarrow> (writeMappedError (h_print h) e, (fst s, w))
      | Inr cursor \<Rightarrow>
     (case EventsAfter runID cursor (rt_broker w) of
        Inl e \<Rightarrow> (writeMappedError (h_print h) e, (fst s, w))
      | Inr buffered \<Rightarrow>
          if \<not> flusher then
            (writeError 500 errorCodeRuntime ''streaming is unsupported by response writer'', (fst s, w))
          else
            (\<lparr>hr_status = 200, hr_payload = StreamPayload
               (case write_frames can_write [] cursor buffered of
                  (False, written, cursor') \<Rightarrow> written
                | (True, written, cursor') \<Rightarrow> stream_loop can_write runID bs written cursor')\<rparr>,
             (fst s, w)))))))"

section \<open>The router\<close>

text \<open>A request as \<open>http.ServeMux\<close> routes it.\<close>

datatype api_call =
    PostStart "startRequest http_request"
  | PostContinue "continueRequest http_request"
  | PostCancel "unit http_request"
  | PostSteer "steerRequest http_request"
  | PostFollowUp "followUpRequest http_request"
  | GetRun "unit http_request"

definition router_policy :: "PolicyConfig option \<Rightarrow> PolicyConfig" where
  "router_policy policy =
     (case policy of None \<Rightarrow> DefaultPolicyConfig | Some p \<Rightarrow> normalizePolicyConfig p)"

definition applyMutatingPolicies ::
  "'x handlers \<Rightarrow> ('a, 's, http_response) http_handler \<Rightarrow> ('a, 's, http_response) http_handler" where
  "applyMutatingPolicies h = chain
     [auth_Middleware (pc_AuthToken (h_policy h)) (writeMappedError (h_print h)),
      limit_Middleware \<lparr>lc_MaxRequestBodyBytes = pc_MaxRequestBodyBytes (h_policy h),
        lc_RequestTimeout = pc_RequestTimeout (h_policy h),
        lc_MaxCommandSteps = pc_MaxCommandSteps (h_policy h)\<rparr>]"

definition NewRouter ::
  "runtime_parts option \<Rightarrow> 'x external \<Rightarrow> ToolDefinition list \<Rightarrow> PolicyConfig option \<Rightarrow> 'x handlers" where
  "NewRouter parts E tools policy =
     \<lparr>h_parts = parts, h_ext = E, h_ToolDefinitions = tools, h_policy = router_policy policy\<rparr>"

lemma NewRouter_simps [simp]:
  "h_parts (NewRouter parts E tools policy) = parts" "h_ext (NewRouter parts E tools policy) = E"
  "h_ToolDefinitions (NewRouter parts E tools policy) = tools"
  "h_policy (NewRouter parts E tools policy) = router_policy policy"
  by (simp_all add: NewRouter_def)

definition serve_http :: "'x handlers \<Rightarrow> api_call \<Rightarrow> 'x api_state \<Rightarrow> http_response \<times> 'x api_state" where
  "serve_http h call s =
     (case call of
        PostStart r \<Rightarrow> applyMutatingPolicies h (handleRunStart h) r s
      | PostContinue r \<Rightarrow> applyMutatingPolicies h (handleRunContinue h) r s
      | PostCancel r \<Rightarrow> applyMutatingPolicies h (handleRunCancel h) r s
      | PostSteer r \<Rightarrow> applyMutatingPolicies h (handleRunSteer h) r s
      | PostFollowUp r \<Rightarrow> applyMutatingPolicies h (handleRunFollowUp h) r s
      | GetRun r \<Rightarrow> handleRunQuery h r s)"

end
