(* ===== verification/Http_Routes.thy ===== *)
theory Http_Routes
  imports Go_Url Http_Api
begin

text \<open>
  The patterns that \<open>NewRouter\<close> registers, and what \<open>http.ServeMux\<close> makes of them: the path
  of a request is cleaned (a request whose path changes is redirected and reaches no handler),
  split, its segments are unescaped and matched; \<open>{run_id}\<close> captures one segment. The modelled
  methods are the two that are registered.
\<close>

datatype endpoint =
    RouteStart
  | RouteContinue string
  | RouteCancel string
  | RouteSteer string
  | RouteFollowUp string
  | RouteQuery string
  | RouteEvents string

text \<open>\<open>cleanPath\<close> keeps a trailing slash.\<close>

definition cleanPath :: "string \<Rightarrow> string" where
  "cleanPath p =
     (let np = Clean (if HasPrefix p ''/'' then p else slash # p) in
      if p \<noteq> [] \<and> last p = slash \<and> np \<noteq> ''/'' then np @ ''/'' else np)"

definition unescape_segment :: "string \<Rightarrow> string" where
  "unescape_segment s = (case PathUnescape s of Inl e \<Rightarrow> s | Inr u \<Rightarrow> u)"

definition mux_run_route :: "string \<Rightarrow> string \<Rightarrow> string \<Rightarrow> endpoint option" where
  "mux_run_route verb runID action =
     (if verb = ''POST'' then
        if action = ''continue'' then Some (RouteContinue runID)
        else if action = ''cancel'' then Some (RouteCancel runID)
        else if action = ''steer'' then Some (RouteSteer runID)
        else if action = ''follow-up'' then Some (RouteFollowUp runID)
        else None
      else if verb = ''GET'' \<and> action = ''events'' then Some (RouteEvents runID)
      else None)"

definition mux_route :: "string \<Rightarrow> string \<Rightarrow> endpoint option" where
  "mux_route verb path =
     (if \<not> HasPrefix path ''/'' \<or> cleanPath path \<noteq> path then None
      else case map unescape_segment (split_char slash (tl path)) of
        [v, runs, seg] \<Rightarrow>
          if v \<noteq> ''v1'' \<or> runs \<noteq> ''runs'' \<or> seg = [] then None
          else if verb = ''GET'' then Some (RouteQuery seg)
          else if verb = ''POST'' \<and> seg = ''start'' then Some RouteStart
          else None
      | [v, runs, seg, action] \<Rightarrow>
          if v \<noteq> ''v1'' \<or> runs \<noteq> ''runs'' \<or> seg = [] then None
          else mux_run_route verb seg action
      | _ \<Rightarrow> None)"

text \<open>
  \<open>r.URL.Query().Get(key)\<close>: the value of the first well-formed pair with the key, empty when
  there is none.
\<close>

definition QueryUnescape :: "string \<Rightarrow> gerr + string" where
  "QueryUnescape s = PathUnescape (map (\<lambda>c. if c = CHR ''+'' then CHR '' '' else c) s)"

definition query_pair :: "string \<Rightarrow> (string \<times> string) option" where
  "query_pair part =
     (if part = [] \<or> CHR '';'' \<in> set part then None
      else let (k, v) = cut_at (CHR ''='') part in
        case (QueryUnescape k, QueryUnescape (case v of None \<Rightarrow> [] | Some x \<Rightarrow> x)) of
          (Inr key, Inr val) \<Rightarrow> Some (key, val)
        | _ \<Rightarrow> None)"

definition query_Get :: "string \<Rightarrow> string \<Rightarrow> string" where
  "query_Get key query =
     (case map_of (List.map_filter query_pair (split_char (CHR ''&'') query)) key of
        None \<Rightarrow> [] | Some v \<Rightarrow> v)"

section \<open>Routing the URLs of the API\<close>

lemma plain_words: "plain ''v1''" "plain ''runs''" "plain ''continue''" "plain ''cancel''" "plain ''steer''"
  "plain ''follow-up''" "plain ''events''" "plain ''start''"
  by (simp_all add: plain_def)

lemma escape_dot [simp]: "escape_char (CHR ''.'') = ''.''"
  by (simp add: escape_char_def segment_safe_def)

lemma PathEscape_dots: "PathEscape ''.'' = ''.''" "PathEscape ''..'' = ''..''"
  by simp_all

lemma PathEscape_plain: "s \<noteq> [] \<Longrightarrow> s \<noteq> ''.'' \<Longrightarrow> s \<noteq> ''..'' \<Longrightarrow> plain (PathEscape s)"
  unfolding plain_def by (metis PathEscape_inject PathEscape_dots PathEscape_eq_Nil PathEscape_no_delims(1))

lemma last_join_char:
  "es \<noteq> [] \<Longrightarrow> last es \<noteq> [] \<Longrightarrow> last (join_char d es) = last (last es)"
proof (induction es)
  case (Cons e es)
  show ?case
  proof (cases "es = []")
    case False
    with Cons have "last (join_char d es) = last (last es)" by simp
    moreover from False Cons.prems have "join_char d es \<noteq> []"
      by (auto simp: join_char_eq_Nil)
    ultimately show ?thesis using False by simp
  qed simp
qed simp

lemma cleanPath_abs_path:
  assumes "es \<noteq> []" and "\<forall>e \<in> set es. plain e"
  shows "cleanPath (abs_path es) = abs_path es"
proof -
  have last: "last es \<noteq> []" "slash \<notin> set (last es)"
    using assms last_in_set [of es] by (auto simp: plain_def)
  then have "last (last es) \<noteq> slash" using last_in_set by metis
  with last assms have "last (abs_path es) \<noteq> slash"
    using last_join_char [of es slash] join_plain_nonempty [of es] by (simp add: abs_path_def)
  moreover have "HasPrefix (abs_path es) ''/''" by (simp add: abs_path_def HasPrefix_def)
  ultimately show ?thesis
    using Clean_abs_path [OF assms(2)] by (simp add: cleanPath_def Let_def)
qed

lemma unescape_words [simp]:
  "unescape_segment ''v1'' = ''v1''" "unescape_segment ''runs'' = ''runs''"
  "unescape_segment ''start'' = ''start''" "unescape_segment ''continue'' = ''continue''"
  "unescape_segment ''cancel'' = ''cancel''" "unescape_segment ''steer'' = ''steer''"
  "unescape_segment ''follow-up'' = ''follow-up''" "unescape_segment ''events'' = ''events''"
  by (simp_all add: unescape_segment_def)

lemma unescape_PathEscape [simp]: "unescape_segment (PathEscape s) = s"
  by (simp add: unescape_segment_def PathUnescape_PathEscape)

lemma mux_segments:
  assumes "es \<noteq> []" and "\<forall>e \<in> set es. plain e"
  shows "HasPrefix (abs_path es) ''/'' \<and> cleanPath (abs_path es) = abs_path es \<and>
    split_char slash (tl (abs_path es)) = es"
  using cleanPath_abs_path [OF assms] split_join [OF assms(1) plain_no_slash [OF assms(2)]]
  by (simp add: abs_path_def HasPrefix_def)

lemma mux_route_start: "mux_route ''POST'' ''/v1/runs/start'' = Some RouteStart"
proof -
  have "''/v1/runs/start'' = abs_path [''v1'', ''runs'', ''start'']" by (simp add: abs_path_def)
  with mux_segments [of "[''v1'', ''runs'', ''start'']"] plain_words show ?thesis
    by (simp add: mux_route_def)
qed

lemma run_path_abs:
  "''/v1/runs/'' @ PathEscape i = abs_path [''v1'', ''runs'', PathEscape i]"
  "''/v1/runs/'' @ PathEscape i @ slash # action = abs_path [''v1'', ''runs'', PathEscape i, action]"
  by (simp_all add: abs_path_def)

lemma mux_route_query:
  assumes "i \<noteq> []" "i \<noteq> ''.''" "i \<noteq> ''..''"
  shows "mux_route ''GET'' (''/v1/runs/'' @ PathEscape i) = Some (RouteQuery i)"
  unfolding run_path_abs
  using mux_segments [of "[''v1'', ''runs'', PathEscape i]"] plain_words PathEscape_plain [OF assms] assms(1)
  by (simp add: mux_route_def)

lemma mux_route_action:
  assumes "i \<noteq> []" "i \<noteq> ''.''" "i \<noteq> ''..''" and "plain action" "unescape_segment action = action"
  shows "mux_route verb (''/v1/runs/'' @ PathEscape i @ slash # action) = mux_run_route verb i action"
  unfolding run_path_abs
  using mux_segments [of "[''v1'', ''runs'', PathEscape i, action]"] plain_words
    PathEscape_plain [OF assms(1-3)] assms
  by (simp add: mux_route_def)

text \<open>A run that is named with one or two dots has no address.\<close>

lemma dot_runs_unroutable:
  "mux_route verb (''/v1/runs/'' @ PathEscape ''.'') = None"
  "mux_route verb (''/v1/runs/'' @ PathEscape ''..'') = None"
  by (simp_all add: mux_route_def PathEscape_dots cleanPath_def Clean_def Let_def HasPrefix_def
      clean_elems_def clean_step_def IsAbs_def)

lemma query_cursor: "query_Get ''cursor'' (''cursor='' @ int_text c) = int_text c" if "0 \<le> c"
proof -
  have digits: "list_all is_digit (int_text c)"
    using that nat_text_digits [of "nat c"] by (simp add: int_text_def)
  have "\<not> is_digit (CHR ''&'')" "\<not> is_digit (CHR '';'')" "\<not> is_digit (CHR ''%'')" "\<not> is_digit (CHR ''+'')"
    by (simp_all add: is_digit_def)
  with digits have ds: "CHR ''&'' \<notin> set (int_text c)" "CHR '';'' \<notin> set (int_text c)"
    "CHR ''%'' \<notin> set (int_text c)" "CHR ''+'' \<notin> set (int_text c)"
    by (auto simp: list_all_iff)
  have clean: "PathUnescape s = Inr s" if "CHR ''%'' \<notin> set s" for s
    using that by (induction s) auto
  have amp: "CHR ''&'' \<notin> set (''cursor='' @ int_text c)" "CHR '';'' \<notin> set (''cursor='' @ int_text c)"
    "CHR ''%'' \<notin> set (int_text c)" "CHR ''+'' \<notin> set (int_text c)"
    using ds by simp_all
  then have id: "map (\<lambda>x. if x = CHR ''+'' then CHR '' '' else x) (int_text c) = int_text c"
    by (auto intro: map_idI)
  have cut: "cut_at (CHR ''='') (''cursor='' @ int_text c) = (''cursor'', Some (int_text c))"
    using cut_at_found [of "CHR ''=''" "''cursor''"] by simp
  have "query_pair (''cursor='' @ int_text c) = Some (''cursor'', int_text c)"
    using amp clean [of "int_text c"] id unfolding query_pair_def cut by (simp add: QueryUnescape_def)
  then show ?thesis
    unfolding query_Get_def split_char_word [OF amp(1)] by (simp add: List.map_filter_simps)
qed

end
