(* ===== verification/Stream_History.thy ===== *)
theory Stream_History
  imports Event_Sinks
begin

text \<open>
  The run event broker after a sequence of publications, and the frames a subscriber is sent:
  the events accepted for a run, numbered from 1, are the history that every read of the
  broker shows a part of.
\<close>

section \<open>The numbered history\<close>

definition history_frames :: "Event list \<Rightarrow> StreamEvent list" where
  "history_frames es =
     map (\<lambda>k. \<lparr>se_ID = int k + 1, se_Event = es ! k\<rparr>) [0..<length es]"

lemma history_frames_length [simp]: "length (history_frames es) = length es"
  by (simp add: history_frames_def)

lemma history_frames_nth:
  "k < length es \<Longrightarrow> history_frames es ! k = \<lparr>se_ID = int k + 1, se_Event = es ! k\<rparr>"
  by (simp add: history_frames_def)

lemma history_frames_snoc:
  "history_frames (es @ [e]) = history_frames es @ [\<lparr>se_ID = int (length es) + 1, se_Event = e\<rparr>]"
  by (simp add: history_frames_def nth_append)

lemma history_frames_Nil [simp]: "history_frames [] = []"
  by (simp add: history_frames_def)

lemma history_frames_take: "take n (history_frames es) = history_frames (take n es)"
  by (simp add: history_frames_def take_map min_def)

definition broker_after :: "int \<Rightarrow> (seen_ctx \<times> Event) list \<Rightarrow> broker" where
  "broker_after l ps = publish_all broker_Publish ps (broker_New l)"

lemma publish_all_snoc:
  "publish_all publish (ps @ [p]) s = snd (publish (fst p) (snd p) (publish_all publish ps s))"
  by (induction ps arbitrary: s) simp_all

lemma accepted_events_append:
  "accepted_events i (ps @ qs) = accepted_events i ps @ accepted_events i qs"
  by (simp add: accepted_events_def)

lemma accepted_events_length: "length (accepted_events i ps) \<le> length ps"
  by (simp add: accepted_events_def)

lemma accepted_events_cloned: "map cloneEvent (accepted_events i ps) = accepted_events i ps"
  by (simp add: accepted_events_def)

text \<open>What the broker holds of a run: the last frames of its history.\<close>

definition run_history :: "nat \<Rightarrow> Event list \<Rightarrow> runHistory option" where
  "run_history l es =
     (if es = [] then None
      else Some \<lparr>rh_nextID = int (length es) + 1, rh_events = drop (length es - l) (history_frames es)\<rparr>)"

lemma run_history_extend:
  assumes "runLocked b (ev_RunID e) = (case run_history (bk_historyLimit b) es of
      None \<Rightarrow> \<lparr>rh_nextID = 1, rh_events = []\<rparr> | Some h \<Rightarrow> h)"
    and "int (length es) < 2 ^ 63 - 2" and "0 < bk_historyLimit b"
  shows "Some (extended b e) = run_history (bk_historyLimit b) (es @ [cloneEvent e])"
proof -
  have wrap: "wrap64 (int (length es) + 1 + 1) = int (length es) + 2"
    using wrap64_succ [of "int (length es) + 1"] assms(2) by simp
  show ?thesis
  proof (cases "es = []")
    case True
    with assms wrap show ?thesis
      by (simp add: extended_def run_history_def history_frames_def)
  next
    case False
    with assms wrap show ?thesis
      by (cases "length es \<le> bk_historyLimit b")
        (auto simp: extended_def run_history_def history_frames_snoc Let_def Suc_diff_le)
  qed
qed

lemma broker_after_limit: "0 < bk_historyLimit (broker_after l ps)"
  "bk_historyLimit (broker_after l ps) = bk_historyLimit (broker_New l)"
proof -
  show l: "bk_historyLimit (broker_after l ps) = bk_historyLimit (broker_New l)"
  proof (induction ps rule: rev_induct)
    case (snoc p ps)
    then show ?case
      by (auto simp: broker_after_def publish_all_snoc broker_Publish_def Let_def split: option.split)
  qed (simp add: broker_after_def)
  show "0 < bk_historyLimit (broker_after l ps)"
    unfolding l by (simp add: broker_New_def DefaultHistoryLimit_def)
qed

lemma broker_after_history:
  assumes "int (length ps) < 2 ^ 63 - 2"
  shows "bk_runs (broker_after l ps) i =
    run_history (bk_historyLimit (broker_New l)) (accepted_events i ps)"
  using assms
proof (induction ps arbitrary: i rule: rev_induct)
  case Nil
  show ?case by (simp add: broker_after_def run_history_def broker_New_def)
next
  case (snoc p ps)
  let ?b = "broker_after l ps" and ?e = "snd p"
  have ih: "bk_runs ?b i = run_history (bk_historyLimit ?b) (accepted_events i ps)" for i
    using snoc.IH snoc.prems by (simp add: broker_after_limit)
  obtain r b' where p: "broker_Publish (fst p) ?e ?b = (r, b')" by fastforce
  then have b': "broker_after l (ps @ [p]) = b'"
    by (simp add: broker_after_def publish_all_snoc)
  show ?case
  proof (cases r)
    case (Some x)
    with p broker_Publish_refused broker_Publish_iff [of "fst p" ?e ?b] have
      "b' = ?b" "\<not> (ctx_guard (fst p) = None \<and> event_ok ?e)" by auto
    with b' ih show ?thesis by (auto simp: accepted_events_append broker_after_limit)
  next
    case None
    with p broker_Publish_iff [of "fst p" ?e ?b] have ok: "ctx_guard (fst p) = None \<and> event_ok ?e"
      by simp
    have "Some (extended ?b ?e) =
        run_history (bk_historyLimit ?b) (accepted_events (ev_RunID ?e) ps @ [cloneEvent ?e])"
      using snoc.prems accepted_events_length [of "ev_RunID ?e" ps] broker_after_limit(1)
      by (intro run_history_extend) (simp_all add: runLocked_def ih split: option.split)
    with broker_Publish_None [OF p [unfolded None]] b' ok ih show ?thesis
      by (simp add: accepted_events_append broker_after_limit)
  qed
qed

section \<open>Reading the history\<close>

text \<open>
  What a read after \<open>cursor\<close> can answer: all frames after the cursor; and it does answer as
  long as the frame after the cursor is still held.
\<close>

lemma EventsAfter_run_history:
  assumes "bk_runs b i = run_history l es" and "i \<noteq> []" and "0 \<le> cursor" and "0 < l"
  shows "EventsAfter i cursor b = Inr fs \<Longrightarrow>
      fs = map cloneStreamEvent (drop (nat cursor) (history_frames es)) \<and> cursor \<le> int (length es)"
    and "cursor \<le> int (length es) \<Longrightarrow> int (length es) - cursor \<le> int l \<Longrightarrow>
      EventsAfter i cursor b = Inr (map cloneStreamEvent (drop (nat cursor) (history_frames es)))"
proof -
  let ?n = "length es - l" and ?h = "drop (length es - l) (history_frames es)"
  have ids: "\<forall>k < length ?h. se_ID (?h ! k) = (int ?n + 1) + int k"
    by (simp add: history_frames_nth)
  have dw: "dropWhile (\<lambda>x. se_ID x \<le> cursor) ?h = drop (nat cursor) (history_frames es)"
    if "int ?n \<le> cursor"
    using dropWhile_numbered [OF ids, of cursor] that by (simp add: nat_diff_distrib)
  have hd: "\<exists>e fs. ?h = e # fs \<and> se_ID e = int ?n + 1" if "es \<noteq> []"
  proof (cases ?h)
    case Nil
    then have "length es - ?n = 0" by (metis length_drop history_frames_length list.size(3))
    moreover have "0 < length es" using that by simp
    ultimately have False using assms(4) by arith
    then show ?thesis ..
  next
    case (Cons e fs)
    with ids show ?thesis by force
  qed
  show "fs = map cloneStreamEvent (drop (nat cursor) (history_frames es)) \<and> cursor \<le> int (length es)"
    if "EventsAfter i cursor b = Inr fs"
  proof (cases "es = []")
    case True
    with that assms show ?thesis
      by (auto simp: EventsAfter_def run_history_def split: if_splits)
  next
    case False
    from hd [OF False] obtain e gs where eg: "?h = e # gs" "se_ID e = int ?n + 1" by blast
    from that assms False eg have c: "int ?n \<le> cursor" "cursor < int (length es) + 1"
      by (auto simp: EventsAfter_def run_history_def split: if_splits)
    with that assms False eg dw [OF c(1)] show ?thesis
      by (simp add: EventsAfter_def run_history_def)
  qed
  show "EventsAfter i cursor b = Inr (map cloneStreamEvent (drop (nat cursor) (history_frames es)))"
    if "cursor \<le> int (length es)" "int (length es) - cursor \<le> int l"
  proof (cases "es = []")
    case True
    with that assms show ?thesis by (simp add: EventsAfter_def run_history_def)
  next
    case False
    from hd [OF False] obtain e gs where eg: "?h = e # gs" "se_ID e = int ?n + 1" by blast
    have c: "int ?n \<le> cursor" using that assms(3) by (cases "l \<le> length es") (simp_all add: of_nat_diff)
    with that assms False eg dw [OF c] show ?thesis
      by (simp add: EventsAfter_def run_history_def)
  qed
qed

end
