(* ===== verification/Http_Safety.thy ===== *)
theory Http_Safety
  imports Http_Api Stream_History
begin

text \<open>
  What the HTTP layer guarantees together with the runtime behind it: requests reach the
  runner only with the token and within the step budget, a response shows what a later query
  shows, and an event stream is a piece of the history of its run without a gap.
\<close>

section \<open>Error responses\<close>

lemma mapRuntimeError_status: "400 \<le> fst (mapRuntimeError e)"
  by (simp add: mapRuntimeError_def)

lemma writeMappedError_status [simp]:
  "400 \<le> hr_status (writeMappedError up e)" "hr_status (writeMappedError up e) \<noteq> 200"
  "hr_payload (writeMappedError up e) \<noteq> StatePayload p"
  using mapRuntimeError_status [of e]
  by (auto simp: writeMappedError_def writeError_def case_prod_beta)

lemma writeInvalidRequest_status [simp]:
  "400 \<le> hr_status (writeInvalidRequest up m)" "hr_status (writeInvalidRequest up m) \<noteq> 200"
  "hr_payload (writeInvalidRequest up m) \<noteq> StatePayload p"
  by (simp_all add: writeInvalidRequest_def)

lemma ensureRuntime_status [simp]:
  "ensureRuntime h = Some resp \<Longrightarrow> 400 \<le> hr_status resp \<and> hr_payload resp \<noteq> StatePayload p"
  by (auto simp: ensureRuntime_def writeError_def split: option.splits if_splits)

section \<open>The gate\<close>

fun credentials :: "api_call \<Rightarrow> string" where
  "credentials (PostStart r) = rq_Authorization r"
| "credentials (PostContinue r) = rq_Authorization r"
| "credentials (PostCancel r) = rq_Authorization r"
| "credentials (PostSteer r) = rq_Authorization r"
| "credentials (PostFollowUp r) = rq_Authorization r"
| "credentials (GetRun r) = rq_Authorization r"

fun addressed_run :: "api_call \<Rightarrow> string" where
  "addressed_run (PostStart r) = []"
| "addressed_run (PostContinue r) = TrimSpace (rq_run_id r)"
| "addressed_run (PostCancel r) = TrimSpace (rq_run_id r)"
| "addressed_run (PostSteer r) = TrimSpace (rq_run_id r)"
| "addressed_run (PostFollowUp r) = TrimSpace (rq_run_id r)"
| "addressed_run (GetRun r) = TrimSpace (rq_run_id r)"

definition authorized :: "'x handlers \<Rightarrow> api_call \<Rightarrow> bool" where
  "authorized h call \<longleftrightarrow>
     (let token = TrimSpace (pc_AuthToken (h_policy h)) in
      token = [] \<or> TrimSpace (credentials call) = BearerPrefix @ token)"

text \<open>The steps an engine may take for a command's \<open>MaxSteps\<close>, 0 standing for the default.\<close>

definition step_budget :: "int \<Rightarrow> int" where
  "step_budget m = (if m \<le> 0 then DefaultMaxSteps else m)"

definition tools_within :: "'x handlers \<Rightarrow> int \<Rightarrow> ToolDefinition list \<Rightarrow> bool" where
  "tools_within h m tools \<longleftrightarrow>
     tools = h_ToolDefinitions h \<and> step_budget m \<le> pc_MaxCommandSteps (h_policy h)"

text \<open>The bytes the server reads of a body, and the value that it finds there.\<close>

definition body_limit :: "'x handlers \<Rightarrow> int" where
  "body_limit h =
     (if pc_MaxRequestBodyBytes (h_policy h) \<le> 0 then DefaultMaxRequestBodyBytes
      else pc_MaxRequestBodyBytes (h_policy h))"

definition brings :: "'x handlers \<Rightarrow> 'a http_request \<Rightarrow> 'a \<Rightarrow> bool" where
  "brings h r q \<longleftrightarrow>
     (\<exists>b. rq_Body r = Some b \<and> dc_first (bd_decode b (Some (body_limit h))) = Inr q)"

text \<open>The command that a call sends to the runner: the run of its path and the values of its body.\<close>

definition sends :: "'x handlers \<Rightarrow> api_call \<Rightarrow> Command \<Rightarrow> bool" where
  "sends h call cmd \<longleftrightarrow>
     (case cmd of
        CmdStart c \<Rightarrow> (\<exists>r q. call = PostStart r \<and> brings h r q \<and>
            ri_RunID (sc_Input c) = TrimSpace (sr_RunID q) \<and>
            ri_SystemPrompt (sc_Input c) = sr_SystemPrompt q \<and>
            ri_UserPrompt (sc_Input c) = sr_UserPrompt q) \<and>
          tools_within h (ri_MaxSteps (sc_Input c)) (ri_Tools (sc_Input c))
      | CmdContinue c \<Rightarrow> (\<exists>r q. call = PostContinue r \<and> brings h r q \<and>
            cc_CommandID c = TrimSpace (cr_CommandID q) \<and>
            cc_Resolution c = toResolution (cr_Resolution q)) \<and>
          cc_RunID c = addressed_run call \<and> cc_RunID c \<noteq> [] \<and>
          tools_within h (cc_MaxSteps c) (cc_Tools c)
      | CmdCancel c \<Rightarrow> (\<exists>r. call = PostCancel r) \<and> xc_RunID c = addressed_run call \<and> xc_RunID c \<noteq> []
      | CmdSteer c \<Rightarrow> (\<exists>r q. call = PostSteer r \<and> brings h r q \<and>
            stc_Instruction c = tr_Instruction q) \<and>
          stc_RunID c = addressed_run call \<and> stc_RunID c \<noteq> []
      | CmdFollowUp c \<Rightarrow> (\<exists>r q. call = PostFollowUp r \<and> brings h r q \<and> fc_UserPrompt c = fr_Prompt q) \<and>
          fc_RunID c = addressed_run call \<and> fc_RunID c \<noteq> [] \<and>
          tools_within h (fc_MaxSteps c) (fc_Tools c)
      | _ \<Rightarrow> False)"

text \<open>A response that rejects the request, leaving the state as it is.\<close>

definition rejects :: "http_response \<times> 's \<Rightarrow> 's \<Rightarrow> bool" where
  "rejects out s \<longleftrightarrow> snd out = s \<and> 400 \<le> hr_status (fst out) \<and>
     (\<forall>p. hr_payload (fst out) \<noteq> StatePayload p)"

lemma rejects_simps [simp]:
  "rejects (writeMappedError up e, s) s" "rejects (writeInvalidRequest up m, s) s"
  by (simp_all add: rejects_def)

lemma rejects_missing [simp]: "ensureRuntime h = Some resp \<Longrightarrow> rejects (resp, s) s"
  using ensureRuntime_status by (auto simp: rejects_def)

definition answers :: "'x handlers \<Rightarrow> http_response \<times> 's \<Rightarrow> 's outcome \<Rightarrow> bool" where
  "answers h out d \<longleftrightarrow> out = answer_run h d \<or> out = answer_mutation h d"

lemma validateMaxSteps_budget:
  "validateMaxSteps input n = Inr m \<Longrightarrow> 0 < n \<Longrightarrow> step_budget m \<le> n"
  by (auto simp: validateMaxSteps_def NormalizeCommandMaxSteps_def step_budget_def Let_def
      DefaultMaxCommandSteps_def DefaultMaxSteps_def split: option.splits sum.splits if_splits)

lemma router_policy_positive [simp]: "0 < pc_MaxCommandSteps (router_policy p)"
  by (auto simp: router_policy_def normalizePolicyConfig_def DefaultPolicyConfig_def Let_def
      DefaultMaxCommandSteps_def split: option.splits)

text \<open>Each handler rejects or sends its command.\<close>

definition mediates :: "'x handlers \<Rightarrow> api_call \<Rightarrow> http_response \<times> 'x api_state \<Rightarrow> 'x api_state \<Rightarrow> bool" where
  "mediates h call out s \<longleftrightarrow> rejects out s \<or>
     (\<exists>y cmd. sends h call cmd \<and> answers h out (Dispatch (runtime_deps (h_ext h)) (Some y) cmd s))"

lemma mediates_rejects [simp]:
  "mediates h call (writeMappedError up e, s) s" "mediates h call (writeInvalidRequest up m, s) s"
  "ensureRuntime h = Some resp \<Longrightarrow> mediates h call (resp, s) s"
  by (simp_all add: mediates_def)

lemma mediates_sends:
  "sends h call cmd \<Longrightarrow>
   mediates h call (answer_run h (Dispatch (runtime_deps (h_ext h)) (Some y) cmd s)) s"
  "sends h call cmd \<Longrightarrow>
   mediates h call (answer_mutation h (Dispatch (runtime_deps (h_ext h)) (Some y) cmd s)) s"
  by (auto simp: mediates_def answers_def)

lemmas handler_simps = pathRunID_def Let_def

text \<open>A request as the limits hand it on: with the path and, up to the limit, the body of the original.\<close>

definition limited :: "'x handlers \<Rightarrow> 'a http_request \<Rightarrow> 'a http_request \<Rightarrow> bool" where
  "limited h r r0 \<longleftrightarrow> rq_run_id r = rq_run_id r0 \<and>
     rq_Body r = map_option (bd_limit_update (\<lambda>_. Some (body_limit h))) (rq_Body r0)"

lemma limited_brings: "limited h r r0 \<Longrightarrow> decodeJSONBody r = Inr q \<Longrightarrow> brings h r0 q"
  by (auto simp: limited_def brings_def decodeJSONBody_def Let_def
      split: option.splits sum.splits decode_error.splits if_splits)

lemma limited_run [simp]: "limited h r r0 \<Longrightarrow> rq_run_id r = rq_run_id r0"
  by (simp add: limited_def)

lemma handleRunStart_mediates:
  assumes "0 < pc_MaxCommandSteps (h_policy h)" and "limited h r r0"
  shows "mediates h (PostStart r0) (handleRunStart h r s) s"
  using limited_brings [OF assms(2)] unfolding handleRunStart_def
  by (auto simp: sends_def tools_within_def runner_Run_def validateMaxSteps_budget [OF _ assms(1)]
      intro!: mediates_sends split: option.splits sum.splits) (metis TrimSpace_Nil)

lemma handleRunContinue_mediates:
  assumes "0 < pc_MaxCommandSteps (h_policy h)" and "limited h r r0"
  shows "mediates h (PostContinue r0) (handleRunContinue h r s) s"
  using limited_brings [OF assms(2)] limited_run [OF assms(2)] unfolding handleRunContinue_def
  by (auto simp: sends_def tools_within_def validateMaxSteps_budget [OF _ assms(1)] handler_simps
      intro!: mediates_sends split: option.splits sum.splits if_splits)

lemma handleRunCancel_mediates:
  assumes "limited h r r0"
  shows "mediates h (PostCancel r0) (handleRunCancel h r s) s"
  using limited_run [OF assms] unfolding handleRunCancel_def
  by (auto simp: sends_def runner_Cancel_def handler_simps
      intro!: mediates_sends split: option.splits sum.splits if_splits)

lemma handleRunSteer_mediates:
  assumes "limited h r r0"
  shows "mediates h (PostSteer r0) (handleRunSteer h r s) s"
  using limited_brings [OF assms] limited_run [OF assms] unfolding handleRunSteer_def
  by (auto simp: sends_def runner_Steer_def handler_simps
      intro!: mediates_sends split: option.splits sum.splits if_splits)

lemma handleRunFollowUp_mediates:
  assumes "0 < pc_MaxCommandSteps (h_policy h)" and "limited h r r0"
  shows "mediates h (PostFollowUp r0) (handleRunFollowUp h r s) s"
  using limited_brings [OF assms(2)] limited_run [OF assms(2)] unfolding handleRunFollowUp_def
  by (auto simp: sends_def tools_within_def runner_FollowUp_def validateMaxSteps_budget [OF _ assms(1)]
      handler_simps intro!: mediates_sends split: option.splits sum.splits if_splits)

text \<open>The policies in front of a handler.\<close>

lemma applyMutatingPolicies_cases:
  "applyMutatingPolicies h handle r s =
     (if TrimSpace (pc_AuthToken (h_policy h)) \<noteq> [] \<and>
        TrimSpace (rq_Authorization r) \<noteq> BearerPrefix @ TrimSpace (pc_AuthToken (h_policy h))
      then (writeMappedError (h_print h)
        (Errorf [wraps ErrUnauthorized, Lit '': missing or invalid bearer token'']), s)
      else limit_Middleware \<lparr>lc_MaxRequestBodyBytes = pc_MaxRequestBodyBytes (h_policy h),
        lc_RequestTimeout = pc_RequestTimeout (h_policy h),
        lc_MaxCommandSteps = pc_MaxCommandSteps (h_policy h)\<rparr> handle r s)"
  by (simp add: applyMutatingPolicies_def chain_def auth_Middleware_def Let_def)

definition policy_limits :: "'x handlers \<Rightarrow> limit_Config" where
  "policy_limits h = \<lparr>lc_MaxRequestBodyBytes = pc_MaxRequestBodyBytes (h_policy h),
     lc_RequestTimeout = pc_RequestTimeout (h_policy h),
     lc_MaxCommandSteps = pc_MaxCommandSteps (h_policy h)\<rparr>"

lemma normalized_limit: "lc_MaxRequestBodyBytes (NormalizeConfig (policy_limits h)) = body_limit h"
  by (simp add: NormalizeConfig_def policy_limits_def body_limit_def Let_def)

lemma limited_update:
  "limited h (r\<lparr>rq_Body := map_option (bd_limit_update (\<lambda>_. Some (body_limit h))) (rq_Body r),
     rq_Context := x, rq_timeout := y\<rparr>) r"
  unfolding limited_def by (cases r) simp

lemma limits_hand_on:
  "\<exists>r'. limited h r' r \<and> limit_Middleware (policy_limits h) handle r s = handle r' s"
  by (simp only: limit_Middleware_def Let_def normalized_limit)
    (rule exI, rule conjI [rotated], rule refl, rule limited_update)

lemma policies_mediate:
  assumes "\<And>r'. limited h r' r \<Longrightarrow> mediates h call (handle r' s) s"
    and "credentials call = rq_Authorization r"
  shows "if authorized h call then mediates h call (applyMutatingPolicies h handle r s) s
    else rejects (applyMutatingPolicies h handle r s) s \<and>
      hr_status (fst (applyMutatingPolicies h handle r s)) = 401"
proof (cases "authorized h call")
  case True
  from limits_hand_on [where r = r and handle = handle and h = h and s = s]
  obtain r' where "limited h r' r" "limit_Middleware (policy_limits h) handle r s = handle r' s"
    by (elim exE conjE)
  with assms True show ?thesis
    by (auto simp: applyMutatingPolicies_cases authorized_def policy_limits_def Let_def)
next
  case False
  with assms(2) show ?thesis
    by (auto simp: applyMutatingPolicies_cases authorized_def Let_def writeMappedError_def
        mapRuntimeError_def writeError_def rejects_def)
qed

definition is_mutation :: "api_call \<Rightarrow> bool" where
  "is_mutation call \<longleftrightarrow> (\<forall>r. call \<noteq> GetRun r)"

lemma serve_http_mediates:
  assumes "is_mutation call" and "0 < pc_MaxCommandSteps (h_policy h)"
  shows "if authorized h call then mediates h call (serve_http h call s) s
    else rejects (serve_http h call s) s \<and> hr_status (fst (serve_http h call s)) = 401"
proof (cases call)
  case (PostStart r)
  with policies_mediate [where handle = "handleRunStart h" and r = r and call = "PostStart r" and h = h and s = s]
    handleRunStart_mediates [OF assms(2)] show ?thesis
    by (simp add: serve_http_def)
next
  case (PostContinue r)
  with policies_mediate [where handle = "handleRunContinue h" and r = r and call = "PostContinue r" and h = h and s = s]
    handleRunContinue_mediates [OF assms(2)] show ?thesis
    by (simp add: serve_http_def)
next
  case (PostCancel r)
  with policies_mediate [where handle = "handleRunCancel h" and r = r and call = "PostCancel r" and h = h and s = s]
    handleRunCancel_mediates [where ?r0.0 = r and h = h and s = s] show ?thesis
    by (simp add: serve_http_def)
next
  case (PostSteer r)
  with policies_mediate [where handle = "handleRunSteer h" and r = r and call = "PostSteer r" and h = h and s = s]
    handleRunSteer_mediates [where ?r0.0 = r and h = h and s = s] show ?thesis
    by (simp add: serve_http_def)
next
  case (PostFollowUp r)
  with policies_mediate [where handle = "handleRunFollowUp h" and r = r and call = "PostFollowUp r" and h = h and s = s]
    handleRunFollowUp_mediates [OF assms(2)] show ?thesis
    by (simp add: serve_http_def)
next
  case (GetRun r)
  with assms(1) show ?thesis by (simp add: is_mutation_def)
qed

section \<open>A response shows the stored run\<close>

lemma answers_state:
  assumes "answers h out ((r, e), s')" and "hr_payload (fst out) = StatePayload p"
  shows "out = (writeRunState 200 (rr_State r), s')"
  using assms by (auto simp: answers_def answer_run_def answer_mutation_def split: option.splits if_splits)

lemma state_payload:
  "hr_payload (writeRunState n st) = StatePayload p \<longleftrightarrow> p = run_state_response st"
  by (auto simp: writeRunState_def)

lemma run_state_response_Clone [simp]: "run_state_response (CloneRunState st) = run_state_response st"
  by (simp add: run_state_response_def)

text \<open>A query whose context is not cancelled when the run is read.\<close>

definition read_live :: "'x handlers \<Rightarrow> go_ctx \<Rightarrow> 'x api_state \<Rightarrow> bool" where
  "read_live h x s \<longleftrightarrow> fst (ctx_Err (ex_poll (h_ext h)) x (rt_ext (snd s))) = None"

lemma query_live:
  assumes "ensureRuntime h = None" and "TrimSpace (rq_run_id q) = i" and "i \<noteq> []"
    and "read_live h (rq_Context q) s" and "rt_store (snd s) i = Some st"
  shows "fst (serve_http h (GetRun q) s) = writeRunState 200 st"
proof -
  obtain w1 where "see_ctx (runtime_poll (h_ext h)) (Some (rq_Context q)) (snd s) = (Some None, w1)"
    "rt_store w1 = rt_store (snd s)"
    using assms(4)
    by (cases "ex_poll (h_ext h) (rt_ext (snd s))")
      (auto simp: read_live_def see_ctx_def ctx_Err_def runtime_poll_def on_ext_def split: if_splits)
  with assms(1-3,5) show ?thesis
    by (simp add: serve_http_def handleRunQuery_def pathRunID_def Let_def runtime_Load_def
        store_Load_def writeRunState_def)
qed

text \<open>
  A call answered from the cache of a continue command repeats an older outcome; for this call it
  is not so when no outcome is recorded for the run and the command ID that it brings.
\<close>

definition uncached :: "'x handlers \<Rightarrow> api_call \<Rightarrow> outcomes \<Rightarrow> bool" where
  "uncached h call oc \<longleftrightarrow> (\<forall>cmd. sends h call cmd \<longrightarrow> cached_outcome oc cmd = None)"

lemma mediated_state_stored:
  assumes "mediates h call out (oc, w)" and "hr_payload (fst out) = StatePayload p"
    and "ps_RunID p \<noteq> []" and "stored_wf (rt_store w)" and "uncached h call oc"
  shows "\<exists>st. rt_store (snd (snd out)) (ps_RunID p) = Some st \<and> fst out = writeRunState 200 st"
proof -
  from assms(1,2) obtain y cmd where cmd: "sends h call cmd"
    "answers h out (Dispatch (runtime_deps (h_ext h)) (Some y) cmd (oc, w))"
    by (auto simp: mediates_def rejects_def)
  obtain r e oc' w' where d: "Dispatch (runtime_deps (h_ext h)) (Some y) cmd (oc, w) = ((r, e), (oc', w'))"
    by (metis surj_pair)
  from answers_state [OF cmd(2) [unfolded d] assms(2)]
  have out: "out = (writeRunState 200 (rr_State r), (oc', w'))" .
  with assms(2) have p: "p = run_state_response (rr_State r)" by (simp add: state_payload)
  with assms(3) have "r \<noteq> zeroRunResult"
    by (auto simp: run_state_response_def zeroRunResult_def zeroRunState_def)
  with wired.Dispatch_result_stored [OF d assms(4)] cmd(1) assms(5)
  have "rt_store w' (st_ID (rr_State r)) = Some (CloneRunState (rr_State r))"
    by (auto simp: uncached_def)
  with out p show ?thesis
    by (auto simp: run_state_response_def writeRunState_def)
qed

section \<open>Streams\<close>

lemma write_frames_run:
  assumes "\<forall>k < length es. se_ID (es ! k) = c + int k + 1"
  shows "\<exists>k ok. write_frames cw written c es = (ok, written @ take k es, c + int k) \<and>
    k \<le> length es \<and> (ok \<longrightarrow> k = length es)"
  using assms
proof (induction es arbitrary: written c)
  case (Cons e es)
  show ?case
  proof (cases "cw written")
    case True
    have e: "se_ID e = c + 1" using Cons.prems by force
    have "\<forall>k < length es. se_ID (es ! k) = (c + 1) + int k + 1" using Cons.prems by force
    from Cons.IH [OF this, of "written @ [e]"] obtain k ok where
      "write_frames cw (written @ [e]) (c + 1) es = (ok, (written @ [e]) @ take k es, (c + 1) + int k)"
      "k \<le> length es" "ok \<longrightarrow> k = length es" by blast
    with True e show ?thesis by (intro exI [of _ "Suc k"] exI [of _ ok]) simp
  next
    case False
    then show ?thesis by (intro exI [of _ 0] exI [of _ False]) simp
  qed
qed (intro exI [of _ 0] exI [of _ True], simp)

lemma write_frames_all:
  "\<forall>k < length es. se_ID (es ! k) = c + int k + 1 \<Longrightarrow>
   write_frames (\<lambda>_. True) written c es = (True, written @ es, c + int (length es))"
proof (induction es arbitrary: written c)
  case (Cons e es)
  have e: "se_ID e = c + 1" using Cons.prems by force
  have "\<forall>k < length es. se_ID (es ! k) = (c + 1) + int k + 1" using Cons.prems by force
  from Cons.IH [OF this, of "written @ [e]"] e show ?case by simp
qed simp

text \<open>The frames of a read: the part of the whole history between the cursor and the broker's end.\<close>

definition read_frames :: "nat \<Rightarrow> Event list \<Rightarrow> nat \<Rightarrow> StreamEvent list" where
  "read_frames c es n = take (n - c) (drop c (history_frames es))"

lemma read_frames_ids: "k < length (read_frames c es n) \<Longrightarrow> se_ID (read_frames c es n ! k) = int c + int k + 1"
proof -
  assume "k < length (read_frames c es n)"
  then have "k < length es - c" "k < n - c" by (simp_all add: read_frames_def)
  then show ?thesis by (simp add: read_frames_def history_frames_nth nth_drop)
qed

lemma accepted_take: "\<exists>m. accepted_events i (take n ps) = take m (accepted_events i ps) \<and>
    m = length (accepted_events i (take n ps))"
  using accepted_events_append [of i "take n ps" "drop n ps"] by simp

lemma broker_read:
  assumes "int (length ps) < 2 ^ 63 - 2" and "i \<noteq> []" and "0 \<le> cursor"
    and "EventsAfter i cursor (broker_after l (take n ps)) = Inr fs"
  shows "fs = read_frames (nat cursor) (accepted_events i ps) (length (accepted_events i (take n ps))) \<and>
    cursor \<le> int (length (accepted_events i (take n ps)))"
proof -
  let ?es = "accepted_events i (take n ps)" and ?all = "accepted_events i ps"
  have "bk_runs (broker_after l (take n ps)) i = run_history (bk_historyLimit (broker_New l)) ?es"
    by (rule broker_after_history) (use assms(1) in simp)
  from EventsAfter_run_history(1) [OF this assms(2,3) _ assms(4)] broker_after_limit [of l "[]"]
  have fs: "fs = map cloneStreamEvent (drop (nat cursor) (history_frames ?es))"
    and c: "cursor \<le> int (length ?es)" by simp_all
  obtain m where m: "?es = take m ?all" "m = length ?es" using accepted_take by blast
  have hist: "history_frames ?es = take m (history_frames ?all)"
    using m(1) by (simp add: history_frames_take)
  have cl: "map cloneStreamEvent (history_frames ?es) = history_frames ?es"
  proof -
    have "cloneEvent e = e" if "e \<in> set ?es" for e
      using that by (auto simp: accepted_events_def)
    then show ?thesis by (simp add: history_frames_def cloneStreamEvent_def)
  qed
  have "fs = drop (nat cursor) (history_frames ?es)"
    unfolding fs drop_map [symmetric] cl ..
  also have "\<dots> = read_frames (nat cursor) ?all (length ?es)"
    unfolding hist read_frames_def m(2) [symmetric] by (rule drop_take)
  finally show ?thesis using c by simp
qed

text \<open>
  The frames written so far are a part of the history without a gap, from the first cursor
  \<open>c\<close> up to the present one.
\<close>

definition streamed :: "nat \<Rightarrow> Event list \<Rightarrow> StreamEvent list \<Rightarrow> int \<Rightarrow> bool" where
  "streamed c es written cursor \<longleftrightarrow> (\<exists>k. written = take k (drop c (history_frames es)) \<and>
     cursor = int c + int k \<and> c + k \<le> length es)"

lemma streamed_read:
  assumes "streamed c es written cursor" and "fs = read_frames (nat cursor) es n"
    and "cursor \<le> int n" and "n \<le> length es"
    and "write_frames cw written cursor fs = (ok, written', cursor')"
  shows "streamed c es written' cursor'" and "ok \<Longrightarrow> cursor' = int n"
proof -
  from assms(1) obtain k where k: "written = take k (drop c (history_frames es))"
    "cursor = int c + int k" "c + k \<le> length es" by (auto simp: streamed_def)
  have len: "length fs = n - nat cursor"
    using assms(2-4) by (simp add: read_frames_def)
  obtain j where j: "written' = written @ take j fs" "cursor' = cursor + int j" "j \<le> length fs"
    "ok \<longrightarrow> j = length fs"
    using write_frames_run [of fs cursor cw written] read_frames_ids [of _ "nat cursor" es n]
      assms(2,5) k(2) by auto
  have "take j fs = take j (drop k (drop c (history_frames es)))"
    using assms(2) j(3) len k(2) by (simp add: read_frames_def min_def add.commute nat_add_distrib)
  then have "written' = take (k + j) (drop c (history_frames es))"
    using j(1) k(1) by (simp add: take_add)
  moreover have "c + (k + j) \<le> length es" using j(3) len assms(3,4) k(2) by linarith
  ultimately show "streamed c es written' cursor'"
    using j(2) k(2) unfolding streamed_def by (intro exI [of _ "k + j"]) simp
  show "cursor' = int n" if ok
    using that j(2,4) len assms(3) k(2) by simp
qed

lemma stream_loop_streamed:
  assumes "int (length ps) < 2 ^ 63 - 2" and "i \<noteq> []"
    and "streamed c (accepted_events i ps) written cursor"
  shows "\<exists>k. stream_loop cw i (map (\<lambda>n. broker_after l (take n ps)) ns) written cursor =
    take k (drop c (history_frames (accepted_events i ps)))"
  using assms(3)
proof (induction ns arbitrary: written cursor)
  case Nil
  then show ?case by (auto simp: streamed_def)
next
  case (Cons n ns)
  then have c0: "0 \<le> cursor" by (auto simp: streamed_def)
  show ?case
  proof (cases "EventsAfter i cursor (broker_after l (take n ps))")
    case (Inl e)
    with Cons.prems show ?thesis by (auto simp: streamed_def)
  next
    case (Inr fs)
    obtain ok written' cursor' where w: "write_frames cw written cursor fs = (ok, written', cursor')"
      by (metis prod_cases3)
    note read = broker_read [OF assms(1,2) c0 Inr]
    have "length (accepted_events i (take n ps)) \<le> length (accepted_events i ps)"
      using accepted_take [of i n ps] by (metis length_take min.cobounded1)
    from streamed_read(1) [OF Cons.prems read [THEN conjunct1] read [THEN conjunct2] this w]
    have st: "streamed c (accepted_events i ps) written' cursor'" .
    show ?thesis
    proof (cases ok)
      case True
      with Cons.IH [OF st] Inr w show ?thesis by simp
    next
      case False
      with st Inr w show ?thesis by (auto simp: streamed_def)
    qed
  qed
qed

text \<open>
  Nothing is missing at the end either: a client that takes every frame of a run whose history
  fits into the broker has received all of it up to the last tick.
\<close>

lemma stream_loop_complete:
  assumes "int (length ps) < 2 ^ 63 - 2" and "i \<noteq> []" 
    and "length (accepted_events i ps) \<le> bk_historyLimit (broker_New l)" and "sorted (n # ns)" and "c \<le> length (accepted_events i (take n ps))"
  shows "stream_loop (\<lambda>_. True) i (map (\<lambda>n. broker_after l (take n ps)) ns)
      (read_frames c (accepted_events i ps) (length (accepted_events i (take n ps))))
      (int (length (accepted_events i (take n ps)))) =
    read_frames c (accepted_events i ps) (length (accepted_events i (take (last (n # ns)) ps)))"
  using assms(4,5)
proof (induction ns arbitrary: n)
  case (Cons m ns)
  let ?all = "accepted_events i ps"
  let ?a = "length (accepted_events i (take n ps))" and ?b = "length (accepted_events i (take m ps))"
  have ab: "?a \<le> ?b"
  proof -
    have "take m ps = take n ps @ drop n (take m ps)"
      using Cons.prems(1) by (metis append_take_drop_id min.absorb1 sorted2 take_take)
    then show ?thesis by (metis accepted_events_append length_append le_add1)
  qed
  have b: "?b \<le> length ?all" using accepted_take [of i m ps] by (metis length_take min.cobounded1)
  have lim: "?b \<le> bk_historyLimit (broker_New l)"
    using b assms(3) by simp
  have "bk_runs (broker_after l (take m ps)) i =
      run_history (bk_historyLimit (broker_New l)) (accepted_events i (take m ps))"
    by (rule broker_after_history) (use assms(1) in simp)
  from EventsAfter_run_history(2) [OF this assms(2), of "int ?a"] lim ab broker_after_limit [of l "[]"]
  obtain fs where fs: "EventsAfter i (int ?a) (broker_after l (take m ps)) = Inr fs" by auto
  from broker_read [OF assms(1,2) _ this] have fs_eq: "fs = read_frames ?a ?all ?b" by simp
  have "write_frames (\<lambda>_. True) (read_frames c ?all ?a) (int ?a) fs =
      (True, read_frames c ?all ?a @ fs, int ?a + int (length fs))"
    by (rule write_frames_all) (simp add: fs_eq read_frames_ids)
  moreover have "read_frames c ?all ?a @ fs = read_frames c ?all ?b"
  proof -
    have "drop ?a (history_frames ?all) = drop (?a - c) (drop c (history_frames ?all))"
      using Cons.prems(2) by simp
    then have "fs = take (?b - ?a) (drop (?a - c) (drop c (history_frames ?all)))"
      by (simp only: fs_eq read_frames_def)
    then have "read_frames c ?all ?a @ fs = take ((?a - c) + (?b - ?a)) (drop c (history_frames ?all))"
      by (simp only: read_frames_def take_add)
    with ab Cons.prems(2) show ?thesis by (simp add: read_frames_def)
  qed
  moreover have "int ?a + int (length fs) = int ?b"
    using ab b by (simp add: fs_eq read_frames_def)
  ultimately show ?case
    using Cons.IH [of m] Cons.prems ab fs by simp
qed simp

section \<open>Lost saves\<close>

text \<open>
  \<open>isAcceptedRunError\<close> looks only at the cause: when the engine has used up its steps and the
  save of its result fails, the joined error is accepted, and the request is answered with
  status 200 and the zero run state.
\<close>

lemma lost_save_accepted:
  assumes "validateEngineOutput state final = None" and "save_state D c final w = (Some e, w')"
    and "is_err runErr ErrMaxStepsExceeded" and "\<not> is_err runErr ErrEventPublish"
    and "\<not> errors_Is e ErrEventPublish"
  shows "answer_run h (conclude_outcome (conclude D c kind cp ap i state (final, runErr) (None, w))) =
    (writeRunState 200 zeroRunState, w')"
proof -
  let ?e = "errors_Join [runErr, normalizeCommandSaveError kind e, None]"
  have "\<not> is_err (normalizeCommandSaveError kind e) ErrEventPublish"
    using assms(5) by (simp add: normalizeCommandSaveError_def errors_Join_def)
  then have acc: "is_err ?e ErrMaxStepsExceeded \<and> \<not> is_err ?e ErrEventPublish"
    using assms(3,4) by simp
  then obtain x where x: "?e = Some x" by (cases ?e) auto
  with acc have "isAcceptedRunError x" by (simp add: isAcceptedRunError_def)
  with assms(1,2) x show ?thesis
    by (simp add: conclude_def conclude_outcome_def answer_run_def zeroRunResult_def
        del: validateEngineOutput_None_iff errors_Join_None_iff)
qed

section \<open>Properties\<close>

text \<open>
  C17: the HTTP layer guards the runner. A mutating request without the bearer token is
  answered with 401 and changes nothing; with it, the request is either rejected with an error
  status and changes nothing, or it sends the runner exactly one command: for the run its path
  names, with the prompt, instruction, command ID and resolution of its body, the server's tools, and with a step bound (explicit or the engine's default)
  within the policy's maximum.
\<close>

theorem api_guards_runner:
  "is_mutation call \<Longrightarrow>
   (let h = NewRouter parts E tools policy; out = serve_http h call s in
    if authorized h call then
      rejects out s \<or>
      (\<exists>y cmd. sends h call cmd \<and> answers h out (Dispatch (runtime_deps E) (Some y) cmd s))
    else rejects out s \<and> hr_status (fst out) = 401)"
  using serve_http_mediates [of call "NewRouter parts E tools policy" s]
  by (auto simp: mediates_def Let_def split: if_splits)

definition all_parts :: "runtime_parts option" where
  "all_parts = Some \<lparr>has_Runner = True, has_RunStore = True, has_StreamBroker = True\<rparr>"

definition cancel_request :: "string \<Rightarrow> unit http_request" where
  "cancel_request auth = \<lparr>rq_Authorization = auth, rq_run_id = ''run-000001'', rq_cursor = [],
     rq_Body = None, rq_Context = ctx_Background, rq_timeout = None\<rparr>"

lemma DefaultToken_trimmed: "TrimSpace DefaultToken = DefaultToken"
  by (rule TrimSpace_graphic) (simp_all add: DefaultToken_def graphic_def)

theorem api_guards_runner_witness:
  "let h = NewRouter all_parts echo_ext [] None;
     out = serve_http h (PostCancel (cancel_request [])) (Map.empty, one_run) in
   rejects out (Map.empty, one_run) \<and> hr_status (fst out) = 401"
proof -
  have "\<not> authorized (NewRouter all_parts echo_ext [] None) (PostCancel (cancel_request []))"
    by (simp add: authorized_def router_policy_def DefaultPolicyConfig_def Let_def
        cancel_request_def DefaultToken_trimmed) (simp add: DefaultToken_def BearerPrefix_def)
  then show ?thesis
    using api_guards_runner [of "PostCancel (cancel_request [])" all_parts echo_ext "[]" None
        "(Map.empty, one_run)"]
    by (simp add: is_mutation_def Let_def)
qed

lemma reads_its_writes:
  assumes "is_mutation call" and "hr_payload (fst (serve_http h call (oc, w))) = StatePayload p"
    and "ps_RunID p \<noteq> []" and "stored_wf (rt_store w)" and "uncached h call oc"
    and "ensureRuntime h = None" and "0 < pc_MaxCommandSteps (h_policy h)"
    and "TrimSpace (rq_run_id q) = ps_RunID p"
    and "read_live h (rq_Context q) (snd (serve_http h call (oc, w)))"
  shows "fst (serve_http h (GetRun q) (snd (serve_http h call (oc, w)))) =
    fst (serve_http h call (oc, w))"
proof -
  have "mediates h call (serve_http h call (oc, w)) (oc, w)"
    using serve_http_mediates [OF assms(1,7), of "(oc, w)"] assms(2)
    by (auto simp: rejects_def split: if_splits)
  from mediated_state_stored [OF this assms(2-5)] obtain st where
    "rt_store (snd (snd (serve_http h call (oc, w)))) (ps_RunID p) = Some st"
    "fst (serve_http h call (oc, w)) = writeRunState 200 st" by blast
  then show ?thesis using query_live [OF assms(6,8,3,9)] by simp
qed

text \<open>
  C18: a client reads its own writes: when a command is answered with a run state, and not from
  the cache (for a continue command: no outcome is recorded for its run under the command ID of
  its body), the next query for that run is answered with the very same response, unless the
  query itself is cancelled before the run is read.
\<close>

theorem api_reads_its_writes:
  assumes "is_mutation call" and "hr_payload (fst (serve_http h call (oc, w))) = StatePayload p"
    and "ps_RunID p \<noteq> []" and "stored_wf (rt_store w)" and "uncached h call oc"
    and "ensureRuntime h = None" and "0 < pc_MaxCommandSteps (h_policy h)"
    and "TrimSpace (rq_run_id q) = ps_RunID p"
    and "read_live h (rq_Context q) (snd (serve_http h call (oc, w)))"
  shows "fst (serve_http h (GetRun q) (snd (serve_http h call (oc, w)))) =
    fst (serve_http h call (oc, w))"
  by (rule reads_its_writes [OF assms])

definition open_handlers :: "nat handlers" where
  "open_handlers = \<lparr>h_parts = all_parts, h_ext = echo_ext, h_ToolDefinitions = [],
     h_policy = DefaultPolicyConfig\<lparr>pc_AuthToken := []\<rparr>\<rparr>"

lemma cancel_run_id: "TrimSpace ''run-000001'' = ''run-000001''"
  by (rule TrimSpace_graphic) (simp_all add: graphic_def)

lemma open_handlers_cancels:
  "rq_run_id r = ''run-000001'' \<Longrightarrow> rq_Context r = ctx_Background \<Longrightarrow>
   serve_http open_handlers (PostCancel r) (Map.empty, one_run) =
     answer_mutation open_handlers (Dispatch (runtime_deps echo_ext)
       (Some \<lparr>ctx_detached = False, ctx_value = None\<rparr>) (CmdCancel \<lparr>xc_RunID = ''run-000001''\<rparr>)
       (Map.empty, one_run))"
  by (simp add: serve_http_def applyMutatingPolicies_cases open_handlers_def limit_Middleware_def
      handleRunCancel_def ensureRuntime_def all_parts_def pathRunID_def Let_def
      cancel_run_id runner_Cancel_def ctx_Background_def DefaultPolicyConfig_def)

theorem api_reads_its_writes_witness:
  "fst (serve_http open_handlers (GetRun (cancel_request []))
      (snd (serve_http open_handlers (PostCancel (cancel_request [])) (Map.empty, one_run)))) =
    fst (serve_http open_handlers (PostCancel (cancel_request [])) (Map.empty, one_run))"
proof -
  let ?d = "Dispatch (runtime_deps echo_ext) (Some \<lparr>ctx_detached = False, ctx_value = None\<rparr>)
    (CmdCancel \<lparr>xc_RunID = ''run-000001''\<rparr>) (Map.empty, one_run)"
  obtain r s where d: "?d = ((r, None), s)" "st_ID (rr_State r) = ''run-000001''"
    using echo_cancel by metis
  let ?p = "run_state_response (rr_State r)"
  have p: "hr_payload (fst (serve_http open_handlers (PostCancel (cancel_request [])) (Map.empty, one_run))) =
      StatePayload ?p"
    using open_handlers_cancels [of "cancel_request []"] d by (simp add: cancel_request_def answer_mutation_def case_prod_beta writeRunState_def)
  have "uncached open_handlers (PostCancel (cancel_request [])) Map.empty"
    by (auto simp: uncached_def sends_def cached_outcome_def split: Command.splits)
  from api_reads_its_writes [OF _ p _ _ this, of "cancel_request []"] d show ?thesis
    by (simp add: read_live_def ctx_Err_def is_mutation_def run_state_response_def cancel_request_def cancel_run_id
        ctx_Background_def open_handlers_def ensureRuntime_def all_parts_def DefaultPolicyConfig_def
        DefaultMaxCommandSteps_def stored_wf_def)
qed

lemma event_stream_pieces:
  assumes "int (length ps) < 2 ^ 63 - 2" and "parseCursor r = Inr c"
    and "rt_broker (snd s) = broker_after l (take n ps)"
    and "handleRunEvents h flusher cw (map (\<lambda>n. broker_after l (take n ps)) ns) r s =
      (\<lparr>hr_status = 200, hr_payload = StreamPayload fs\<rparr>, s')"
  shows "(\<exists>k. fs = take k (drop (nat c)
      (history_frames (accepted_events (TrimSpace (rq_run_id r)) ps)))) \<and>
    (cw = (\<lambda>_. True) \<longrightarrow> sorted (n # ns) \<longrightarrow>
      length (accepted_events (TrimSpace (rq_run_id r)) ps) \<le> bk_historyLimit (broker_New l) \<longrightarrow>
      fs = drop (nat c) (history_frames
        (accepted_events (TrimSpace (rq_run_id r)) (take (last (n # ns)) ps))))"
proof -
  let ?i = "TrimSpace (rq_run_id r)"
  let ?all = "accepted_events ?i ps" and ?a = "length (accepted_events ?i (take n ps))"
  let ?bs = "map (\<lambda>n. broker_after l (take n ps)) ns"
  have c0: "0 \<le> c" using assms(2) by (auto simp: parseCursor_def Let_def split: if_splits option.splits)
  obtain ld w where ld: "runtime_Load (h_ext h) (Some (rq_Context r)) ?i (snd s) = (ld, w)" by fastforce
  then have "rt_broker w = rt_broker (snd s)"
    by (auto simp: runtime_Load_def dest: see_frame split: prod.splits)
  with assms(2-4) ld obtain es where es: "?i \<noteq> []" "EventsAfter ?i c (broker_after l (take n ps)) = Inr es"
    "fs = (case write_frames cw [] c es of
       (False, written, cursor') \<Rightarrow> written
     | (True, written, cursor') \<Rightarrow> stream_loop cw ?i ?bs written cursor')"
    by (auto simp: handleRunEvents_def pathRunID_def Let_def writeMappedError_def writeError_def
        ensureRuntime_def case_prod_beta split: option.splits sum.splits if_splits)
  note read = broker_read [OF assms(1) es(1) c0 es(2)]
  have al: "?a \<le> length ?all"
    using accepted_take [of ?i n ps] by (metis length_take min.cobounded1)
  obtain ok written' cursor' where w: "write_frames cw [] c es = (ok, written', cursor')"
    by (metis prod_cases3)
  have "streamed (nat c) ?all [] c"
    using c0 read al by (auto simp: streamed_def intro!: exI [of _ 0])
  from streamed_read(1) [OF this read [THEN conjunct1] read [THEN conjunct2] al w]
  have st: "streamed (nat c) ?all written' cursor'" .
  have "\<exists>k. fs = take k (drop (nat c) (history_frames ?all))"
    using stream_loop_streamed [OF assms(1) es(1) st, of cw l ns] st es(3) w
    by (cases ok) (auto simp: streamed_def)
  moreover have "fs = drop (nat c) (history_frames (accepted_events ?i (take (last (n # ns)) ps)))"
    if cw: "cw = (\<lambda>_. True)" and sorted: "sorted (n # ns)"
      and lim: "length ?all \<le> bk_historyLimit (broker_New l)"
  proof -
    have "write_frames cw [] c es = (True, es, c + int (length es))"
      using write_frames_all [of es c "[]"] read c0 read_frames_ids [of _ "nat c" ?all ?a]
      by (simp add: cw)
    moreover have "c + int (length es) = int ?a"
      using read al c0 by (auto simp: read_frames_def)
    ultimately have "fs = stream_loop (\<lambda>_. True) ?i ?bs (read_frames (nat c) ?all ?a) (int ?a)"
      using es(3) read cw by simp
    also have "\<dots> = read_frames (nat c) ?all (length (accepted_events ?i (take (last (n # ns)) ps)))"
      using read c0 by (intro stream_loop_complete [OF assms(1) es(1) lim sorted]) auto
    also have "\<dots> = drop (nat c) (history_frames (accepted_events ?i (take (last (n # ns)) ps)))"
      using accepted_take [of ?i "last (n # ns)" ps]
      by (metis drop_take history_frames_take read_frames_def)
    finally show ?thesis .
  qed
  ultimately show ?thesis by blast
qed

text \<open>
  C19: an event stream shows the history of its run: whatever has been published before and
  between the ticks, the frames sent are the events accepted for the run, numbered from 1 and
  starting right after the cursor, without a gap, a repetition or a change of order; and a
  client that takes every frame of a run whose own history the broker can hold, however much is
  published for other runs, has been sent all of them by the last tick.
\<close>

theorem event_stream_exact:
  assumes "int (length ps) < 2 ^ 63 - 2" and "parseCursor r = Inr c"
    and "rt_broker (snd s) = broker_after l (take n ps)"
    and "handleRunEvents h flusher cw (map (\<lambda>n. broker_after l (take n ps)) ns) r s =
      (\<lparr>hr_status = 200, hr_payload = StreamPayload fs\<rparr>, s')"
  shows "(\<exists>k. fs = take k (drop (nat c)
      (history_frames (accepted_events (TrimSpace (rq_run_id r)) ps)))) \<and>
    (cw = (\<lambda>_. True) \<longrightarrow> sorted (n # ns) \<longrightarrow>
      length (accepted_events (TrimSpace (rq_run_id r)) ps) \<le> bk_historyLimit (broker_New l) \<longrightarrow>
      fs = drop (nat c) (history_frames
        (accepted_events (TrimSpace (rq_run_id r)) (take (last (n # ns)) ps))))"
  by (rule event_stream_pieces [OF assms])

definition cancelled_event :: Event where
  "cancelled_event = run_event ''run-000001'' 0 EventTypeRunCancelled ''run cancelled''"

definition stream_state :: "nat api_state" where
  "stream_state = (Map.empty, one_run\<lparr>rt_broker := broker_after 32 []\<rparr>)"

lemma cancelled_event_fields: "event_ok cancelled_event" "ev_RunID cancelled_event = ''run-000001''"
  by (simp_all add: cancelled_event_def run_event_def event_ok_def payload_ok_def zeroEvent_def
      lifecycleEventTypes_def event_type_defs)

text \<open>A subscriber of a run without events yet, and a tick after the first event.\<close>

theorem event_stream_exact_witness:
  "\<exists>fs s'. handleRunEvents open_handlers True (\<lambda>_. True)
      [broker_after 32 [(Some None, cancelled_event)]] (cancel_request []) stream_state =
      (\<lparr>hr_status = 200, hr_payload = StreamPayload fs\<rparr>, s') \<and>
    fs = [\<lparr>se_ID = 1, se_Event = cloneEvent cancelled_event\<rparr>]"
proof -
  let ?ps = "[(Some None, cancelled_event)]"
  obtain fs s' where out: "handleRunEvents open_handlers True (\<lambda>_. True)
      (map (\<lambda>n. broker_after 32 (take n ?ps)) [1]) (cancel_request []) stream_state =
      (\<lparr>hr_status = 200, hr_payload = StreamPayload fs\<rparr>, s')"
    by (simp add: handleRunEvents_def open_handlers_def ensureRuntime_def all_parts_def pathRunID_def
        cancel_request_def cancel_run_id runtime_Load_def see_ctx_def ctx_Err_def ctx_Background_def
        store_Load_def stream_state_def parseCursor_def EventsAfter_def broker_after_def broker_New_def)
  have "drop (nat 0) (history_frames (accepted_events (TrimSpace (rq_run_id (cancel_request [])))
      (take (last (0 # [1])) ?ps))) = [\<lparr>se_ID = 1, se_Event = cloneEvent cancelled_event\<rparr>]"
    by (simp add: cancel_request_def cancel_run_id cancelled_event_fields history_frames_def)
  moreover have "bk_historyLimit (broker_New 32) = 32" by (simp add: broker_New_def)
  ultimately show ?thesis
    using event_stream_exact [OF _ _ _ out, of 0 0] out
    by (simp add: stream_state_def parseCursor_def cancel_request_def)
qed

text \<open>
  the cursor of a stream survives the URL: the decimal rendering of a cursor is parsed back
  to it.
\<close>

theorem cursor_roundtrip:
  "0 \<le> c \<Longrightarrow> in_int64 c \<Longrightarrow> parseCursor (r\<lparr>rq_cursor := int_text c\<rparr>) = Inr c"
  using ParseInt64_int_text [of c] nat_text_digits [of "nat c"]
  by (simp add: parseCursor_def int_text_def Let_def)

theorem cursor_roundtrip_witness: "parseCursor ((cancel_request [])\<lparr>rq_cursor := int_text 17\<rparr>) = Inr 17"
  by (rule cursor_roundtrip) (simp_all add: in_int64_def)

text \<open>
  C29: the step budget of the policy bounds the work of the engine: with a \<open>MaxSteps\<close> that the
  HTTP layer has let through, given or absent, the engine calls the model at most as often as
  the policy of the router allows.
\<close>

theorem api_step_budget:
  assumes "validateMaxSteps requested (pc_MaxCommandSteps (router_policy policy)) = Inr (ei_MaxSteps input)"
    and "counts_calls L calls" and "executable st" and "0 \<le> st_Step st"
  shows "int (calls (snd (react_Execute L (Some x) st input w))) - int (calls w)
    \<le> pc_MaxCommandSteps (router_policy policy)"
proof -
  let ?N = "pc_MaxCommandSteps (router_policy policy)"
  let ?st = "fst (fst (react_Execute L (Some x) st input w))"
  have "effective_max_steps input \<le> ?N"
    using validateMaxSteps_budget [OF assms(1)] by (simp add: effective_max_steps_def step_budget_def)
  moreover have "st_Step ?st \<le> max (st_Step st) (effective_max_steps input)"
    using react_Execute_post [OF assms(3), of False L input x w]
    by (simp add: react_post_def settled_def follows_def)
  moreover have "0 < ?N" by simp
  moreover have "int (calls (snd (react_Execute L (Some x) st input w))) - int (calls w) =
      st_Step ?st - st_Step st"
    using react_Execute_balance [OF assms(2), of x st input w] by (simp add: step_balance_def)
  ultimately show ?thesis using assms(4) by linarith
qed

theorem api_step_budget_witness:
  "int (snd (react_Execute echo_react (Some ctx_Background) fresh_run (plain_input\<lparr>ei_MaxSteps := 3\<rparr>) 0)) - 0
    \<le> pc_MaxCommandSteps (router_policy None)"
proof -
  have "counts_calls echo_react (\<lambda>w. w)"
    by (simp add: counts_calls_def react_keeps_def echo_react_def)
  from api_step_budget [where requested = "Some 3" and policy = None and st = fresh_run and w = 0
      and x = ctx_Background and input = "plain_input\<lparr>ei_MaxSteps := 3\<rparr>", OF _ this]
  moreover have "0 \<le> st_Step fresh_run" by (simp add: fresh_run_def zeroRunState_def)
  ultimately show ?thesis
    by (simp add: validateMaxSteps_def NormalizeCommandMaxSteps_def router_policy_def
        DefaultPolicyConfig_def DefaultMaxCommandSteps_def)
qed

end
