(* ===== verification/Client_Server.thy ===== *)
theory Client_Server
  imports Client_Api Http_Routes Http_Safety
begin

text \<open>
  The client in front of the server: the requests of \<open>client/internal/api\<close> are routed by the
  server's patterns and answered by its handlers. The JSON encoding between the two is a
  parameter (\<open>wire\<close>); \<open>sent_ok\<close> and \<open>delivered_ok\<close> state what \<open>encoding/json\<close> documents for structs with the
  same keys: decoding an encoded value gives the value back.
\<close>

section \<open>The server behind a connection\<close>

record wire =
  wi_Context :: go_ctx
  wi_start :: "string \<Rightarrow> int option \<Rightarrow> startRequest decoded"
  wi_continue :: "string \<Rightarrow> int option \<Rightarrow> continueRequest decoded"
  wi_steer :: "string \<Rightarrow> int option \<Rightarrow> steerRequest decoded"
  wi_followUp :: "string \<Rightarrow> int option \<Rightarrow> followUpRequest decoded"
  wi_unit :: "string \<Rightarrow> int option \<Rightarrow> unit decoded"
  wi_encode :: "payload \<Rightarrow> string"

definition or_empty :: "string option \<Rightarrow> string" where
  "or_empty x = (case x of None \<Rightarrow> [] | Some s \<Rightarrow> s)"

definition received ::
  "wire \<Rightarrow> http_call \<Rightarrow> string \<Rightarrow> string option \<Rightarrow> (string \<Rightarrow> int option \<Rightarrow> 'a decoded) \<Rightarrow> 'a http_request" where
  "received W hc runID query dec =
     \<lparr>rq_Authorization = or_empty (hc_Authorization hc), rq_run_id = runID,
      rq_cursor = query_Get ''cursor'' (or_empty query),
      rq_Body = Some \<lparr>bd_limit = None, bd_decode = dec (or_empty (hc_Body hc))\<rparr>,
      rq_Context = wi_Context W, rq_timeout = None\<rparr>"

text \<open>The call of the API that a request to a target is, except for event streams.\<close>

definition routed_call :: "wire \<Rightarrow> http_call \<Rightarrow> string \<Rightarrow> api_call option" where
  "routed_call W hc tg =
     (let (path, query) = cut_at (CHR ''?'') tg in
      case mux_route (hc_Method hc) path of
        Some RouteStart \<Rightarrow> Some (PostStart (received W hc [] query (wi_start W)))
      | Some (RouteContinue i) \<Rightarrow> Some (PostContinue (received W hc i query (wi_continue W)))
      | Some (RouteCancel i) \<Rightarrow> Some (PostCancel (received W hc i query (wi_unit W)))
      | Some (RouteSteer i) \<Rightarrow> Some (PostSteer (received W hc i query (wi_steer W)))
      | Some (RouteFollowUp i) \<Rightarrow> Some (PostFollowUp (received W hc i query (wi_followUp W)))
      | Some (RouteQuery i) \<Rightarrow> Some (GetRun (received W hc i query (wi_unit W)))
      | Some (RouteEvents i) \<Rightarrow> None
      | None \<Rightarrow> None)"

definition answered :: "wire \<Rightarrow> http_response \<Rightarrow> http_answer" where
  "answered W resp = \<lparr>ha_Status = hr_status resp, ha_Body = wi_encode W (hr_payload resp),
     ha_ReadErr = None, ha_Early = 0\<rparr>"

definition connect :: "wire \<Rightarrow> 'x handlers \<Rightarrow> string \<Rightarrow> 'x api_state http_do" where
  "connect W h base hc s =
     (if \<not> HasPrefix (hc_URL hc) base then (Inl (External ''connection refused'' []), s)
      else case routed_call W hc (drop (length base) (hc_URL hc)) of
        None \<Rightarrow> (Inr \<lparr>ha_Status = 404, ha_Body = ''404 page not found'', ha_ReadErr = None, ha_Early = 0\<rparr>, s)
      | Some call \<Rightarrow>
          let (resp, s) = serve_http h call s in (Inr (answered W resp), s))"

section \<open>Commands of the client and calls of the server\<close>

datatype client_command =
    DoStart StartRequest
  | DoContinue string ContinueRequest
  | DoSteer string SteerRequest
  | DoFollowUp string FollowUpRequest
  | DoCancel string
  | DoGet string

primrec run_client :: "'w net \<Rightarrow> 'w Client \<Rightarrow> ctx \<Rightarrow> client_command \<Rightarrow> 'w \<Rightarrow> 'w api_result" where
  "run_client N c ctx (DoStart q) = api_Start N c ctx q"
| "run_client N c ctx (DoContinue i q) = api_Continue N c ctx i q"
| "run_client N c ctx (DoSteer i q) = api_Steer N c ctx i q"
| "run_client N c ctx (DoFollowUp i q) = api_FollowUp N c ctx i q"
| "run_client N c ctx (DoCancel i) = api_Cancel N c ctx i"
| "run_client N c ctx (DoGet i) = api_Get N c ctx i"

primrec command_target :: "client_command \<Rightarrow> string option" where
  "command_target (DoStart q) = None"
| "command_target (DoContinue i q) = Some (TrimSpace i)"
| "command_target (DoSteer i q) = Some (TrimSpace i)"
| "command_target (DoFollowUp i q) = Some (TrimSpace i)"
| "command_target (DoCancel i) = Some (TrimSpace i)"
| "command_target (DoGet i) = Some (TrimSpace i)"

definition addressable :: "client_command \<Rightarrow> bool" where
  "addressable op \<longleftrightarrow>
     (case command_target op of None \<Rightarrow> True | Some i \<Rightarrow> i \<noteq> [] \<and> i \<noteq> ''.'' \<and> i \<noteq> ''..'')"

definition server_start :: "StartRequest \<Rightarrow> startRequest" where
  "server_start q = \<lparr>sr_RunID = aq_RunID q, sr_SystemPrompt = aq_SystemPrompt q,
     sr_UserPrompt = aq_UserPrompt q, sr_MaxSteps = aq_MaxSteps q\<rparr>"

definition server_continue :: "ContinueRequest \<Rightarrow> continueRequest" where
  "server_continue q = \<lparr>cr_CommandID = ac_CommandID q, cr_MaxSteps = ac_MaxSteps q,
     cr_Resolution = map_option (\<lambda>z. \<lparr>zr_RequirementID = az_RequirementID z, zr_Kind = az_Kind z,
       zr_Outcome = az_Outcome z, zr_Value = az_Value z\<rparr>) (ac_Resolution q)\<rparr>"

definition server_steer :: "SteerRequest \<Rightarrow> steerRequest" where
  "server_steer q = \<lparr>tr_Instruction = at_Instruction q\<rparr>"

definition server_followUp :: "FollowUpRequest \<Rightarrow> followUpRequest" where
  "server_followUp q = \<lparr>fr_Prompt = af_Prompt q, fr_MaxSteps = af_MaxSteps q\<rparr>"

definition client_state :: "runStateResponse \<Rightarrow> api_RunState" where
  "client_state p =
     \<lparr>as_RunID = ps_RunID p, as_Status = ps_Status p, as_Step = ps_Step p, as_Version = ps_Version p,
      as_Output = ps_Output p, as_Error = ps_Error p,
      as_PendingRequirement = map_option (\<lambda>q. \<lparr>ap_ID = pp_ID q, ap_Kind = pp_Kind q,
        ap_Origin = pp_Origin q, ap_ToolCallID = pp_ToolCallID q, ap_Fingerprint = pp_Fingerprint q,
        ap_Prompt = pp_Prompt q\<rparr>) (ps_PendingRequirement p)\<rparr>"

text \<open>What decoding a body of \<open>n\<close> bytes gives that is the encoding of one value.\<close>

definition decodes :: "(int option \<Rightarrow> 'a decoded) \<Rightarrow> nat \<Rightarrow> 'a \<Rightarrow> bool" where
  "decodes dec n x \<longleftrightarrow>
     (\<forall>l. (\<forall>m. l = Some m \<longrightarrow> int n \<le> m) \<longrightarrow>
       dec l = \<lparr>dc_first = Inr x, dc_second = Some (Sentinel IoEOF)\<rparr>)"

definition carries :: "'a http_request \<Rightarrow> 'a \<Rightarrow> bool" where
  "carries r x \<longleftrightarrow> (\<exists>b n. rq_Body r = Some b \<and> bd_limit b = None \<and> decodes (bd_decode b) n x)"

primrec encoded :: "wire \<Rightarrow> api_payload \<Rightarrow> string \<Rightarrow> bool" where
  "encoded W (StartBody q) t = decodes (wi_start W t) (length t) (server_start q)"
| "encoded W (ContinueBody q) t = decodes (wi_continue W t) (length t) (server_continue q)"
| "encoded W (SteerBody q) t = decodes (wi_steer W t) (length t) (server_steer q)"
| "encoded W (FollowUpBody q) t = decodes (wi_followUp W t) (length t) (server_followUp q)"

primrec command_payload :: "client_command \<Rightarrow> api_payload option" where
  "command_payload (DoStart q) = Some (StartBody q)"
| "command_payload (DoContinue i q) = Some (ContinueBody q)"
| "command_payload (DoSteer i q) = Some (SteerBody q)"
| "command_payload (DoFollowUp i q) = Some (FollowUpBody q)"
| "command_payload (DoCancel i) = None"
| "command_payload (DoGet i) = None"

definition sent_ok :: "'w net \<Rightarrow> wire \<Rightarrow> client_command \<Rightarrow> bool" where
  "sent_ok N W op \<longleftrightarrow>
     (case command_payload op of
        None \<Rightarrow> True
      | Some q \<Rightarrow> \<exists>t. nt_Encode N q = Inr t \<and> encoded W q t)"

definition delivered_ok :: "'w net \<Rightarrow> wire \<Rightarrow> payload \<Rightarrow> bool" where
  "delivered_ok N W p \<longleftrightarrow>
     wi_encode W p \<noteq> [] \<and>
     (case p of
        StatePayload x \<Rightarrow> nt_DecodeState N (wi_encode W p) = Inr (client_state x)
      | ErrorPayload code msg \<Rightarrow>
          nt_DecodeError N (wi_encode W p) = Inr \<lparr>er_Error = \<lparr>eb_Code = code, eb_Message = msg\<rparr>\<rparr>
      | StreamPayload fs \<Rightarrow> True)"

text \<open>What the client makes of a response.\<close>

definition client_view :: "wire \<Rightarrow> http_response \<Rightarrow> client_err + api_RunState \<times> string" where
  "client_view W resp =
     (case hr_payload resp of
        StatePayload p \<Rightarrow> Inr (client_state p, wi_encode W (StatePayload p))
      | ErrorPayload code msg \<Rightarrow>
          Inl (RequestErr \<lparr>re_StatusCode = hr_status resp, re_Code = code, re_Message = msg,
            re_Body = wi_encode W (ErrorPayload code msg)\<rparr>)
      | StreamPayload fs \<Rightarrow> Inl (Err (Sentinel ErrDecodeResponse)))"

text \<open>
  The call that a command of the client is: its route, its run, the bearer token on the
  routes that change a run, its payload.
\<close>

definition bearer :: "'w Client \<Rightarrow> string" where
  "bearer c = ''Bearer '' @ cl_authToken c"

primrec call_sent :: "wire \<Rightarrow> 'w Client \<Rightarrow> client_command \<Rightarrow> api_call \<Rightarrow> bool" where
  "call_sent W c (DoStart q) call \<longleftrightarrow>
     (\<exists>r. call = PostStart r \<and> rq_Context r = wi_Context W \<and> rq_Authorization r = bearer c \<and> carries r (server_start q))"
| "call_sent W c (DoContinue i q) call \<longleftrightarrow>
     (\<exists>r. call = PostContinue r \<and> rq_Context r = wi_Context W \<and> rq_Authorization r = bearer c \<and>
       rq_run_id r = TrimSpace i \<and>
       carries r (server_continue q))"
| "call_sent W c (DoSteer i q) call \<longleftrightarrow>
     (\<exists>r. call = PostSteer r \<and> rq_Context r = wi_Context W \<and> rq_Authorization r = bearer c \<and>
       rq_run_id r = TrimSpace i \<and>
       carries r (server_steer q))"
| "call_sent W c (DoFollowUp i q) call \<longleftrightarrow>
     (\<exists>r. call = PostFollowUp r \<and> rq_Context r = wi_Context W \<and> rq_Authorization r = bearer c \<and>
       rq_run_id r = TrimSpace i \<and>
       carries r (server_followUp q))"
| "call_sent W c (DoCancel i) call \<longleftrightarrow>
     (\<exists>r. call = PostCancel r \<and> rq_Context r = wi_Context W \<and> rq_Authorization r = bearer c \<and>
       rq_run_id r = TrimSpace i)"
| "call_sent W c (DoGet i) call \<longleftrightarrow>
     (\<exists>r. call = GetRun r \<and> rq_Context r = wi_Context W \<and> rq_run_id r = TrimSpace i)"

section \<open>The answers of the server\<close>

text \<open>A response is the state of a run with status 200, or an error with a code.\<close>

definition proper :: "http_response \<Rightarrow> bool" where
  "proper resp \<longleftrightarrow> (\<exists>st. resp = writeRunState 200 st) \<or>
     (\<exists>n code msg. resp = writeError n code msg \<and> 400 \<le> n \<and> TrimSpace code \<noteq> [])"

lemma code_not_blank:
  "TrimSpace errorCodeUnauthorized \<noteq> []" "TrimSpace errorCodePolicyRejected \<noteq> []"
  "TrimSpace errorCodeInvalidRequest \<noteq> []" "TrimSpace errorCodeNotFound \<noteq> []"
  "TrimSpace errorCodeConflict \<noteq> []" "TrimSpace errorCodeForbidden \<noteq> []"
  "TrimSpace errorCodeRuntime \<noteq> []"
  by (subst TrimSpace_graphic; simp add: graphic_def errorCodeUnauthorized_def
      errorCodePolicyRejected_def errorCodeInvalidRequest_def errorCodeNotFound_def
      errorCodeConflict_def errorCodeForbidden_def errorCodeRuntime_def)+

lemma proper_error: "400 \<le> n \<Longrightarrow> TrimSpace code \<noteq> [] \<Longrightarrow> proper (writeError n code msg)"
  by (auto simp: proper_def)

lemma if_both: "P a \<Longrightarrow> P b \<Longrightarrow> P (if c then a else b)"
  by simp

lemma mapRuntimeError_code: "TrimSpace (snd (mapRuntimeError e)) \<noteq> []"
  unfolding mapRuntimeError_def
  by (intro if_both [where P = "\<lambda>x. TrimSpace (snd x) \<noteq> []"]) (simp_all add: code_not_blank)

lemma proper_mapped [simp]: "proper (writeMappedError up e)" "proper (writeInvalidRequest up m)"
proof -
  show "proper (writeMappedError up e)" for e
    using mapRuntimeError_status [of e] mapRuntimeError_code [of e]
    by (simp add: proper_error writeMappedError_def case_prod_beta)
  then show "proper (writeInvalidRequest up m)" by (simp add: writeInvalidRequest_def)
qed

lemma proper_state [simp]: "proper (writeRunState 200 st)"
  by (auto simp: proper_def)

lemma proper_missing [simp]: "ensureRuntime h = Some resp \<Longrightarrow> proper resp"
  using proper_error [OF _ code_not_blank(7), of 500]
  by (auto simp: ensureRuntime_def split: option.splits if_splits)

lemma proper_answers [simp]: "proper (fst (answer_run h out))" "proper (fst (answer_mutation h out))"
  by (simp_all add: answer_run_def answer_mutation_def split_beta split: option.split)

lemmas handler_defs = handleRunStart_def handleRunContinue_def handleRunCancel_def handleRunSteer_def
  handleRunFollowUp_def handleRunQuery_def

lemma proper_handlers:
  "proper (fst (handleRunStart h r1 s))" "proper (fst (handleRunContinue h r2 s))"
  "proper (fst (handleRunCancel h r3 s))" "proper (fst (handleRunSteer h r4 s))"
  "proper (fst (handleRunFollowUp h r5 s))" "proper (fst (handleRunQuery h r6 s))"
  by (simp_all add: handler_defs split: option.split sum.split prod.split)

lemma proper_serve: "proper (fst (serve_http h call s))"
  by (simp add: serve_http_def applyMutatingPolicies_cases limit_Middleware_def Let_def proper_handlers
      split: api_call.split)

section \<open>One command, one call\<close>

lemma client_answer:
  assumes "proper resp" and "delivered_ok N W (hr_payload resp)"
  shows "(if ha_Status (answered W resp) < 200 \<or> 300 \<le> ha_Status (answered W resp)
      then Inl (mapRequestError N (ha_Status (answered W resp)) (ha_Body (answered W resp)))
      else case nt_DecodeState N (ha_Body (answered W resp)) of
        Inl err \<Rightarrow> Inl (Err (Errorf [wraps ErrDecodeResponse, Lit '': '', Val err]))
      | Inr out \<Rightarrow> Inr (out, ha_Body (answered W resp))) = client_view W resp"
  using assms
  by (auto simp: proper_def delivered_ok_def answered_def client_view_def mapRequestError_def
      decodeAPIError_def writeRunState_def writeError_def)

lemma doJSON_connected:
  assumes "cl_do c = connect W h (cl_baseURL c)" and "encode_payload N payload = Inr body"
    and "nt_NewRequest N verb (cl_baseURL c @ path) = None" and "auth \<longrightarrow> cl_authToken c \<noteq> []"
    and "routed_call W \<lparr>hc_Context = ctx_orBackground ctx, hc_Method = verb,
        hc_URL = cl_baseURL c @ path,
        hc_ContentType = (if payload \<noteq> None then Some ''application/json'' else None),
        hc_Authorization = (if auth then Some (''Bearer '' @ cl_authToken c) else None),
        hc_Body = body\<rparr> path = Some call"
    and "delivered_ok N W (hr_payload (fst (serve_http h call s)))"
  shows "doJSON N c ctx verb path payload auth s =
    (client_view W (fst (serve_http h call s)), snd (serve_http h call s))"
proof -
  obtain resp s' where out: "serve_http h call s = (resp, s')" by (metis surj_pair)
  then have "proper resp" using proper_serve [of h call s] by simp
  from client_answer [OF this, of N W] assms(6) out
  show ?thesis
    using assms(1-5)
    by (auto simp: doJSON_def doRaw_def connect_def HasPrefix_def answered_def split: if_splits sum.splits)
qed

lemma no_query:
  "cut_at (CHR ''?'') ''/v1/runs/start'' = (''/v1/runs/start'', None)"
  "cut_at (CHR ''?'') (''/v1/runs/'' @ PathEscape i) = (''/v1/runs/'' @ PathEscape i, None)"
  "CHR ''?'' \<notin> set action \<Longrightarrow> cut_at (CHR ''?'') (''/v1/runs/'' @ PathEscape i @ slash # action) =
    (''/v1/runs/'' @ PathEscape i @ slash # action, None)"
  using PathEscape_no_delims [of i] by (auto intro!: cut_at_missing)

lemma runPath_addressed: "TrimSpace i \<noteq> [] \<Longrightarrow> runPath i = Inr (''/v1/runs/'' @ PathEscape (TrimSpace i))"
  by (simp add: runPath_def Let_def)

lemmas mux_actions =
  mux_route_action [where action = "''continue''", OF _ _ _ plain_words(3) unescape_words(4)]
  mux_route_action [where action = "''cancel''", OF _ _ _ plain_words(4) unescape_words(5)]
  mux_route_action [where action = "''steer''", OF _ _ _ plain_words(5) unescape_words(6)]
  mux_route_action [where action = "''follow-up''", OF _ _ _ plain_words(6) unescape_words(7)]

text \<open>The route, the body and the credentials of every command.\<close>

definition sent_as :: "'w net \<Rightarrow> 'w Client \<Rightarrow> ctx \<Rightarrow> client_command \<Rightarrow> string \<Rightarrow> string \<Rightarrow> bool" where
  "sent_as N c ctx op verb path \<longleftrightarrow>
     (\<forall>s. run_client N c ctx op s =
        doJSON N c ctx verb path (command_payload op) (verb = ''POST'') s)"

lemma command_routed:
  assumes "addressable op" and "case command_payload op of None \<Rightarrow> body = None
      | Some q \<Rightarrow> \<exists>t. body = Some t \<and> encoded W q t"
  shows "\<exists>verb path call. sent_as N c ctx op verb path \<and>
    routed_call W \<lparr>hc_Context = x, hc_Method = verb, hc_URL = u path, hc_ContentType = y,
      hc_Authorization = (if verb = ''POST'' then Some (''Bearer '' @ cl_authToken c) else None),
      hc_Body = body\<rparr> path = Some call \<and> call_sent W c op call"
proof (cases op)
  case (DoStart q)
  show ?thesis
    apply (rule exI [of _ "''POST''"], rule exI [of _ "''/v1/runs/start''"])
    using DoStart assms(2)
    by (auto simp: sent_as_def api_Start_def routed_call_def no_query mux_route_start received_def
        or_empty_def bearer_def carries_def)
next
  case (DoContinue i q)
  let ?i = "TrimSpace i"
  have i: "?i \<noteq> []" "?i \<noteq> ''.''" "?i \<noteq> ''..''" using assms(1) DoContinue by (auto simp: addressable_def)
  show ?thesis
    apply (rule exI [of _ "''POST''"], rule exI [of _ "''/v1/runs/'' @ PathEscape ?i @ ''/continue''"])
    using DoContinue i assms(2) mux_actions(1) [OF i, of "''POST''"] no_query(3) [of "''continue''" ?i]
    by (auto simp: sent_as_def api_Continue_def runPath_addressed routed_call_def mux_run_route_def
        received_def or_empty_def bearer_def carries_def)
next
  case (DoSteer i q)
  let ?i = "TrimSpace i"
  have i: "?i \<noteq> []" "?i \<noteq> ''.''" "?i \<noteq> ''..''" using assms(1) DoSteer by (auto simp: addressable_def)
  show ?thesis
    apply (rule exI [of _ "''POST''"], rule exI [of _ "''/v1/runs/'' @ PathEscape ?i @ ''/steer''"])
    using DoSteer i assms(2) mux_actions(3) [OF i, of "''POST''"] no_query(3) [of "''steer''" ?i]
    by (auto simp: sent_as_def api_Steer_def runPath_addressed routed_call_def mux_run_route_def
        received_def or_empty_def bearer_def carries_def)
next
  case (DoFollowUp i q)
  let ?i = "TrimSpace i"
  have i: "?i \<noteq> []" "?i \<noteq> ''.''" "?i \<noteq> ''..''" using assms(1) DoFollowUp by (auto simp: addressable_def)
  show ?thesis
    apply (rule exI [of _ "''POST''"], rule exI [of _ "''/v1/runs/'' @ PathEscape ?i @ ''/follow-up''"])
    using DoFollowUp i assms(2) mux_actions(4) [OF i, of "''POST''"] no_query(3) [of "''follow-up''" ?i]
    by (auto simp: sent_as_def api_FollowUp_def runPath_addressed routed_call_def mux_run_route_def
        received_def or_empty_def bearer_def carries_def)
next
  case (DoCancel i)
  let ?i = "TrimSpace i"
  have i: "?i \<noteq> []" "?i \<noteq> ''.''" "?i \<noteq> ''..''" using assms(1) DoCancel by (auto simp: addressable_def)
  show ?thesis
    apply (rule exI [of _ "''POST''"], rule exI [of _ "''/v1/runs/'' @ PathEscape ?i @ ''/cancel''"])
    using DoCancel i assms(2) mux_actions(2) [OF i, of "''POST''"] no_query(3) [of "''cancel''" ?i]
    by (auto simp: sent_as_def api_Cancel_def runPath_addressed routed_call_def mux_run_route_def
        received_def or_empty_def bearer_def)
next
  case (DoGet i)
  let ?i = "TrimSpace i"
  have i: "?i \<noteq> []" "?i \<noteq> ''.''" "?i \<noteq> ''..''" using assms(1) DoGet by (auto simp: addressable_def)
  show ?thesis
    apply (rule exI [of _ "''GET''"], rule exI [of _ "''/v1/runs/'' @ PathEscape ?i"])
    using DoGet i assms(2) mux_route_query [OF i] no_query(2) [of ?i]
    by (auto simp: sent_as_def api_Get_def runPath_addressed routed_call_def received_def)
qed

lemma client_call:
  assumes "cl_do c = connect W h (cl_baseURL c)" and "cl_authToken c \<noteq> []" and "addressable op"
    and "\<And>verb path. nt_NewRequest N verb (cl_baseURL c @ path) = None" and "sent_ok N W op"
    and "\<And>call. call_sent W c op call \<Longrightarrow> delivered_ok N W (hr_payload (fst (serve_http h call s)))"
  shows "\<exists>call. call_sent W c op call \<and>
    run_client N c ctx op s = (client_view W (fst (serve_http h call s)), snd (serve_http h call s))"
proof -
  obtain body where body: "encode_payload N (command_payload op) = Inr body"
    "case command_payload op of None \<Rightarrow> body = None | Some q \<Rightarrow> \<exists>t. body = Some t \<and> encoded W q t"
    using assms(5) by (auto simp: sent_ok_def encode_payload_def split: option.splits)
  from command_routed [OF assms(3) body(2), where u = "\<lambda>path. cl_baseURL c @ path"] obtain verb path call where r:
    "sent_as N c ctx op verb path" "call_sent W c op call"
    "routed_call W \<lparr>hc_Context = ctx_orBackground ctx, hc_Method = verb, hc_URL = cl_baseURL c @ path,
        hc_ContentType = (if command_payload op \<noteq> None then Some ''application/json'' else None),
        hc_Authorization = (if verb = ''POST'' then Some (''Bearer '' @ cl_authToken c) else None),
        hc_Body = body\<rparr> path = Some call"
    by blast
  from doJSON_connected [OF assms(1) body(1) assms(4) _ r(3) assms(6) [OF r(2)]] assms(2) r(1,2)
  show ?thesis unfolding sent_as_def by metis
qed

text \<open>
  C20: a command of the client is one call of the server's API, with the run, the payload
  and the bearer token of the command, and the client returns what the server answered: the
  state of the run, or a \<open>RequestError\<close> with the status, the code and the message of the
  server's error.
\<close>

theorem client_calls_server:
  assumes "cl_do c = connect W h (cl_baseURL c)" and "cl_authToken c \<noteq> []" and "addressable op"
    and "\<And>verb path. nt_NewRequest N verb (cl_baseURL c @ path) = None" and "sent_ok N W op"
    and "\<And>call. call_sent W c op call \<Longrightarrow> delivered_ok N W (hr_payload (fst (serve_http h call s)))"
  shows "\<exists>call. call_sent W c op call \<and>
    run_client N c ctx op s = (client_view W (fst (serve_http h call s)), snd (serve_http h call s))"
  by (rule client_call [OF assms])

text \<open>A client at the server with one run, over a connection that carries its answer.\<close>

definition no_body :: "string \<Rightarrow> int option \<Rightarrow> 'a decoded" where
  "no_body t l = \<lparr>dc_first = Inl (DecodeError (Sentinel IoEOF)), dc_second = None\<rparr>"

definition plain_wire :: wire where
  "plain_wire =
     \<lparr>wi_Context = ctx_Background, wi_start = no_body, wi_continue = no_body, wi_steer = no_body,
      wi_followUp = no_body, wi_unit = no_body, wi_encode = \<lambda>p. ''{}''\<rparr>"

definition plain_net :: "api_RunState \<Rightarrow> nat api_state net" where
  "plain_net st =
     \<lparr>nt_DefaultDo = connect plain_wire open_handlers [], nt_NewRequest = \<lambda>verb u. None,
      nt_ParseURL = \<lambda>u. Inr (''http'', u), nt_Encode = \<lambda>q. Inr ''{}'', nt_DecodeState = \<lambda>t. Inr st,
      nt_DecodeError = \<lambda>t. Inl (Sentinel IoEOF)\<rparr>"

definition plain_client :: "nat api_state Client" where
  "plain_client = \<lparr>cl_baseURL = ''http://host'', cl_authToken = DefaultToken,
     cl_do = connect plain_wire open_handlers ''http://host''\<rparr>"

lemma plain_simps [simp]:
  "cl_do plain_client = connect plain_wire open_handlers (cl_baseURL plain_client)"
  "cl_authToken plain_client \<noteq> []" "nt_NewRequest (plain_net st) verb u = None"
  "wi_Context plain_wire = ctx_Background" "nt_DecodeState (plain_net st) t = Inr st"
  "wi_encode plain_wire p = ''{}''"
  by (simp_all add: plain_client_def DefaultToken_def plain_net_def plain_wire_def)

lemma plain_addressable [simp]: "addressable (DoCancel ''run-000001'')" "addressable (DoGet ''run-000001'')"
  by (simp_all add: addressable_def cancel_run_id)

lemma plain_sent [simp]: "sent_ok N W (DoCancel i)" "sent_ok N W (DoGet i)"
  by (simp_all add: sent_ok_def)

lemma plain_cancel:
  "\<exists>x st. (\<forall>call. call_sent plain_wire c (DoCancel ''run-000001'') call \<longrightarrow>
     serve_http open_handlers call (Map.empty, one_run) = x) \<and>
   fst x = writeRunState 200 st \<and> st_ID st = ''run-000001''"
proof -
  let ?d = "Dispatch (runtime_deps echo_ext) (Some \<lparr>ctx_detached = False, ctx_value = None\<rparr>)
    (CmdCancel \<lparr>xc_RunID = ''run-000001''\<rparr>) (Map.empty, one_run)"
  obtain r s where d: "?d = ((r, None), s)" "st_ID (rr_State r) = ''run-000001''"
    using echo_cancel by metis
  have "call_sent plain_wire c (DoCancel ''run-000001'') call \<Longrightarrow>
      serve_http open_handlers call (Map.empty, one_run) = answer_mutation open_handlers ?d" for call
    by (auto simp: cancel_run_id intro!: open_handlers_cancels)
  with d show ?thesis
    by (intro exI [of _ "answer_mutation open_handlers ?d"] exI [of _ "rr_State r"])
      (simp add: answer_mutation_def)
qed

theorem client_calls_server_witness:
  "\<exists>st call. call_sent plain_wire plain_client (DoCancel ''run-000001'') call \<and>
     run_client (plain_net st) plain_client None (DoCancel ''run-000001'') (Map.empty, one_run) =
       (client_view plain_wire (fst (serve_http open_handlers call (Map.empty, one_run))),
        snd (serve_http open_handlers call (Map.empty, one_run)))"
proof -
  obtain x st where x: "\<forall>call. call_sent plain_wire plain_client (DoCancel ''run-000001'') call \<longrightarrow>
      serve_http open_handlers call (Map.empty, one_run) = x" "fst x = writeRunState 200 st"
    using plain_cancel by metis
  then have "call_sent plain_wire plain_client (DoCancel ''run-000001'') call \<Longrightarrow>
      delivered_ok (plain_net (client_state (run_state_response st))) plain_wire
        (hr_payload (fst (serve_http open_handlers call (Map.empty, one_run))))" for call
    by (simp add: delivered_ok_def writeRunState_def)
  from client_calls_server [OF plain_simps(1,2) plain_addressable(1) plain_simps(3) plain_sent(1) this]
  show ?thesis by blast
qed

text \<open>
  C21: through the client, too, a command is visible at once: after a command that returned
  the state of a run, and not from the cache (for a continue command: no outcome is recorded for
  its run under its command ID), a \<open>get\<close> for that run returns the same state and the same bytes,
  unless the connection of the \<open>get\<close> is cancelled before the server reads the run.
\<close>

theorem client_reads_its_writes:
  assumes "cl_do c = connect W h (cl_baseURL c)" and "cl_authToken c \<noteq> []" and "addressable op"
    and "\<And>verb path. nt_NewRequest N verb (cl_baseURL c @ path) = None" and "sent_ok N W op"
    and "\<And>call. call_sent W c op call \<Longrightarrow> delivered_ok N W (hr_payload (fst (serve_http h call (oc, w))))"
    and "run_client N c ctx op (oc, w) = (Inr (st, raw), s')" and "\<And>i. op \<noteq> DoGet i"
    and "\<And>call. call_sent W c op call \<Longrightarrow> uncached h call oc" and "stored_wf (rt_store w)" and "ensureRuntime h = None"
    and "0 < pc_MaxCommandSteps (h_policy h)" and "read_live h (wi_Context W) s'"
    and "TrimSpace (as_RunID st) = as_RunID st" and "addressable (DoGet (as_RunID st))"
  shows "fst (run_client N c ctx' (DoGet (as_RunID st)) s') = Inr (st, raw)"
proof -
  from client_call [OF assms(1-6)] assms(7) obtain call where call: "call_sent W c op call"
    "client_view W (fst (serve_http h call (oc, w))) = Inr (st, raw)"
    "snd (serve_http h call (oc, w)) = s'" by (metis prod.inject)
  then obtain p where p: "hr_payload (fst (serve_http h call (oc, w))) = StatePayload p"
    "st = client_state p" "raw = wi_encode W (StatePayload p)"
    by (auto simp: client_view_def split: payload.splits)
  then have i: "as_RunID st = ps_RunID p" by (simp add: client_state_def)
  have "ps_RunID p \<noteq> []" using assms(15) i by (auto simp: addressable_def)
  moreover have "is_mutation call" using call(1) assms(8) by (cases op) (auto simp: is_mutation_def)
  ultimately have same: "fst (serve_http h get s') = fst (serve_http h call (oc, w))"
    if "call_sent W c (DoGet (as_RunID st)) get" for get
    using reads_its_writes [OF _ p(1) _ assms(10) assms(9) [OF call(1)] assms(11,12)] that assms(13,14) call(3) i
    by (auto simp: received_def)
  with assms(6) [OF call(1)] have
    "delivered_ok N W (hr_payload (fst (serve_http h get s')))"
    if "call_sent W c (DoGet (as_RunID st)) get" for get using that by simp
  from client_call [OF assms(1,2,15,4) plain_sent(2) this] same call(2)
  show ?thesis by (metis fst_conv)
qed

theorem client_reads_its_writes_witness:
  "\<exists>st raw s'. run_client (plain_net st) plain_client None (DoCancel ''run-000001'') (Map.empty, one_run) =
       (Inr (st, raw), s') \<and>
     fst (run_client (plain_net st) plain_client None (DoGet ''run-000001'') s') = Inr (st, raw)"
proof -
  obtain x st where x: "\<forall>call. call_sent plain_wire plain_client (DoCancel ''run-000001'') call \<longrightarrow>
      serve_http open_handlers call (Map.empty, one_run) = x" "fst x = writeRunState 200 st"
      "st_ID st = ''run-000001''"
    using plain_cancel by metis
  let ?st = "client_state (run_state_response st)"
  have i: "as_RunID ?st = ''run-000001''" using x(3) by (simp add: client_state_def run_state_response_def)
  from x have ok: "call_sent plain_wire plain_client (DoCancel ''run-000001'') call \<Longrightarrow>
      delivered_ok (plain_net ?st) plain_wire (hr_payload (fst (serve_http open_handlers call (Map.empty, one_run))))"
    for call by (simp add: delivered_ok_def writeRunState_def)
  obtain call where call: "call_sent plain_wire plain_client (DoCancel ''run-000001'') call"
    "run_client (plain_net ?st) plain_client None (DoCancel ''run-000001'') (Map.empty, one_run) =
      (client_view plain_wire (fst (serve_http open_handlers call (Map.empty, one_run))),
       snd (serve_http open_handlers call (Map.empty, one_run)))"
    using client_call [OF plain_simps(1,2) plain_addressable(1) plain_simps(3) plain_sent(1) ok] by metis
  with x have run: "run_client (plain_net ?st) plain_client None (DoCancel ''run-000001'') (Map.empty, one_run) =
      (Inr (?st, ''{}''), snd x)"
    by (simp add: client_view_def writeRunState_def)
  have unc: "call_sent plain_wire plain_client (DoCancel ''run-000001'') call \<Longrightarrow>
      uncached open_handlers call Map.empty" for call
    by (auto simp: uncached_def sends_def cached_outcome_def split: Command.splits)
  have "fst (run_client (plain_net ?st) plain_client None (DoGet (as_RunID ?st)) (snd x)) = Inr (?st, ''{}'')"
    by (rule client_reads_its_writes [OF plain_simps(1,2) plain_addressable(1) plain_simps(3)
          plain_sent(1) ok run _ unc])
      (simp_all add: i open_handlers_def ensureRuntime_def all_parts_def DefaultPolicyConfig_def
        DefaultMaxCommandSteps_def stored_wf_def ctx_Background_def cancel_run_id read_live_def
        ctx_Err_def)
  with run i show ?thesis by metis
qed

end
