(* ===== verification/Client_Follow.thy ===== *)
theory Client_Follow
  imports Client_Stream Client_Server
begin

text \<open>
  The \<open>events\<close> command against the server: whatever the server sends over however many
  connections, the command prints the events accepted for its run in their order, from its
  cursor on, without a gap and without a repetition. The interface between the two sides is
  the locale \<open>event_feed\<close>; the server's \<open>handleRunEvents\<close> behind its routes interprets it.
\<close>

section \<open>Reading what was written\<close>

definition encode_lines :: "(StreamEvent \<Rightarrow> string) \<Rightarrow> StreamEvent list \<Rightarrow> string" where
  "encode_lines enc fs = concat (map (\<lambda>f. enc f @ [newline]) fs)"

text \<open>The JSON object of a frame: on one line, of a size that the client's buffer holds.\<close>

definition line_of :: "(StreamEvent \<Rightarrow> string) \<Rightarrow> (string \<Rightarrow> gerr + StreamEvent) \<Rightarrow> StreamEvent \<Rightarrow> bool" where
  "line_of enc dec f \<longleftrightarrow> dec (enc f) = Inr f \<and> (\<exists>b. enc f = ''{'' @ b @ ''}'') \<and>
     newline \<notin> set (enc f) \<and> length (enc f) < maxFrameBytes"

lemma split_char_lines:
  "\<forall>x \<in> set xs. newline \<notin> set x \<Longrightarrow>
   split_char newline (concat (map (\<lambda>x. x @ [newline]) xs)) = xs @ [[]]"
  by (induction xs) (simp_all add: split_char_app)

lemma split_lines_encoded:
  assumes "\<forall>f \<in> set fs. line_of enc dec f"
  shows "split_lines (encode_lines enc fs) = map enc fs"
proof -
  have "split_char newline (encode_lines enc fs) = map enc fs @ [[]]"
    using split_char_lines [of "map enc fs"] assms
    by (simp add: encode_lines_def line_of_def comp_def)
  then show ?thesis by (simp add: split_lines_def)
qed

lemma line_of_trimmed: "line_of enc dec f \<Longrightarrow> TrimSpace (enc f) = enc f"
  by (rule TrimSpace_graphic) (auto simp: line_of_def graphic_def)

lemma line_of_drop_CR: "line_of enc dec f \<Longrightarrow> drop_CR (enc f) = enc f"
  by (auto simp: line_of_def drop_CR_def)

lemma NewReader_encoded:
  assumes "\<forall>f \<in> set fs. line_of enc dec f" and "ha_Body a = encode_lines enc fs"
  shows "NewReader a = \<lparr>sc_lines = map enc fs, sc_err = ha_ReadErr a, sc_early = ha_Early a\<rparr>"
proof -
  have fits: "takeWhile (\<lambda>l. length l < maxFrameBytes) (map enc fs) = map enc fs"
    using assms(1) by (auto simp: line_of_def)
  have ends: "map (\<lambda>f. drop_CR (enc f)) fs = map enc fs"
    using assms(1) line_of_drop_CR by auto
  show ?thesis
    by (simp add: NewReader_def Let_def assms(2) split_lines_encoded [OF assms(1)] fits ends comp_def)
qed

definition frame_valid :: "StreamEvent \<Rightarrow> bool" where
  "frame_valid f \<longleftrightarrow> 0 < se_ID f \<and> TrimSpace (ev_RunID (se_Event f)) \<noteq> []"

lemma next_frame_encoded:
  assumes "line_of enc dec f" and "frame_valid f"
  shows "next_frame dec \<lparr>sc_lines = enc f # ls, sc_err = err, sc_early = k\<rparr> =
    (Inr (f, enc f @ [newline]), \<lparr>sc_lines = ls, sc_err = err, sc_early = k\<rparr>)"
  using assms line_of_trimmed [OF assms(1)]
  by (auto simp: next_frame.simps Let_def line_of_def frame_valid_def HasPrefix_def parsePayload_def
      decode_frame_def)

section \<open>What a connection prints\<close>

definition shown :: "bool \<Rightarrow> (StreamEvent \<Rightarrow> string) \<Rightarrow> StreamEvent \<Rightarrow> string" where
  "shown jsonMode enc f = (if jsonMode then enc f else human_event f) @ [newline]"

definition console_ok :: "'w console \<Rightarrow> ('w \<Rightarrow> string) \<Rightarrow> bool" where
  "console_ok C out \<longleftrightarrow>
     (\<forall>s w r w'. co_Write C s w = (r, w') \<longrightarrow> out w' = out w @ (if r = None then s else [])) \<and>
     (\<forall>w. out (snd (co_ctxErr C w)) = out w) \<and> (\<forall>w. out (snd (co_doneFirst C w)) = out w)"

lemma console_Write:
  "console_ok C out \<Longrightarrow> co_Write C s w = (r, w') \<Longrightarrow> out w' = out w @ (if r = None then s else [])"
  unfolding console_ok_def by blast

lemma deliver_event_shown:
  assumes "console_ok C out" and "deliver_event C jsonMode f (enc f @ [newline]) w = (r, w')"
  shows "out w' = out w @ (if r = None then shown jsonMode enc f else [])"
  using assms(2) console_Write [OF assms(1)]
  by (simp add: deliver_event_def writeRaw_def writeHumanEvent_def shown_def split: if_splits)

text \<open>Frames numbered one by one after a cursor.\<close>

primrec numbered :: "int \<Rightarrow> StreamEvent list \<Rightarrow> bool" where
  "numbered c [] = True"
| "numbered c (f # fs) = (se_ID f = c + 1 \<and> numbered (c + 1) fs)"

lemma frames_loop_piece:
  assumes "console_ok C out" and "\<forall>f \<in> set fs. line_of enc (co_DecodeFrame C) f \<and> frame_valid f"
    and "numbered c fs"
    and "frames_loop (co_DecodeFrame C) (deliver_event C jsonMode)
      \<lparr>sc_lines = map enc fs, sc_err = e, sc_early = k\<rparr> c w = (r, c', w')"
  shows "\<exists>m. out w' = out w @ concat (map (shown jsonMode enc) (take m fs)) \<and>
    (r = Reconnect \<longrightarrow> m = length fs \<and> c' = c + int (length fs))"
  using assms(2-)
proof (induction fs arbitrary: c w)
  case Nil
  then show ?case by (auto simp: frames_loop.simps next_frame.simps)
next
  case (Cons f fs)
  then have ok: "line_of enc (co_DecodeFrame C) f" "frame_valid f" "se_ID f = c + 1" by auto
  obtain r1 w1 where d: "deliver_event C jsonMode f (enc f @ [newline]) w = (r1, w1)" by (metis surj_pair)
  note shown1 = deliver_event_shown [where enc = enc, OF assms(1) d]
  have step: "frames_loop (co_DecodeFrame C) (deliver_event C jsonMode)
      \<lparr>sc_lines = map enc (f # fs), sc_err = e, sc_early = k\<rparr> c w =
    (case (r1, w1) of (Some err, w) \<Rightarrow> (DeliverError err, c + 1, w)
     | (None, w) \<Rightarrow> frames_loop (co_DecodeFrame C) (deliver_event C jsonMode)
         \<lparr>sc_lines = map enc fs, sc_err = e, sc_early = k\<rparr> (c + 1) w)"
    using ok d by (subst frames_loop.simps) (auto simp: next_frame_encoded split: option.split)
  show ?case
  proof (cases r1)
    case None
    with Cons.prems step obtain m where
      "out w' = out w1 @ concat (map (shown jsonMode enc) (take m fs))"
      "r = Reconnect \<longrightarrow> m = length fs \<and> c' = c + 1 + int (length fs)"
      using Cons.IH [of "c + 1" w1] by auto
    with None shown1 show ?thesis by (intro exI [of _ "Suc m"]) auto
  next
    case (Some err)
    with Cons.prems step shown1 show ?thesis by (intro exI [of _ 0]) auto
  qed
qed

lemma numbered_history: "numbered (int c) (take k (drop c (history_frames es)))"
proof (induction k arbitrary: c)
  case (Suc k)
  show ?case
  proof (cases "c < length es")
    case True
    then have "drop c (history_frames es) = \<lparr>se_ID = int c + 1, se_Event = es ! c\<rparr> # drop (Suc c) (history_frames es)"
      by (metis Cons_nth_drop_Suc history_frames_length history_frames_nth)
    with Suc [of "Suc c"] show ?thesis by (simp add: add.commute)
  qed simp
qed simp

section \<open>The interface of the event stream\<close>

locale event_feed =
  fixes client :: "'w http_do" and url :: "int \<Rightarrow> string" and out :: "'w \<Rightarrow> string"
    and enc :: "StreamEvent \<Rightarrow> string" and history :: "Event list" and bounded :: bool
  assumes answers: "bounded \<Longrightarrow> 0 \<le> c \<Longrightarrow> in_int64 c \<Longrightarrow> hc_Method hc = ''GET'' \<Longrightarrow> hc_URL hc = url c \<Longrightarrow>
      client hc w = (Inr resp, w') \<Longrightarrow> ha_Status resp = 200 \<Longrightarrow>
      \<exists>k. ha_Body resp = encode_lines enc (take k (drop (nat c) (history_frames history)))"
    and quiet: "client hc w = (r, w') \<Longrightarrow> out w' = out w"
    and sized: "bounded \<Longrightarrow> int (length history) < 2 ^ 63 - 2"
begin

lemma open_stream:
  assumes "bounded" and "0 \<le> c" and "in_int64 c" and "url c = streamURL baseURL runID c"
    and "openEventsStream N ctx (Some client) baseURL runID c w = (r, w')"
  shows "out w' = out w \<and> (\<forall>resp. r = Inr resp \<longrightarrow>
    (\<exists>k. ha_Body resp = encode_lines enc (take k (drop (nat c) (history_frames history)))))"
proof -
  let ?hc = "\<lparr>hc_Context = ctx_orBackground ctx, hc_Method = ''GET'', hc_URL = streamURL baseURL runID c,
    hc_ContentType = None, hc_Authorization = None, hc_Body = None\<rparr>"
  obtain a w1 where cl: "client ?hc w = (a, w1)" by (metis surj_pair)
  have "out w1 = out w" by (rule quiet [OF cl])
  moreover have "\<exists>k. ha_Body resp = encode_lines enc (take k (drop (nat c) (history_frames history)))"
    if "a = Inr resp" "ha_Status resp = 200" for resp
    using answers [OF assms(1-3) _ _ cl [unfolded that(1)] that(2)] assms(4) by simp
  ultimately show ?thesis
    using assms(5) cl by (auto simp: openEventsStream_def Let_def split: option.splits sum.splits if_splits)
qed

lemma follows:
  assumes "bounded" and "console_ok C out" and "\<And>c. url c = streamURL baseURL runID c"
    and "\<forall>f \<in> set (history_frames history). line_of enc (co_DecodeFrame C) f \<and> frame_valid f"
    and "0 \<le> c" and "in_int64 c"
  shows "\<exists>m. out (snd (events_loop n N C ctx client baseURL jsonMode runID c w)) =
    out w @ concat (map (shown jsonMode enc) (take m (drop (nat c) (history_frames history))))"
  using assms(5,6)
proof (induction n arbitrary: c w)
  case 0
  then show ?case by (intro exI [of _ 0]) simp
next
  case (Suc n)
  let ?H = "drop (nat c) (history_frames history)"
  obtain r1 w1 where o: "openEventsStream N ctx (Some client) baseURL runID c w = (r1, w1)"
    by (metis surj_pair)
  note opened = open_stream [OF assms(1) Suc.prems assms(3) o]
  show ?case
  proof (cases r1)
    case (Inl err)
    with o opened assms(2) show ?thesis
      by (intro exI [of _ 0]) (auto simp: console_ok_def case_prod_beta)
  next
    case (Inr resp)
    with opened obtain k where body: "ha_Body resp = encode_lines enc (take k ?H)"
      by auto
    let ?fs = "take k ?H"
    have ok: "\<forall>f \<in> set ?fs. line_of enc (co_DecodeFrame C) f \<and> frame_valid f"
      using assms(4) by (meson in_set_dropD in_set_takeD)
    then have reader: "NewReader resp = \<lparr>sc_lines = map enc ?fs, sc_err = ha_ReadErr resp, sc_early = ha_Early resp\<rparr>"
      using NewReader_encoded [of ?fs enc "co_DecodeFrame C" resp, OF _ body] by simp
    have num: "numbered c ?fs" using numbered_history [of "nat c"] Suc.prems(1) by simp
    obtain r2 c2 w2 where f: "frames_loop (co_DecodeFrame C) (deliver_event C jsonMode) (NewReader resp) c w1 =
        (r2, c2, w2)" by (metis prod_cases3)
    from frames_loop_piece [OF assms(2) ok num f [unfolded reader]] obtain m where m:
      "out w2 = out w1 @ concat (map (shown jsonMode enc) (take m ?fs))"
      "r2 = Reconnect \<Longrightarrow> m = length ?fs \<and> c2 = c + int (length ?fs)" by blast
    have piece: "take m ?fs = take (min m k) ?H" by (simp add: min.commute)
    show ?thesis
    proof (cases r2)
      case Reconnect
      obtain d w3 where d: "co_doneFirst C w2 = (d, w3)" by (metis surj_pair)
      with assms(2) have w3: "out w3 = out w2" unfolding console_ok_def by (metis snd_conv)
      have c2: "c2 = c + int (length ?fs)" using m(2) [OF Reconnect] by blast
      have all: "take m ?fs = ?fs" using m(2) [OF Reconnect] by (metis order_refl take_all)
      show ?thesis
      proof (cases d)
        case True
        with o Inr f Reconnect d w3 m(1) opened piece show ?thesis
          by (intro exI [of _ "min m k"]) simp
      next
        case False
        have "length ?fs \<le> length ?H" by simp
        then have "c2 \<le> max c (int (length history))" using c2 Suc.prems(1) by auto
        with Suc.prems c2 sized [OF assms(1)] have "0 \<le> c2" "in_int64 c2"
          by (auto simp: in_int64_def max_def split: if_splits)
        from Suc.IH [OF this, of w3] obtain m2 where m2:
          "out (snd (events_loop n N C ctx client baseURL jsonMode runID c2 w3)) =
            out w3 @ concat (map (shown jsonMode enc) (take m2 (drop (nat c2) (history_frames history))))"
          by blast
        have "drop (nat c2) (history_frames history) = drop (length ?fs) ?H"
          using c2 Suc.prems(1) by (simp add: nat_add_distrib add.commute)
        then have "?fs @ take m2 (drop (nat c2) (history_frames history)) = take (length ?fs + m2) ?H"
          by (metis append_take_drop_id append_eq_conv_conj take_add take_take min_def
              length_take take_all_iff nat_le_linear)
        moreover have "out w2 = out w @ concat (map (shown jsonMode enc) ?fs)"
          using m(1) opened unfolding all by simp
        moreover have "events_loop (Suc n) N C ctx client baseURL jsonMode runID c w =
            events_loop n N C ctx client baseURL jsonMode runID c2 w3"
          using o Inr f Reconnect d False by simp
        ultimately have "out (snd (events_loop (Suc n) N C ctx client baseURL jsonMode runID c w)) =
            out w @ concat (map (shown jsonMode enc) (take (length ?fs + m2) ?H))"
          using m2 w3 by (metis append_assoc concat_append map_append)
        then show ?thesis by blast
      qed
    qed (use o Inr f m(1) opened piece in \<open>auto intro!: exI [of _ "min m k"]\<close>)
  qed
qed

end

section \<open>The server as a feed\<close>

text \<open>
  What a client sees of the outside: how many connections it has made, and what it has printed.
  At connection \<open>k\<close> the schedule gives the state of the server, the publications that the
  broker has seen when the connection is opened and at each tick, the number of writes that
  succeed before the connection breaks, and how the client sees it break: the error that its read
  meets after the last frame (none for a clean end) and how many lines are then still unread.
\<close>

record feed_world =
  fw_conn :: nat
  fw_out :: string

type_synonym 'x schedule = "nat \<Rightarrow> 'x api_state \<times> nat \<times> nat list \<times> nat \<times> gerr option \<times> nat"

definition stream_answer ::
  "wire \<Rightarrow> (StreamEvent \<Rightarrow> string) \<Rightarrow> gerr option \<times> nat \<Rightarrow> http_response \<Rightarrow> http_answer" where
  "stream_answer W enc broken resp =
     (case hr_payload resp of
        StreamPayload fs \<Rightarrow> \<lparr>ha_Status = hr_status resp, ha_Body = encode_lines enc fs,
          ha_ReadErr = fst broken, ha_Early = snd broken\<rparr>
      | _ \<Rightarrow> answered W resp)"

definition events_server ::
  "wire \<Rightarrow> 'x handlers \<Rightarrow> (StreamEvent \<Rightarrow> string) \<Rightarrow> int \<Rightarrow> (seen_ctx \<times> Event) list \<Rightarrow> 'x schedule \<Rightarrow>
     string \<Rightarrow> feed_world http_do" where
  "events_server W h enc l ps sched base hc w =
     (let (path, query) = cut_at (CHR ''?'') (drop (length base) (hc_URL hc)) in
      case (HasPrefix (hc_URL hc) base, mux_route (hc_Method hc) path) of
        (True, Some (RouteEvents i)) \<Rightarrow>
          (let (s, n, ns, writes, broken) = sched (fw_conn w);
               broker_at = (\<lambda>n. broker_after l (take n ps));
               resp = fst (handleRunEvents h True (\<lambda>written. length written < writes) (map broker_at ns)
                 (received W hc i query (wi_unit W)) (fst s, (snd s)\<lparr>rt_broker := broker_at n\<rparr>))
           in (Inr (stream_answer W enc broken resp), w\<lparr>fw_conn := Suc (fw_conn w)\<rparr>))
      | _ \<Rightarrow> (Inl (External ''connection refused'' []), w))"

lemma handleRunEvents_200:
  assumes "hr_status (fst (handleRunEvents h flusher cw bs r s)) = 200"
  shows "\<exists>fs c. fst (handleRunEvents h flusher cw bs r s) = \<lparr>hr_status = 200, hr_payload = StreamPayload fs\<rparr> \<and>
    parseCursor r = Inr c"
  using assms
  by (auto simp: handleRunEvents_def writeError_def case_prod_beta split: option.splits sum.splits if_splits
      dest: ensureRuntime_status)

lemma history_frames_valid:
  assumes "TrimSpace i \<noteq> []" and "f \<in> set (history_frames (accepted_events (TrimSpace i) ps))"
  shows "frame_valid f"
  using assms by (auto simp: history_frames_def accepted_events_def frame_valid_def nth_append
      cloneEvent_def dest!: nth_mem [of _ "filter _ ps"] split: if_splits)

lemma stream_url_routed:
  assumes "addressable (DoGet i)" and "0 \<le> c"
  shows "mux_route ''GET'' (''/v1/runs/'' @ PathEscape (TrimSpace i) @ ''/events'') = Some (RouteEvents (TrimSpace i))"
    and "cut_at (CHR ''?'') (''/v1/runs/'' @ PathEscape (TrimSpace i) @ ''/events?cursor='' @ int_text c) =
      (''/v1/runs/'' @ PathEscape (TrimSpace i) @ ''/events'', Some (''cursor='' @ int_text c))"
proof -
  have "TrimSpace i \<noteq> []" "TrimSpace i \<noteq> ''.''" "TrimSpace i \<noteq> ''..''"
    using assms(1) by (auto simp: addressable_def)
  from mux_route_action [OF this plain_words(7) unescape_words(8), of "''GET''"]
  show "mux_route ''GET'' (''/v1/runs/'' @ PathEscape (TrimSpace i) @ ''/events'') = Some (RouteEvents (TrimSpace i))"
    by (simp add: mux_run_route_def)
  show "cut_at (CHR ''?'') (''/v1/runs/'' @ PathEscape (TrimSpace i) @ ''/events?cursor='' @ int_text c) =
      (''/v1/runs/'' @ PathEscape (TrimSpace i) @ ''/events'', Some (''cursor='' @ int_text c))"
    using cut_at_found [of "CHR ''?''" "''/v1/runs/'' @ PathEscape (TrimSpace i) @ ''/events''" "''cursor='' @ int_text c"]
      PathEscape_no_delims(2) [of "TrimSpace i"] by simp
qed

lemma events_server_answers:
  assumes "addressable (DoGet i)" and "int (length ps) < 2 ^ 63 - 2" and "0 \<le> c" and "in_int64 c"
    and "hc_Method hc = ''GET''" and "hc_URL hc = streamURL b i c"
    and "events_server W h enc l ps sched (TrimRight (TrimSpace b) {slash}) hc w = (Inr resp, w')"
    and "ha_Status resp = 200"
  shows "\<exists>k. ha_Body resp = encode_lines enc (take k (drop (nat c)
    (history_frames (accepted_events (TrimSpace i) ps))))"
proof -
  let ?base = "TrimRight (TrimSpace b) {slash}" and ?at = "\<lambda>n. broker_after l (take n ps)"
  obtain s n ns writes broken where sc: "sched (fw_conn w) = (s, n, ns, writes, broken)"
    by (metis prod_cases5)
  let ?r = "received W hc (TrimSpace i) (Some (''cursor='' @ int_text c)) (wi_unit W)"
  let ?out = "handleRunEvents h True (\<lambda>written. length written < writes) (map ?at ns) ?r
    (fst s, (snd s)\<lparr>rt_broker := ?at n\<rparr>)"
  have url: "drop (length ?base) (hc_URL hc) =
      ''/v1/runs/'' @ PathEscape (TrimSpace i) @ ''/events?cursor='' @ int_text c"
    "HasPrefix (hc_URL hc) ?base"
    using assms(6) by (simp_all add: streamURL_def HasPrefix_def)
  have resp: "resp = stream_answer W enc broken (fst ?out)"
    using assms(7) sc
    unfolding events_server_def Let_def url(1) stream_url_routed(2) [OF assms(1,3)] prod.case assms(5)
      stream_url_routed(1) [OF assms(1,3)]
    by (simp add: url(2))
  have "hr_status (fst ?out) = 200"
    using assms(8) by (simp add: resp stream_answer_def answered_def split: payload.splits)
  from handleRunEvents_200 [OF this] obtain fs where
    fs: "fst ?out = \<lparr>hr_status = 200, hr_payload = StreamPayload fs\<rparr>" by blast
  have "parseCursor ?r = Inr c"
    using ParseInt64_int_text [OF assms(4)] nat_text_digits [of "nat c"] assms(3) query_cursor [OF assms(3)]
    by (simp add: parseCursor_def received_def or_empty_def Let_def int_text_def)
  from event_stream_pieces [OF assms(2) this, of "(fst s, (snd s)\<lparr>rt_broker := ?at n\<rparr>)" l n h True
      "\<lambda>written. length written < writes" ns fs "snd ?out"] fs
  have "\<exists>k. fs = take k (drop (nat c) (history_frames (accepted_events (TrimSpace i) ps)))"
    by (auto simp: received_def) (metis prod.collapse)
  then show ?thesis using fs resp by (auto simp: stream_answer_def)
qed

interpretation handler_feed: event_feed
  "events_server W h enc l ps sched (TrimRight (TrimSpace b) {slash})" "streamURL b i" fw_out enc
  "accepted_events (TrimSpace i) ps" "addressable (DoGet i) \<and> int (length ps) < 2 ^ 63 - 2"
proof unfold_locales
  fix hc :: http_call and w w' :: feed_world and r
  assume "events_server W h enc l ps sched (TrimRight (TrimSpace b) {slash}) hc w = (r, w')"
  then show "fw_out w' = fw_out w"
    by (auto simp: events_server_def Let_def split: prod.splits option.splits endpoint.splits bool.splits)
next
  assume "addressable (DoGet i) \<and> int (length ps) < 2 ^ 63 - 2"
  then show "int (length (accepted_events (TrimSpace i) ps)) < 2 ^ 63 - 2"
    using accepted_events_length [of "TrimSpace i" ps] by simp
qed (use events_server_answers in blast)

text \<open>
  C22: the \<open>events\<close> command prints the history of its run: over any number of connections, with
  any interruptions between frames (clean ends of the stream and read errors alike) and whatever
  is published meanwhile, its output is the accepted events of the run from its cursor on, each
  exactly once and in order, up to some point. Every frame is to fit the client's buffer, and no
  connection breaks inside a frame.
\<close>

theorem client_follows_history:
  assumes "addressable (DoGet i)" and "int (length ps) < 2 ^ 63 - 2" and "0 \<le> c" and "in_int64 c"
    and "console_ok C fw_out"
    and "\<forall>f \<in> set (history_frames (accepted_events (TrimSpace i) ps)). line_of enc (co_DecodeFrame C) f"
  shows "\<exists>m. fw_out (snd (events_loop n N C ctx
      (events_server W h enc l ps sched (TrimRight (TrimSpace b) {slash})) b jsonMode i c w)) =
    fw_out w @ concat (map (shown jsonMode enc)
      (take m (drop (nat c) (history_frames (accepted_events (TrimSpace i) ps)))))"
proof -
  have "TrimSpace i \<noteq> []" using assms(1) by (simp add: addressable_def)
  with assms(6) have "\<forall>f \<in> set (history_frames (accepted_events (TrimSpace i) ps)).
      line_of enc (co_DecodeFrame C) f \<and> frame_valid f"
    using history_frames_valid by blast
  with assms show ?thesis by (intro handler_feed.follows) auto
qed

text \<open>One frame, followed over two connections.\<close>

definition plain_console :: "feed_world console" where
  "plain_console =
     \<lparr>co_Write = \<lambda>s w. (None, w\<lparr>fw_out := fw_out w @ s\<rparr>), co_ctxErr = \<lambda>w. (None, w),
      co_doneFirst = \<lambda>w. (False, w),
      co_DecodeFrame = \<lambda>t. Inr \<lparr>se_ID = 1, se_Event = cloneEvent cancelled_event\<rparr>,
      co_isPrint = \<lambda>r. False\<rparr>"

lemma plain_console_ok: "console_ok plain_console fw_out"
  by (simp add: console_ok_def plain_console_def)

theorem client_follows_history_witness:
  "\<exists>m. fw_out (snd (events_loop 2 (\<lparr>nt_DefaultDo = \<lambda>hc w. (Inl (Sentinel IoEOF), w), nt_NewRequest = \<lambda>v u. None,
        nt_ParseURL = \<lambda>u. Inr ([], []), nt_Encode = \<lambda>q. Inr [], nt_DecodeState = \<lambda>t. Inl (Sentinel IoEOF),
        nt_DecodeError = \<lambda>t. Inl (Sentinel IoEOF)\<rparr>) plain_console None
      (events_server plain_wire open_handlers (\<lambda>f. ''{}'') 32 [(Some None, cancelled_event)]
        (\<lambda>k. (stream_state, k, [1], 5, (None, 0))) (TrimRight (TrimSpace ''http://host/'') {slash}))
      ''http://host/'' True ''run-000001'' 0 \<lparr>fw_conn = 0, fw_out = []\<rparr>)) =
    fw_out \<lparr>fw_conn = 0, fw_out = []\<rparr> @ concat (map (shown True (\<lambda>f. ''{}'')) (take m (drop (nat 0) (history_frames
      (accepted_events (TrimSpace ''run-000001'') [(Some None, cancelled_event)])))))"
proof -
  have "\<forall>f \<in> set (history_frames (accepted_events (TrimSpace ''run-000001'') [(Some None, cancelled_event)])).
      line_of (\<lambda>f. ''{}'') (co_DecodeFrame plain_console) f"
    using cancelled_event_fields
    by (simp add: cancel_run_id ctx_guard_def history_frames_def line_of_def plain_console_def maxFrameBytes_def)
  then show ?thesis
    by (rule client_follows_history [OF plain_addressable(2) _ _ _ plain_console_ok, rotated -1])
      (simp_all add: in_int64_def)
qed

end
