(* ===== verification/Client_Chat.thy ===== *)
theory Client_Chat
  imports Client_Stream
begin

text \<open>
  The interactive chat of the client: \<open>client/internal/chat/*.go\<close>, the renderer, the state that the
  commands and the event stream share, the resolution prompt and the read-eval-print loop.
  Every method of the renderer and of the state holds its mutex throughout, so it is one step
  on a \<open>session\<close>, the record of everything the chat keeps.
\<close>

section \<open>The session\<close>

record Renderer =
  rn_prompt :: string
  rn_promptShown :: bool

record chat_State =
  cs_activeRunID :: string
  cs_cursor :: int

record 'w session =
  ss_renderer :: Renderer
  ss_state :: chat_State
  ss_stream :: "string option"
  ss_world :: 'w

definition NewState :: chat_State where
  "NewState = \<lparr>cs_activeRunID = [], cs_cursor = 0\<rparr>"

definition SetActiveRun :: "string \<Rightarrow> chat_State \<Rightarrow> chat_State" where
  "SetActiveRun runID s = s\<lparr>cs_activeRunID := runID, cs_cursor := 0\<rparr>"

definition ActiveRun :: "chat_State \<Rightarrow> (string \<times> int) option" where
  "ActiveRun s = (if cs_activeRunID s = [] then None else Some (cs_activeRunID s, cs_cursor s))"

definition AdvanceCursor :: "string \<Rightarrow> int \<Rightarrow> chat_State \<Rightarrow> bool \<times> chat_State" where
  "AdvanceCursor runID cursor s =
     (if cs_activeRunID s = [] \<or> cs_activeRunID s \<noteq> runID then (False, s)
      else if cursor \<le> cs_cursor s then (False, s)
      else (True, s\<lparr>cs_cursor := cursor\<rparr>))"

section \<open>The renderer\<close>

definition clearLineControl :: string where "clearLineControl = [CHR 0x0D, CHR 0x1B] @ ''[2K''"
definition defaultPrompt :: string where "defaultPrompt = ''chat> ''"

definition NewRenderer :: "string \<Rightarrow> Renderer" where
  "NewRenderer prompt =
     \<lparr>rn_prompt = (if TrimSpace prompt = [] then defaultPrompt else prompt), rn_promptShown = False\<rparr>"

text \<open>Writes one after the other, up to the first that fails.\<close>

primrec write_seq :: "(string \<Rightarrow> 's \<Rightarrow> gerr option \<times> 's) \<Rightarrow> string list \<Rightarrow> 's \<Rightarrow> gerr option \<times> 's" where
  "write_seq wr [] s = (None, s)"
| "write_seq wr (x # xs) s =
     (case wr x s of (Some err, s) \<Rightarrow> (Some err, s) | (None, s) \<Rightarrow> write_seq wr xs s)"

definition write_out :: "'w console \<Rightarrow> string \<Rightarrow> 'w session \<Rightarrow> gerr option \<times> 'w session" where
  "write_out C x s = (case co_Write C x (ss_world s) of (e, w) \<Rightarrow> (e, s\<lparr>ss_world := w\<rparr>))"

definition ShowPrompt :: "'w console \<Rightarrow> 'w session \<Rightarrow> gerr option \<times> 'w session" where
  "ShowPrompt C s =
     (case write_out C (rn_prompt (ss_renderer s)) s of
        (Some err, s) \<Rightarrow> (Some err, s)
      | (None, s) \<Rightarrow> (None, s\<lparr>ss_renderer := (ss_renderer s)\<lparr>rn_promptShown := True\<rparr>\<rparr>))"

definition HidePrompt :: "'w session \<Rightarrow> 'w session" where
  "HidePrompt s = s\<lparr>ss_renderer := (ss_renderer s)\<lparr>rn_promptShown := False\<rparr>\<rparr>"

definition PrintLine :: "'w console \<Rightarrow> string \<Rightarrow> 'w session \<Rightarrow> gerr option \<times> 'w session" where
  "PrintLine C line s =
     (let trimmed = TrimRight line {newline};
          text = (if trimmed \<noteq> [] then [trimmed] else []) @ [[newline]]
      in if rn_promptShown (ss_renderer s)
         then write_seq (write_out C) (clearLineControl # text @ [rn_prompt (ss_renderer s)]) s
         else write_seq (write_out C) text s)"

section \<open>The input\<close>

text \<open>
  What is left to read: complete lines without their newline, the bytes behind the last newline
  and the error that ends the input.
\<close>

record input =
  in_lines :: "string list"
  in_rest :: string
  in_err :: gerr

definition ReadString :: "input \<Rightarrow> (string \<times> gerr option) \<times> input" where
  "ReadString i =
     (case in_lines i of
        l # ls \<Rightarrow> ((l @ [newline], None), i\<lparr>in_lines := ls\<rparr>)
      | [] \<Rightarrow> ((in_rest i, Some (in_err i)), i\<lparr>in_rest := []\<rparr>))"

lemma ReadString_line:
  "ReadString i = ((line, None), i') \<Longrightarrow> length (in_lines i') < length (in_lines i)"
  "ReadString i = ((line, e), i') \<Longrightarrow> length (in_lines i') \<le> length (in_lines i)"
  by (auto simp: ReadString_def split: list.splits)

section \<open>The resolution prompt\<close>

definition allowedRequirementKinds :: "string list" where
  "allowedRequirementKinds = [''approval'', ''user_input'', ''external_execution'']"

definition allowedOutcomes :: "string list" where
  "allowedOutcomes = [''approved'', ''rejected'', ''provided'', ''completed'']"

record ResolutionInput =
  rz_RequirementID :: string
  rz_Kind :: string
  rz_Outcome :: string
  rz_Value :: string

definition Defaults :: "ResolutionPromptDefaults option \<Rightarrow> ResolutionPromptDefaults" where
  "Defaults e =
     (case e of None \<Rightarrow> \<lparr>pd_RequirementID = [], pd_Kind = [], pd_Prompt = []\<rparr> | Some d \<Rightarrow> d)"

definition ResolutionRequired_Error :: "ResolutionPromptDefaults option \<Rightarrow> string" where
  "ResolutionRequired_Error e =
     (case e of
        None \<Rightarrow> ''run requires resolution''
      | Some d \<Rightarrow>
          if TrimSpace (pd_Prompt d) \<noteq> [] then ''run requires resolution: '' @ TrimSpace (pd_Prompt d)
          else ''run requires resolution'')"

definition client_text :: "'w console \<Rightarrow> client_err \<Rightarrow> string" where
  "client_text C e =
     (case e of
        Err g \<Rightarrow> error_text (co_isPrint C) g
      | RequestErr q \<Rightarrow> RequestError_Error (Some q)
      | ResolutionRequired d \<Rightarrow> ResolutionRequired_Error (Some d))"

definition comma_separated :: "string list \<Rightarrow> string" where
  "comma_separated xs = (case xs of [] \<Rightarrow> [] | y # ys \<Rightarrow> y @ concat (map (\<lambda>z. '', '' @ z) ys))"

definition ValidateRequirementKind :: "string \<Rightarrow> gerr option" where
  "ValidateRequirementKind kind =
     (let normalized = TrimSpace kind in
      if normalized \<in> set allowedRequirementKinds then None
      else Some (Errorf [Lit ''unsupported requirement kind '', Quo normalized, Lit '' (allowed: '',
        Lit (comma_separated allowedRequirementKinds), Lit '')'']))"

definition ValidateResolutionOutcome :: "string \<Rightarrow> gerr option" where
  "ValidateResolutionOutcome outcome =
     (let normalized = TrimSpace outcome in
      if normalized \<in> set allowedOutcomes then None
      else Some (Errorf [Lit ''unsupported resolution outcome '', Quo normalized, Lit '' (allowed: '',
        Lit (comma_separated allowedOutcomes), Lit '')'']))"

definition poll_ctx :: "'w console \<Rightarrow> 'w session \<Rightarrow> gerr option \<times> 'w session" where
  "poll_ctx C s = (case co_ctxErr C (ss_world s) of (e, w) \<Rightarrow> (e, s\<lparr>ss_world := w\<rparr>))"

text \<open>
  One round of the prompt: the label and the prompt are shown and a line is read; the result
  is the line with the error that came with it, or the error that ends the prompt.
\<close>

definition ask_line ::
  "'w console \<Rightarrow> string \<Rightarrow> string \<Rightarrow> input \<Rightarrow> 'w session \<Rightarrow> (gerr + string \<times> gerr option) \<times> input \<times> 'w session" where
  "ask_line C label defaultValue i s =
     (case poll_ctx C s of
        (Some ctxErr, s) \<Rightarrow> (Inl ctxErr, i, s)
      | (None, s) \<Rightarrow>
     (case PrintLine C (label @ (if TrimSpace defaultValue \<noteq> [] then '' ['' @ TrimSpace defaultValue @ '']'' else []) @
          '':'') s of
        (Some err, s) \<Rightarrow> (Inl err, i, s)
      | (None, s) \<Rightarrow>
     (case ShowPrompt C s of
        (Some err, s) \<Rightarrow> (Inl err, i, s)
      | (None, s) \<Rightarrow>
     (case ReadString i of
        ((line, err), i) \<Rightarrow>
          (let s = HidePrompt s in
           case err of
             Some e \<Rightarrow> if \<not> errors_Is e IoEOF then (Inl e, i, s) else (Inr (line, err), i, s)
           | None \<Rightarrow> (Inr (line, err), i, s))))))"

text \<open>What a line answers, given the default, and what is wrong with the answer.\<close>

definition field_value :: "string \<Rightarrow> string \<Rightarrow> string" where
  "field_value defaultValue line =
     (let value = TrimSpace line in if value = [] then TrimSpace defaultValue else value)"

datatype field_check = FieldOK | FieldMissing | FieldInvalid gerr

definition check_field :: "bool \<Rightarrow> (string \<Rightarrow> gerr option) option \<Rightarrow> string \<Rightarrow> field_check" where
  "check_field required validate value =
     (if required \<and> value = [] then FieldMissing
      else case validate of
        None \<Rightarrow> FieldOK
      | Some v \<Rightarrow>
          if value = [] then FieldOK
          else case v value of None \<Rightarrow> FieldOK | Some e \<Rightarrow> FieldInvalid e)"

lemma ask_line_input:
  assumes "ask_line C label d i s = (r, i', s')"
  shows "length (in_lines i') \<le> length (in_lines i)"
    and "r = Inr (line, None) \<Longrightarrow> length (in_lines i') < length (in_lines i)"
  using assms by (auto simp: ask_line_def Let_def dest: ReadString_line split: prod.splits option.splits if_splits)

lemma ask_line_eof:
  assumes "ask_line C label d i s = (Inr (line, Some e), i', s')"
  shows "errors_Is e IoEOF"
  using assms by (auto simp: ask_line_def Let_def split: prod.splits option.splits if_splits)

function promptField ::
  "'w console \<Rightarrow> string \<Rightarrow> string \<Rightarrow> bool \<Rightarrow> (string \<Rightarrow> gerr option) option \<Rightarrow> input \<Rightarrow> 'w session \<Rightarrow>
     (gerr + string) \<times> input \<times> 'w session" where
  "promptField C label defaultValue required validate i s =
     (case ask_line C label defaultValue i s of
        (Inl err, i, s) \<Rightarrow> (Inl err, i, s)
      | (Inr (line, err), i', s) \<Rightarrow>
          (let value = field_value defaultValue line in
           case check_field required validate value of
             FieldOK \<Rightarrow> (Inr value, i', s)
           | FieldMissing \<Rightarrow>
               (case PrintLine C ''field is required'' s of
                  (Some writeErr, s) \<Rightarrow> (Inl writeErr, i', s)
                | (None, s) \<Rightarrow>
                    (case err of
                       Some e \<Rightarrow>
                         (Inl (Errorf [Lit ''resolution prompt ended before required field was provided'']), i', s)
                     | None \<Rightarrow> promptField C label defaultValue required validate i' s))
           | FieldInvalid validateErr \<Rightarrow>
               (case PrintLine C (error_text (co_isPrint C) validateErr) s of
                  (Some writeErr, s) \<Rightarrow> (Inl writeErr, i', s)
                | (None, s) \<Rightarrow>
                    (case err of
                       Some e \<Rightarrow> (Inl validateErr, i', s)
                     | None \<Rightarrow> promptField C label defaultValue required validate i' s))))"
  by pat_completeness auto
termination
  by (relation "measure (\<lambda>(C, label, d, required, validate, i, s). length (in_lines i))")
    (auto dest!: ask_line_input(2) [OF sym])

declare promptField.simps [simp del]

definition prompt_fields ::
  "'w console \<Rightarrow> ResolutionPromptDefaults \<Rightarrow> input \<Rightarrow> 'w session \<Rightarrow>
     (gerr + ResolutionInput) \<times> input \<times> 'w session" where
  "prompt_fields C defaults i s =
     (case promptField C ''requirement_id'' (pd_RequirementID defaults) True None i s of
        (Inl err, i, s) \<Rightarrow> (Inl err, i, s)
      | (Inr requirementID, i, s) \<Rightarrow>
     (case promptField C ''kind (approval|user_input|external_execution)'' (pd_Kind defaults) True
          (Some ValidateRequirementKind) i s of
        (Inl err, i, s) \<Rightarrow> (Inl err, i, s)
      | (Inr kind, i, s) \<Rightarrow>
     (case promptField C ''outcome (approved|rejected|provided|completed)'' [] True
          (Some ValidateResolutionOutcome) i s of
        (Inl err, i, s) \<Rightarrow> (Inl err, i, s)
      | (Inr outcome, i, s) \<Rightarrow>
     (case promptField C ''value (optional)'' [] False None i s of
        (Inl err, i, s) \<Rightarrow> (Inl err, i, s)
      | (Inr v, i, s) \<Rightarrow>
          (Inr \<lparr>rz_RequirementID = requirementID, rz_Kind = kind, rz_Outcome = outcome,
             rz_Value = v\<rparr>, i, s)))))"

text \<open>\<open>has_in\<close> and \<open>has_renderer\<close>: the arguments are not nil.\<close>

definition PromptResolution ::
  "'w console \<Rightarrow> bool \<Rightarrow> bool \<Rightarrow> ResolutionPromptDefaults \<Rightarrow> input \<Rightarrow> 'w session \<Rightarrow>
     (gerr + ResolutionInput) \<times> input \<times> 'w session" where
  "PromptResolution C has_in has_renderer defaults i s =
     (if \<not> has_in then (Inl (Errorf [Lit ''resolution prompt: input reader is required'']), i, s)
      else if \<not> has_renderer then (Inl (Errorf [Lit ''resolution prompt: renderer is required'']), i, s)
      else case write_seq (PrintLine C)
          (''run is suspended and requires a resolution payload'' #
           (if TrimSpace (pd_Prompt defaults) \<noteq> []
            then [''requirement prompt: '' @ TrimSpace (pd_Prompt defaults)] else [])) s of
        (Some err, s) \<Rightarrow> (Inl err, i, s)
      | (None, s) \<Rightarrow> prompt_fields C defaults i s)"

lemma promptField_input:
  "length (in_lines (fst (snd (promptField C label d required validate i s)))) \<le> length (in_lines i)"
proof (induction C label d required validate i s rule: promptField.induct)
  case (1 C label d required validate i s)
  obtain r i1 s1 where a: "ask_line C label d i s = (r, i1, s1)" by (metis prod_cases3)
  note len = ask_line_input(1) [OF a]
  show ?case
  proof (cases r)
    case (Inl err)
    with a len show ?thesis by (simp add: promptField.simps [of C label d])
  next
    case (Inr x)
    obtain line err where x: "x = (line, err)" by (cases x)
    let ?c = "check_field required validate (field_value d line)"
    obtain e2 s2 where p2: "PrintLine C ''field is required'' s1 = (e2, s2)" by (metis surj_pair)
    show ?thesis
    proof (cases ?c)
      case FieldOK
      with a Inr x len show ?thesis by (simp add: promptField.simps [of C label d] Let_def)
    next
      case FieldMissing
      with 1(1) [OF a [symmetric] Inr x [symmetric] refl refl FieldMissing p2 [symmetric]] a Inr x len p2 show ?thesis
        by (auto simp: promptField.simps [of C label d] Let_def split: option.split)
    next
      case (FieldInvalid v)
      obtain e3 s3 where p3: "PrintLine C (error_text (co_isPrint C) v) s1 = (e3, s3)" by (metis surj_pair)
      with 1(2) [OF a [symmetric] Inr x [symmetric] refl refl FieldInvalid p3 [symmetric]] a Inr x len FieldInvalid show ?thesis
        by (auto simp: promptField.simps [of C label d] Let_def split: option.split)
    qed
  qed
qed

lemma input_bound_case:
  assumes "length (in_lines (fst (snd p))) \<le> n"
    and "\<And>v i s. length (in_lines i) \<le> n \<Longrightarrow> length (in_lines (fst (snd (f v i s)))) \<le> n"
  shows "length (in_lines (fst (snd (case p of (Inl e, i, s) \<Rightarrow> (Inl e, i, s) | (Inr v, i, s) \<Rightarrow> f v i s)))) \<le> n"
  using assms by (cases p) (simp split: sum.split)

lemma PromptResolution_input:
  "length (in_lines (fst (snd (PromptResolution C hi hr d i s)))) \<le> length (in_lines i)"
proof -
  have step: "length (in_lines j) \<le> n \<Longrightarrow> length (in_lines (fst (snd (promptField C label v r f j t)))) \<le> n"
    for label v r f j t n using promptField_input [of C label v r f j t] by simp
  have "length (in_lines (fst (snd (prompt_fields C d i t)))) \<le> length (in_lines i)" for t
    unfolding prompt_fields_def by (intro input_bound_case step order_refl) simp_all
  then show ?thesis
    unfolding PromptResolution_def by (simp only: split: prod.split option.split if_split) simp
qed

section \<open>The loop\<close>

type_synonym 'w action = "'w session \<Rightarrow> client_err option \<times> 'w session"

record 'w Handlers =
  hd_Start :: "(string \<Rightarrow> 'w action) option"
  hd_Status :: "'w action option"
  hd_Continue :: "(int option \<Rightarrow> ResolutionInput option \<Rightarrow> 'w action) option"
  hd_Steer :: "(string \<Rightarrow> 'w action) option"
  hd_FollowUp :: "(string \<Rightarrow> 'w action) option"
  hd_Cancel :: "'w action option"

definition fails :: "string \<Rightarrow> client_err option" where
  "fails msg = Some (Err (Errorf [Lit msg]))"

definition parseContinueArgs :: "string \<Rightarrow> gerr + int option" where
  "parseContinueArgs args =
     (let trimmed = TrimSpace args in
      if trimmed = [] then Inr None
      else case Fields trimmed of
        [f] \<Rightarrow>
          (case ParseInt64 f of
             None \<Rightarrow> Inl (Errorf [Lit ''/continue expects an integer max-steps or --max-steps <n>''])
           | Some v \<Rightarrow> if v \<le> 0 then Inl (Errorf [Lit ''/continue max-steps must be > 0'']) else Inr (Some v))
      | [f, g] \<Rightarrow>
          if f = ''--max-steps'' then
            (case ParseInt64 g of
               None \<Rightarrow> Inl (Errorf [Lit ''/continue --max-steps expects an integer''])
             | Some v \<Rightarrow> if v \<le> 0 then Inl (Errorf [Lit ''/continue max-steps must be > 0'']) else Inr (Some v))
          else Inl (Errorf [Lit ''/continue accepts no args, <max-steps>, or --max-steps <n>''])
      | _ \<Rightarrow> Inl (Errorf [Lit ''/continue accepts no args, <max-steps>, or --max-steps <n>'']))"

definition repl_followUp :: "'w Handlers \<Rightarrow> string \<Rightarrow> 'w action" where
  "repl_followUp H prompt s =
     (case hd_FollowUp H of
        None \<Rightarrow> (fails ''follow-up command is not configured'', s)
      | Some f \<Rightarrow> f prompt s)"

text \<open>The continue command, with its prompt when the run needs a resolution.\<close>

definition repl_continue ::
  "'w console \<Rightarrow> 'w Handlers \<Rightarrow> string \<Rightarrow> input \<Rightarrow> 'w session \<Rightarrow> client_err option \<times> input \<times> 'w session" where
  "repl_continue C H args i s =
     (case hd_Continue H of
        None \<Rightarrow> (fails ''continue command is not configured'', i, s)
      | Some continue \<Rightarrow>
     (case parseContinueArgs args of
        Inl err \<Rightarrow> (Some (Err err), i, s)
      | Inr maxSteps \<Rightarrow>
     (case continue maxSteps None s of
        (None, s) \<Rightarrow> (None, i, s)
      | (Some (ResolutionRequired d), s) \<Rightarrow>
          (case PromptResolution C True True d i s of
             (Inl err, i, s) \<Rightarrow> (Some (Err err), i, s)
           | (Inr resolution, i, s) \<Rightarrow>
               (case continue maxSteps (Some resolution) s of (e, s) \<Rightarrow> (e, i, s)))
      | (Some continueErr, s) \<Rightarrow> (Some continueErr, i, s))))"

definition run_action :: "string \<Rightarrow> 'w action option \<Rightarrow> input \<Rightarrow> 'w session \<Rightarrow> client_err option \<times> input \<times> 'w session" where
  "run_action missing action i s =
     (case action of
        None \<Rightarrow> (fails missing, i, s)
      | Some a \<Rightarrow> (case a s of (e, s) \<Rightarrow> (e, i, s)))"

definition repl_dispatch ::
  "'w console \<Rightarrow> 'w Handlers \<Rightarrow> string \<Rightarrow> input \<Rightarrow> 'w session \<Rightarrow> client_err option \<times> input \<times> 'w session" where
  "repl_dispatch C H line i s =
     (if \<not> HasPrefix line ''/'' then (case repl_followUp H line s of (e, s) \<Rightarrow> (e, i, s))
      else
     (let (commandWithPrefix, rest) = cut_at (CHR '' '') line;
          args = (case rest of None \<Rightarrow> [] | Some a \<Rightarrow> TrimSpace a);
          cmd = tl commandWithPrefix
      in if cmd = ''start'' then
           if args = [] then (fails ''/start requires prompt text'', i, s)
           else run_action ''start command is not configured'' (map_option (\<lambda>f. f args) (hd_Start H)) i s
         else if cmd = ''status'' then run_action ''status command is not configured'' (hd_Status H) i s
         else if cmd = ''continue'' then repl_continue C H args i s
         else if cmd = ''steer'' then
           if args = [] then (fails ''/steer requires instruction text'', i, s)
           else run_action ''steer command is not configured'' (map_option (\<lambda>f. f args) (hd_Steer H)) i s
         else if cmd = ''followup'' then
           if args = [] then (fails ''/followup requires prompt text'', i, s)
           else (case repl_followUp H args s of (e, s) \<Rightarrow> (e, i, s))
         else if cmd = ''cancel'' then run_action ''cancel command is not configured'' (hd_Cancel H) i s
         else if cmd = ''quit'' then (Some (Err (Sentinel ErrQuit)), i, s)
         else (Some (Err (Errorf [Lit ''unsupported command '', Quo commandWithPrefix])), i, s)))"

lemma run_action_input [simp]: "fst (snd (run_action missing action i s)) = i"
  by (simp add: run_action_def split: option.split prod.split)

lemma repl_dispatch_input:
  "length (in_lines (fst (snd (repl_dispatch C H line i s)))) \<le> length (in_lines i)"
proof -
  have prompt: "PromptResolution C a b d j t = (x, j', t') \<Longrightarrow> length (in_lines j') \<le> length (in_lines j)"
    for a b d j t x j' t' using PromptResolution_input [of C a b d j t] by simp
  have "length (in_lines (fst (snd (repl_continue C H args i s)))) \<le> length (in_lines i)" for args
    unfolding repl_continue_def
    by (auto split: prod.splits option.splits sum.splits client_err.splits dest!: prompt)
  then show ?thesis by (simp add: repl_dispatch_def Let_def split_beta)
qed

text \<open>
  One round of the loop: \<open>Some r\<close> when the loop returns \<open>r\<close>. The end of the input ends the loop
  after the last line has been handled.
\<close>

definition repl_step ::
  "'w console \<Rightarrow> 'w Handlers \<Rightarrow> input \<Rightarrow> 'w session \<Rightarrow> gerr option option \<times> input \<times> 'w session" where
  "repl_step C H i s =
     (case poll_ctx C s of
        (Some ctxErr, s) \<Rightarrow> (Some None, i, s)
      | (None, s) \<Rightarrow>
     (case ShowPrompt C s of
        (Some err, s) \<Rightarrow> (Some (Some err), i, s)
      | (None, s) \<Rightarrow>
     (case ReadString i of
        ((line, err), i) \<Rightarrow>
     (let s = HidePrompt s; trimmed = TrimSpace line; done = (if is_err err IoEOF then Some None else None) in
      if err \<noteq> None \<and> \<not> is_err err IoEOF then (Some err, i, s)
      else if trimmed = [] then (done, i, s)
      else case repl_dispatch C H trimmed i s of
        (None, i, s) \<Rightarrow> (done, i, s)
      | (Some e, i, s) \<Rightarrow>
          if client_Is e ErrQuit then (Some None, i, s)
          else case PrintLine C (''error: '' @ client_text C e) s of
            (Some writeErr, s) \<Rightarrow> (Some (Some writeErr), i, s)
          | (None, s) \<Rightarrow> (done, i, s)))))"

lemma repl_step_input:
  assumes "repl_step C H i s = (None, i', s')"
  shows "length (in_lines i') < length (in_lines i)"
proof -
  have disp: "repl_dispatch C H l j t = (x, j', t') \<Longrightarrow> length (in_lines j') \<le> length (in_lines j)"
    for l j t x j' t' using repl_dispatch_input [of C H l j t] by simp
  obtain line err i1 where rd: "ReadString i = ((line, err), i1)" by (metis surj_pair)
  with assms have "err = None"
    by (cases err) (auto simp: repl_step_def Let_def split: prod.splits option.splits if_splits)
  with rd have "length (in_lines i1) < length (in_lines i)" by (simp add: ReadString_line)
  then show ?thesis
    using assms rd
    by (auto simp: repl_step_def Let_def split: prod.splits option.splits if_splits dest!: disp)
qed

function repl_Run :: "'w console \<Rightarrow> 'w Handlers \<Rightarrow> input \<Rightarrow> 'w session \<Rightarrow> gerr option \<times> input \<times> 'w session" where
  "repl_Run C H i s =
     (case repl_step C H i s of
        (Some r, i, s) \<Rightarrow> (r, i, s)
      | (None, i, s) \<Rightarrow> repl_Run C H i s)"
  by pat_completeness auto
termination
  by (relation "measure (\<lambda>(C, H, i, s). length (in_lines i))") (auto dest: repl_step_input [OF sym])

declare repl_Run.simps [simp del]

end
