(* ===== verification/Client_Cmd.thy ===== *)
theory Client_Cmd
  imports Client_Chat
begin

text \<open>
  The commands of the client: \<open>client/internal/config/config.go\<close>, \<open>cmd/root.go\<close> and the chat's
  controller, \<open>cmd/cmd_chat.go\<close>. The environment, the flag parsers and the HTTP clients that
  \<open>&http.Client{Timeout: t}\<close> makes are parameters (\<open>cli\<close>); what package \<open>flag\<close> prints about the
  flags of a subcommand is left out.
\<close>

section \<open>Configuration\<close>

record client_Config =
  kc_BaseURL :: string
  kc_AuthToken :: string
  kc_JSON :: bool
  kc_Timeout :: int

record 'w cli =
  k_net :: "'w net"
  k_console :: "'w console"
  k_parsers :: number_parsers
  k_Getenv :: "string \<Rightarrow> string"
  k_http :: "int \<Rightarrow> 'w http_do"
  k_stderr :: "string \<Rightarrow> 'w \<Rightarrow> 'w"

definition envBaseURL :: string where "envBaseURL = ''CODING_AGENT_BASE_URL''"
definition envAuthToken :: string where "envAuthToken = ''CODING_AGENT_AUTH_TOKEN''"
definition envJSON :: string where "envJSON = ''CODING_AGENT_CLIENT_JSON''"
definition envTimeout :: string where "envTimeout = ''CODING_AGENT_CLIENT_TIMEOUT''"

definition client_Default :: client_Config where
  "client_Default = \<lparr>kc_BaseURL = ''http://127.0.0.1:8080'', kc_AuthToken = ''coding-agent-dev-token'',
     kc_JSON = False, kc_Timeout = 15 * 1000000000\<rparr>"

definition client_Validate :: "'w net \<Rightarrow> client_Config \<Rightarrow> gerr option" where
  "client_Validate N c =
     (let trimmedBaseURL = TrimSpace (kc_BaseURL c) in
      if trimmedBaseURL = [] then
        Some (Errorf [Lit ''validate client config: '', Lit envBaseURL, Lit '' is required''])
      else case nt_ParseURL N trimmedBaseURL of
        Inl err \<Rightarrow> Some (Errorf [Lit ''validate client config: parse '', Lit envBaseURL, Lit '': '', Wrap err])
      | Inr (scheme, host) \<Rightarrow>
          if scheme = [] \<or> host = [] then
            Some (Errorf [Lit ''validate client config: '', Lit envBaseURL, Lit '' must include scheme and host''])
          else if kc_Timeout c \<le> 0 then
            Some (Errorf [Lit ''validate client config: '', Lit envTimeout, Lit '' must be > 0''])
          else None)"

text \<open>The steps of \<open>Load\<close> that parse: the JSON switch and the timeout.\<close>

definition load_json :: "'w cli \<Rightarrow> client_Config \<Rightarrow> gerr + client_Config" where
  "load_json K cfg =
     (let raw = TrimSpace (k_Getenv K envJSON) in
      if raw = [] then Inr cfg
      else case ParseBool raw of
        None \<Rightarrow> Inl (Errorf [Lit ''parse '', Lit envJSON, Lit '': '',
          Wrap (Errorf [Lit ''strconv.ParseBool: parsing '', Quo raw, Lit '': invalid syntax''])])
      | Some parsed \<Rightarrow> Inr (cfg\<lparr>kc_JSON := parsed\<rparr>))"

definition load_timeout :: "'w cli \<Rightarrow> client_Config \<Rightarrow> gerr + client_Config" where
  "load_timeout K cfg =
     (let raw = TrimSpace (k_Getenv K envTimeout) in
      if raw = [] then Inr cfg
      else case np_ParseDuration (k_parsers K) raw of
        Inl err \<Rightarrow> Inl (Errorf [Lit ''parse '', Lit envTimeout, Lit '': '', Wrap err])
      | Inr parsed \<Rightarrow> Inr (cfg\<lparr>kc_Timeout := parsed\<rparr>))"

definition client_Load :: "'w cli \<Rightarrow> gerr + client_Config" where
  "client_Load K =
     (let cfg = client_Default;
          baseURL = TrimSpace (k_Getenv K envBaseURL);
          cfg = (if baseURL \<noteq> [] then cfg\<lparr>kc_BaseURL := baseURL\<rparr> else cfg);
          token = TrimSpace (k_Getenv K envAuthToken);
          cfg = (if token \<noteq> [] then cfg\<lparr>kc_AuthToken := token\<rparr> else cfg)
      in case load_json K cfg of
           Inl err \<Rightarrow> Inl err
         | Inr cfg \<Rightarrow>
             (case load_timeout K cfg of
                Inl err \<Rightarrow> Inl err
              | Inr cfg \<Rightarrow> (case client_Validate (k_net K) cfg of Some err \<Rightarrow> Inl err | None \<Rightarrow> Inr cfg)))"

section \<open>Output of a command\<close>

definition pending_lines :: "api_PendingRequirement \<Rightarrow> string list" where
  "pending_lines q =
     [''pending_requirement.id: '' @ ap_ID q @ [newline],
      ''pending_requirement.kind: '' @ ap_Kind q @ [newline],
      ''pending_requirement.origin: '' @ ap_Origin q @ [newline]] @
     (if ap_ToolCallID q \<noteq> [] then [''pending_requirement.tool_call_id: '' @ ap_ToolCallID q @ [newline]] else []) @
     (if ap_Fingerprint q \<noteq> [] then [''pending_requirement.fingerprint: '' @ ap_Fingerprint q @ [newline]] else []) @
     (if ap_ToolCallID q \<noteq> [] \<and> ap_Fingerprint q \<noteq> []
      then [''pending_requirement.replay_binding: tool_call_id='' @ ap_ToolCallID q @ '' fingerprint='' @
        ap_Fingerprint q @ [newline]] else []) @
     (if ap_Prompt q \<noteq> [] then [''pending_requirement.prompt: '' @ ap_Prompt q @ [newline]] else [])"

definition run_state_lines :: "api_RunState \<Rightarrow> string list" where
  "run_state_lines state =
     [''run_id: '' @ as_RunID state @ [newline], ''status: '' @ as_Status state @ [newline],
      ''step: '' @ int_text (as_Step state) @ [newline],
      ''version: '' @ int_text (as_Version state) @ [newline]] @
     (if as_Output state \<noteq> [] then [''output: '' @ as_Output state @ [newline]] else []) @
     (if as_Error state \<noteq> [] then [''error: '' @ as_Error state @ [newline]] else []) @
     (case as_PendingRequirement state of None \<Rightarrow> [] | Some q \<Rightarrow> pending_lines q)"

definition cmd_writeRunState :: "(string \<Rightarrow> 's \<Rightarrow> gerr option \<times> 's) \<Rightarrow> api_RunState \<Rightarrow> 's \<Rightarrow> gerr option \<times> 's" where
  "cmd_writeRunState wr state = write_seq wr (run_state_lines state)"

definition written :: "gerr option \<times> 's \<Rightarrow> client_err option \<times> 's" where
  "written r = (map_option Err (fst r), snd r)"

text \<open>The end of the commands that return the state of a run.\<close>

definition report :: "'w console \<Rightarrow> bool \<Rightarrow> 'w api_result \<Rightarrow> client_err option \<times> 'w" where
  "report C jsonMode res =
     (case res of
        (Inl err, w) \<Rightarrow> (Some err, w)
      | (Inr (state, raw), w) \<Rightarrow>
          written (if jsonMode then writeRaw C raw w else cmd_writeRunState (co_Write C) state w))"

section \<open>The commands\<close>

definition parseOptionalMaxSteps :: "int \<Rightarrow> gerr + int option" where
  "parseOptionalMaxSteps raw =
     (if raw < -1 then Inl (Errorf [Lit ''max-steps must be >= -1''])
      else if raw = -1 then Inr None
      else Inr (Some raw))"

definition runHealth :: "'w cli \<Rightarrow> 'w Client \<Rightarrow> ctx \<Rightarrow> bool \<Rightarrow> string list \<Rightarrow> 'w \<Rightarrow> client_err option \<times> 'w" where
  "runHealth K c ctx jsonMode args w =
     (if args \<noteq> [] then (fails ''health does not accept arguments'', w)
      else case api_Health (k_net K) c ctx w of
        (Inl err, w) \<Rightarrow> (Some err, w)
      | (Inr raw, w) \<Rightarrow>
          if jsonMode then written (writeRaw (k_console K) raw w)
          else if TrimSpace raw = [] then (None, w)
          else written (co_Write (k_console K) (TrimSpace raw @ [newline]) w))"

definition runStart :: "'w cli \<Rightarrow> 'w Client \<Rightarrow> ctx \<Rightarrow> bool \<Rightarrow> string list \<Rightarrow> 'w \<Rightarrow> client_err option \<times> 'w" where
  "runStart K c ctx jsonMode args w =
     (case flag_Parse (k_parsers K) [(''run-id'', FlagString), (''system-prompt'', FlagString),
          (''user-prompt'', FlagString), (''max-steps'', FlagInt)] [] args of
        Inl err \<Rightarrow> (Some (Err err), w)
      | Inr (fs, rest) \<Rightarrow>
          if rest \<noteq> [] then (fails ''start does not accept positional arguments'', w)
          else if TrimSpace (string_flag fs ''user-prompt'' []) = [] then (fails ''start requires --user-prompt'', w)
          else case parseOptionalMaxSteps (int_flag fs ''max-steps'' (-1)) of
            Inl err \<Rightarrow> (Some (Err err), w)
          | Inr maxSteps \<Rightarrow>
              report (k_console K) jsonMode (api_Start (k_net K) c ctx
                \<lparr>aq_RunID = TrimSpace (string_flag fs ''run-id'' []), aq_SystemPrompt = string_flag fs ''system-prompt'' [],
                 aq_UserPrompt = string_flag fs ''user-prompt'' [], aq_MaxSteps = maxSteps\<rparr> w))"

definition runGet :: "'w cli \<Rightarrow> 'w Client \<Rightarrow> ctx \<Rightarrow> bool \<Rightarrow> string list \<Rightarrow> 'w \<Rightarrow> client_err option \<times> 'w" where
  "runGet K c ctx jsonMode args w =
     (case args of
        [a] \<Rightarrow> report (k_console K) jsonMode (api_Get (k_net K) c ctx (TrimSpace a) w)
      | _ \<Rightarrow> (fails ''get requires <run-id>'', w))"

text \<open>The resolution that the flags of \<open>continue\<close> give, if any is set.\<close>

definition resolution_flags :: "flags \<Rightarrow> gerr + api_Resolution option" where
  "resolution_flags fs =
     (let requirementID = string_flag fs ''requirement-id'' []; kind = string_flag fs ''kind'' [];
          outcome = string_flag fs ''outcome'' []; v = string_flag fs ''value'' [] in
      if TrimSpace requirementID = [] \<and> TrimSpace kind = [] \<and> TrimSpace outcome = [] \<and> TrimSpace v = []
      then Inr None
      else if TrimSpace requirementID = [] \<or> TrimSpace kind = [] \<or> TrimSpace outcome = []
      then Inl (Errorf [Lit ''continue resolution requires --requirement-id, --kind, and --outcome''])
      else case ValidateRequirementKind (TrimSpace kind) of
        Some err \<Rightarrow> Inl (Errorf [Lit ''continue resolution kind: '', Wrap err])
      | None \<Rightarrow>
     (case ValidateResolutionOutcome (TrimSpace outcome) of
        Some err \<Rightarrow> Inl (Errorf [Lit ''continue resolution outcome: '', Wrap err])
      | None \<Rightarrow> Inr (Some \<lparr>az_RequirementID = TrimSpace requirementID, az_Kind = TrimSpace kind,
          az_Outcome = TrimSpace outcome, az_Value = v\<rparr>)))"

definition runContinue :: "'w cli \<Rightarrow> 'w Client \<Rightarrow> ctx \<Rightarrow> bool \<Rightarrow> string list \<Rightarrow> 'w \<Rightarrow> client_err option \<times> 'w" where
  "runContinue K c ctx jsonMode args w =
     (case args of
        [] \<Rightarrow> (fails ''continue requires <run-id>'', w)
      | a # args \<Rightarrow>
     (case flag_Parse (k_parsers K) [(''command-id'', FlagString), (''max-steps'', FlagInt),
          (''requirement-id'', FlagString), (''kind'', FlagString), (''outcome'', FlagString),
          (''value'', FlagString)] [] args of
        Inl err \<Rightarrow> (Some (Err err), w)
      | Inr (fs, rest) \<Rightarrow>
          if rest \<noteq> [] then (fails ''continue accepts one run-id and flags only'', w)
          else case parseOptionalMaxSteps (int_flag fs ''max-steps'' (-1)) of
            Inl err \<Rightarrow> (Some (Err err), w)
          | Inr maxSteps \<Rightarrow>
         (case resolution_flags fs of
            Inl err \<Rightarrow> (Some (Err err), w)
          | Inr resolution \<Rightarrow>
              report (k_console K) jsonMode (api_Continue (k_net K) c ctx (TrimSpace a)
                \<lparr>ac_CommandID = TrimSpace (string_flag fs ''command-id'' []), ac_MaxSteps = maxSteps,
                 ac_Resolution = resolution\<rparr> w))))"

definition runSteer :: "'w cli \<Rightarrow> 'w Client \<Rightarrow> ctx \<Rightarrow> bool \<Rightarrow> string list \<Rightarrow> 'w \<Rightarrow> client_err option \<times> 'w" where
  "runSteer K c ctx jsonMode args w =
     (case args of
        [] \<Rightarrow> (fails ''steer requires <run-id>'', w)
      | a # args \<Rightarrow>
     (case flag_Parse (k_parsers K) [(''instruction'', FlagString)] [] args of
        Inl err \<Rightarrow> (Some (Err err), w)
      | Inr (fs, rest) \<Rightarrow>
          if rest \<noteq> [] then (fails ''steer accepts one run-id and flags only'', w)
          else if TrimSpace (string_flag fs ''instruction'' []) = [] then (fails ''steer requires --instruction'', w)
          else report (k_console K) jsonMode (api_Steer (k_net K) c ctx (TrimSpace a)
            \<lparr>at_Instruction = string_flag fs ''instruction'' []\<rparr> w)))"

definition runFollowUp :: "'w cli \<Rightarrow> 'w Client \<Rightarrow> ctx \<Rightarrow> bool \<Rightarrow> string list \<Rightarrow> 'w \<Rightarrow> client_err option \<times> 'w" where
  "runFollowUp K c ctx jsonMode args w =
     (case args of
        [] \<Rightarrow> (fails ''follow-up requires <run-id>'', w)
      | a # args \<Rightarrow>
     (case flag_Parse (k_parsers K) [(''prompt'', FlagString), (''max-steps'', FlagInt)] [] args of
        Inl err \<Rightarrow> (Some (Err err), w)
      | Inr (fs, rest) \<Rightarrow>
          if rest \<noteq> [] then (fails ''follow-up accepts one run-id and flags only'', w)
          else if TrimSpace (string_flag fs ''prompt'' []) = [] then (fails ''follow-up requires --prompt'', w)
          else case parseOptionalMaxSteps (int_flag fs ''max-steps'' (-1)) of
            Inl err \<Rightarrow> (Some (Err err), w)
          | Inr maxSteps \<Rightarrow>
              report (k_console K) jsonMode (api_FollowUp (k_net K) c ctx (TrimSpace a)
                \<lparr>af_Prompt = string_flag fs ''prompt'' [], af_MaxSteps = maxSteps\<rparr> w)))"

definition runCancel :: "'w cli \<Rightarrow> 'w Client \<Rightarrow> ctx \<Rightarrow> bool \<Rightarrow> string list \<Rightarrow> 'w \<Rightarrow> client_err option \<times> 'w" where
  "runCancel K c ctx jsonMode args w =
     (case args of
        [a] \<Rightarrow> report (k_console K) jsonMode (api_Cancel (k_net K) c ctx (TrimSpace a) w)
      | _ \<Rightarrow> (fails ''cancel requires <run-id>'', w))"

section \<open>The chat's controller\<close>

definition no_active_run :: "client_err option" where
  "no_active_run = fails ''no active run; use /start first''"

text \<open>\<open>lineWriter\<close>: what the commands write goes through the renderer.\<close>

definition line_write :: "'w console \<Rightarrow> string \<Rightarrow> 'w session \<Rightarrow> gerr option \<times> 'w session" where
  "line_write C p = PrintLine C (TrimRight p {newline})"

text \<open>A call of the API from the chat, and the report of the state that it returns.\<close>

definition in_session :: "('w \<Rightarrow> 'a \<times> 'w) \<Rightarrow> 'w session \<Rightarrow> 'a \<times> 'w session" where
  "in_session f s = (case f (ss_world s) of (r, w) \<Rightarrow> (r, s\<lparr>ss_world := w\<rparr>))"

definition chat_report :: "'w console \<Rightarrow> (client_err + api_RunState \<times> string) \<times> 'w session \<Rightarrow> client_err option \<times> 'w session" where
  "chat_report C res =
     (case res of
        (Inl err, s) \<Rightarrow> (Some err, s)
      | (Inr (state, raw), s) \<Rightarrow> written (cmd_writeRunState (line_write C) state s))"

text \<open>
  \<open>startStream\<close> cancels the stream before and starts one for the run; \<open>ss_stream\<close> is the run
  whose stream has not been cancelled. The loop itself is \<open>streamLoop\<close> below.
\<close>

definition startStream :: "string \<Rightarrow> 'w session \<Rightarrow> 'w session" where
  "startStream runID s = s\<lparr>ss_stream := Some runID\<rparr>"

definition stopStream :: "'w session \<Rightarrow> 'w session" where
  "stopStream s = s\<lparr>ss_stream := None\<rparr>"

definition chat_start :: "'w net \<Rightarrow> 'w console \<Rightarrow> 'w Client \<Rightarrow> ctx \<Rightarrow> string \<Rightarrow> 'w action" where
  "chat_start N C c ctx prompt s =
     (let request = \<lparr>aq_RunID = [], aq_SystemPrompt = [], aq_UserPrompt = TrimSpace prompt, aq_MaxSteps = None\<rparr> in
      if aq_UserPrompt request = [] then (fails ''/start requires prompt text'', s)
      else case in_session (api_Start N c ctx request) s of
        (Inl err, s) \<Rightarrow> (Some err, s)
      | (Inr (state, raw), s) \<Rightarrow>
          (let s = startStream (as_RunID state) (s\<lparr>ss_state := SetActiveRun (as_RunID state) (ss_state s)\<rparr>)
           in written (cmd_writeRunState (line_write C) state s)))"

definition chat_status :: "'w net \<Rightarrow> 'w console \<Rightarrow> 'w Client \<Rightarrow> ctx \<Rightarrow> 'w action" where
  "chat_status N C c ctx s =
     (case ActiveRun (ss_state s) of
        None \<Rightarrow> (no_active_run, s)
      | Some (runID, cursor) \<Rightarrow> chat_report C (in_session (api_Get N c ctx runID) s))"

text \<open>Whether a continue command without a resolution needs one, after a look at the run.\<close>

definition needs_resolution :: "api_RunState \<Rightarrow> client_err option" where
  "needs_resolution current =
     (if as_Status current = ''suspended'' then
        (case as_PendingRequirement current of
           None \<Rightarrow> fails ''run is suspended and requires a typed resolution''
         | Some q \<Rightarrow> Some (ResolutionRequired
             \<lparr>pd_RequirementID = ap_ID q, pd_Kind = ap_Kind q, pd_Prompt = ap_Prompt q\<rparr>))
      else None)"

definition chat_continue ::
  "'w net \<Rightarrow> 'w console \<Rightarrow> 'w Client \<Rightarrow> ctx \<Rightarrow> int option \<Rightarrow> ResolutionInput option \<Rightarrow> 'w action" where
  "chat_continue N C c ctx maxSteps resolution s =
     (case ActiveRun (ss_state s) of
        None \<Rightarrow> (no_active_run, s)
      | Some (runID, cursor) \<Rightarrow>
     (case (case resolution of
              Some r \<Rightarrow> (None, s)
            | None \<Rightarrow>
                (case in_session (api_Get N c ctx runID) s of
                   (Inl err, s) \<Rightarrow> (Some err, s)
                 | (Inr (current, raw), s) \<Rightarrow> (needs_resolution current, s))) of
        (Some err, s) \<Rightarrow> (Some err, s)
      | (None, s) \<Rightarrow>
          chat_report C (in_session (api_Continue N c ctx runID
            \<lparr>ac_CommandID = [], ac_MaxSteps = maxSteps,
             ac_Resolution = map_option (\<lambda>r. \<lparr>az_RequirementID = TrimSpace (rz_RequirementID r),
               az_Kind = TrimSpace (rz_Kind r), az_Outcome = TrimSpace (rz_Outcome r),
               az_Value = rz_Value r\<rparr>) resolution\<rparr>) s)))"

definition chat_steer :: "'w net \<Rightarrow> 'w console \<Rightarrow> 'w Client \<Rightarrow> ctx \<Rightarrow> string \<Rightarrow> 'w action" where
  "chat_steer N C c ctx instruction s =
     (case ActiveRun (ss_state s) of
        None \<Rightarrow> (no_active_run, s)
      | Some (runID, cursor) \<Rightarrow>
          if TrimSpace instruction = [] then (fails ''/steer requires instruction text'', s)
          else chat_report C (in_session (api_Steer N c ctx runID \<lparr>at_Instruction = instruction\<rparr>) s))"

definition chat_followUp :: "'w net \<Rightarrow> 'w console \<Rightarrow> 'w Client \<Rightarrow> ctx \<Rightarrow> string \<Rightarrow> 'w action" where
  "chat_followUp N C c ctx prompt s =
     (case ActiveRun (ss_state s) of
        None \<Rightarrow> (no_active_run, s)
      | Some (runID, cursor) \<Rightarrow>
          if TrimSpace prompt = [] then (fails ''/followup requires prompt text'', s)
          else chat_report C (in_session (api_FollowUp N c ctx runID
            \<lparr>af_Prompt = prompt, af_MaxSteps = None\<rparr>) s))"

definition chat_cancel :: "'w net \<Rightarrow> 'w console \<Rightarrow> 'w Client \<Rightarrow> ctx \<Rightarrow> 'w action" where
  "chat_cancel N C c ctx s =
     (case ActiveRun (ss_state s) of
        None \<Rightarrow> (no_active_run, s)
      | Some (runID, cursor) \<Rightarrow> chat_report C (in_session (api_Cancel N c ctx runID) s))"

section \<open>The chat's stream\<close>

definition formatStreamEvent :: "StreamEvent \<Rightarrow> string" where
  "formatStreamEvent frame = ''event '' @ human_event frame"

definition deliver_chat :: "'w console \<Rightarrow> string \<Rightarrow> StreamEvent \<Rightarrow> string \<Rightarrow> 'w session \<Rightarrow> gerr option \<times> 'w session" where
  "deliver_chat C runID frame raw s =
     PrintLine C (formatStreamEvent frame)
       (s\<lparr>ss_state := snd (AdvanceCursor runID (se_ID frame) (ss_state s))\<rparr>)"

definition stream_error :: "'w console \<Rightarrow> gerr \<Rightarrow> 'w session \<Rightarrow> 'w session" where
  "stream_error C err s = snd (PrintLine C (''stream error: '' @ error_text (co_isPrint C) err) s)"

text \<open>The result is false when the loop is still running after \<open>n\<close> connections.\<close>

primrec chat_stream ::
  "nat \<Rightarrow> 'w net \<Rightarrow> 'w console \<Rightarrow> ctx \<Rightarrow> 'w http_do \<Rightarrow> string \<Rightarrow> string \<Rightarrow> int \<Rightarrow> 'w session \<Rightarrow> bool \<times> 'w session" where
  "chat_stream 0 N C ctx client baseURL runID cursor s = (False, s)"
| "chat_stream (Suc n) N C ctx client baseURL runID cursor s =
     (case in_session (openEventsStream N ctx (Some client) baseURL runID cursor) s of
        (Inl err, s) \<Rightarrow>
          (case poll_ctx C s of (e, s) \<Rightarrow>
             (True, if is_err e ContextCanceled then s else stream_error C err s))
      | (Inr streamBody, s) \<Rightarrow>
     (case frames_loop (co_DecodeFrame C) (deliver_chat C runID) (NewReader streamBody) cursor s of
        (Reconnect, cursor, s) \<Rightarrow>
          (case in_session (co_doneFirst C) s of
             (True, s) \<Rightarrow> (True, s)
           | (False, s) \<Rightarrow> chat_stream n N C ctx client baseURL runID cursor s)
      | (ReadError err, cursor, s) \<Rightarrow> (True, stream_error C err s)
      | (NonMonotonic i c, cursor, s) \<Rightarrow>
          (True, stream_error C (Errorf [Lit ''non-monotonic id='', Num i, Lit '' cursor='', Num c]) s)
      | (DeliverError err, cursor, s) \<Rightarrow> (True, s)))"

definition streamLoop ::
  "nat \<Rightarrow> 'w net \<Rightarrow> 'w console \<Rightarrow> ctx \<Rightarrow> 'w http_do \<Rightarrow> string \<Rightarrow> string \<Rightarrow> 'w session \<Rightarrow> bool \<times> 'w session" where
  "streamLoop n N C ctx client baseURL runID s =
     chat_stream n N C ctx client baseURL runID
       (case ActiveRun (ss_state s) of
          None \<Rightarrow> 0
        | Some (activeRunID, cursor) \<Rightarrow> if activeRunID = runID then cursor else 0) s"

section \<open>The program\<close>

definition chat_handlers :: "'w net \<Rightarrow> 'w console \<Rightarrow> 'w Client \<Rightarrow> ctx \<Rightarrow> 'w Handlers" where
  "chat_handlers N C c ctx =
     \<lparr>hd_Start = Some (chat_start N C c ctx), hd_Status = Some (chat_status N C c ctx),
      hd_Continue = Some (chat_continue N C c ctx), hd_Steer = Some (chat_steer N C c ctx),
      hd_FollowUp = Some (chat_followUp N C c ctx), hd_Cancel = Some (chat_cancel N C c ctx)\<rparr>"

definition newChatController :: "'w \<Rightarrow> 'w session" where
  "newChatController w =
     \<lparr>ss_renderer = NewRenderer defaultPrompt, ss_state = NewState, ss_stream = None, ss_world = w\<rparr>"

definition runChat :: "'w net \<Rightarrow> 'w console \<Rightarrow> 'w Client \<Rightarrow> ctx \<Rightarrow> input \<Rightarrow> 'w \<Rightarrow> client_err option \<times> 'w session" where
  "runChat N C c ctx i w =
     (case write_seq (PrintLine C)
         [''chat mode ready. slash commands: /start /status /continue /steer /followup /cancel /quit'',
          ''free text sends /followup on the active run''] (newChatController w) of
        (Some err, s) \<Rightarrow> (Some (Err err), stopStream s)
      | (None, s) \<Rightarrow>
          (case repl_Run C (chat_handlers N C c ctx) i s of
             (e, i, s) \<Rightarrow> (map_option Err e, stopStream s)))"

definition usageText :: string where
  "usageText = concat (map (\<lambda>l. l @ [newline])
    [''Usage:'',
     ''  coding-agent-client [global flags] <command> [args]'',
     [],
     ''Commands:'',
     ''  chat'',
     ''  health'',
     ''  start --user-prompt <text> [--run-id <id>] [--system-prompt <text>] [--max-steps <n>]'',
     ''  get <run-id>'',
     ''  events <run-id> [--cursor <n>]'',
     ''  continue <run-id> [--command-id <id>] [--max-steps <n>] [--requirement-id <id> --kind <kind> --outcome <outcome> [--value <value>]]'',
     ''  steer <run-id> --instruction <text>'',
     ''  follow-up <run-id> --prompt <text> [--max-steps <n>]'',
     ''  cancel <run-id>'',
     [],
     ''Continue Resolution Examples:'',
     ''  continue run-000001 --requirement-id req-approval --kind approval --outcome approved'',
     ''  continue run-000001 --max-steps 2 --requirement-id req-user-input --kind user_input --outcome provided --value \"operator note\"'',
     [],
     ''Global flags:'',
     ''  --base-url <url>'',
     ''  --token <token>'',
     ''  --json'',
     ''  --timeout <duration>''])"

text \<open>The subcommands: the result is \<open>None\<close> for an \<open>events\<close> command that is still running.\<close>

definition run_command ::
  "nat \<Rightarrow> 'w cli \<Rightarrow> client_Config \<Rightarrow> 'w Client \<Rightarrow> ctx \<Rightarrow> input \<Rightarrow> string \<Rightarrow> string list \<Rightarrow> 'w \<Rightarrow>
     client_err option option \<times> 'w" where
  "run_command n K cfg c ctx i cmd args w =
     (let returns = (\<lambda>(e, w). (Some e, w)) in
      if cmd = ''chat'' then
        (case runChat (k_net K) (k_console K) c ctx i w of (e, s) \<Rightarrow> (Some e, ss_world s))
      else if cmd = ''health'' then returns (runHealth K c ctx (kc_JSON cfg) args w)
      else if cmd = ''start'' then returns (runStart K c ctx (kc_JSON cfg) args w)
      else if cmd = ''get'' then returns (runGet K c ctx (kc_JSON cfg) args w)
      else if cmd = ''events'' then
        (case runEvents n (k_net K) (k_console K) (k_parsers K) ctx (k_http K 0) (kc_BaseURL cfg) (kc_JSON cfg) args w of
           (r, w) \<Rightarrow> (map_option (map_option Err) r, w))
      else if cmd = ''continue'' then returns (runContinue K c ctx (kc_JSON cfg) args w)
      else if cmd = ''steer'' then returns (runSteer K c ctx (kc_JSON cfg) args w)
      else if cmd = ''follow-up'' then returns (runFollowUp K c ctx (kc_JSON cfg) args w)
      else if cmd = ''cancel'' then returns (runCancel K c ctx (kc_JSON cfg) args w)
      else (Some (Some (Err (Errorf [Lit ''unsupported command '', Quo cmd]))), k_stderr K usageText w))"

definition executeWithInput ::
  "nat \<Rightarrow> 'w cli \<Rightarrow> ctx \<Rightarrow> string list \<Rightarrow> input \<Rightarrow> 'w \<Rightarrow> client_err option option \<times> 'w" where
  "executeWithInput n K ctx args i w =
     (case client_Load K of
        Inl err \<Rightarrow> (Some (Some (Err err)), w)
      | Inr cfg \<Rightarrow>
     (case flag_Parse (k_parsers K) [(''base-url'', FlagString), (''token'', FlagString), (''json'', FlagBool),
          (''timeout'', FlagDuration)] [] args of
        Inl err \<Rightarrow>
          (Some (Some (Err err)),
           k_stderr K ((if err = External ''flag: help requested'' [] then []
             else error_text (co_isPrint (k_console K)) err @ [newline]) @ usageText) w)
      | Inr (fs, remaining) \<Rightarrow>
     (let cfg = \<lparr>kc_BaseURL = TrimSpace (string_flag fs ''base-url'' (kc_BaseURL cfg)),
            kc_AuthToken = TrimSpace (string_flag fs ''token'' (kc_AuthToken cfg)),
            kc_JSON = bool_flag fs ''json'' (kc_JSON cfg), kc_Timeout = int_flag fs ''timeout'' (kc_Timeout cfg)\<rparr> in
      case client_Validate (k_net K) cfg of
        Some err \<Rightarrow> (Some (Some (Err err)), w)
      | None \<Rightarrow>
     (case remaining of
        [] \<Rightarrow> (Some (fails ''command is required''), k_stderr K usageText w)
      | cmd # commandArgs \<Rightarrow>
     (case client_New (k_net K) (kc_BaseURL cfg) (kc_AuthToken cfg) (Some (k_http K (kc_Timeout cfg))) of
        Inl err \<Rightarrow> (Some (Some (Err err)), w)
      | Inr c \<Rightarrow>
          run_command n K cfg c (Some (ctx_orBackground ctx)) i cmd commandArgs w)))))"

end
