(* ===== verification/Client_Session.thy ===== *)
theory Client_Session
  imports Client_Cmd Client_Server
begin

text \<open>
  What the client's commands and its chat guarantee: a command line sends exactly the
  command that its subcommand and flags ask for, or none, the resolution prompt returns the
  first acceptable answer, the chat resolves a suspended run with the requirement that the
  server named, and free text is forwarded line by line.
\<close>

section \<open>Commands that reach the server\<close>

definition steps_ok :: "int option \<Rightarrow> bool" where
  "steps_ok m \<longleftrightarrow> (case m of None \<Rightarrow> True | Some k \<Rightarrow> 0 \<le> k)"

definition resolution_sound :: "api_Resolution \<Rightarrow> bool" where
  "resolution_sound z \<longleftrightarrow> az_RequirementID z \<noteq> [] \<and>
     az_Kind z \<in> {RequirementKindApproval, RequirementKindUserInput, RequirementKindExternalExecution} \<and>
     az_Outcome z \<in> {ResolutionOutcomeApproved, ResolutionOutcomeRejected, ResolutionOutcomeProvided,
       ResolutionOutcomeCompleted}"

primrec sound_command :: "client_command \<Rightarrow> bool" where
  "sound_command (DoStart q) \<longleftrightarrow>
     TrimSpace (aq_UserPrompt q) \<noteq> [] \<and> TrimSpace (aq_RunID q) = aq_RunID q \<and> steps_ok (aq_MaxSteps q)"
| "sound_command (DoContinue i q) \<longleftrightarrow>
     steps_ok (ac_MaxSteps q) \<and> TrimSpace (ac_CommandID q) = ac_CommandID q \<and>
     (case ac_Resolution q of None \<Rightarrow> True | Some z \<Rightarrow> resolution_sound z)"
| "sound_command (DoSteer i q) \<longleftrightarrow> TrimSpace (at_Instruction q) \<noteq> []"
| "sound_command (DoFollowUp i q) \<longleftrightarrow> TrimSpace (af_Prompt q) \<noteq> [] \<and> steps_ok (af_MaxSteps q)"
| "sound_command (DoCancel i) \<longleftrightarrow> True"
| "sound_command (DoGet i) \<longleftrightarrow> True"

lemma ValidateRequirementKind_allowed:
  "ValidateRequirementKind k = None \<longleftrightarrow> TrimSpace k \<in>
     {RequirementKindApproval, RequirementKindUserInput, RequirementKindExternalExecution}"
  by (auto simp: ValidateRequirementKind_def Let_def allowedRequirementKinds_def
      RequirementKindApproval_def RequirementKindUserInput_def RequirementKindExternalExecution_def)

lemma ValidateResolutionOutcome_allowed:
  "ValidateResolutionOutcome k = None \<longleftrightarrow> TrimSpace k \<in>
     {ResolutionOutcomeApproved, ResolutionOutcomeRejected, ResolutionOutcomeProvided, ResolutionOutcomeCompleted}"
  by (auto simp: ValidateResolutionOutcome_def Let_def allowedOutcomes_def ResolutionOutcomeApproved_def
      ResolutionOutcomeRejected_def ResolutionOutcomeProvided_def ResolutionOutcomeCompleted_def)

text \<open>
  What a command line asks for, read without any check: the subcommand names the operation, the
  first argument the run, the flags the rest; \<open>None\<close> where the line cannot be read at all.
\<close>

definition read_flags :: "number_parsers \<Rightarrow> (string \<times> flag_kind) list \<Rightarrow> string list \<Rightarrow> flags option" where
  "read_flags P formal args =
     (case flag_Parse P formal [] args of Inr (fs, []) \<Rightarrow> Some fs | _ \<Rightarrow> None)"

definition asked_steps :: "flags \<Rightarrow> int option" where
  "asked_steps fs = (if int_flag fs ''max-steps'' (-1) = -1 then None else Some (int_flag fs ''max-steps'' (-1)))"

definition asked_resolution :: "flags \<Rightarrow> api_Resolution option" where
  "asked_resolution fs =
     (if \<forall>name \<in> {''requirement-id'', ''kind'', ''outcome'', ''value''}. TrimSpace (string_flag fs name []) = []
      then None
      else Some \<lparr>az_RequirementID = TrimSpace (string_flag fs ''requirement-id'' []),
        az_Kind = TrimSpace (string_flag fs ''kind'' []),
        az_Outcome = TrimSpace (string_flag fs ''outcome'' []), az_Value = string_flag fs ''value'' []\<rparr>)"

definition asked_start :: "flags \<Rightarrow> client_command" where
  "asked_start fs = DoStart
     \<lparr>aq_RunID = TrimSpace (string_flag fs ''run-id'' []),
      aq_SystemPrompt = string_flag fs ''system-prompt'' [],
      aq_UserPrompt = string_flag fs ''user-prompt'' [], aq_MaxSteps = asked_steps fs\<rparr>"

definition asked_continue :: "string \<Rightarrow> flags \<Rightarrow> client_command" where
  "asked_continue i fs = DoContinue i
     \<lparr>ac_CommandID = TrimSpace (string_flag fs ''command-id'' []), ac_MaxSteps = asked_steps fs,
      ac_Resolution = asked_resolution fs\<rparr>"

definition asked_steer :: "string \<Rightarrow> flags \<Rightarrow> client_command" where
  "asked_steer i fs = DoSteer i \<lparr>at_Instruction = string_flag fs ''instruction'' []\<rparr>"

definition asked_follow_up :: "string \<Rightarrow> flags \<Rightarrow> client_command" where
  "asked_follow_up i fs =
     DoFollowUp i \<lparr>af_Prompt = string_flag fs ''prompt'' [], af_MaxSteps = asked_steps fs\<rparr>"

definition asked :: "number_parsers \<Rightarrow> string \<Rightarrow> string list \<Rightarrow> client_command option" where
  "asked P cmd args =
     (let on_run = (\<lambda>f. case args of [] \<Rightarrow> None | a # rest \<Rightarrow> f (TrimSpace a) rest);
          alone = (\<lambda>i rest op. if rest = [] then Some op else None) in
      if cmd = ''start'' then map_option asked_start (read_flags P [(''run-id'', FlagString),
        (''system-prompt'', FlagString), (''user-prompt'', FlagString), (''max-steps'', FlagInt)] args)
      else if cmd = ''get'' then on_run (\<lambda>i rest. alone i rest (DoGet i))
      else if cmd = ''cancel'' then on_run (\<lambda>i rest. alone i rest (DoCancel i))
      else if cmd = ''steer'' then on_run (\<lambda>i rest.
        map_option (asked_steer i) (read_flags P [(''instruction'', FlagString)] rest))
      else if cmd = ''follow-up'' then on_run (\<lambda>i rest.
        map_option (asked_follow_up i) (read_flags P [(''prompt'', FlagString), (''max-steps'', FlagInt)] rest))
      else if cmd = ''continue'' then on_run (\<lambda>i rest.
        map_option (asked_continue i) (read_flags P [(''command-id'', FlagString), (''max-steps'', FlagInt),
          (''requirement-id'', FlagString), (''kind'', FlagString), (''outcome'', FlagString),
          (''value'', FlagString)] rest))
      else None)"

text \<open>
  The result of a command that asks for \<open>op\<close>: the report of exactly this operation if it is sound,
  and otherwise, or where nothing can be read, an error and no request.
\<close>

definition does ::
  "'w cli \<Rightarrow> bool \<Rightarrow> 'w Client \<Rightarrow> ctx \<Rightarrow> 'w \<Rightarrow> client_command option \<Rightarrow> client_err option \<times> 'w \<Rightarrow> bool" where
  "does K jsonMode c ctx w op res \<longleftrightarrow>
     (case op of
        Some op \<Rightarrow>
          if sound_command op then res = report (k_console K) jsonMode (run_client (k_net K) c ctx op w)
          else (\<exists>e. res = (Some e, w))
      | None \<Rightarrow> (\<exists>e. res = (Some e, w)))"

lemma read_flags_cases:
  "(case flag_Parse P formal [] args of Inl e \<Rightarrow> f e | Inr (fs, rest) \<Rightarrow> if rest \<noteq> [] then g fs rest else k fs) =
   (case read_flags P formal args of
      Some fs \<Rightarrow> k fs
    | None \<Rightarrow> (case flag_Parse P formal [] args of Inl e \<Rightarrow> f e | Inr (fs, rest) \<Rightarrow> g fs rest))"
  by (auto simp: read_flags_def split: sum.split prod.split list.split)

lemma asked_steps_iff:
  "parseOptionalMaxSteps (int_flag fs ''max-steps'' (-1)) =
   (if steps_ok (asked_steps fs) then Inr (asked_steps fs) else Inl (Errorf [Lit ''max-steps must be >= -1'']))"
  by (auto simp: parseOptionalMaxSteps_def steps_ok_def asked_steps_def)

lemma blank_not_known:
  "[] \<notin> {RequirementKindApproval, RequirementKindUserInput, RequirementKindExternalExecution}"
  "[] \<notin> {ResolutionOutcomeApproved, ResolutionOutcomeRejected, ResolutionOutcomeProvided,
    ResolutionOutcomeCompleted}"
  by (simp_all add: RequirementKindApproval_def RequirementKindUserInput_def
      RequirementKindExternalExecution_def ResolutionOutcomeApproved_def ResolutionOutcomeRejected_def
      ResolutionOutcomeProvided_def ResolutionOutcomeCompleted_def)

lemma resolution_flags_iff:
  "case asked_resolution fs of
     None \<Rightarrow> resolution_flags fs = Inr None
   | Some z \<Rightarrow> if resolution_sound z then resolution_flags fs = Inr (Some z) else (\<exists>e. resolution_flags fs = Inl e)"
proof -
  define r k out v where "r = TrimSpace (string_flag fs ''requirement-id'' [])"
    and "k = TrimSpace (string_flag fs ''kind'' [])" and "out = TrimSpace (string_flag fs ''outcome'' [])"
    and "v = string_flag fs ''value'' []"
  note names = r_def [symmetric] k_def [symmetric] out_def [symmetric] v_def [symmetric]
  have trim: "TrimSpace k = k" "TrimSpace out = out" by (simp_all add: k_def out_def)
  have asked: "asked_resolution fs = (if r = [] \<and> k = [] \<and> out = [] \<and> TrimSpace v = [] then None
      else Some \<lparr>az_RequirementID = r, az_Kind = k, az_Outcome = out, az_Value = v\<rparr>)"
    unfolding asked_resolution_def by (simp add: names)
  have flags: "resolution_flags fs =
      (if r = [] \<and> k = [] \<and> out = [] \<and> TrimSpace v = [] then Inr None
       else if r = [] \<or> k = [] \<or> out = []
       then Inl (Errorf [Lit ''continue resolution requires --requirement-id, --kind, and --outcome''])
       else case ValidateRequirementKind k of
         Some err \<Rightarrow> Inl (Errorf [Lit ''continue resolution kind: '', Wrap err])
       | None \<Rightarrow> (case ValidateResolutionOutcome out of
           Some err \<Rightarrow> Inl (Errorf [Lit ''continue resolution outcome: '', Wrap err])
         | None \<Rightarrow> Inr (Some \<lparr>az_RequirementID = r, az_Kind = k, az_Outcome = out, az_Value = v\<rparr>)))"
    unfolding resolution_flags_def Let_def names ..
  have sound: "resolution_sound \<lparr>az_RequirementID = r, az_Kind = k, az_Outcome = out, az_Value = v\<rparr> \<longleftrightarrow>
      r \<noteq> [] \<and> ValidateRequirementKind k = None \<and> ValidateResolutionOutcome out = None"
    unfolding ValidateRequirementKind_allowed ValidateResolutionOutcome_allowed trim
    by (simp add: resolution_sound_def)
  have known: "ValidateRequirementKind [] \<noteq> None" "ValidateResolutionOutcome [] \<noteq> None"
    unfolding ValidateRequirementKind_allowed ValidateResolutionOutcome_allowed TrimSpace_Nil
    using blank_not_known by blast+
  show ?thesis
    unfolding asked flags using sound known
    by (cases "ValidateRequirementKind k"; cases "ValidateResolutionOutcome out") auto
qed

lemma runStart_does: "does K j c ctx w (asked (k_parsers K) ''start'' args) (runStart K c ctx j args w)"
  unfolding runStart_def read_flags_cases
  by (auto simp: does_def asked_def asked_start_def asked_steps_iff fails_def split: option.split sum.split prod.split)

lemma runGet_does: "does K j c ctx w (asked (k_parsers K) ''get'' args) (runGet K c ctx j args w)"
  by (auto simp: does_def asked_def runGet_def fails_def split: list.split)

lemma runCancel_does: "does K j c ctx w (asked (k_parsers K) ''cancel'' args) (runCancel K c ctx j args w)"
  by (auto simp: does_def asked_def runCancel_def fails_def split: list.split)

lemma runSteer_does: "does K j c ctx w (asked (k_parsers K) ''steer'' args) (runSteer K c ctx j args w)"
  unfolding runSteer_def read_flags_cases
  by (auto simp: does_def asked_def asked_steer_def fails_def split: list.split option.split sum.split prod.split)

lemma runFollowUp_does:
  "does K j c ctx w (asked (k_parsers K) ''follow-up'' args) (runFollowUp K c ctx j args w)"
  unfolding runFollowUp_def read_flags_cases
  by (auto simp: does_def asked_def asked_follow_up_def asked_steps_iff fails_def
      split: list.split option.split sum.split prod.split)

lemma runContinue_does:
  "does K j c ctx w (asked (k_parsers K) ''continue'' args) (runContinue K c ctx j args w)"
proof -
  have "does K j c ctx w (Some (asked_continue i fs))
      (case parseOptionalMaxSteps (int_flag fs ''max-steps'' (-1)) of
         Inl err \<Rightarrow> (Some (Err err), w)
       | Inr maxSteps \<Rightarrow>
           (case resolution_flags fs of
              Inl err \<Rightarrow> (Some (Err err), w)
            | Inr resolution \<Rightarrow>
                report (k_console K) j (api_Continue (k_net K) c ctx i
                  \<lparr>ac_CommandID = TrimSpace (string_flag fs ''command-id'' []), ac_MaxSteps = maxSteps,
                   ac_Resolution = resolution\<rparr> w)))" for i fs
    using resolution_flags_iff [of fs]
    by (auto simp: does_def asked_continue_def asked_steps_iff split: option.splits if_splits)
  then show ?thesis
    unfolding runContinue_def read_flags_cases
    by (auto simp: asked_def does_def fails_def split: list.split option.split sum.split prod.split)
qed

lemmas commands_do = runStart_does runGet_does runCancel_does runSteer_does runFollowUp_does
  runContinue_does

text \<open>
  C23: a subcommand of the client does what its command line asks for. The subcommand and its
  arguments name one operation: which one, on which run (its first argument), with which prompt,
  instruction, step limit, command ID and resolution (its flags). If this operation is sound, the
  client sends exactly this one to the server and reports its result. If it is not (a blank prompt
  or instruction, a negative step limit, a resolution that is incomplete or of a kind or an outcome
  that the server does not know), or if the line cannot be read, the command fails and nothing is
  sent.
\<close>

theorem cli_sends_sound_commands:
  assumes "cmd \<in> {''start'', ''get'', ''continue'', ''steer'', ''follow-up'', ''cancel''}"
  shows "\<exists>res. run_command n K cfg c ctx i cmd args w = (Some (fst res), snd res) \<and>
    (case asked (k_parsers K) cmd args of
       Some op \<Rightarrow>
         if sound_command op then res = report (k_console K) (kc_JSON cfg) (run_client (k_net K) c ctx op w)
         else (\<exists>e. res = (Some e, w))
     | None \<Rightarrow> (\<exists>e. res = (Some e, w)))"
proof -
  have "\<exists>res. run_command n K cfg c ctx i cmd args w = (Some (fst res), snd res) \<and>
      does K (kc_JSON cfg) c ctx w (asked (k_parsers K) cmd args) res"
    using assms unfolding run_command_def Let_def split_beta
    by (elim insertE emptyE; simp only: if_True if_False simp_thms list.inject char.inject list.distinct)
      (rule exI, rule conjI, rule refl, rule commands_do)+
  then show ?thesis unfolding does_def .
qed

definition silent_console :: "'w console" where
  "silent_console =
     \<lparr>co_Write = \<lambda>x w. (None, w), co_ctxErr = \<lambda>w. (None, w), co_doneFirst = \<lambda>w. (True, w),
      co_DecodeFrame = \<lambda>t. Inl (Sentinel IoEOF), co_isPrint = \<lambda>r. False\<rparr>"

definition plain_cli :: "nat api_state cli" where
  "plain_cli =
     \<lparr>k_net = plain_net (client_state (run_state_response zeroRunState)), k_console = silent_console,
      k_parsers = \<lparr>np_ParseInt = \<lambda>s. case ParseInt64 s of None \<Rightarrow> Inl (External ''parse error'' []) | Some v \<Rightarrow> Inr v,
        np_ParseDuration = \<lambda>s. Inl (External ''parse error'' [])\<rparr>,
      k_Getenv = \<lambda>v. [], k_http = \<lambda>t. connect plain_wire open_handlers ''http://host'', k_stderr = \<lambda>x w. w\<rparr>"

definition no_input :: input where
  "no_input = \<lparr>in_lines = [], in_rest = [], in_err = Sentinel IoEOF\<rparr>"

lemma parse_three: "ParseInt64 ''3'' = Some 3"
  using ParseInt64_int_text [of 3] by (simp add: in_int64_def int_text_def nat_text.simps digit_char_def char_of_def bit_Suc_0_iff)

lemma asked_follow_up_line:
  "asked (k_parsers plain_cli) ''follow-up'' [''run-000001'', ''--prompt'', ''next'', ''--max-steps=3''] =
   Some (DoFollowUp ''run-000001'' \<lparr>af_Prompt = ''next'', af_MaxSteps = Some 3\<rparr>)"
  by (simp add: asked_def read_flags_def flag_name_def HasPrefix_def plain_cli_def cancel_run_id
      asked_follow_up_def string_flag_def int_flag_def asked_steps_def parse_three)

theorem cli_sends_sound_commands_witness:
  "\<exists>res. run_command 1 plain_cli client_Default plain_client None no_input ''follow-up''
      [''run-000001'', ''--prompt'', ''next'', ''--max-steps=3''] (Map.empty, one_run) = (Some (fst res), snd res) \<and>
    res = report (k_console plain_cli) (kc_JSON client_Default)
      (run_client (k_net plain_cli) plain_client None
        (DoFollowUp ''run-000001'' \<lparr>af_Prompt = ''next'', af_MaxSteps = Some 3\<rparr>) (Map.empty, one_run))"
proof -
  have "TrimSpace ''next'' = ''next''" by (rule TrimSpace_graphic) (simp_all add: graphic_def)
  then have "sound_command (DoFollowUp ''run-000001'' \<lparr>af_Prompt = ''next'', af_MaxSteps = Some 3\<rparr>)"
    by (simp add: steps_ok_def)
  then show ?thesis
    using cli_sends_sound_commands [of "''follow-up''" 1 plain_cli client_Default plain_client None no_input
        "[''run-000001'', ''--prompt'', ''next'', ''--max-steps=3'']" "(Map.empty, one_run)"]
    by (simp add: asked_follow_up_line)
qed

section \<open>The prompt\<close>

text \<open>A terminal on which nothing fails, and a context that is not cancelled.\<close>

definition console_quiet :: "'w console \<Rightarrow> bool" where
  "console_quiet C \<longleftrightarrow> (\<forall>x w. fst (co_Write C x w) = None) \<and> (\<forall>w. fst (co_ctxErr C w) = None)"

definition same_chat :: "'w session \<Rightarrow> 'w session \<Rightarrow> bool" where
  "same_chat s s' \<longleftrightarrow> ss_state s' = ss_state s \<and> ss_stream s' = ss_stream s"

lemma same_chat_refl [simp]: "same_chat s s"
  by (simp add: same_chat_def)

lemma same_chat_trans: "same_chat s t \<Longrightarrow> same_chat t u \<Longrightarrow> same_chat s u"
  by (simp add: same_chat_def)

lemma quiet_write:
  assumes "console_quiet C"
  shows "\<exists>s'. write_out C x s = (None, s') \<and> same_chat s s'"
proof -
  obtain e w where "co_Write C x (ss_world s) = (e, w)" by (metis surj_pair)
  moreover have "fst (co_Write C x (ss_world s)) = None" using assms by (simp add: console_quiet_def)
  ultimately show ?thesis by (simp add: write_out_def same_chat_def)
qed

lemma quiet_seq:
  assumes "\<And>x s. \<exists>s'. wr x s = (None, s') \<and> same_chat s s'"
  shows "\<exists>s'. write_seq wr xs s = (None, s') \<and> same_chat s s'"
proof (induction xs arbitrary: s)
  case (Cons x xs)
  obtain s1 where "wr x s = (None, s1)" "same_chat s s1" using assms by blast
  moreover obtain s2 where "write_seq wr xs s1 = (None, s2)" "same_chat s1 s2" using Cons by blast
  ultimately show ?case by (auto intro: same_chat_trans)
qed simp

lemma quiet_PrintLine: "console_quiet C \<Longrightarrow> \<exists>s'. PrintLine C line s = (None, s') \<and> same_chat s s'"
  using quiet_seq [of "write_out C", OF quiet_write]
  by (simp add: PrintLine_def Let_def del: write_seq.simps)

lemma quiet_ask:
  assumes "console_quiet C" and "ReadString i = ((line, err), i')"
    and "\<And>e. err = Some e \<Longrightarrow> errors_Is e IoEOF"
  shows "\<exists>s'. ask_line C label d i s = (Inr (line, err), i', s') \<and> same_chat s s'"
proof -
  obtain w where poll: "co_ctxErr C (ss_world s) = (None, w)"
    using assms(1) unfolding console_quiet_def by (metis prod.collapse)
  let ?s = "s\<lparr>ss_world := w\<rparr>"
  obtain s1 where s1: "PrintLine C (label @ (if TrimSpace d \<noteq> [] then '' ['' @ TrimSpace d @ '']'' else []) @ '':'') ?s
      = (None, s1)" "same_chat ?s s1" using quiet_PrintLine [OF assms(1)] by blast
  obtain s2 where s2: "ShowPrompt C s1 = (None, s2)" "same_chat s1 s2"
    using quiet_write [OF assms(1), of "rn_prompt (ss_renderer s1)" s1]
    by (auto simp: ShowPrompt_def same_chat_def)
  have "ask_line C label d i s = (Inr (line, err), i', HidePrompt s2)"
    using poll s1(1) s2(1) assms(2,3) by (auto simp: ask_line_def poll_ctx_def Let_def split: option.split)
  moreover have "same_chat s (HidePrompt s2)"
    using s1(2) s2(2) by (simp add: same_chat_def HidePrompt_def)
  ultimately show ?thesis by blast
qed

text \<open>
  The specification of a prompt: of the lines that are left, the first whose value is acceptable
  answers; without one, what is left at the end of the input decides.
\<close>

fun first_answer ::
  "string \<Rightarrow> bool \<Rightarrow> (string \<Rightarrow> gerr option) option \<Rightarrow> string list \<Rightarrow> string \<Rightarrow> (gerr + string) \<times> string list \<times> string" where
  "first_answer d required validate [] rest =
     (let v = field_value d rest in
      (case check_field required validate v of
         FieldOK \<Rightarrow> Inr v
       | FieldMissing \<Rightarrow> Inl (Errorf [Lit ''resolution prompt ended before required field was provided''])
       | FieldInvalid e \<Rightarrow> Inl e, [], []))"
| "first_answer d required validate (l # ls) rest =
     (let v = field_value d l in
      if check_field required validate v = FieldOK then (Inr v, ls, rest)
      else first_answer d required validate ls rest)"

lemma field_value_newline [simp]: "field_value d (l @ [newline]) = field_value d l"
  by (simp add: field_value_def)

lemma promptField_first_answer:
  assumes "console_quiet C" and "errors_Is (in_err i) IoEOF"
    and "first_answer d required validate (in_lines i) (in_rest i) = (r, left, rest)"
  shows "\<exists>s'. promptField C label d required validate i s = (r, i\<lparr>in_lines := left, in_rest := rest\<rparr>, s') \<and>
    same_chat s s'"
  using assms(2,3)
proof (induction "in_lines i" arbitrary: i s)
  case Nil
  then have "ReadString i = ((in_rest i, Some (in_err i)), i\<lparr>in_rest := []\<rparr>)"
    by (simp add: ReadString_def)
  from quiet_ask [OF assms(1) this] Nil.prems(1) obtain s1 where
    a: "ask_line C label d i s = (Inr (in_rest i, Some (in_err i)), i\<lparr>in_rest := []\<rparr>, s1)" "same_chat s s1"
    by blast
  have print: "\<exists>s'. PrintLine C m s1 = (None, s') \<and> same_chat s1 s'" for m
    by (rule quiet_PrintLine [OF assms(1)])
  show ?case
  proof (cases "check_field required validate (field_value d (in_rest i))")
    case FieldOK
    with a Nil show ?thesis
      by (subst promptField.simps) (auto simp: Let_def first_answer.simps)
  next
    case FieldMissing
    with a Nil print [of "''field is required''"] show ?thesis
      by (subst promptField.simps) (auto simp: Let_def intro: same_chat_trans)
  next
    case (FieldInvalid e)
    with a Nil print [of "error_text (co_isPrint C) e"] show ?thesis
      by (subst promptField.simps) (auto simp: Let_def intro: same_chat_trans)
  qed
next
  case (Cons l ls)
  let ?i = "i\<lparr>in_lines := ls\<rparr>"
  from Cons.hyps(2) have "ReadString i = ((l @ [newline], None), ?i)"
    by (simp add: ReadString_def Cons.hyps(2) [symmetric])
  from quiet_ask [OF assms(1) this, of label d s] obtain s1 where
    a: "ask_line C label d i s = (Inr (l @ [newline], None), ?i, s1)" "same_chat s s1" by auto
  have again: "\<exists>s'. promptField C label d required validate ?i t = (r, i\<lparr>in_lines := left, in_rest := rest\<rparr>, s') \<and>
      same_chat s s'"
    if "check_field required validate (field_value d l) \<noteq> FieldOK" "same_chat s1 t" for t
  proof -
    have "first_answer d required validate (in_lines ?i) (in_rest ?i) = (r, left, rest)"
      using Cons.prems(2) that(1) by (simp add: Cons.hyps(2) [symmetric] Let_def)
    then obtain s' where "promptField C label d required validate ?i t = (r, ?i\<lparr>in_lines := left, in_rest := rest\<rparr>, s')"
        "same_chat t s'"
      using Cons.hyps(1) [of ?i t] Cons.prems(1) by auto
    then show ?thesis using a(2) that(2) by (auto intro: same_chat_trans)
  qed
  have print: "\<exists>s'. PrintLine C m s1 = (None, s') \<and> same_chat s1 s'" for m
    by (rule quiet_PrintLine [OF assms(1)])
  show ?case
  proof (cases "check_field required validate (field_value d l)")
    case FieldOK
    with a Cons.prems(2) show ?thesis
      by (subst promptField.simps) (auto simp: Let_def Cons.hyps(2) [symmetric])
  next
    case FieldMissing
    obtain s2 where "PrintLine C ''field is required'' s1 = (None, s2)" "same_chat s1 s2"
      using print by blast
    with FieldMissing a again [of s2] show ?thesis
      by (subst promptField.simps) (simp add: Let_def)
  next
    case (FieldInvalid e)
    obtain s2 where "PrintLine C (error_text (co_isPrint C) e) s1 = (None, s2)" "same_chat s1 s2"
      using print by blast
    with FieldInvalid a again [of s2] show ?thesis
      by (subst promptField.simps) (simp add: Let_def)
  qed
qed

lemma PromptResolution_answers:
  assumes "console_quiet C" and "errors_Is (in_err i) IoEOF"
    and "first_answer (pd_RequirementID d) True None (in_lines i) (in_rest i) = (Inr a, l1, r1)"
    and "first_answer (pd_Kind d) True (Some ValidateRequirementKind) l1 r1 = (Inr k, l2, r2)"
    and "first_answer [] True (Some ValidateResolutionOutcome) l2 r2 = (Inr out, l3, r3)"
    and "first_answer [] False None l3 r3 = (Inr v, l4, r4)"
  shows "\<exists>s'. PromptResolution C True True d i s =
      (Inr \<lparr>rz_RequirementID = a, rz_Kind = k, rz_Outcome = out, rz_Value = v\<rparr>,
       i\<lparr>in_lines := l4, in_rest := r4\<rparr>, s') \<and> same_chat s s'"
proof -
  let ?p = "promptField C"
  obtain s0 where s0: "write_seq (PrintLine C) (''run is suspended and requires a resolution payload'' #
           (if TrimSpace (pd_Prompt d) \<noteq> []
            then [''requirement prompt: '' @ TrimSpace (pd_Prompt d)] else [])) s = (None, s0)" "same_chat s s0"
    using quiet_seq [of "PrintLine C", OF quiet_PrintLine [OF assms(1)]] by blast
  let ?i1 = "i\<lparr>in_lines := l1, in_rest := r1\<rparr>" and ?i2 = "i\<lparr>in_lines := l2, in_rest := r2\<rparr>"
    and ?i3 = "i\<lparr>in_lines := l3, in_rest := r3\<rparr>"
  from promptField_first_answer [OF assms(1-3)] obtain s1 where
    s1: "?p ''requirement_id'' (pd_RequirementID d) True None i s0 = (Inr a, ?i1, s1)" "same_chat s0 s1"
    by blast
  from promptField_first_answer [OF assms(1), of ?i1] assms(2,4) obtain s2 where
    s2: "?p ''kind (approval|user_input|external_execution)'' (pd_Kind d) True (Some ValidateRequirementKind) ?i1 s1 =
      (Inr k, ?i2, s2)" "same_chat s1 s2" by fastforce
  from promptField_first_answer [OF assms(1), of ?i2] assms(2,5) obtain s3 where
    s3: "?p ''outcome (approved|rejected|provided|completed)'' [] True (Some ValidateResolutionOutcome) ?i2 s2 =
      (Inr out, ?i3, s3)" "same_chat s2 s3" by fastforce
  from promptField_first_answer [OF assms(1), of ?i3] assms(2,6) obtain s4 where
    s4: "?p ''value (optional)'' [] False None ?i3 s3 = (Inr v, i\<lparr>in_lines := l4, in_rest := r4\<rparr>, s4)"
      "same_chat s3 s4" by fastforce
  have "same_chat s s4" using s0(2) s1(2) s2(2) s3(2) s4(2) by (simp add: same_chat_def)
  moreover have "PromptResolution C True True d i s =
      (Inr \<lparr>rz_RequirementID = a, rz_Kind = k, rz_Outcome = out, rz_Value = v\<rparr>,
       i\<lparr>in_lines := l4, in_rest := r4\<rparr>, s4)"
    unfolding PromptResolution_def prompt_fields_def using s0(1) s1(1) s2(1) s3(1) s4(1)
    by (simp only: not_True_eq_False if_False prod.case sum.case option.case)
  ultimately show ?thesis by blast
qed

text \<open>The resolution that pressing enter twice, an outcome and a value stand for.\<close>

lemma default_answers:
  assumes "in_lines i = l1 # l2 # l3 # l4 # ls" and "TrimSpace l1 = []" and "TrimSpace l2 = []"
    and "TrimSpace (pd_RequirementID d) \<noteq> []" and "ValidateRequirementKind (pd_Kind d) = None"
    and "ValidateResolutionOutcome l3 = None"
  shows "first_answer (pd_RequirementID d) True None (in_lines i) (in_rest i) =
      (Inr (TrimSpace (pd_RequirementID d)), l2 # l3 # l4 # ls, in_rest i)"
    and "first_answer (pd_Kind d) True (Some ValidateRequirementKind) (l2 # l3 # l4 # ls) (in_rest i) =
      (Inr (TrimSpace (pd_Kind d)), l3 # l4 # ls, in_rest i)"
    and "first_answer [] True (Some ValidateResolutionOutcome) (l3 # l4 # ls) (in_rest i) =
      (Inr (TrimSpace l3), l4 # ls, in_rest i)"
    and "first_answer [] False None (l4 # ls) (in_rest i) = (Inr (TrimSpace l4), ls, in_rest i)"
proof -
  have kind: "TrimSpace (pd_Kind d) \<noteq> []" "ValidateRequirementKind (TrimSpace (pd_Kind d)) = None"
    using assms(5) by (auto simp: ValidateRequirementKind_def Let_def allowedRequirementKinds_def split: if_splits)
  have outc: "TrimSpace l3 \<noteq> []" "ValidateResolutionOutcome (TrimSpace l3) = None"
    using assms(6) by (auto simp: ValidateResolutionOutcome_def Let_def allowedOutcomes_def split: if_splits)
  show "first_answer (pd_RequirementID d) True None (in_lines i) (in_rest i) =
      (Inr (TrimSpace (pd_RequirementID d)), l2 # l3 # l4 # ls, in_rest i)"
    using assms by (simp add: field_value_def check_field_def)
  show "first_answer (pd_Kind d) True (Some ValidateRequirementKind) (l2 # l3 # l4 # ls) (in_rest i) =
      (Inr (TrimSpace (pd_Kind d)), l3 # l4 # ls, in_rest i)"
    using assms(3) kind by (simp add: field_value_def check_field_def)
  show "first_answer [] True (Some ValidateResolutionOutcome) (l3 # l4 # ls) (in_rest i) =
      (Inr (TrimSpace l3), l4 # ls, in_rest i)"
    using outc by (simp add: field_value_def check_field_def Let_def)
  show "first_answer [] False None (l4 # ls) (in_rest i) = (Inr (TrimSpace l4), ls, in_rest i)"
    by (simp add: field_value_def check_field_def Let_def)
qed

lemma chat_continue_asks:
  assumes "ActiveRun (ss_state s) = Some (runID, cursor)"
    and "api_Get N c ctx runID (ss_world s) = (Inr (current, raw), w)"
    and "as_Status current = RunStatusSuspended" and "as_PendingRequirement current = Some q"
  shows "chat_continue N C c ctx m None s = (Some (ResolutionRequired
     \<lparr>pd_RequirementID = ap_ID q, pd_Kind = ap_Kind q, pd_Prompt = ap_Prompt q\<rparr>), s\<lparr>ss_world := w\<rparr>)"
  using assms by (simp add: chat_continue_def in_session_def needs_resolution_def RunStatusSuspended_def)

text \<open>
  C24: the chat resolves a suspended run with what the server asked for: \<open>/continue\<close> on a suspended
  active run looks the pending requirement up, prompts with it, and with two empty answers, an
  outcome and a value it sends one continue command whose resolution carries the identifier and
  the kind of that requirement.
\<close>

theorem chat_continue_resolves:
  assumes "console_quiet C" and "errors_Is (in_err i) IoEOF"
    and "ActiveRun (ss_state s) = Some (runID, cursor)"
    and "api_Get N c ctx runID (ss_world s) = (Inr (current, raw), w)"
    and "as_Status current = RunStatusSuspended" and "as_PendingRequirement current = Some q"
    and "TrimSpace (ap_ID q) \<noteq> []" and "ValidateRequirementKind (ap_Kind q) = None"
    and "in_lines i = l1 # l2 # l3 # l4 # ls" and "TrimSpace l1 = []" and "TrimSpace l2 = []"
    and "ValidateResolutionOutcome l3 = None"
  shows "\<exists>s'. ss_state s' = ss_state s \<and> repl_dispatch C (chat_handlers N C c ctx) ''/continue'' i s =
    (case chat_report C (in_session (api_Continue N c ctx runID
        \<lparr>ac_CommandID = [], ac_MaxSteps = None,
         ac_Resolution = Some \<lparr>az_RequirementID = TrimSpace (ap_ID q), az_Kind = TrimSpace (ap_Kind q),
           az_Outcome = TrimSpace l3, az_Value = TrimSpace l4\<rparr>\<rparr>) s') of
       (e, s'') \<Rightarrow> (e, i\<lparr>in_lines := ls\<rparr>, s''))"
proof -
  let ?d = "\<lparr>pd_RequirementID = ap_ID q, pd_Kind = ap_Kind q, pd_Prompt = ap_Prompt q\<rparr>"
  let ?r = "\<lparr>rz_RequirementID = TrimSpace (ap_ID q), rz_Kind = TrimSpace (ap_Kind q),
    rz_Outcome = TrimSpace l3, rz_Value = TrimSpace l4\<rparr>"
  have d: "TrimSpace (pd_RequirementID ?d) \<noteq> []" "ValidateRequirementKind (pd_Kind ?d) = None"
    using assms(7,8) by simp_all
  from PromptResolution_answers [OF assms(1,2) default_answers [OF assms(9-11) d assms(12)],
      of "s\<lparr>ss_world := w\<rparr>"]
  obtain s' where s': "PromptResolution C True True ?d i (s\<lparr>ss_world := w\<rparr>) =
      (Inr ?r, i\<lparr>in_lines := ls, in_rest := in_rest i\<rparr>, s')" "ss_state s' = ss_state s"
    by (auto simp: same_chat_def)
  have "cut_at (CHR '' '') ''/continue'' = (''/continue'', None)" by (rule cut_at_missing) simp
  then have "repl_dispatch C (chat_handlers N C c ctx) ''/continue'' i s =
      (case chat_continue N C c ctx None (Some ?r) s' of (e, s'') \<Rightarrow> (e, i\<lparr>in_lines := ls\<rparr>, s''))"
    using chat_continue_asks [OF assms(3-6), of C None] s'(1)
    by (simp add: repl_dispatch_def HasPrefix_def repl_continue_def chat_handlers_def parseContinueArgs_def)
  then show ?thesis
    using s'(2) assms(3) by (intro exI [of _ s']) (simp add: chat_continue_def)
qed

definition canned_answer :: http_answer where
  "canned_answer = \<lparr>ha_Status = 200, ha_Body = ''{}'', ha_ReadErr = None, ha_Early = 0\<rparr>"

definition canned_client :: "nat Client" where
  "canned_client = \<lparr>cl_baseURL = ''http://host'', cl_authToken = DefaultToken,
     cl_do = \<lambda>q w. (Inr canned_answer, Suc w)\<rparr>"

definition suspended_view :: api_RunState where
  "suspended_view =
     \<lparr>as_RunID = ''run-000001'', as_Status = ''suspended'', as_Step = 1, as_Version = 1, as_Output = [],
      as_Error = [], as_PendingRequirement = Some \<lparr>ap_ID = ''req-1'', ap_Kind = ''approval'', ap_Origin = ''model'',
        ap_ToolCallID = [], ap_Fingerprint = [], ap_Prompt = ''sure?''\<rparr>\<rparr>"

definition canned_net :: "nat net" where
  "canned_net =
     \<lparr>nt_DefaultDo = cl_do canned_client, nt_NewRequest = \<lambda>verb u. None, nt_ParseURL = \<lambda>u. Inr (''http'', u),
      nt_Encode = \<lambda>q. Inr ''{}'', nt_DecodeState = \<lambda>t. Inr suspended_view,
      nt_DecodeError = \<lambda>t. Inl (Sentinel IoEOF)\<rparr>"

definition chatting :: "nat session" where
  "chatting = (newChatController 0)\<lparr>ss_state := \<lparr>cs_activeRunID = ''run-000001'', cs_cursor = 4\<rparr>\<rparr>"

definition approving_input :: input where
  "approving_input = \<lparr>in_lines = [[], [], ''approved'', ''yes''], in_rest = [], in_err = Sentinel IoEOF\<rparr>"

lemma silent_quiet: "console_quiet silent_console"
  by (simp add: console_quiet_def silent_console_def)

lemma canned_get:
  "api_Get canned_net canned_client None ''run-000001'' 0 = (Inr (suspended_view, ''{}''), 1)"
proof -
  have "TrimSpace ''run-000001'' = ''run-000001''" by code_simp
  then show ?thesis
    by (simp add: api_Get_def runPath_def doJSON_def doRaw_def encode_payload_def canned_net_def canned_client_def
        canned_answer_def Let_def)
qed

theorem chat_continue_resolves_witness:
  "\<exists>s'. ss_state s' = ss_state chatting \<and>
    repl_dispatch silent_console (chat_handlers canned_net silent_console canned_client None) ''/continue''
      approving_input chatting =
    (case chat_report silent_console (in_session (api_Continue canned_net canned_client None ''run-000001''
        \<lparr>ac_CommandID = [], ac_MaxSteps = None,
         ac_Resolution = Some \<lparr>az_RequirementID = TrimSpace (ap_ID (the (as_PendingRequirement suspended_view))),
           az_Kind = TrimSpace (ap_Kind (the (as_PendingRequirement suspended_view))),
           az_Outcome = TrimSpace ''approved'', az_Value = TrimSpace ''yes''\<rparr>\<rparr>) s') of
       (e, s'') \<Rightarrow> (e, approving_input\<lparr>in_lines := []\<rparr>, s''))"
proof (rule chat_continue_resolves [where current = suspended_view and raw = "''{}''" and w = 1 and cursor = 4
      and ?l1.0 = "[]" and ?l2.0 = "[]"])
  show "api_Get canned_net canned_client None ''run-000001'' (ss_world chatting) = (Inr (suspended_view, ''{}''), 1)"
    using canned_get by (simp add: chatting_def newChatController_def)
  show "TrimSpace (ap_ID (the (as_PendingRequirement suspended_view))) \<noteq> []" by code_simp
  show "ValidateRequirementKind (ap_Kind (the (as_PendingRequirement suspended_view))) = None" by code_simp
  show "ValidateResolutionOutcome ''approved'' = None" by code_simp
qed (simp_all add: silent_quiet approving_input_def chatting_def ActiveRun_def suspended_view_def RunStatusSuspended_def)

end
