(* ===== verification/Provider.thy ===== *)
theory Provider
  imports Client_Api React_Safety Preflight
begin

text \<open>
  The adapter for a provider that speaks the OpenAI chat-completions protocol,
  \<open>modelopenai/adapter.go\<close>: the request it builds from a transcript, the exchange and the
  message it makes of the answer. Requests, answers and the transport are those of theory
  \<open>Client_Api\<close>; the JSON codecs are parameters.
\<close>

section \<open>The protocol\<close>

record chatToolCallFunction =
  fu_Name :: string
  fu_Arguments :: string

record chatToolCall =
  ck_ID :: string
  ck_Type :: string
  ck_Function :: chatToolCallFunction

record chatMessage =
  cm_Role :: string
  cm_Content :: string
  cm_Name :: string
  cm_ToolCallID :: string
  cm_ToolCalls :: "chatToolCall list"

record chatToolFunction =
  ctf_Name :: string
  ctf_Description :: string
  ctf_Parameters :: gomap

record chatTool =
  ct_Type :: string
  ct_Function :: chatToolFunction

record chatCompletionRequest =
  cq_Model :: string
  cq_Messages :: "chatMessage list"
  cq_Tools :: "chatTool list"

record chatChoice =
  ch_Message :: chatMessage

record chatCompletionResponse =
  cr_Choices :: "chatChoice list"

section \<open>The adapter\<close>

text \<open>\<open>pv_TimeoutDo t\<close> is the transport of \<open>&http.Client{Timeout: t}\<close>.\<close>

record 'w provider =
  pv_TimeoutDo :: "int \<Rightarrow> 'w http_do"
  pv_NewRequest :: "string \<Rightarrow> string \<Rightarrow> gerr option"
  pv_Encode :: "chatCompletionRequest \<Rightarrow> gerr + string"
  pv_Decode :: "string \<Rightarrow> gerr + chatCompletionResponse"
  pv_EncodeArguments :: "gomap \<Rightarrow> gerr + string"
  pv_DecodeArguments :: "string \<Rightarrow> gerr + gomap"

record 'w adapter_Config =
  pc_APIKey :: string
  pc_Model :: string
  pc_BaseURL :: string
  pc_HTTPClient :: "'w http_do option"

record 'w Adapter =
  ad_apiKey :: string
  ad_model :: string
  ad_endpointURL :: string
  ad_httpClient :: "'w http_do"

definition defaultBaseURL :: string where "defaultBaseURL = ''https://api.openai.com/v1''"
definition defaultEndpoint :: string where "defaultEndpoint = ''/chat/completions''"
definition defaultTimeout :: int where "defaultTimeout = 30 * 1000000000"

definition adapter_New :: "'w provider \<Rightarrow> 'w adapter_Config \<Rightarrow> gerr + 'w Adapter" where
  "adapter_New P cfg =
     (let apiKey = TrimSpace (pc_APIKey cfg); model = TrimSpace (pc_Model cfg);
          baseURL = TrimSpace (pc_BaseURL cfg) in
      if apiKey = [] then Inl (Errorf [Lit ''new model adapter: api key is required''])
      else if model = [] then Inl (Errorf [Lit ''new model adapter: model is required''])
      else Inr \<lparr>ad_apiKey = apiKey, ad_model = model,
        ad_endpointURL = TrimRight (if baseURL = [] then defaultBaseURL else baseURL) {slash} @ defaultEndpoint,
        ad_httpClient = (case pc_HTTPClient cfg of None \<Rightarrow> pv_TimeoutDo P defaultTimeout | Some d \<Rightarrow> d)\<rparr>)"

section \<open>The request\<close>

text \<open>A loop over a slice that stops at the first error.\<close>

primrec each :: "('a \<Rightarrow> 'e + 'b) \<Rightarrow> 'a list \<Rightarrow> 'e + 'b list" where
  "each f [] = Inr []"
| "each f (x # xs) =
     (case f x of
        Inl e \<Rightarrow> Inl e
      | Inr y \<Rightarrow> (case each f xs of Inl e \<Rightarrow> Inl e | Inr ys \<Rightarrow> Inr (y # ys)))"

definition toProviderRole :: "Role \<Rightarrow> gerr + string" where
  "toProviderRole role =
     (if role = RoleSystem then Inr ''system''
      else if role = RoleUser then Inr ''user''
      else if role = RoleAssistant then Inr ''assistant''
      else if role = RoleTool then Inr ''tool''
      else Inl (Errorf [Lit ''unsupported message role '', Quo role]))"

definition toChatToolCall :: "'w provider \<Rightarrow> ToolCall \<Rightarrow> gerr + chatToolCall" where
  "toChatToolCall P call =
     (case (if elems (tc_Arguments call) = [] then Inr ''{}''
            else case pv_EncodeArguments P (tc_Arguments call) of
              Inl err \<Rightarrow> Inl (Errorf [Lit ''encode tool call arguments: '', Wrap err])
            | Inr encoded \<Rightarrow> Inr encoded) of
        Inl err \<Rightarrow> Inl err
      | Inr arguments \<Rightarrow>
          Inr \<lparr>ck_ID = tc_ID call, ck_Type = ''function'',
            ck_Function = \<lparr>fu_Name = tc_Name call, fu_Arguments = arguments\<rparr>\<rparr>)"

definition toChatMessage :: "'w provider \<Rightarrow> Message \<Rightarrow> gerr + chatMessage" where
  "toChatMessage P message =
     (case toProviderRole (m_Role message) of
        Inl err \<Rightarrow> Inl err
      | Inr role \<Rightarrow>
     (case each (toChatToolCall P) (elems (m_ToolCalls message)) of
        Inl err \<Rightarrow> Inl err
      | Inr toolCalls \<Rightarrow>
          Inr \<lparr>cm_Role = role, cm_Content = m_Content message, cm_Name = m_Name message,
            cm_ToolCallID = m_ToolCallID message, cm_ToolCalls = toolCalls\<rparr>))"

definition toChatTool :: "ToolDefinition \<Rightarrow> chatTool" where
  "toChatTool d = \<lparr>ct_Type = ''function'', ct_Function =
     \<lparr>ctf_Name = td_Name d, ctf_Description = td_Description d, ctf_Parameters = td_InputSchema d\<rparr>\<rparr>"

definition buildRequest :: "'w provider \<Rightarrow> string \<Rightarrow> ModelRequest \<Rightarrow> gerr + chatCompletionRequest" where
  "buildRequest P model request =
     (case NormalizeMessagesForProvider (elems (mq_Messages request)) of
        Inl err \<Rightarrow> Inl err
      | Inr normalizedMessages \<Rightarrow>
     (case each (toChatMessage P) normalizedMessages of
        Inl err \<Rightarrow> Inl err
      | Inr messages \<Rightarrow>
          Inr \<lparr>cq_Model = model, cq_Messages = messages, cq_Tools = map toChatTool (mq_Tools request)\<rparr>))"

section \<open>The answer\<close>

definition toToolCall :: "'w provider \<Rightarrow> chatToolCall \<Rightarrow> gerr + ToolCall" where
  "toToolCall P call =
     (let f = ck_Function call in
      case (if TrimSpace (fu_Arguments f) = [] then Inr (Some [])
            else case pv_DecodeArguments P (fu_Arguments f) of
              Inl err \<Rightarrow>
                Inl (Errorf [Lit ''decode tool call arguments for '', Quo (fu_Name f), Lit '': '', Wrap err])
            | Inr arguments \<Rightarrow> Inr arguments) of
        Inl err \<Rightarrow> Inl err
      | Inr arguments \<Rightarrow>
          Inr \<lparr>tc_ID = ck_ID call, tc_Name = fu_Name f, tc_Arguments = arguments\<rparr>)"

definition toAgentMessage :: "'w provider \<Rightarrow> chatMessage \<Rightarrow> gerr + Message" where
  "toAgentMessage P message =
     (if cm_Role message \<noteq> ''assistant''
      then Inl (Errorf [Lit ''expected assistant message role, got '', Quo (cm_Role message)])
      else case each (toToolCall P) (cm_ToolCalls message) of
        Inl err \<Rightarrow> Inl err
      | Inr toolCalls \<Rightarrow>
          Inr (zeroMessage\<lparr>m_Role := RoleAssistant, m_Content := cm_Content message,
            m_ToolCalls := Some toolCalls\<rparr>))"

text \<open>
  \<open>io.ReadAll(io.LimitReader(body, 2<<20))\<close>: a longer body is cut off, and an error behind the
  limit is not met.
\<close>

definition bodyLimit :: nat where "bodyLimit = 2 * 2 ^ 20"

definition read_limited :: "http_answer \<Rightarrow> gerr + string" where
  "read_limited response =
     (if bodyLimit \<le> length (ha_Body response) then Inr (take bodyLimit (ha_Body response))
      else case ha_ReadErr response of Some err \<Rightarrow> Inl err | None \<Rightarrow> Inr (ha_Body response))"

text \<open>What \<open>Generate\<close> makes of a response.\<close>

definition read_completion :: "'w provider \<Rightarrow> http_answer \<Rightarrow> gerr + Message" where
  "read_completion P response =
     (case read_limited response of
        Inl err \<Rightarrow> Inl (Errorf [Lit ''provider response read: '', Wrap err])
      | Inr bodyBytes \<Rightarrow>
          if ha_Status response < 200 \<or> 300 \<le> ha_Status response then
            Inl (Errorf [Lit ''provider response status='', Num (ha_Status response), Lit '' body='', Lit bodyBytes])
          else case pv_Decode P bodyBytes of
            Inl err \<Rightarrow> Inl (Errorf [Lit ''provider response decode: '', Wrap err])
          | Inr parsed \<Rightarrow>
         (case cr_Choices parsed of
            [] \<Rightarrow> Inl (Errorf [Lit ''provider response decode: no choices''])
          | choice # choices \<Rightarrow>
         (case toAgentMessage P (ch_Message choice) of
            Inl err \<Rightarrow> Inl (Errorf [Lit ''provider response decode: '', Wrap err])
          | Inr message \<Rightarrow> Inr message)))"

text \<open>\<open>http.NewRequestWithContext\<close> refuses a nil context before it looks at the URL.\<close>

definition provider_request :: "'w provider \<Rightarrow> 'w Adapter \<Rightarrow> ctx \<Rightarrow> string \<Rightarrow> gerr + http_call" where
  "provider_request P a ctx encoded =
     (case ctx of
        None \<Rightarrow> Inl (Errorf [Lit ''net/http: nil Context''])
      | Some x \<Rightarrow>
     (case pv_NewRequest P ''POST'' (ad_endpointURL a) of
        Some err \<Rightarrow> Inl err
      | None \<Rightarrow>
          Inr \<lparr>hc_Context = x, hc_Method = ''POST'', hc_URL = ad_endpointURL a,
            hc_ContentType = Some ''application/json'',
            hc_Authorization = Some (''Bearer '' @ ad_apiKey a), hc_Body = Some encoded\<rparr>))"

definition adapter_Generate ::
  "'w provider \<Rightarrow> 'w Adapter \<Rightarrow> ctx \<Rightarrow> ModelRequest \<Rightarrow> 'w \<Rightarrow> (gerr + Message) \<times> 'w" where
  "adapter_Generate P a ctx request w =
     (case buildRequest P (ad_model a) request of
        Inl err \<Rightarrow> (Inl (Errorf [Lit ''provider request: '', Wrap err]), w)
      | Inr requestPayload \<Rightarrow>
     (case pv_Encode P requestPayload of
        Inl err \<Rightarrow> (Inl (Errorf [Lit ''provider request encode: '', Wrap err]), w)
      | Inr encoded \<Rightarrow>
     (case provider_request P a ctx encoded of
        Inl err \<Rightarrow> (Inl (Errorf [Lit ''provider request build: '', Wrap err]), w)
      | Inr httpRequest \<Rightarrow>
     (case ad_httpClient a httpRequest w of
        (Inl err, w) \<Rightarrow> (Inl (Errorf [Lit ''provider request execute: '', Wrap err]), w)
      | (Inr response, w) \<Rightarrow> (read_completion P response, w)))))"

section \<open>Round trip\<close>

lemma each_Inr_iff: "each f xs = Inr ys \<longleftrightarrow> list_all2 (\<lambda>x y. f x = Inr y) xs ys"
proof (induction xs arbitrary: ys)
  case (Cons x xs)
  show ?case by (cases ys) (auto simp: Cons.IH [symmetric] split: sum.split)
qed auto

text \<open>Arguments that the JSON codec gives back: none, or what is decoded from their encoding.\<close>

definition json_arguments :: "'w provider \<Rightarrow> gomap \<Rightarrow> bool" where
  "json_arguments P a \<longleftrightarrow> elems a = [] \<or>
     (\<exists>t. pv_EncodeArguments P a = Inr t \<and> TrimSpace t \<noteq> [] \<and> pv_DecodeArguments P t = Inr a)"

text \<open>The provider is told \<open>{}\<close> for missing arguments.\<close>

definition with_arguments :: "ToolCall \<Rightarrow> ToolCall" where
  "with_arguments call = call\<lparr>tc_Arguments := Some (elems (tc_Arguments call))\<rparr>"

lemma braces_not_blank [simp]: "TrimSpace ''{}'' \<noteq> []"
  by code_simp

lemma ToolCall_roundtrip:
  assumes "json_arguments P (tc_Arguments call)" and "pv_DecodeArguments P ''{}'' = Inr (Some [])"
  shows "\<exists>c. toChatToolCall P call = Inr c \<and> toToolCall P c = Inr (with_arguments call)"
proof (cases "elems (tc_Arguments call) = []")
  case True
  then show ?thesis
    using assms(2) by (simp add: toChatToolCall_def toToolCall_def with_arguments_def)
next
  case False
  then have "tc_Arguments call = Some (elems (tc_Arguments call))"
    by (cases "tc_Arguments call") simp_all
  with False assms(1) show ?thesis
    by (auto simp: json_arguments_def toChatToolCall_def toToolCall_def with_arguments_def)
qed

lemma each_roundtrip:
  assumes "\<And>x. x \<in> set xs \<Longrightarrow> \<exists>y. f x = Inr y \<and> g y = Inr (h x)"
  shows "\<exists>ys. each f xs = Inr ys \<and> each g ys = Inr (map h xs)"
  using assms
proof (induction xs)
  case (Cons x xs)
  obtain y where "f x = Inr y" "g y = Inr (h x)" using Cons.prems by auto
  moreover obtain ys where "each f xs = Inr ys" "each g ys = Inr (map h xs)" using Cons by auto
  ultimately show ?case by (intro exI [of _ "y # ys"]) simp
qed simp

lemma each_keeps:
  assumes "\<And>x y. f x = Inr y \<Longrightarrow> g y = h x"
  shows "each f xs = Inr ys \<Longrightarrow> map g ys = map h xs"
  using assms by (induction xs arbitrary: ys) (auto split: sum.splits)

lemma toChatToolCall_fields:
  assumes "toChatToolCall P call = Inr c"
  shows "ck_ID c = tc_ID call" and "ck_Type c = ''function''" and "fu_Name (ck_Function c) = tc_Name call"
  using assms by (auto simp: toChatToolCall_def split: sum.splits if_splits)

text \<open>
  C26: an assistant message survives the provider's format. A message as the adapter makes them (of
  the assistant, without name, call ID or requirement, with a list of calls whose arguments are
  maps that the JSON codec gives back) is sent with the role \<open>assistant\<close>, its content and its
  calls, each as a function call with the same ID and name; and a provider that answers what it
  was sent is understood as exactly the same message again, arguments included.
\<close>

theorem provider_roundtrip:
  assumes "m_Role m = RoleAssistant" and "m_Name m = []" and "m_ToolCallID m = []"
    and "m_Requirement m = None" and "m_ToolCalls m = Some calls"
    and "\<And>call. call \<in> set calls \<Longrightarrow> tc_Arguments call \<noteq> None \<and> json_arguments P (tc_Arguments call)"
    and "pv_DecodeArguments P ''{}'' = Inr (Some [])"
  shows "\<exists>c. toChatMessage P m = Inr c \<and> cm_Role c = ''assistant'' \<and> cm_Content c = m_Content m \<and>
    map ck_ID (cm_ToolCalls c) = map tc_ID calls \<and>
    map ck_Type (cm_ToolCalls c) = map (\<lambda>call. ''function'') calls \<and>
    map (\<lambda>k. fu_Name (ck_Function k)) (cm_ToolCalls c) = map tc_Name calls \<and>
    toAgentMessage P c = Inr m"
proof -
  have one: "\<exists>c. toChatToolCall P call = Inr c \<and> toToolCall P c = Inr (with_arguments call)"
    if "call \<in> set calls" for call
    using ToolCall_roundtrip [OF _ assms(7)] assms(6) [OF that] by blast
  obtain cs where cs: "each (toChatToolCall P) calls = Inr cs"
    "each (toToolCall P) cs = Inr (map with_arguments calls)"
    using each_roundtrip [of calls "toChatToolCall P" "toToolCall P" with_arguments] one by blast
  have "with_arguments call = call" if "call \<in> set calls" for call
    using assms(6) [OF that] by (auto simp: with_arguments_def)
  then have same: "map with_arguments calls = calls" by (simp add: map_idI)
  have m: "m = zeroMessage\<lparr>m_Role := RoleAssistant, m_Content := m_Content m, m_ToolCalls := Some calls\<rparr>"
    by (rule Message.equality) (simp_all add: zeroMessage_def assms(1-5))
  let ?c = "\<lparr>cm_Role = ''assistant'', cm_Content = m_Content m, cm_Name = [], cm_ToolCallID = [],
    cm_ToolCalls = cs\<rparr>"
  have "toChatMessage P m = Inr ?c"
    using assms(1-3,5) cs(1) by (simp add: toChatMessage_def toProviderRole_def role_defs)
  moreover have "toAgentMessage P ?c = Inr m"
    using cs(2) same m by (simp add: toAgentMessage_def)
  moreover have "map ck_ID cs = map tc_ID calls" "map ck_Type cs = map (\<lambda>call. ''function'') calls"
    "map (\<lambda>k. fu_Name (ck_Function k)) cs = map tc_Name calls"
    using each_keeps [of "toChatToolCall P" ck_ID tc_ID, OF _ cs(1)]
      each_keeps [of "toChatToolCall P" ck_Type "\<lambda>call. ''function''", OF _ cs(1)]
      each_keeps [of "toChatToolCall P" "\<lambda>k. fu_Name (ck_Function k)" tc_Name, OF _ cs(1)]
      toChatToolCall_fields by blast+
  ultimately show ?thesis by simp
qed

definition one_argument :: gomap where
  "one_argument = Some [(''path'', AnyString ''notes.txt'')]"

definition canned_provider :: "nat provider" where
  "canned_provider =
     \<lparr>pv_TimeoutDo = \<lambda>t q w. (Inr \<lparr>ha_Status = 200, ha_Body = ''{}'', ha_ReadErr = None, ha_Early = 0\<rparr>, Suc w),
      pv_NewRequest = \<lambda>verb u. None, pv_Encode = \<lambda>q. Inr ''{}'',
      pv_Decode = \<lambda>t. Inr \<lparr>cr_Choices = [\<lparr>ch_Message = \<lparr>cm_Role = ''assistant'', cm_Content = ''done'',
        cm_Name = [], cm_ToolCallID = [], cm_ToolCalls = []\<rparr>\<rparr>]\<rparr>,
      pv_EncodeArguments = \<lambda>a. Inr (if elems a = [] then ''{}'' else ''{1}''),
      pv_DecodeArguments = \<lambda>t. Inr (if t = ''{}'' then Some [] else one_argument)\<rparr>"

definition asking_message :: Message where
  "asking_message = zeroMessage\<lparr>m_Role := RoleAssistant, m_Content := ''reading'',
     m_ToolCalls := Some [\<lparr>tc_ID = ''call-1'', tc_Name = ''read'', tc_Arguments = one_argument\<rparr>]\<rparr>"

theorem provider_roundtrip_witness:
  "\<exists>c. toChatMessage canned_provider asking_message = Inr c \<and> cm_Role c = ''assistant'' \<and>
    cm_Content c = ''reading'' \<and> map ck_ID (cm_ToolCalls c) = [''call-1''] \<and>
    map (\<lambda>k. fu_Name (ck_Function k)) (cm_ToolCalls c) = [''read''] \<and>
    toAgentMessage canned_provider c = Inr asking_message"
proof -
  let ?call = "\<lparr>tc_ID = ''call-1'', tc_Name = ''read'', tc_Arguments = one_argument\<rparr>"
  have "TrimSpace ''{1}'' \<noteq> []" by code_simp
  then have "json_arguments canned_provider one_argument" and "one_argument \<noteq> None"
    by (simp_all add: canned_provider_def json_arguments_def one_argument_def)
  with provider_roundtrip [of asking_message "[?call]" canned_provider] show ?thesis
    by (auto simp: asking_message_def zeroMessage_def canned_provider_def)
qed

section \<open>The exchange\<close>

lemma read_completion_message:
  assumes "read_completion P response = Inr m"
  shows "200 \<le> ha_Status response" and "ha_Status response < 300"
    and "m_Role m = RoleAssistant" and "m_Requirement m = None" and "m_ToolCalls m \<noteq> None"
  using assms
  by (auto simp: read_completion_def toAgentMessage_def zeroMessage_def
      split: sum.splits list.splits option.splits if_splits)

lemma adapter_assistant: "assistant_reply (fst (adapter_Generate P a c q w))"
  by (auto simp: assistant_reply_def adapter_Generate_def read_completion_message(3)
      split: sum.splits prod.splits)

text \<open>
  What a call of the model does: without a request it leaves the world alone, otherwise it makes
  one exchange of a request to the endpoint, which carries the key, the model, the tools and
  the transcript without outdated observations.
\<close>

lemma adapter_exchange:
  assumes "adapter_New P cfg = Inr a"
  shows "(\<exists>e. adapter_Generate P a c q w = (Inl e, w)) \<or>
    (\<exists>x messages encoded.
      c = Some x \<and> list_all2 (\<lambda>m cm. toChatMessage P m = Inr cm)
        (provider_transcript (elems (mq_Messages q))) messages \<and>
      pv_Encode P \<lparr>cq_Model = TrimSpace (pc_Model cfg), cq_Messages = messages,
        cq_Tools = map toChatTool (mq_Tools q)\<rparr> = Inr encoded \<and>
      adapter_Generate P a c q w =
        (case ad_httpClient a \<lparr>hc_Context = x, hc_Method = ''POST'', hc_URL = ad_endpointURL a,
            hc_ContentType = Some ''application/json'',
            hc_Authorization = Some (''Bearer '' @ TrimSpace (pc_APIKey cfg)), hc_Body = Some encoded\<rparr> w of
          (Inl err, w') \<Rightarrow> (Inl (Errorf [Lit ''provider request execute: '', Wrap err]), w')
        | (Inr response, w') \<Rightarrow> (read_completion P response, w')))"
proof -
  have a: "ad_model a = TrimSpace (pc_Model cfg)" "ad_apiKey a = TrimSpace (pc_APIKey cfg)"
    using assms by (auto simp: adapter_New_def Let_def split: if_splits)
  have norm: "ns = provider_transcript ms" if "NormalizeMessagesForProvider ms = Inr ns" for ms ns
    using that preflight_outcome [of ms] by (auto split: if_splits)
  show ?thesis
    by (auto simp: adapter_Generate_def buildRequest_def provider_request_def each_Inr_iff a
        dest!: norm split: sum.splits option.splits)
qed

end
