(* ===== verification/Provider_Transcripts.thy ===== *)
theory Provider_Transcripts
  imports Provider
begin

text \<open>
  The engine and the provider together: every transcript that the ReAct engine sends to its
  model passes the preflight of the adapter, because the engine answers calls of its
  assistant messages only. The transcript invariant is \<open>sendable\<close>.
\<close>

section \<open>Transcripts that can be sent\<close>

definition calls_trimmed :: "Message \<Rightarrow> bool" where
  "calls_trimmed m \<longleftrightarrow> (\<forall>call \<in> set (elems (m_ToolCalls m)). TrimSpace (tc_ID call) = tc_ID call)"

definition sendable :: "Message list \<Rightarrow> bool" where
  "sendable ms \<longleftrightarrow> observations_ok [] ms \<and> (\<forall>m \<in> set ms. m_Role m = RoleAssistant \<longrightarrow> calls_trimmed m)"

lemma observations_ok_append:
  "observations_ok before (ms @ ns) \<longleftrightarrow> observations_ok before ms \<and> observations_ok (before @ ms) ns"
  by (induction ms arbitrary: before) simp_all

lemma sendable_snoc:
  "sendable (ms @ [m]) \<longleftrightarrow> sendable ms \<and> observation_ok ms m \<and> (m_Role m = RoleAssistant \<longrightarrow> calls_trimmed m)"
  by (auto simp: sendable_def observations_ok_append)

lemma sendable_Nil [simp]: "sendable []"
  by (simp add: sendable_def)

text \<open>Prompts, instructions and resolutions do not matter.\<close>

lemma sendable_plain:
  "m_Role m \<noteq> RoleTool \<Longrightarrow> m_Role m \<noteq> RoleAssistant \<Longrightarrow> sendable (ms @ [m]) \<longleftrightarrow> sendable ms"
  by (simp add: sendable_snoc observation_ok_def observed_def)

lemma sendable_assistant:
  "m_Role m = RoleAssistant \<Longrightarrow> sendable (ms @ [m]) \<longleftrightarrow> sendable ms \<and> calls_trimmed m"
  by (simp add: sendable_snoc observation_ok_def observed_def role_defs)

lemma calls_trimmed_Clone [simp]: "calls_trimmed (CloneMessage m) = calls_trimmed m"
  by (simp add: calls_trimmed_def)

lemma offered_Clone [simp]: "offered (map CloneMessage ms) = offered ms"
proof -
  have eq: "{m \<in> set (map CloneMessage ms). m_Role m = RoleAssistant} =
      CloneMessage ` {m \<in> set ms. m_Role m = RoleAssistant}" by auto
  show ?thesis unfolding offered_def eq by (simp add: image_image)
qed

lemma observations_ok_Clone [simp]:
  "observations_ok (map CloneMessage before) (map CloneMessage ms) = observations_ok before ms"
proof (induction ms arbitrary: before)
  case (Cons m ms)
  from Cons [of "before @ [m]"] show ?case by (simp add: observation_ok_def split: option.split)
qed simp

lemma sendable_Clone [simp]: "sendable (map CloneMessage ms) = sendable ms"
  using observations_ok_Clone [of "[]" ms] by (simp add: sendable_def)

lemma sendable_accepted: "sendable ms \<Longrightarrow> NormalizeMessagesForProvider ms = Inr (provider_transcript ms)"
  using preflight_outcome [of ms] by (simp add: sendable_def)

text \<open>A call that an observation may answer.\<close>

definition answerable :: "Message list \<Rightarrow> ToolCall \<Rightarrow> bool" where
  "answerable ms call \<longleftrightarrow> tc_ID call \<in> offered ms \<and> TrimSpace (tc_ID call) = tc_ID call"

lemma offered_mono: "offered ms \<subseteq> offered (ms @ ns)"
  by (auto simp: offered_def)

lemma answerable_append: "answerable ms call \<Longrightarrow> answerable (ms @ ns) call"
  using offered_mono by (auto simp: answerable_def)

lemma offered_call:
  "m \<in> set ms \<Longrightarrow> m_Role m = RoleAssistant \<Longrightarrow> call \<in> set (elems (m_ToolCalls m)) \<Longrightarrow> tc_ID call \<noteq> [] \<Longrightarrow>
   tc_ID call \<in> offered ms"
  by (auto simp: offered_def)

lemma sendable_answer:
  assumes "sendable ms" and "answerable ms call" and "tr_CallID r = tc_ID call"
  shows "sendable (ms @ [ToolResultMessage r])"
  using assms
  by (simp add: sendable_snoc observation_ok_def observed_def answerable_def ToolResultMessage_def
      zeroMessage_def role_defs)

lemma answerable_reply:
  assumes "m_Role m = RoleAssistant" and "calls_trimmed m" and "call \<in> set (elems (m_ToolCalls m))"
    and "tc_ID call \<noteq> []"
  shows "answerable (ms @ [CloneMessage m]) call"
proof -
  have "tc_ID call \<in> tc_ID ` set (elems (m_ToolCalls (CloneMessage m)))"
    using assms(3) by (force simp: image_iff)
  with assms show ?thesis
    by (auto simp: answerable_def offered_snoc calls_trimmed_def)
qed

section \<open>The engine keeps its transcript sendable\<close>

abbreviation sends :: "RunState \<Rightarrow> bool" where
  "sends st \<equiv> sendable (elems (st_Messages st))"

lemma Transition_Messages: "st_Messages (snd (TransitionRunStatus st t)) = st_Messages st"
  by (subst TransitionRunStatus_frame) simp

lemma Transition_Messages_eq: "TransitionRunStatus st t = (e, st') \<Longrightarrow> st_Messages st' = st_Messages st"
  using Transition_Messages [of st t] by simp

lemma ends_Messages [simp]:
  "st_Messages (fst (fst (failRun L x st e s))) = st_Messages st"
  "st_Messages (fst (fst (cancelRun L x st e s))) = st_Messages st"
  "st_Messages (fst (fst (completeRun L x st m s))) = st_Messages st"
  "st_Messages (fst (fst (exhaustRun L x st s))) = st_Messages st"
  by (auto simp: failRun_def cancelRun_def completeRun_def exhaustRun_def Let_def
      split: prod.splits option.splits dest: Transition_Messages_eq)

lemma suspendRun_Messages [simp]: "st_Messages (fst (fst (suspendRun L x st q s))) = st_Messages st"
  by (auto simp: suspendRun_def split: prod.splits option.splits dest: Transition_Messages_eq)

text \<open>Whatever way a call ends, its observation answers the call.\<close>

lemma run_tool_error_answers:
  "run_tool_error L x st call e w = (CallResult r, w') \<Longrightarrow> tr_CallID (fill_identity call r) = tc_ID call"
  "run_tool_error L x st call e w = (CallInvalidSuspend r e', w') \<Longrightarrow> tr_CallID (fill_identity call r) = tc_ID call"
  "run_tool_error L x st call e w = (CallSuspended r q, w') \<Longrightarrow> tr_CallID (fill_identity call r) = tc_ID call"
  by (auto simp: run_tool_error_def Let_def split: prod.splits option.splits sum.splits)

lemma run_tool_answers:
  "run_tool L x defs st call w = (CallResult r, w') \<Longrightarrow> tr_CallID (fill_identity call r) = tc_ID call"
  "run_tool L x defs st call w = (CallInvalidSuspend r e, w') \<Longrightarrow> tr_CallID (fill_identity call r) = tc_ID call"
  "run_tool L x defs st call w = (CallSuspended r q, w') \<Longrightarrow> tr_CallID (fill_identity call r) = tc_ID call"
  by (auto simp: run_tool_def Let_def fill_identity_valid split: prod.splits option.splits sum.splits
      dest: run_tool_error_answers)

lemma sends_answer:
  "sends st \<Longrightarrow> answerable (elems (st_Messages st)) call \<Longrightarrow> tr_CallID r = tc_ID call \<Longrightarrow>
   sends (append_message (ToolResultMessage r) st)"
  by (simp add: append_message_def sendable_answer)

lemma tool_loop_sends:
  "sends st \<Longrightarrow> \<forall>call \<in> set calls. answerable (elems (st_Messages st)) call \<Longrightarrow>
   sends (flow_state (tool_loop L x defs calls st s))"
proof (induction calls arbitrary: st s)
  case (Cons call calls)
  have answered: "sends (append_message (ToolResultMessage (fill_identity call r)) st)"
    "sends (flow_state (tool_loop L x defs calls (append_message (ToolResultMessage (fill_identity call r)) st) s1))"
    if "tr_CallID (fill_identity call r) = tc_ID call" for r s1
  proof -
    show "sends (append_message (ToolResultMessage (fill_identity call r)) st)"
      using Cons.prems that by (intro sends_answer) simp_all
    then show "sends (flow_state (tool_loop L x defs calls (append_message (ToolResultMessage (fill_identity call r)) st) s1))"
      using Cons.prems(2) by (intro Cons.IH) (simp_all add: append_message_def answerable_append)
  qed
  obtain e w where poll: "ctx_Err (rx_poll L) x (snd s) = (e, w)" by (metis surj_pair)
  obtain c w1 where run: "run_tool L x defs st call w = (c, w1)" by (metis surj_pair)
  have obs: "fst (observe L x call r st s0) = append_message (ToolResultMessage (fill_identity call r)) st" for r s0
    by (simp add: observe_def Let_def)
  show ?case
  proof (cases e)
    case (Some err)
    with Cons.prems(1) poll show ?thesis by simp
  next
    case None
    show ?thesis
    proof (cases c)
      case (CallResult r)
      with run_tool_answers(1) [of L x defs st call w] run have "tr_CallID (fill_identity call r) = tc_ID call" by simp
      with answered(2) [of r] None poll run obs [of r] CallResult show ?thesis by (simp add: split_beta)
    next
      case (CallSuspended r q)
      with run_tool_answers(3) [of L x defs st call w] run have "tr_CallID (fill_identity call r) = tc_ID call" by simp
      with answered(1) [of r] None poll run obs [of r] CallSuspended show ?thesis by (simp add: split_beta)
    next
      case (CallInvalidSuspend r e')
      with run_tool_answers(2) [of L x defs st call w] run have "tr_CallID (fill_identity call r) = tc_ID call" by simp
      with answered(1) [of r] None poll run obs [of r] CallInvalidSuspend show ?thesis by (simp add: split_beta)
    next
      case (CallCancelled e')
      with Cons.prems(1) None poll run show ?thesis by simp
    qed
  qed
qed simp

lemma act_on_message_sends:
  assumes "sends st" and "st_Messages st = Some (ms @ [CloneMessage m])" and "m_Role m = RoleAssistant"
    and "calls_trimmed m"
  shows "sends (flow_state (act_on_message L x defs m st s))"
proof -
  have "answerable (elems (st_Messages st)) call"
    if "validateToolCallShape (elems (m_ToolCalls m)) = None" "call \<in> set (elems (m_ToolCalls m))" for call
    using that assms(2) answerable_reply [OF assms(3,4) that(2), of ms]
    by (auto simp: validateToolCallShape_def validateToolCallShape_from_iff)
  then show ?thesis
    using assms(1) by (auto simp: act_on_message_def split: option.splits intro!: tool_loop_sends)
qed

text \<open>A model whose calls bear trimmed identifiers.\<close>

definition trimmed_replies :: "'w react \<Rightarrow> bool" where
  "trimmed_replies L \<longleftrightarrow> (\<forall>c q w m. fst (rx_Generate L c q w) = Inr m \<longrightarrow> calls_trimmed m)"

lemma default_role_trimmed [simp]: "calls_trimmed (default_role m) = calls_trimmed m"
  by (simp add: default_role_def calls_trimmed_def)

lemma react_iteration_sends:
  assumes "model_ok L" and "trimmed_replies L" and "sends st"
  shows "sends (flow_state (react_iteration L x input defs st s))"
proof -
  have acted: "sends (flow_state (act_on_message L x defs (default_role m)
      (append_message (CloneMessage (default_role m)) (st\<lparr>st_Step := k\<rparr>)) s1))"
    if "rx_Generate L c q w = (Inr m, w')" for c q w m w' k s1
  proof (rule act_on_message_sends)
    have "fst (rx_Generate L c q w) = Inr m" using that by simp
    with assms(2) have trim: "calls_trimmed m" unfolding trimmed_replies_def by blast
    then show "calls_trimmed (default_role m)" by simp
    show "m_Role (default_role m) = RoleAssistant" by (rule model_ok_role [OF assms(1) that])
    with trim assms(3) show "sends (append_message (CloneMessage (default_role m)) (st\<lparr>st_Step := k\<rparr>))"
      by (simp add: append_message_def sendable_assistant)
  qed (simp add: append_message_def)
  show ?thesis
    using assms(3) acted
    by (auto simp: react_iteration_def Let_def split: prod.splits option.splits sum.splits)
qed

section \<open>What the model is asked\<close>

text \<open>A fact about the world that the model keeps when it is asked with a transcript that passes.\<close>

definition keeps_when_accepted :: "'w react \<Rightarrow> ('w \<Rightarrow> bool) \<Rightarrow> bool" where
  "keeps_when_accepted L Q \<longleftrightarrow> (\<forall>c q w. Q w \<longrightarrow>
     NormalizeMessagesForProvider (elems (mq_Messages q)) =
       Inr (provider_transcript (elems (mq_Messages q))) \<longrightarrow>
     Q (snd (rx_Generate L c q w)))"

lemma keeps_asked:
  assumes "keeps_when_accepted L Q" and "sends st" and "Q w"
    and "rx_Generate L c (model_request input (st\<lparr>st_Step := k\<rparr>)) w = (r, w')"
  shows "Q w'"
proof -
  let ?q = "model_request input (st\<lparr>st_Step := k\<rparr>)"
  have "sendable (elems (mq_Messages ?q))" using assms(2) by (simp add: model_request_def CloneMessages_def)
  from sendable_accepted [OF this] assms(1,3) have "Q (snd (rx_Generate L c ?q w))"
    unfolding keeps_when_accepted_def by blast
  with assms(4) show ?thesis by simp
qed

lemma asked_react_iteration:
  assumes "react_keeps L (\<lambda>c call. True) Q" and "keeps_when_accepted L Q" and "sends st" and "Q (snd s)"
  shows "Q (flow_world (react_iteration L x input defs st s))"
  using assms(4)
  by (auto simp: react_iteration_def Let_def split: prod.splits option.splits sum.splits
      intro!: keeps_act_on_message [OF assms(1)] keeps_ends [OF assms(1)] keeps_publish_event [OF assms(1)])
    (metis keeps_poll [OF assms(1)] keeps_asked [OF assms(2,3)] keeps_cancellation [OF assms(1)])+

lemma asked_react_loop:
  "react_keeps L (\<lambda>c call. True) Q \<Longrightarrow> keeps_when_accepted L Q \<Longrightarrow> model_ok L \<Longrightarrow> trimmed_replies L \<Longrightarrow>
   sends st \<Longrightarrow> Q (snd s) \<Longrightarrow>
   Q (snd (react_loop L x input defs n st s)) \<and> sends (fst (fst (react_loop L x input defs n st s)))"
proof (induction L x input defs n st s rule: react_loop.induct)
  case (1 L x input defs n st s)
  note step = asked_react_iteration [OF "1.prems"(1,2,5,6), of x input defs]
    react_iteration_sends [OF "1.prems"(3,4,5), of x input defs s]
  show ?case
  proof (cases "st_Step st < n")
    case False
    with keeps_ends(4) [OF "1.prems"(1,6)] "1.prems"(5) show ?thesis
      by (subst (1 2) react_loop.simps) simp
  next
    case True
    with step "1.IH" [OF True _ "1.prems"(1-4)] show ?thesis
      by (subst (1 2) react_loop.simps) (cases "react_iteration L x input defs st s"; simp)
  qed
qed

section \<open>The replay\<close>

lemma first_some_Some: "first_some xs = Some y \<Longrightarrow> Some y \<in> set xs"
  by (induction xs) (auto split: option.splits)

lemma found_call: "find P (rev xs) = Some x \<Longrightarrow> x \<in> set xs \<and> P x"
  by (metis find_Some_iff nth_mem set_rev)

lemma found_call_offered:
  assumes "findToolCallByID ms i = Some call" and "\<forall>m \<in> set ms. m_Role m = RoleAssistant \<longrightarrow> calls_trimmed m"
  shows "answerable ms call"
proof -
  have "i \<noteq> []" using assms(1) by (auto simp: findToolCallByID_def split: if_splits)
  then obtain m where m: "m \<in> set ms" "m_Role m = RoleAssistant"
    "map_option CloneToolCall (find (\<lambda>call. tc_ID call = i) (rev (elems (m_ToolCalls m)))) = Some call"
    using assms(1)
    by (fastforce simp: findToolCallByID_def simp del: map_option_eq_Some dest!: first_some_Some split: if_splits)
  then obtain c where "find (\<lambda>call. tc_ID call = i) (rev (elems (m_ToolCalls m))) = Some c" "call = CloneToolCall c"
    by auto
  with found_call [of "\<lambda>call. tc_ID call = i"] m
  have "m \<in> set ms" "m_Role m = RoleAssistant" "c \<in> set (elems (m_ToolCalls m))" "tc_ID c = i"
    "call = CloneToolCall c" by auto
  with \<open>i \<noteq> []\<close> assms(2) show ?thesis
    by (auto simp: answerable_def calls_trimmed_def intro: offered_call)
qed

lemma replay_call_found:
  "approvedToolReplayCallFromInput c st input = Inr (Some call) \<Longrightarrow>
   \<exists>i. findToolCallByID (elems (st_Messages st)) i = Some call"
  by (auto simp: approvedToolReplayCallFromInput_def split: option.splits if_splits)

lemma replayed_answers:
  "executeApprovedToolReplay L x call w = (Inr r, w') \<Longrightarrow> tr_CallID (fill_identity call r) = tc_ID call"
  by (auto simp: executeApprovedToolReplay_def fill_identity_valid
      split: prod.splits option.splits sum.splits if_splits)

lemma replay_phase_sends:
  assumes "sends st" and "approvedToolReplayCallFromInput c st input = Inr replay"
  shows "sends (flow_state (replay_phase L x replay st w))"
proof (cases replay)
  case None
  with assms(1) show ?thesis by (simp add: replay_phase_def)
next
  case (Some call)
  with replay_call_found assms(2) obtain i where "findToolCallByID (elems (st_Messages st)) i = Some call"
    by blast
  with found_call_offered assms(1) have ans: "answerable (elems (st_Messages st)) call"
    by (auto simp: sendable_def)
  have "sends (append_message (ToolResultMessage (fill_identity call r)) st)"
    if "executeApprovedToolReplay L x call w = (Inr r, w1)" for r w1
    by (rule sends_answer [OF assms(1) ans replayed_answers [OF that]])
  with Some assms(1) show ?thesis
    by (auto simp: replay_phase_def split: prod.splits sum.splits option.splits dest!: observe_eq)
qed

lemma with_resolution_sends: "sends st \<Longrightarrow> sends (with_resolution up input st)"
  by (auto simp: with_resolution_def append_message_def sendable_plain resolutionMessage_def Let_def
      zeroMessage_def role_defs)

section \<open>Execute\<close>

lemma executed_asks_accepted:
  assumes "react_keeps L (\<lambda>c call. True) Q" and "keeps_when_accepted L Q" and "model_ok L"
    and "trimmed_replies L" and "sends st" and "Q w"
  shows "Q (snd (react_Execute L (Some x) st input w)) \<and>
    sends (fst (fst (react_Execute L (Some x) st input w)))"
proof (cases "executable st")
  case False
  with not_executable [OF False, of L x input w] assms(5,6) show ?thesis by auto
next
  case True
  let ?st = "with_resolution (rx_is_print L) input (st\<lparr>st_Status := RunStatusRunning\<rparr>)"
  have st: "sends ?st" using assms(5) by (intro with_resolution_sends) simp
  have guards: "ValidateRunState st = None" "st_Status st \<noteq> RunStatusSuspended"
    using True by (auto simp: executable_def)
  show ?thesis
  proof (cases "approvedToolReplayCallFromInput (Some x) ?st input")
    case (Inl e)
    with st guards executable_start(1) [OF True] keeps_ends(1) [OF assms(1)] assms(6) show ?thesis
      by (simp add: react_Execute_def Let_def del: ValidateRunState_None_iff)
  next
    case (Inr replay)
    have replayed: "Q (flow_world (replay_phase L x replay ?st w))"
      "sends (flow_state (replay_phase L x replay ?st w))"
      using keeps_replay [OF assms(1,6)] replay_phase_sends [OF st Inr] by simp_all
    show ?thesis
      using replayed asked_react_loop [OF assms(1-4)] Inr guards executable_start(1) [OF True]
      by (cases "replay_phase L x replay ?st w")
        (simp_all add: react_Execute_def Let_def del: ValidateRunState_None_iff)
  qed
qed

text \<open>
  C25: the engine and the provider agree: from a transcript that the preflight accepts, whatever
  the tools answer and however the run ends, every transcript that the engine sends to the
  model is accepted by the preflight and is sent as its latest observations, and the run ends
  with such a transcript again, provided the model speaks as the assistant and the identifiers
  of its calls bear no surrounding white space.
\<close>

theorem engine_transcripts_accepted:
  assumes "react_keeps L (\<lambda>c call. True) Q" and "keeps_when_accepted L Q" and "model_ok L"
    and "trimmed_replies L" and "sendable (elems (st_Messages st))" and "Q w"
  shows "Q (snd (react_Execute L (Some x) st input w)) \<and>
    sendable (elems (st_Messages (fst (fst (react_Execute L (Some x) st input w)))))"
  by (rule executed_asks_accepted [OF assms])

text \<open>An engine over a model that notes in the world whether a transcript has been refused.\<close>

definition noting_react :: "bool react" where
  "noting_react = \<lparr>rx_Generate = \<lambda>c q w. (Inr (zeroMessage\<lparr>m_Role := RoleAssistant, m_Content := ''done''\<rparr>),
       w \<and> NormalizeMessagesForProvider (elems (mq_Messages q)) =
         Inr (provider_transcript (elems (mq_Messages q)))),
     rx_Execute = \<lambda>c call w. (Inr \<lparr>tr_CallID = tc_ID call, tr_Name = tc_Name call, tr_Content = ''ok'',
       tr_IsError = False, tr_FailureReason = []\<rparr>, w),
     rx_Publish = \<lambda>c e w. (None, w), rx_poll = \<lambda>w. (None, w), rx_is_print = \<lambda>r. True\<rparr>"

definition observed_run :: RunState where
  "observed_run = fresh_run\<lparr>st_Messages := Some
     [zeroMessage\<lparr>m_Role := RoleUser, m_Content := ''read it''\<rparr>,
      zeroMessage\<lparr>m_Role := RoleAssistant, m_ToolCalls := Some [\<lparr>tc_ID = ''call-1'', tc_Name = ''read'',
        tc_Arguments = one_argument\<rparr>]\<rparr>,
      zeroMessage\<lparr>m_Role := RoleTool, m_ToolCallID := ''call-1'', m_Content := ''hello''\<rparr>]\<rparr>"

theorem engine_transcripts_accepted_witness:
  "snd (react_Execute noting_react (Some ctx_Background) observed_run plain_input True) \<and>
   sendable (elems (st_Messages (fst (fst
     (react_Execute noting_react (Some ctx_Background) observed_run plain_input True)))))"
proof (rule engine_transcripts_accepted [where Q = "\<lambda>w. w"])
  have "TrimSpace ''call-1'' = ''call-1''" by code_simp
  then show "sendable (elems (st_Messages observed_run))"
    by (simp add: observed_run_def sendable_def observation_ok_def observed_def zeroMessage_def role_defs
        offered_def calls_trimmed_def conj_disj_distribR ex_disj_distrib)
qed (simp_all add: react_keeps_def keeps_when_accepted_def model_ok_def trimmed_replies_def noting_react_def
    assistant_reply_def calls_trimmed_def zeroMessage_def)

end
