(* ===== verification/Server_Wiring.thy ===== *)
theory Server_Wiring
  imports Provider_Transcripts Tool_Runtime Mocks Config Http_Routes
begin

text \<open>
  The server as it is put together: \<open>newRuntime\<close> of \<open>runtimewire/runtimewire.go\<close> with the model and
  the tools that the configuration asks for, \<open>runtimewire/event_log_sink.go\<close>, the application
  of \<open>app/app.go\<close> with its health endpoints, and \<open>app/request_logging_middleware.go\<close>.
\<close>

section \<open>Model and tools\<close>

text \<open>
  What lies outside the server: the provider's transport and codecs, the operating system, the
  timer of the mock model, the JSON encoders and the logger's output.
\<close>

record 'x outside =
  ot_provider :: "'x provider"
  ot_os :: "'x os"
  ot_lower :: "nat \<Rightarrow> nat"
  ot_is_print :: "nat \<Rightarrow> bool"
  ot_sleep :: "ctx \<Rightarrow> 'x \<Rightarrow> gerr option \<times> 'x"
  ot_MarshalArguments :: "gomap \<Rightarrow> gerr + string"
  ot_MarshalEvent :: "Event \<Rightarrow> gerr + string"
  ot_DebugEvent :: "Event \<Rightarrow> 'x \<Rightarrow> 'x"
  ot_DebugText :: "string \<Rightarrow> 'x \<Rightarrow> 'x"
  ot_poll :: "'x \<Rightarrow> gerr option \<times> 'x"

type_synonym 'x model = "ctx \<Rightarrow> ModelRequest \<Rightarrow> 'x \<Rightarrow> (gerr + Message) \<times> 'x"
type_synonym 'x tools = "ctx \<Rightarrow> ToolCall \<Rightarrow> 'x \<Rightarrow> (gerr + ToolResult) \<times> 'x"

definition buildModel :: "'x outside \<Rightarrow> Config \<Rightarrow> gerr + 'x model" where
  "buildModel X cfg =
     (if cf_ModelMode cfg = ModelModeMock then Inr (mock_Generate (ot_lower X) (ot_is_print X) (ot_sleep X))
      else if cf_ModelMode cfg = ModelModeProvider then
        (case adapter_New (ot_provider X) \<lparr>pc_APIKey = cf_ProviderAPIKey cfg, pc_Model = cf_ProviderModel cfg,
            pc_BaseURL = cf_ProviderBaseURL cfg,
            pc_HTTPClient = Some (pv_TimeoutDo (ot_provider X) (cf_ProviderTimeout cfg))\<rparr> of
           Inl err \<Rightarrow> Inl err
         | Inr providerModel \<Rightarrow> Inr (adapter_Generate (ot_provider X) providerModel))
      else Inl (Errorf [Lit ''unsupported model mode '', Quo (cf_ModelMode cfg)]))"

definition buildTools :: "'x outside \<Rightarrow> Config \<Rightarrow> 'x \<Rightarrow> (gerr + 'x tools \<times> ToolDefinition list) \<times> 'x" where
  "buildTools X cfg w =
     (if cf_ToolMode cfg = ToolModeMock
      then (Inr (mock_Execute (ot_MarshalArguments X), mock_Definitions), w)
      else if cf_ToolMode cfg = ToolModeReal then
        (case NewPolicy (ot_os X) (cf_WorkspaceRoot cfg) (cf_BashTimeout cfg) w of
           (Inl err, w) \<Rightarrow> (Inl err, w)
         | (Inr policy, w) \<Rightarrow> (Inr (toolset_Execute (ot_os X) policy, toolset_Definitions), w))
      else (Inl (Errorf [Lit ''unsupported tool mode '', Quo (cf_ToolMode cfg)]), w))"

section \<open>The event log\<close>

text \<open>The logger of the sink, behind the check of the context that \<open>log_Publish\<close> makes.\<close>

definition log_event :: "'x outside \<Rightarrow> LogFormat \<Rightarrow> Event \<Rightarrow> 'x \<Rightarrow> gerr option \<times> 'x" where
  "log_event X logFormat ev x =
     (if logFormat = LogFormatJSON then (None, ot_DebugEvent X ev x)
      else case ot_MarshalEvent X ev of
        Inl marshalErr \<Rightarrow> (Some marshalErr, x)
      | Inr eventPayload \<Rightarrow> (None, ot_DebugText X eventPayload x))"

definition event_logger :: "'x outside \<Rightarrow> bool \<Rightarrow> LogFormat \<Rightarrow> (Event \<Rightarrow> 'x \<Rightarrow> gerr option \<times> 'x) option" where
  "event_logger X has_logger logFormat =
     (if \<not> has_logger then None
      else Some (log_event X (if logFormat = [] then LogFormatText else logFormat)))"

section \<open>The runtime\<close>

record 'x server_runtime =
  sr_external :: "'x external"
  sr_runtime :: "'x runtime"
  sr_ToolDefinitions :: "ToolDefinition list"

definition wire_runtime ::
  "'x outside \<Rightarrow> bool \<Rightarrow> Config \<Rightarrow> 'x \<Rightarrow> (gerr + 'x server_runtime) \<times> 'x" where
  "wire_runtime X has_logger cfg w =
     (case config_Validate cfg of
        Some err \<Rightarrow> (Inl (Errorf [Lit ''new runtime config: '', Wrap err]), w)
      | None \<Rightarrow>
     (case buildModel X cfg of
        Inl err \<Rightarrow> (Inl (Errorf [Lit ''new runtime model: '', Wrap err]), w)
      | Inr model \<Rightarrow>
     (case buildTools X cfg w of
        (Inl err, w) \<Rightarrow> (Inl (Errorf [Lit ''new runtime tools: '', Wrap err]), w)
      | (Inr (tools, definitions), w) \<Rightarrow>
     (case react_New_check True True of
        Some err \<Rightarrow> (Inl (Errorf [Lit ''new runtime loop: '', Wrap err]), w)
      | None \<Rightarrow>
     (case NewRunner_check True True True of
        Some err \<Rightarrow> (Inl (Errorf [Lit ''new runtime runner: '', Wrap err]), w)
      | None \<Rightarrow>
          (Inr \<lparr>sr_external = \<lparr>ex_Generate = model, ex_Execute = tools,
               ex_log = event_logger X has_logger (cf_LogFormat cfg), ex_poll = ot_poll X,
               ex_is_print = ot_is_print X\<rparr>,
             sr_runtime = newRuntime w, sr_ToolDefinitions = definitions\<rparr>, w))))))"

section \<open>What a configuration gives\<close>

lemma mock_assistant: "assistant_reply (fst (mock_Generate lower up sleep c q w))"
  using mock_reply_ok [of lower up sleep c q w]
  by (auto simp: reply_ok_def assistant_reply_def split: sum.splits)

lemma buildModel_ok:
  assumes "config_ok cfg"
  shows "\<exists>m. buildModel X cfg = Inr m \<and> (\<forall>c q x. assistant_reply (fst (m c q x)))"
proof (cases "cf_ModelMode cfg = ModelModeMock")
  case True
  then show ?thesis by (simp add: buildModel_def mock_assistant)
next
  case False
  with assms have "cf_ModelMode cfg = ModelModeProvider" "TrimSpace (cf_ProviderAPIKey cfg) \<noteq> []"
    "TrimSpace (cf_ProviderModel cfg) \<noteq> []" by (auto simp: config_ok_def)
  then show ?thesis
    by (simp add: buildModel_def adapter_New_def Let_def adapter_assistant)
qed

text \<open>The results of the tools bear the identity of the call.\<close>

definition identified :: "'x tools \<Rightarrow> bool" where
  "identified tools \<longleftrightarrow> (\<forall>c call x r x'. tools c call x = (Inr r, x') \<longrightarrow>
     tr_CallID r = tc_ID call \<and> tr_Name r = tc_Name call)"

lemma mock_identified: "identified (mock_Execute marshal)"
  by (auto simp: identified_def mock_Execute_def zeroToolResult_def split: sum.splits if_splits)

lemma toolset_identified: "identified (toolset_Execute S p)"
  by (auto simp: identified_def toolset_Execute_def split: option.splits prod.splits sum.splits)

lemma definition_names:
  "map td_Name mock_Definitions = [''mock_lookup'']"
  "map td_Name toolset_Definitions = [ToolRead, ToolWrite, ToolEdit, ToolBash]"
  by (simp_all add: mock_Definitions_def toolset_Definitions_def toolDefinitions_def CloneToolDefinitions_def
      CloneToolDefinition_def)

definition tools_available :: "'x outside \<Rightarrow> Config \<Rightarrow> 'x \<Rightarrow> bool" where
  "tools_available X cfg w \<longleftrightarrow> (cf_ToolMode cfg = ToolModeReal \<longrightarrow>
     (\<exists>policy. fst (NewPolicy (ot_os X) (cf_WorkspaceRoot cfg) (cf_BashTimeout cfg) w) = Inr policy))"

lemma buildTools_ok:
  assumes "config_ok cfg"
  shows "if tools_available X cfg w
    then \<exists>tools defs w'. buildTools X cfg w = (Inr (tools, defs), w') \<and> identified tools \<and>
      distinct (map td_Name defs)
    else \<exists>err w'. buildTools X cfg w = (Inl err, w')"
proof (cases "cf_ToolMode cfg = ToolModeMock")
  case True
  then show ?thesis
    by (simp add: buildTools_def tools_available_def mock_identified definition_names)
      (simp add: ToolModeMock_def ToolModeReal_def)
next
  case False
  with assms have "cf_ToolMode cfg = ToolModeReal" by (auto simp: config_ok_def)
  then show ?thesis
    by (auto simp: buildTools_def tools_available_def toolset_identified definition_names ToolRead_def ToolWrite_def
        ToolEdit_def ToolBash_def split: prod.splits sum.splits)
qed

text \<open>
  C27: a server comes up exactly from a valid configuration whose workspace is there, and then it
  is what the engine and the runner rely on: the store is empty, the model speaks as the
  assistant, every tool result bears the identity of its call, and the names of the tools that
  are offered are distinct.
\<close>

theorem newRuntime_wired:
  "case fst (wire_runtime X has_logger cfg w) of
     Inl err \<Rightarrow> \<not> (config_ok cfg \<and> tools_available X cfg w)
   | Inr r \<Rightarrow> config_ok cfg \<and> tools_available X cfg w \<and> rt_store (sr_runtime r) = Map.empty \<and>
       ext_model_ok (sr_external r) \<and> identified (ex_Execute (sr_external r)) \<and>
       distinct (map td_Name (sr_ToolDefinitions r))"
proof (cases "config_ok cfg")
  case False
  then obtain err where "config_Validate cfg = Some err" using config_Validate_None_iff by auto
  with False show ?thesis by (simp add: wire_runtime_def)
next
  case True
  then have valid: "config_Validate cfg = None" using config_Validate_None_iff by auto
  obtain m where m: "buildModel X cfg = Inr m" "\<forall>c q x. assistant_reply (fst (m c q x))"
    using buildModel_ok [OF True] by blast
  from buildTools_ok [OF True, of X w] True valid m show ?thesis
    by (auto simp: wire_runtime_def react_New_check_def NewRunner_check_def ext_model_ok_def newRuntime_def
        store_New_def split: if_splits)
qed

end
