(* ===== verification/Server_App.thy ===== *)
theory Server_App
  imports Server_Wiring
begin

text \<open>
  The server process: \<open>app/app.go\<close>, that is \<open>New\<close>, the life cycle of \<open>Start\<close> and \<open>Shutdown\<close>, the
  endpoints around the API, and \<open>app/request_logging_middleware.go\<close>. The \<open>http.Server\<close> is outside:
  its \<open>ListenAndServe\<close> blocks until it fails or, once \<open>Shutdown\<close> has been called, answers
  \<open>ErrServerClosed\<close>.
\<close>

section \<open>The application\<close>

record 'x App =
  app_cfg :: Config
  app_runtime :: "'x server_runtime"
  app_router :: "'x handlers"
  app_ready :: bool

definition app_New :: "'x outside \<Rightarrow> Config \<Rightarrow> bool \<Rightarrow> 'x \<Rightarrow> (gerr + 'x App) \<times> 'x" where
  "app_New X cfg has_logger w =
     (if cf_HTTPAddr cfg = [] then (Inl (Errorf [Lit ''new app: empty HTTPAddr'']), w)
      else if \<not> has_logger then (Inl (Errorf [Lit ''new app: nil logger'']), w)
      else if cf_ShutdownTimeout cfg \<le> 0 then (Inl (Errorf [Lit ''new app: shutdown timeout must be > 0'']), w)
      else case config_Validate cfg of
        Some err \<Rightarrow> (Inl (Errorf [Lit ''new app config: '', Wrap err]), w)
      | None \<Rightarrow>
     (case wire_runtime X True cfg w of
        (Inl err, w) \<Rightarrow> (Inl (Errorf [Lit ''new app runtime: '', Wrap err]), w)
      | (Inr r, w) \<Rightarrow>
          (Inr \<lparr>app_cfg = cfg, app_runtime = r,
             app_router = NewRouter (Some \<lparr>has_Runner = True, has_RunStore = True, has_StreamBroker = True\<rparr>)
               (sr_external r) (sr_ToolDefinitions r) None,
             app_ready = False\<rparr>, w)))"

text \<open>What the outer mux answers by itself; everything else is the router's.\<close>

datatype mux_reply =
    StatusOnly int
  | Plain int string
  | ToRouter

definition handleHealthz :: "string \<Rightarrow> mux_reply" where
  "handleHealthz verb = (if verb \<noteq> ''GET'' then StatusOnly 405 else Plain 200 ''ok'')"

text \<open>An application that \<open>New\<close> built always has a runtime.\<close>

definition handleReadyz :: "bool \<Rightarrow> string \<Rightarrow> mux_reply" where
  "handleReadyz ready verb =
     (if verb \<noteq> ''GET'' then StatusOnly 405
      else if \<not> ready then Plain 503 ''not ready''
      else Plain 200 ''ready'')"

definition app_answer :: "bool \<Rightarrow> string \<Rightarrow> string \<Rightarrow> mux_reply" where
  "app_answer ready verb path =
     (if path = ''/healthz'' then handleHealthz verb
      else if path = ''/readyz'' then handleReadyz ready verb
      else ToRouter)"

section \<open>Start and shutdown\<close>

text \<open>The end of \<open>Start\<close>, with the error of \<open>ListenAndServe\<close> and the flag: the result and the flag.\<close>

definition start_returns :: "gerr option \<Rightarrow> bool \<Rightarrow> gerr option \<times> bool" where
  "start_returns err ready = (if is_err err HttpServerClosed then (None, ready) else (err, False))"

text \<open>The end of \<open>Shutdown\<close>, with the errors of the server's \<open>Shutdown\<close> and \<open>Close\<close>.\<close>

definition shutdown_returns :: "ctx \<Rightarrow> gerr option \<Rightarrow> gerr option \<Rightarrow> gerr option" where
  "shutdown_returns c err closeErr =
     (case c of
        None \<Rightarrow> Some (Errorf [Lit ''shutdown: nil context''])
      | Some x \<Rightarrow>
     (case err of
        None \<Rightarrow> None
      | Some e \<Rightarrow>
          if errors_Is e ContextDeadlineExceeded then
            (case closeErr of
               None \<Rightarrow> None
             | Some ce \<Rightarrow> Some (Errorf [Lit ''shutdown timeout and forced close failed: '',
                 Wrap (Joined [e, ce])]))
          else Some e))"

text \<open>
  The two goroutines of the process: where \<open>Start\<close> is, whether the server has been closed (by
  \<open>Shutdown\<close>), and the flag. A server that is closed accepts no request any more.
\<close>

datatype start_pc = NotStarted | Listening | Returned "gerr option"

record lifecycle =
  lc_start :: start_pc
  lc_closed :: bool
  lc_shutting :: bool
  lc_ready :: bool

definition fresh_app :: lifecycle where
  "fresh_app = \<lparr>lc_start = NotStarted, lc_closed = False, lc_shutting = False, lc_ready = False\<rparr>"

inductive app_step :: "lifecycle \<Rightarrow> lifecycle \<Rightarrow> bool" where
  starts: "lc_start a = NotStarted \<Longrightarrow> app_step a (a\<lparr>lc_start := Listening, lc_ready := True\<rparr>)"
| ended: "lc_start a = Listening \<Longrightarrow> lc_closed a \<Longrightarrow> start_returns (Some (Sentinel HttpServerClosed)) (lc_ready a) = (r, b) \<Longrightarrow>
    app_step a (a\<lparr>lc_start := Returned r, lc_ready := b\<rparr>)"
| fails_listening: "lc_start a = Listening \<Longrightarrow> \<not> lc_closed a \<Longrightarrow> \<not> errors_Is e HttpServerClosed \<Longrightarrow>
    start_returns (Some e) (lc_ready a) = (r, b) \<Longrightarrow>
    app_step a (a\<lparr>lc_start := Returned r, lc_ready := b\<rparr>)"
| shuts_down: "app_step a (a\<lparr>lc_shutting := True, lc_ready := False\<rparr>)"
| closes: "lc_shutting a \<Longrightarrow> app_step a (a\<lparr>lc_closed := True\<rparr>)"

inductive_cases app_stepE: "app_step a b"

lemmas app_steps = app_step.intros

text \<open>Every run in which \<open>Start\<close> has begun before \<open>Shutdown\<close> is called.\<close>

inductive served_app :: "lifecycle \<Rightarrow> bool" where
  started: "app_step fresh_app a \<Longrightarrow> lc_start a = Listening \<Longrightarrow> served_app a"
| later: "served_app a \<Longrightarrow> app_step a b \<Longrightarrow> served_app b"

definition ready_exact :: "lifecycle \<Rightarrow> bool" where
  "ready_exact a \<longleftrightarrow> lc_start a \<noteq> NotStarted \<and>
     (lc_ready a \<longleftrightarrow> lc_start a = Listening \<and> \<not> lc_shutting a) \<and> (lc_closed a \<longrightarrow> lc_shutting a)"

lemma ready_exact_step: "ready_exact a \<Longrightarrow> app_step a b \<Longrightarrow> ready_exact b"
  by (elim app_stepE) (auto simp: ready_exact_def start_returns_def is_err_def)

lemma served_ready_exact: "served_app a \<Longrightarrow> ready_exact a"
proof (induction rule: served_app.induct)
  case (started a)
  then show ?case by (auto elim!: app_stepE simp: ready_exact_def fresh_app_def)
next
  case (later a b)
  then show ?case by (simp add: ready_exact_step)
qed

text \<open>
  C28: readiness is exact: in every run that has begun to serve, \<open>/readyz\<close> answers 200 just while
  the server listens and no shutdown has been asked for, and 503 from the call of \<open>Shutdown\<close> or
  the failure of the listener on, for good; and \<open>Start\<close> returns no error once the server is
  closed.
\<close>

theorem readiness_exact:
  assumes "served_app a"
  shows "app_answer (lc_ready a) ''GET'' ''/readyz'' =
      (if lc_start a = Listening \<and> \<not> lc_shutting a then Plain 200 ''ready'' else Plain 503 ''not ready'') \<and>
    (\<forall>b. app_step a b \<longrightarrow> \<not> lc_ready a \<longrightarrow> \<not> lc_ready b) \<and>
    (\<forall>b. app_step a b \<longrightarrow> lc_closed a \<longrightarrow> lc_start a = Listening \<longrightarrow> lc_start b \<in> {Listening, Returned None})"
proof -
  note ok = served_ready_exact [OF assms]
  have "app_answer (lc_ready a) ''GET'' ''/readyz'' =
      (if lc_start a = Listening \<and> \<not> lc_shutting a then Plain 200 ''ready'' else Plain 503 ''not ready'')"
    using ok by (simp add: app_answer_def handleReadyz_def ready_exact_def)
  moreover have "\<not> lc_ready b" if "app_step a b" "\<not> lc_ready a" for b
    using that ok by (elim app_stepE) (auto simp: ready_exact_def start_returns_def split: if_splits)
  moreover have "lc_start b \<in> {Listening, Returned None}"
    if "app_step a b" "lc_closed a" "lc_start a = Listening" for b
    using that by (elim app_stepE) (auto simp: start_returns_def is_err_def)
  ultimately show ?thesis by blast
qed

definition listening_app :: lifecycle where
  "listening_app = fresh_app\<lparr>lc_start := Listening, lc_ready := True\<rparr>"

lemma listening_served: "served_app listening_app"
  using app_step.starts [of fresh_app] unfolding listening_app_def
  by (intro served_app.started) (simp_all add: fresh_app_def)

definition drained_app :: lifecycle where
  "drained_app = listening_app\<lparr>lc_shutting := True, lc_ready := False\<rparr>"

lemma drained_served: "served_app drained_app"
  unfolding drained_app_def by (rule served_app.later [OF listening_served app_step.shuts_down])

theorem readiness_exact_witness:
  "app_answer (lc_ready listening_app) ''GET'' ''/readyz'' = Plain 200 ''ready'' \<and>
   app_answer (lc_ready drained_app) ''GET'' ''/readyz'' = Plain 503 ''not ready'' \<and>
   \<not> lc_ready (drained_app\<lparr>lc_closed := True\<rparr>)"
proof -
  have "app_step drained_app (drained_app\<lparr>lc_closed := True\<rparr>)"
    by (rule app_step.closes) (simp add: drained_app_def)
  with readiness_exact [OF listening_served] readiness_exact [OF drained_served] show ?thesis
    by (simp add: listening_app_def drained_app_def fresh_app_def)
qed

text \<open>
  The order matters: when \<open>Shutdown\<close> overtakes the goroutine of \<open>Start\<close>, the flag stays set on
  a server that is closed.
\<close>

lemma late_start_stays_ready:
  "\<exists>a. app_step\<^sup>*\<^sup>* fresh_app a \<and> lc_closed a \<and> lc_ready a \<and> lc_start a = Returned None"
proof -
  let ?a1 = "fresh_app\<lparr>lc_shutting := True, lc_ready := False\<rparr>"
  let ?a2 = "?a1\<lparr>lc_closed := True\<rparr>"
  let ?a3 = "?a2\<lparr>lc_start := Listening, lc_ready := True\<rparr>"
  let ?a4 = "?a3\<lparr>lc_start := Returned None, lc_ready := True\<rparr>"
  have "app_step fresh_app ?a1" by (rule app_step.shuts_down)
  moreover have "app_step ?a1 ?a2" by (rule app_step.closes) simp
  moreover have "app_step ?a2 ?a3" by (rule app_step.starts) (simp add: fresh_app_def)
  moreover have "app_step ?a3 ?a4" by (rule app_step.ended) (simp_all add: start_returns_def is_err_def)
  ultimately have "app_step\<^sup>*\<^sup>* fresh_app ?a4" by (meson converse_rtranclp_into_rtranclp rtranclp.rtrancl_refl)
  then show ?thesis by (intro exI [of _ ?a4]) simp
qed

section \<open>The request log\<close>

text \<open>What the middleware uses of an \<open>http.ResponseWriter\<close>; a writer need not be a flusher.\<close>

record 'r responseWriter =
  rw_WriteHeader :: "int \<Rightarrow> 'r \<Rightarrow> 'r"
  rw_Write :: "string \<Rightarrow> 'r \<Rightarrow> (nat \<times> gerr option) \<times> 'r"
  rw_Flush :: "('r \<Rightarrow> 'r) option"

record statusCapturingWriter =
  sw_status :: int
  sw_bytes :: nat

definition fresh_writer :: statusCapturingWriter where
  "fresh_writer = \<lparr>sw_status = 0, sw_bytes = 0\<rparr>"

definition sw_WriteHeader ::
  "'r responseWriter \<Rightarrow> int \<Rightarrow> statusCapturingWriter \<times> 'r \<Rightarrow> statusCapturingWriter \<times> 'r" where
  "sw_WriteHeader W status = (\<lambda>(sw, r).
     (if sw_status sw = 0 then sw\<lparr>sw_status := status\<rparr> else sw, rw_WriteHeader W status r))"

definition sw_Write ::
  "'r responseWriter \<Rightarrow> string \<Rightarrow> statusCapturingWriter \<times> 'r \<Rightarrow>
     (nat \<times> gerr option) \<times> (statusCapturingWriter \<times> 'r)" where
  "sw_Write W p = (\<lambda>(sw, r).
     let sw = (if sw_status sw = 0 then sw\<lparr>sw_status := 200\<rparr> else sw) in
     case rw_Write W p r of
       ((n, err), r) \<Rightarrow> ((n, err), (sw\<lparr>sw_bytes := sw_bytes sw + n\<rparr>, r)))"

definition statusCode :: "statusCapturingWriter \<Rightarrow> int" where
  "statusCode sw = (if sw_status sw = 0 then 200 else sw_status sw)"

definition sw_Flush ::
  "'r responseWriter \<Rightarrow> statusCapturingWriter \<times> 'r \<Rightarrow> statusCapturingWriter \<times> 'r" where
  "sw_Flush W = (\<lambda>(sw, r). (sw, case rw_Flush W of None \<Rightarrow> r | Some flush \<Rightarrow> flush r))"

definition runIDFromPath :: "string \<Rightarrow> string" where
  "runIDFromPath path =
     (let trimmed = Trim path {slash} in
      if trimmed = [] then []
      else let parts = split_char slash trimmed in
        if length parts < 3 \<or> parts ! 0 \<noteq> ''v1'' \<or> parts ! 1 \<noteq> ''runs'' then []
        else if parts ! 2 = [] \<or> parts ! 2 = ''start'' then []
        else parts ! 2)"

text \<open>The entry of a request; the duration is left out.\<close>

record request_log =
  rl_method :: string
  rl_path :: string
  rl_status :: int
  rl_bytes :: nat
  rl_run_id :: "string option"

text \<open>\<open>serve\<close> is the wrapped handler, which acts through the capturing writer.\<close>

definition requestLoggingMiddleware ::
  "(statusCapturingWriter \<times> 'r \<Rightarrow> statusCapturingWriter \<times> 'r) \<Rightarrow> string \<Rightarrow> string \<Rightarrow> 'r \<Rightarrow> request_log \<times> 'r" where
  "requestLoggingMiddleware serve verb path r =
     (case serve (fresh_writer, r) of
        (sw, r) \<Rightarrow>
          (\<lparr>rl_method = verb, rl_path = path, rl_status = statusCode sw, rl_bytes = sw_bytes sw,
            rl_run_id = (let runID = runIDFromPath path in if runID \<noteq> [] then Some runID else None)\<rparr>, r))"

text \<open>
  The writer of \<open>net/http\<close>: the first header counts, writing or flushing sends an implicit 200.
\<close>

record wire_response =
  wr_status :: "int option"
  wr_body :: string

definition implicit_ok :: "wire_response \<Rightarrow> wire_response" where
  "implicit_ok r = (case wr_status r of None \<Rightarrow> r\<lparr>wr_status := Some 200\<rparr> | Some s \<Rightarrow> r)"

definition net_http :: "wire_response responseWriter" where
  "net_http =
     \<lparr>rw_WriteHeader = \<lambda>status r. (case wr_status r of None \<Rightarrow> r\<lparr>wr_status := Some status\<rparr> | Some s \<Rightarrow> r),
      rw_Write = \<lambda>p r. ((length p, None), (implicit_ok r)\<lparr>wr_body := wr_body r @ p\<rparr>),
      rw_Flush = Some implicit_ok\<rparr>"

text \<open>A handler as the calls it makes.\<close>

datatype writer_op = PutHeader int | Put string | DoFlush

primrec perform :: "'r responseWriter \<Rightarrow> writer_op \<Rightarrow> statusCapturingWriter \<times> 'r \<Rightarrow> statusCapturingWriter \<times> 'r" where
  "perform W (PutHeader s) x = sw_WriteHeader W s x"
| "perform W (Put p) x = snd (sw_Write W p x)"
| "perform W DoFlush x = sw_Flush W x"

definition headed :: "writer_op list \<Rightarrow> bool" where
  "headed cs \<longleftrightarrow> (cs \<noteq> [] \<longrightarrow> hd cs \<noteq> DoFlush) \<and> PutHeader 0 \<notin> set cs"

definition captured :: "statusCapturingWriter \<times> wire_response \<Rightarrow> bool" where
  "captured = (\<lambda>(sw, r). sw_bytes sw = length (wr_body r) \<and>
     (if sw_status sw = 0 then wr_status r = None else wr_status r = Some (sw_status sw)))"

lemma captured_perform:
  assumes "captured x" and "c = DoFlush \<longrightarrow> sw_status (fst x) \<noteq> 0" and "c \<noteq> PutHeader 0"
  shows "captured (perform net_http c x)" and "sw_status (fst (perform net_http c x)) \<noteq> 0"
  using assms
  by (cases x; cases c; force simp: captured_def sw_WriteHeader_def sw_Write_def sw_Flush_def net_http_def
      implicit_ok_def Let_def split: if_splits)+

lemma captured_fold:
  "captured x \<Longrightarrow> sw_status (fst x) \<noteq> 0 \<Longrightarrow> PutHeader 0 \<notin> set cs \<Longrightarrow> captured (fold (perform net_http) cs x)"
proof (induction cs arbitrary: x)
  case (Cons c cs)
  then have "c \<noteq> PutHeader 0" by auto
  with Cons.prems captured_perform [of x c] Cons.IH [of "perform net_http c x"] show ?case by simp
qed simp

text \<open>The log shows what was sent, for every handler that does not flush before it answers.\<close>

lemma logged_request_exact:
  assumes "headed cs" and "wr_status r = None" and "wr_body r = []"
    and "requestLoggingMiddleware (fold (perform net_http) cs) verb path r = (l, r')"
  shows "rl_status l = (case wr_status r' of None \<Rightarrow> 200 | Some s \<Rightarrow> s) \<and> rl_bytes l = length (wr_body r')"
proof -
  have start: "captured (fresh_writer, r)" using assms(2,3) by (simp add: captured_def fresh_writer_def)
  have "captured (fold (perform net_http) cs (fresh_writer, r))"
  proof (cases cs)
    case (Cons c cs')
    with assms(1) have "c \<noteq> DoFlush" "c \<noteq> PutHeader 0" "PutHeader 0 \<notin> set cs'" by (auto simp: headed_def)
    with captured_perform [OF start, of c] captured_fold Cons show ?thesis by simp
  qed (simp add: start)
  with assms(4) show ?thesis
    by (auto simp: requestLoggingMiddleware_def captured_def statusCode_def split: prod.splits if_splits)
qed

text \<open>The run that the log names is the one that the router serves.\<close>

lemma TrimRight_id: "s \<noteq> [] \<Longrightarrow> last s \<notin> cs \<Longrightarrow> TrimRight s cs = s"
  by (cases s rule: rev_cases) (simp_all add: TrimRight_snoc)

lemma plain_ends: "plain e \<Longrightarrow> hd e \<noteq> slash \<and> last e \<noteq> slash \<and> e \<noteq> []"
  unfolding plain_def by (metis hd_in_set last_in_set)

lemma Trim_abs_path:
  assumes "es \<noteq> []" and "\<forall>e \<in> set es. plain e"
  shows "Trim (abs_path es) {slash} = join_char slash es"
proof -
  let ?s = "join_char slash es"
  have ne: "?s \<noteq> []" by (rule join_plain_nonempty [OF assms])
  have hd: "plain (hd es)" and last: "plain (last es)" using assms by auto
  obtain r where "?s = hd es @ r" using join_char_hd [OF assms(1)] by blast
  with plain_ends [OF hd] have "hd ?s \<noteq> slash" by simp
  with ne have "dropWhile (\<lambda>c. c \<in> {slash}) (abs_path es) = ?s"
    by (cases ?s) (simp_all add: abs_path_def)
  moreover have "last ?s = last (last es)" using plain_ends [OF last] assms(1) by (simp add: last_join_char)
  ultimately show ?thesis using plain_ends [OF last] ne by (simp add: Trim_def TrimRight_id)
qed

lemma runIDFromPath_run:
  assumes "plain i" and "\<forall>e \<in> set es. plain e"
  shows "runIDFromPath (abs_path (''v1'' # ''runs'' # i # es)) = (if i = ''start'' then [] else i)"
proof -
  let ?es = "''v1'' # ''runs'' # i # es"
  have plain: "\<forall>e \<in> set ?es. plain e" using assms plain_words by simp
  then have split: "split_char slash (join_char slash ?es) = ?es"
    by (intro split_join) (auto simp: plain_def)
  have trim: "Trim (abs_path ?es) {slash} = join_char slash ?es"
    by (rule Trim_abs_path [OF _ plain]) simp
  have ne: "join_char slash ?es \<noteq> []" by (rule join_plain_nonempty [OF _ plain]) simp
  have "i \<noteq> []" using assms(1) by (simp add: plain_def)
  then show ?thesis unfolding runIDFromPath_def Let_def trim split if_not_P [OF ne] by simp
qed

end
