(* ===== verification/Spec2Isabelle.thy ===== *)
theory Spec2Isabelle
  imports Tool_Runtime Mocks Preflight Config Command_Locks Retry Client_Follow Client_Session Server_App
begin

text \<open>
  A verification library for \<^bold>\<open>agentframe\<close>, a Go framework that runs language-model agents: the
  packages \<open>agent\<close>, \<open>agentreact\<close>, \<open>runstore/inmem\<close>, \<open>eventing/inmem\<close>, \<open>tooling/registry\<close> and
  \<open>policy/retry\<close>, and the coding agent that is built with them under \<open>examples/coding-agent\<close>, a
  server and its command-line client.

  \<^bold>\<open>How the program works.\<close> A run is a record with a status, a transcript and a version. The
  runner (\<open>agent/runner.go\<close>) serves the commands start, continue, cancel, steer and follow-up: it
  loads the run from a store, checks the command against the life cycle, drives the engine,
  checks what the engine returns against a contract, saves the result with an optimistic version
  check and publishes events. The ReAct engine (\<open>agentreact\<close>) alternates between a model and tools
  until the model gives a final answer, asks for a requirement, fails, is cancelled or has used
  up its steps. The server puts an HTTP API, limits and an access token before the runner,
  journals the events for streams and chooses the model (a mock or an OpenAI-compatible provider)
  and the tools (a mock or file and shell tools confined to a workspace). The client sends
  commands, follows event streams and has an interactive chat.

  \<^bold>\<open>Theories and sources\<close> (paths under \<open>src/\<close>; S is \<open>examples/coding-agent/server/internal\<close>, C is
  \<open>examples/coding-agent/client/internal\<close>):
  \<^item> The language: \<open>Prelude\<close> (slices, 64-bit integers), \<open>Go_Strings\<close>, \<open>Go_Errors\<close> (wrapping, joining,
    \<open>errors.Is\<close>, \<open>errors.As\<close>; \<open>agent/errors.go\<close>, \<open>agent/suspend_request.go\<close>), \<open>Go_Context\<close> (also
    \<open>agent/approved_tool_call_replay_context.go\<close>), \<open>Go_Paths\<close> (\<open>path/filepath\<close>), \<open>Go_Format\<close>, \<open>Go_Url\<close>
    (\<open>net/url\<close>, status texts), \<open>Go_Flags\<close> (\<open>flag\<close>).
  \<^item> The data: \<open>Agent_Types\<close> (\<open>agent/run.go\<close>, \<open>message.go\<close>, \<open>tool.go\<close>, \<open>event.go\<close>, \<open>engine.go\<close>,
    \<open>command.go\<close> and their deep copies), \<open>Lifecycle\<close> (\<open>agent/lifecycle.go\<close>, \<open>run_validation.go\<close>),
    \<open>Events\<close> (\<open>agent/event_validation.go\<close>).
  \<^item> The engine: \<open>Tool_Validation\<close> (\<open>agentreact/tool_validation.go\<close>), \<open>React_Loop\<close> and \<open>React_Safety\<close>
    (\<open>agentreact/react_loop.go\<close>), \<open>Retry\<close> (\<open>policy/retry\<close>), \<open>Executors\<close> (\<open>tooling/registry\<close>, mock
    tools; the locale \<open>tool_executor\<close>).
  \<^item> The runner: \<open>Engine_Contract\<close>, \<open>Runner\<close>, \<open>Runner_Safety\<close>, \<open>Runner_Calls\<close>, \<open>Command_Locks\<close>
    (\<open>agent/runner.go\<close>).
  \<^item> Services: \<open>Run_Store\<close> (\<open>runstore/inmem\<close>; its contract is a locale), \<open>Event_Sinks\<close>
    (\<open>eventing/inmem\<close>, S\<open>/runstream/broker.go\<close>, the fan-out of S\<open>/runtimewire\<close>), \<open>Stream_History\<close>.
  \<^item> The server: \<open>Runtime\<close> and \<open>Server_Wiring\<close> (S\<open>/runtimewire\<close>), \<open>Mocks\<close>, \<open>Provider\<close> (S\<open>/modelopenai\<close>)
    and \<open>Provider_Transcripts\<close>, \<open>Preflight\<close> (S\<open>/modelprovider/preflight\<close>), \<open>Config\<close> (S\<open>/config\<close>),
    \<open>Policies\<close> (S\<open>/policyauth\<close>, S\<open>/policylimit\<close>), \<open>Http_Api\<close>, \<open>Http_Routes\<close> and \<open>Http_Safety\<close>
    (S\<open>/httpapi\<close>), \<open>Toolset\<close>, \<open>Toolset_Safety\<close> and \<open>Tool_Runtime\<close> (S\<open>/toolset\<close>), \<open>Server_App\<close> (S\<open>/app\<close>).
  \<^item> The client: \<open>Client_Api\<close> (C\<open>/api\<close>), \<open>Client_Stream\<close> (C\<open>/events\<close>, C\<open>/cmd/cmd_events.go\<close>), \<open>Client_Chat\<close>
    (C\<open>/chat\<close>), \<open>Client_Cmd\<close> (C\<open>/cmd\<close>, C\<open>/config\<close>), and client and server together: \<open>Client_Server\<close>,
    \<open>Client_Follow\<close>, \<open>Client_Session\<close>.

  \<^bold>\<open>How the code is read.\<close> A function that fails returns a sum, \<open>Inl\<close> the error; Go errors are
  trees of sentinels, wrapped and joined errors with their exact texts. Every outside service
  (model, tools, clock, file system, transport, JSON codec, terminal) is a function on a world
  \<open>'w\<close>, a field of a parameter record, so that every theorem holds for all of its behaviours;
  a context is polled through the world wherever the code polls it. A mutex that is held for a
  whole operation makes that operation one step; the per-run locks of the runner, whose
  protocol is more than that, are a step relation over goroutines in \<open>Command_Locks\<close>, and the
  life cycle of the server process is one in \<open>Server_App\<close>. Integers are unbounded where the code
  cannot reach the bound and wrap around where it can (versions, run numbers).

  \<^bold>\<open>What is shown.\<close> For the runner: a stored run changes only in the ways that the commands allow
  (the same run, a valid status, no step lost, messages appended, the version counted up), and a
  terminal run never changes; what a command reports is what is stored; no history is lost to a
  race; a continue command with an ID is applied once; commands that the state forbids are
  refused; a tool call is replayed with an approval only when exactly this call was approved.
  For the engine: its contract with the runner, how every run ends, when it completes, guarded
  tool calls, the step budget, that the mock model's coding scenario completes on it, and that
  what it asks of a provider always passes the preflight. For the tools: every file a tool opens
  lies in the workspace as long as the file system has no dangling links on the way (a dangling
  link does escape, \<open>dangling_link_escapes\<close>), and denied shell commands wait for an approval. For
  the API: the guards before the runner, reading what was written, exact event streams; for the
  client: each command is one call of the API, its answer is the server's state, an event stream
  is followed through reconnections and read errors without loss or repetition, a command line
  sends the command that its subcommand and flags ask for or none, and the chat resolves what the
  server asked for. Optimised or stateful checks are proved equal to specifications (tool
  arguments, engine output, provider transcripts).

  \<^bold>\<open>Termination and fuel.\<close> Every loop that ends is a total function (the step loop by the steps
  left, path resolution by the length of the path, the readers by the lines left). Two loops may
  run for ever, the client's event loops, which reconnect until they are interrupted: they take
  the number of connections as fuel, and their result says when they are still running; a theorem
  about them states what has been shown after any number of connections.

  \<^bold>\<open>Not modelled.\<close> The two main functions and the colours of the log (process start, signals, exit
  codes); the encoding of JSON and the transport of HTTP, which are third-party and standard
  library code and enter as parameters with their documented laws as named hypotheses
  (\<open>sent_ok\<close>, \<open>delivered_ok\<close>, \<open>json_arguments\<close>); the file system, whose laws are named
  hypotheses of the confinement (\<open>links_followed\<close>, \<open>no_dangling_links\<close>, \<open>links_stay\<close>); headers other than those the code reads; log records
  other than the request log's fields; the interleaving of the chat's stream goroutine with its
  read-eval-print loop (each is modelled by itself, on a state whose operations are atomic); the
  tests and \<open>testsupport\<close>.
\<close>

end
